(* ===== verification/ErgPrelude.thy ===== *)
theory ErgPrelude
  imports Main "HOL-Library.AList" "HOL-Library.Multiset"
    "HOL-Library.Char_ord" "HOL-Library.List_Lexorder"
begin

text \<open>
  Shared material of the development: the result type of fallible Go and JavaScript code, the
  byte-string operations of the two languages' standard libraries that the sources use, the
  in-place update of the first matching element of a slice, sorting with a comparison function,
  and decimal integers at their width.

  A string is its sequence of UTF-8 bytes (a Go string is one by definition; every operation the
  JavaScript source applies to a string, \<open>split\<close> at ASCII separators, \<open>trim\<close>, \<open>startsWith\<close> and
  concatenation, acts on the UTF-8 form as it does on code units).
\<close>

named_theorems outcome_simps \<open>evaluation of results and their sequencing\<close>
named_theorems doc_simps \<open>lookups and updates of collections\<close>

section \<open>Results of fallible code\<close>

text \<open>A call returns a value, returns an error, or panics (a nil dereference, an index out of range).\<close>

datatype ('e, 'a) outcome = Ret 'a | Fail 'e | Panic

fun bind_out :: "('e, 'a) outcome \<Rightarrow> ('a \<Rightarrow> ('e, 'b) outcome) \<Rightarrow> ('e, 'b) outcome" where
  "bind_out (Ret x) f = f x"
| "bind_out (Fail e) f = Fail e"
| "bind_out Panic f = Panic"

fun map_out :: "('a \<Rightarrow> 'b) \<Rightarrow> ('e, 'a) outcome \<Rightarrow> ('e, 'b) outcome" where
  "map_out f (Ret x) = Ret (f x)"
| "map_out f (Fail e) = Fail e"
| "map_out f Panic = Panic"

fun is_ret :: "('e, 'a) outcome \<Rightarrow> bool" where
  "is_ret (Ret _) = True" | "is_ret (Fail _) = False" | "is_ret Panic = False"

text \<open>
  A handler threads a state: \<open>and_then\<close> goes on with the value of a pure call, \<open>then_do\<close> with the
  state and the value of a call that changes the state; an error or a panic ends the handler with
  the state reached so far.
\<close>

fun and_then :: "('e, 'a) outcome \<Rightarrow> 's \<Rightarrow> ('a \<Rightarrow> 's \<times> ('e, 'b) outcome) \<Rightarrow> 's \<times> ('e, 'b) outcome" where
  "and_then (Ret x) s f = f x"
| "and_then (Fail e) s f = (s, Fail e)"
| "and_then Panic s f = (s, Panic)"

definition then_do ::
  "'s \<times> ('e, 'a) outcome \<Rightarrow> ('s \<Rightarrow> 'a \<Rightarrow> 's \<times> ('e, 'b) outcome) \<Rightarrow> 's \<times> ('e, 'b) outcome" where
  "then_do r f = (case r of (s, out) \<Rightarrow> and_then out s (f s))"

lemma then_do_pair [simp]: "then_do (s, out) f = and_then out s (f s)"
  by (simp add: then_do_def)

text \<open>The result of a state-changing call keeps its state whatever the outcome.\<close>

lemma and_then_cases:
  "and_then m s f = (s', r) \<Longrightarrow>
     (\<exists>x. m = Ret x \<and> f x = (s', r)) \<or> (\<exists>e. m = Fail e \<and> s' = s \<and> r = Fail e) \<or> (m = Panic \<and> s' = s \<and> r = Panic)"
  by (cases m) auto

lemma and_then_stays:
  "and_then m s f = (s', r) \<Longrightarrow> (\<And>x. m = Ret x \<Longrightarrow> f x = (s', r) \<Longrightarrow> s' = s) \<Longrightarrow> s' = s"
  by (cases m) auto

lemma and_then_fails:
  "and_then m s f = (s', r) \<Longrightarrow> (\<And>x. m = Ret x \<Longrightarrow> f x = (s', r) \<Longrightarrow> s' = s \<and> \<not> is_ret r) \<Longrightarrow> s' = s \<and> \<not> is_ret r"
  by (cases m) auto

lemma fst_and_then: "fst (and_then m s f) = (case m of Ret x \<Rightarrow> fst (f x) | _ \<Rightarrow> s)"
  by (cases m) auto

lemma fst_then_do: "(\<And>s x. fst (f s x) = s) \<Longrightarrow> fst (then_do r f) = fst r"
  by (cases r, cases "snd r") (auto simp: then_do_def)

lemma and_then_Ret_iff:
  "and_then m s f = (s', Ret y) \<longleftrightarrow> (\<exists>x. m = Ret x \<and> f x = (s', Ret y))"
  by (cases m) auto

lemma bind_out_eq_Ret [outcome_simps]:
  "bind_out m f = Ret y \<longleftrightarrow> (\<exists>x. m = Ret x \<and> f x = Ret y)"
  by (cases m) auto

lemma bind_out_eq_Fail [outcome_simps]:
  "bind_out m f = Fail e \<longleftrightarrow> m = Fail e \<or> (\<exists>x. m = Ret x \<and> f x = Fail e)"
  by (cases m) auto

lemma map_out_eq_Ret [outcome_simps]:
  "map_out f m = Ret y \<longleftrightarrow> (\<exists>x. m = Ret x \<and> y = f x)"
  by (cases m) auto

section \<open>The first matching element of a slice\<close>

text \<open>
  \<open>for i := range xs { if !p(xs[i]) { continue }; f(&xs[i]); return }\<close>: the first element that
  satisfies \<open>p\<close> is updated in place, the others are left alone.
\<close>

fun update_first :: "('a \<Rightarrow> bool) \<Rightarrow> ('a \<Rightarrow> 'a) \<Rightarrow> 'a list \<Rightarrow> 'a list" where
  "update_first p f [] = []"
| "update_first p f (x # xs) = (if p x then f x # xs else x # update_first p f xs)"

lemma length_update_first [simp]: "length (update_first p f xs) = length xs"
  by (induction xs) auto

lemma update_first_none: "find p xs = None \<Longrightarrow> update_first p f xs = xs"
  by (induction xs) (auto split: if_splits)

lemma find_update_first:
  assumes "\<And>x. p x \<Longrightarrow> p (f x)"
  shows "find p (update_first p f xs) = map_option f (find p xs)"
  using assms by (induction xs) auto

lemma find_update_first_other:
  assumes "\<And>x. p x \<Longrightarrow> \<not> q x" and "\<And>x. p x \<Longrightarrow> \<not> q (f x)"
  shows "find q (update_first p f xs) = find q xs"
  using assms by (induction xs) auto

lemma map_update_first:
  assumes "\<And>x. p x \<Longrightarrow> g (f x) = g x"
  shows "map g (update_first p f xs) = map g xs"
  using assms by (induction xs) auto

lemma filter_update_first_other:
  assumes "\<And>x. p x \<Longrightarrow> \<not> q x" and "\<And>x. p x \<Longrightarrow> \<not> q (f x)"
  shows "filter q (update_first p f xs) = filter q xs"
  using assms by (induction xs) auto

lemma set_update_first:
  "y \<in> set (update_first p f xs) \<Longrightarrow> y \<in> set xs \<or> (\<exists>x \<in> set xs. find p xs = Some x \<and> y = f x)"
  by (induction xs) (auto split: if_splits)

lemma find_Some_iff2: "find p xs = Some x \<Longrightarrow> p x \<and> x \<in> set xs"
  by (induction xs) (auto split: if_splits)

lemma update_first_const: "find p xs = Some x \<Longrightarrow> update_first p f xs = update_first p (\<lambda>_. f x) xs"
  by (induction xs) (auto split: if_splits)

lemma update_first_twice:
  "(\<And>x. p x \<Longrightarrow> p (f x)) \<Longrightarrow> update_first p g (update_first p f xs) = update_first p (\<lambda>x. g (f x)) xs"
  by (induction xs) auto

lemma list_all2_update_first:
  assumes "\<And>x. P x x" and "\<And>x. find p xs = Some x \<Longrightarrow> P x (f x)"
  shows "list_all2 P xs (update_first p f xs)"
  using assms by (induction xs) (auto intro: list.rel_refl split: if_splits)

lemma list_all2_find:
  "list_all2 R xs ys \<Longrightarrow> (\<And>x y. R x y \<Longrightarrow> p x \<longleftrightarrow> p y) \<Longrightarrow> rel_option R (find p xs) (find p ys)"
  by (induction rule: list_all2_induct) auto

lemma filter_update_first_found:
  "find p xs = Some x \<Longrightarrow> \<not> q x \<Longrightarrow> \<not> q (f x) \<Longrightarrow> filter q (update_first p f xs) = filter q xs"
  by (induction xs) (auto split: if_splits)

lemma find_append: "find p (xs @ ys) = (case find p xs of None \<Rightarrow> find p ys | Some x \<Rightarrow> Some x)"
  by (induction xs) auto

section \<open>Maps as association lists\<close>

text \<open>Copying the entries of a map with distinct keys into another.\<close>

lemma map_of_fold_update [doc_simps]:
  "distinct (map fst xs) \<Longrightarrow> map_of (fold (\<lambda>(k, v). AList.update k v) xs ys) = map_of ys ++ map_of xs"
proof (induction xs arbitrary: ys)
  case (Cons kv xs)
  obtain k v where kv: "kv = (k, v)" by force
  have k: "k \<notin> dom (map_of xs)" using Cons.prems by (auto simp: kv dom_map_of_conv_image_fst)
  have "map_of (fold (\<lambda>(k, v). AList.update k v) (kv # xs) ys) = (map_of ys)(k \<mapsto> v) ++ map_of xs"
    using Cons by (simp add: kv update_conv')
  also have "\<dots> = map_of ys ++ map_of (kv # xs)"
    using k by (auto simp: kv fun_eq_iff map_add_def split: option.splits)
  finally show ?case .
qed simp

section \<open>sort.Slice\<close>

text \<open>
  \<open>sort.Slice(xs, less)\<close> leaves a permutation of \<open>xs\<close> in which no later element is less than an
  earlier one. The library does not say how elements that compare equal are ordered; the model
  keeps their order, and no theorem depends on it.
\<close>

fun insert_less :: "('a \<Rightarrow> 'a \<Rightarrow> bool) \<Rightarrow> 'a \<Rightarrow> 'a list \<Rightarrow> 'a list" where
  "insert_less lt x [] = [x]"
| "insert_less lt x (y # ys) = (if lt y x then y # insert_less lt x ys else x # y # ys)"

definition sort_slice :: "('a \<Rightarrow> 'a \<Rightarrow> bool) \<Rightarrow> 'a list \<Rightarrow> 'a list" where
  "sort_slice lt xs = foldr (insert_less lt) xs []"

lemma mset_insert_less [simp]: "mset (insert_less lt x ys) = add_mset x (mset ys)"
  by (induction ys) auto

lemma mset_sort_slice [simp]: "mset (sort_slice lt xs) = mset xs"
  by (induction xs) (auto simp: sort_slice_def)

lemma set_sort_slice [simp]: "set (sort_slice lt xs) = set xs"
  by (metis mset_sort_slice set_mset_mset)

lemma length_sort_slice [simp]: "length (sort_slice lt xs) = length xs"
  by (metis mset_sort_slice size_mset)

lemma sort_slice_Nil [simp]: "sort_slice lt [] = []"
  by (simp add: sort_slice_def)

lemma sort_slice_Cons: "sort_slice lt (x # xs) = insert_less lt x (sort_slice lt xs)"
  by (simp add: sort_slice_def)

lemma sort_slice_single [simp]: "sort_slice lt [x] = [x]"
  by (simp add: sort_slice_def)

text \<open>The contract of a comparison function: a strict weak order.\<close>

locale slice_order =
  fixes lt :: "'a \<Rightarrow> 'a \<Rightarrow> bool"
  assumes less_asym: "lt x y \<Longrightarrow> \<not> lt y x"
    and not_less_trans: "\<not> lt y x \<Longrightarrow> \<not> lt z y \<Longrightarrow> \<not> lt z x"
begin

lemma insert_less_sorted:
  "sorted_wrt (\<lambda>a b. \<not> lt b a) ys \<Longrightarrow> sorted_wrt (\<lambda>a b. \<not> lt b a) (insert_less lt x ys)"
proof (induction ys)
  case Nil
  then show ?case by simp
next
  case (Cons y ys)
  have set_ins: "set (insert_less lt x ys) = insert x (set ys)"
    by (metis mset_insert_less set_mset_add_mset_insert set_mset_mset)
  show ?case
  proof (cases "lt y x")
    case True
    with Cons show ?thesis by (auto simp: set_ins dest: less_asym)
  next
    case False
    with Cons show ?thesis by (auto dest: not_less_trans)
  qed
qed

lemma sort_slice_sorted: "sorted_wrt (\<lambda>a b. \<not> lt b a) (sort_slice lt xs)"
  by (induction xs) (simp_all add: sort_slice_Cons insert_less_sorted)

end

text \<open>Comparing a key, ascending or descending, is such an order.\<close>

lemma slice_order_key: "slice_order (\<lambda>x y. (key x :: 'k :: linorder) < key y)"
  by unfold_locales auto

lemma slice_order_key_desc: "slice_order (\<lambda>x y. (key y :: 'k :: linorder) < key x)"
  by unfold_locales auto

section \<open>Byte strings\<close>

definition byte :: "char \<Rightarrow> nat" where
  "byte c = of_char c"

definition lower_ascii :: "char \<Rightarrow> char" where
  "lower_ascii c = (if 65 \<le> byte c \<and> byte c \<le> 90 then char_of (byte c + 32) else c)"

text \<open>
  \<open>strings.ToLower\<close>: an ASCII string is lowered byte by byte; for any other string the result is
  that of the Unicode case tables, the parameter \<open>uni\<close>.
\<close>

definition to_lower :: "(string \<Rightarrow> string) \<Rightarrow> string \<Rightarrow> string" where
  "to_lower uni s = (if list_all (\<lambda>c. byte c < 128) s then map lower_ascii s else uni s)"

text \<open>The white space of \<open>unicode.IsSpace\<close>, each character as its UTF-8 bytes.\<close>

definition common_spaces :: "string list" where
  "common_spaces =
     [[CHR 0x09], [CHR 0x0A], [CHR 0x0B], [CHR 0x0C], [CHR 0x0D], [CHR 0x20],
      [CHR 0xC2, CHR 0xA0], [CHR 0xE1, CHR 0x9A, CHR 0x80]]
     @ map (\<lambda>k. [CHR 0xE2, CHR 0x80, char_of (0x80 + k :: nat)]) [0..<11]
     @ [[CHR 0xE2, CHR 0x80, CHR 0xA8], [CHR 0xE2, CHR 0x80, CHR 0xA9],
        [CHR 0xE2, CHR 0x80, CHR 0xAF], [CHR 0xE2, CHR 0x81, CHR 0x9F],
        [CHR 0xE3, CHR 0x80, CHR 0x80]]"

definition go_spaces :: "string list" where
  "go_spaces = [CHR 0xC2, CHR 0x85] # common_spaces"

text \<open>JavaScript's \<open>trim\<close> has the byte order mark in place of U+0085.\<close>

definition js_spaces :: "string list" where
  "js_spaces = [CHR 0xEF, CHR 0xBB, CHR 0xBF] # common_spaces"

definition head_space :: "string list \<Rightarrow> string \<Rightarrow> string option" where
  "head_space sps s = find (\<lambda>q. q \<noteq> [] \<and> take (length q) s = q) sps"

function strip_left :: "string list \<Rightarrow> string \<Rightarrow> string" where
  "strip_left sps s =
     (case head_space sps s of None \<Rightarrow> s | Some q \<Rightarrow> strip_left sps (drop (length q) s))"
  by pat_completeness auto
termination
proof (relation "measure (\<lambda>(sps, s). length s)", goal_cases)
  case 1
  show ?case by simp
next
  case (2 sps s q)
  then have "q \<noteq> []" "take (length q) s = q"
    by (auto simp: head_space_def dest: find_Some_iff2)
  then have "s \<noteq> []" by auto
  with \<open>q \<noteq> []\<close> show ?case by simp
qed

declare strip_left.simps [simp del]

definition trim_with :: "string list \<Rightarrow> string \<Rightarrow> string" where
  "trim_with sps s = rev (strip_left (map rev sps) (rev (strip_left sps s)))"

definition trim_space :: "string \<Rightarrow> string" where
  "trim_space s = trim_with go_spaces s"

definition js_trim :: "string \<Rightarrow> string" where
  "js_trim s = trim_with js_spaces s"

definition has_prefix :: "string \<Rightarrow> string \<Rightarrow> bool" where
  "has_prefix s p \<longleftrightarrow> take (length p) s = p"

fun contains :: "string \<Rightarrow> string \<Rightarrow> bool" where
  "contains [] t = (t = [])"
| "contains (c # s) t = (has_prefix (c # s) t \<or> contains s t)"

lemma head_space_strip_left: "head_space sps (strip_left sps s) = None"
proof (induction sps s rule: strip_left.induct)
  case (1 sps s)
  show ?case
    using "1" by (cases "head_space sps s") (simp_all add: strip_left.simps [of sps s])
qed

lemma strip_left_id: "head_space sps s = None \<Longrightarrow> strip_left sps s = s"
  by (subst strip_left.simps) simp

lemma strip_left_Nil [simp]: "strip_left sps [] = []"
  by (rule strip_left_id) (auto simp: head_space_def find_None_iff)

lemma strip_left_suffix: "\<exists>p. s = p @ strip_left sps s"
proof (induction sps s rule: strip_left.induct)
  case (1 sps s)
  show ?case
  proof (cases "head_space sps s")
    case None
    then show ?thesis by (simp add: strip_left_id)
  next
    case (Some q)
    then have "s = q @ drop (length q) s"
      by (auto simp: head_space_def dest!: find_Some_iff2) (metis append_take_drop_id)
    moreover obtain p where "drop (length q) s = p @ strip_left sps (drop (length q) s)"
      using "1" [OF Some] by blast
    ultimately have "s = (q @ p) @ strip_left sps s"
      using Some by (simp add: strip_left.simps [of sps s])
    then show ?thesis by blast
  qed
qed

lemma head_space_append:
  "head_space sps (s @ t) = None \<Longrightarrow> head_space sps s = None"
  by (auto simp: head_space_def find_None_iff)

text \<open>A trimmed string neither starts nor ends with white space, and such a string is its own trim.\<close>

lemma head_space_trim:
  "head_space sps (trim_with sps s) = None" "head_space (map rev sps) (rev (trim_with sps s)) = None"
proof -
  let ?l = "strip_left sps s"
  let ?t = "trim_with sps s"
  obtain p where p: "rev ?l = p @ rev ?t"
    using strip_left_suffix [of "rev ?l" "map rev sps"] by (auto simp: trim_with_def)
  then have "?l = ?t @ rev p" by (metis rev_append rev_rev_ident)
  then show "head_space sps ?t = None"
    using head_space_strip_left [of sps s] head_space_append by metis
  show "head_space (map rev sps) (rev ?t) = None"
    by (simp add: trim_with_def head_space_strip_left)
qed

lemma trim_with_id:
  "head_space sps s = None \<Longrightarrow> head_space (map rev sps) (rev s) = None \<Longrightarrow> trim_with sps s = s"
  by (simp add: trim_with_def strip_left_id)

text \<open>Trimming is idempotent.\<close>

lemma trim_with_idem: "trim_with sps (trim_with sps s) = trim_with sps s"
  by (rule trim_with_id) (rule head_space_trim)+

text \<open>A separator that occurs in no white-space sequence protects what is before it.\<close>

lemma head_space_sep:
  assumes "head_space sps e = None" and "\<And>q. q \<in> set sps \<Longrightarrow> c \<notin> set q"
  shows "head_space sps (e @ c # r) = None"
proof -
  have "take (length q) (e @ c # r) \<noteq> q" if q: "q \<in> set sps" "q \<noteq> []" for q
  proof (cases "length q \<le> length e")
    case True
    with assms(1) q show ?thesis by (auto simp: head_space_def find_None_iff)
  next
    case False
    then have "c \<in> set (take (length q) (e @ c # r))" by (simp add: take_Cons')
    with assms(2) [OF q(1)] show ?thesis by metis
  qed
  then show ?thesis by (auto simp: head_space_def find_None_iff)
qed

section \<open>Decimal integers\<close>

definition max_int64 :: int where "max_int64 = 2 ^ 63 - 1"

text \<open>Two's complement wrap-around of 64-bit signed arithmetic.\<close>

definition wrap64 :: "int \<Rightarrow> int" where
  "wrap64 x = (x + 2 ^ 63) mod 2 ^ 64 - 2 ^ 63"

definition is_digit :: "char \<Rightarrow> bool" where
  "is_digit c \<longleftrightarrow> 48 \<le> byte c \<and> byte c \<le> 57"

definition digit_val :: "char \<Rightarrow> nat" where
  "digit_val c = byte c - 48"

definition digit_char :: "nat \<Rightarrow> char" where
  "digit_char d = char_of (48 + d)"

fun format_nat :: "nat \<Rightarrow> string" where
  "format_nat n = (if n < 10 then [digit_char n] else format_nat (n div 10) @ [digit_char (n mod 10)])"

declare format_nat.simps [simp del]

text \<open>\<open>strconv.FormatInt(n, 10)\<close>.\<close>

definition format_int :: "int \<Rightarrow> string" where
  "format_int n = (if n < 0 then ''-'' @ format_nat (nat (- n)) else format_nat (nat n))"

datatype num_error = ErrSyntax | ErrRange

text \<open>The loop of \<open>strconv.ParseUint\<close> for base 10 and 64 bits.\<close>

fun parse_uint_loop :: "nat \<Rightarrow> string \<Rightarrow> nat \<times> num_error option" where
  "parse_uint_loop n [] = (n, None)"
| "parse_uint_loop n (c # cs) =
     (if \<not> is_digit c then (0, Some ErrSyntax)
      else if (2 ^ 64 - 1) div 10 + 1 \<le> n then (2 ^ 64 - 1, Some ErrRange)
      else let n1 = n * 10 + digit_val c in
        if 2 ^ 64 - 1 < n1 then (2 ^ 64 - 1, Some ErrRange) else parse_uint_loop n1 cs)"

definition parse_uint :: "string \<Rightarrow> nat \<times> num_error option" where
  "parse_uint s = (if s = [] then (0, Some ErrSyntax) else parse_uint_loop 0 s)"

text \<open>\<open>strconv.ParseInt(s, 10, 64)\<close>: the value and the error it returns together.\<close>

definition parse_int64 :: "string \<Rightarrow> int \<times> num_error option" where
  "parse_int64 s =
     (if s = [] then (0, Some ErrSyntax)
      else
        let neg = (hd s = CHR ''-'');
            body = (if hd s = CHR ''+'' \<or> hd s = CHR ''-'' then tl s else s)
        in case parse_uint body of (un, err) \<Rightarrow>
          if err = Some ErrSyntax then (0, err)
          else if \<not> neg \<and> 2 ^ 63 \<le> un then (2 ^ 63 - 1, Some ErrRange)
          else if neg \<and> 2 ^ 63 < un then (- (2 ^ 63), Some ErrRange)
          else (if neg then - int un else int un, err))"

lemma byte_digit_char: "d < 10 \<Longrightarrow> byte (digit_char d) = 48 + d"
  by (simp add: byte_def digit_char_def)

lemma is_digit_digit_char: "d < 10 \<Longrightarrow> is_digit (digit_char d)"
  by (simp add: is_digit_def byte_digit_char)

lemma digit_val_digit_char: "d < 10 \<Longrightarrow> digit_val (digit_char d) = d"
  by (simp add: digit_val_def byte_digit_char)

lemma format_nat_digits: "c \<in> set (format_nat n) \<Longrightarrow> is_digit c"
  by (induction n rule: format_nat.induct)
    (subst (asm) (2) format_nat.simps, auto split: if_splits simp: is_digit_digit_char)

lemma format_nat_not_Nil [simp]: "format_nat n \<noteq> []"
  by (subst format_nat.simps) simp

lemma parse_uint_loop_format:
  "n < 2 ^ 64 \<Longrightarrow> parse_uint_loop 0 (format_nat n @ cs) = parse_uint_loop n cs"
proof (induction n arbitrary: cs rule: format_nat.induct)
  case (1 n)
  show ?case
  proof (cases "n < 10")
    case True
    then show ?thesis
      by (subst format_nat.simps) (simp add: is_digit_digit_char digit_val_digit_char)
  next
    case False
    have split: "format_nat n = format_nat (n div 10) @ [digit_char (n mod 10)]"
      using False by (subst format_nat.simps) simp
    have "parse_uint_loop 0 (format_nat n @ cs)
        = parse_uint_loop (n div 10) (digit_char (n mod 10) # cs)"
      using False "1.IH" [of "digit_char (n mod 10) # cs"] "1.prems" by (simp add: split)
    moreover have "n div 10 < (2 ^ 64 - 1) div 10 + 1" using "1.prems" by simp
    ultimately show ?thesis
      using "1.prems" by (simp add: is_digit_digit_char digit_val_digit_char)
  qed
qed

text \<open>A formatted non-negative 64-bit integer parses back to itself.\<close>

lemma parse_int64_format_int:
  assumes "0 \<le> n" "n \<le> max_int64"
  shows "parse_int64 (format_int n) = (n, None)"
proof -
  let ?s = "format_nat (nat n)"
  have n: "nat n < 2 ^ 63" using assms by (simp add: max_int64_def nat_less_iff)
  then have "nat n < 2 ^ 64" by simp
  then have "parse_uint ?s = (nat n, None)"
    using parse_uint_loop_format [of "nat n" "[]"] by (simp add: parse_uint_def)
  moreover have "hd ?s \<noteq> CHR ''-''" "hd ?s \<noteq> CHR ''+''"
    using format_nat_digits [of "hd ?s" "nat n"] by (auto simp: is_digit_def byte_def)
  moreover have "format_int n = ?s" using assms by (simp add: format_int_def)
  ultimately show ?thesis using n assms by (simp add: parse_int64_def)
qed

end
