(* ===== verification/Float64.thy ===== *)
theory Float64
  imports Complex_Main "HOL-Library.Log_Nat"
begin

text \<open>
  Finite IEEE-754 binary64 numbers (Go's \<open>float64\<close>, JavaScript's \<open>Number\<close>), each represented by
  the rational it denotes. An arithmetic operation computes the exact rational and rounds it to
  the nearest number with a 53-bit significand, ties to even, with gradual underflow. Overflow to
  infinity does not arise in the modelled code (its operands are counts and percentages) and is
  not represented.
\<close>

type_synonym float64 = rat

definition ilog2 :: "rat \<Rightarrow> int" where
  "ilog2 x =
     (let e = bitlen (fst (quotient_of x)) - bitlen (snd (quotient_of x))
      in if 2 powi e \<le> x then e else e - 1)"

definition round_half_even :: "rat \<Rightarrow> int" where
  "round_half_even x =
     (let f = \<lfloor>x\<rfloor>; d = x - of_int f
      in if d < 1 / 2 then f else if 1 / 2 < d then f + 1 else if even f then f else f + 1)"

text \<open>The exponent of the unit in the last place of a positive number.\<close>

definition ulp_exp :: "rat \<Rightarrow> int" where
  "ulp_exp a = max (ilog2 a) (- 1022) - 52"

definition rnd64 :: "rat \<Rightarrow> float64" where
  "rnd64 x =
     (if x = 0 then 0
      else sgn x * (of_int (round_half_even (\<bar>x\<bar> / 2 powi ulp_exp \<bar>x\<bar>)) * 2 powi ulp_exp \<bar>x\<bar>))"

definition fdiv :: "float64 \<Rightarrow> float64 \<Rightarrow> float64" where
  "fdiv a b = rnd64 (a / b)"

definition fmul :: "float64 \<Rightarrow> float64 \<Rightarrow> float64" where
  "fmul a b = rnd64 (a * b)"

text \<open>\<open>float64(n)\<close> for an integer.\<close>

definition float_of_int :: "int \<Rightarrow> float64" where
  "float_of_int n = rnd64 (of_int n)"

section \<open>Rounding is monotone and exact on small integers\<close>

lemma quotient_of_pos:
  assumes "0 < x"
  obtains p q :: nat where "quotient_of x = (int p, int q)" "0 < p" "0 < q"
    "x = of_nat p / of_nat q"
proof -
  obtain a b where ab: "quotient_of x = (a, b)" by (cases "quotient_of x")
  have b: "0 < b" using quotient_of_denom_pos [OF ab] .
  have x: "x = of_int a / of_int b" using quotient_of_div [OF ab] .
  then have a: "0 < a" using assms b by (simp add: zero_less_divide_iff)
  show thesis
  proof (rule that [of "nat a" "nat b"])
    show "x = of_nat (nat a) / of_nat (nat b)" using a b x by simp
  qed (use a b ab in auto)
qed

lemma two_powi_pos [simp]: "0 < (2 :: rat) powi e"
  by (simp add: zero_less_power_int)

lemma ilog2_bounds:
  assumes "0 < x"
  shows "2 powi ilog2 x \<le> x" and "x < 2 powi (ilog2 x + 1)"
proof -
  obtain p q :: nat where pq: "quotient_of x = (int p, int q)" "0 < p" "0 < q"
    and x: "x = of_nat p / of_nat q"
    using quotient_of_pos [OF assms] .
  let ?a = "floorlog 2 p" and ?b = "floorlog 2 q"
  have p1: "2 ^ (?a - 1) \<le> p" "p < 2 ^ ?a" using floorlog_bounds [of p 2] pq by auto
  have q1: "2 ^ (?b - 1) \<le> q" "q < 2 ^ ?b" using floorlog_bounds [of q 2] pq by auto
  have a0: "0 < ?a" "0 < ?b" using p1(2) q1(2) pq by (auto intro: Nat.gr0I)
  have pr: "(2 :: rat) powi (int ?a - 1) \<le> of_nat p" "of_nat p < (2 :: rat) powi int ?a"
  proof -
    have "(2 :: rat) powi (int ?a - 1) = of_nat (2 ^ (?a - 1))"
      using a0 by (simp add: power_int_def nat_diff_distrib')
    with p1(1) show "(2 :: rat) powi (int ?a - 1) \<le> of_nat p" by (simp only: of_nat_le_iff)
    have "(2 :: rat) powi int ?a = of_nat (2 ^ ?a)" by (simp add: power_int_def)
    with p1(2) show "of_nat p < (2 :: rat) powi int ?a" by (simp only: of_nat_less_iff)
  qed
  have qr: "(2 :: rat) powi (int ?b - 1) \<le> of_nat q" "of_nat q < (2 :: rat) powi int ?b"
  proof -
    have "(2 :: rat) powi (int ?b - 1) = of_nat (2 ^ (?b - 1))"
      using a0 by (simp add: power_int_def nat_diff_distrib')
    with q1(1) show "(2 :: rat) powi (int ?b - 1) \<le> of_nat q" by (simp only: of_nat_le_iff)
    have "(2 :: rat) powi int ?b = of_nat (2 ^ ?b)" by (simp add: power_int_def)
    with q1(2) show "of_nat q < (2 :: rat) powi int ?b" by (simp only: of_nat_less_iff)
  qed
  let ?e = "int ?a - int ?b"
  have il: "ilog2 x = (if 2 powi ?e \<le> x then ?e else ?e - 1)"
    using pq by (simp add: ilog2_def Let_def bitlen_def)
  have up: "x < 2 powi (?e + 1)"
  proof -
    have "(2 :: rat) powi int ?a = 2 powi (?e + 1) * 2 powi (int ?b - 1)"
      by (simp flip: power_int_add)
    also have "\<dots> \<le> 2 powi (?e + 1) * of_nat q"
      by (rule mult_left_mono) (use qr in auto)
    finally have "of_nat p < 2 powi (?e + 1) * (of_nat q :: rat)" using pr(2) by linarith
    then show ?thesis using pq by (simp add: x divide_less_eq)
  qed
  have lo: "2 powi (?e - 1) \<le> x"
  proof -
    have "2 powi (?e - 1) * of_nat q \<le> (2 :: rat) powi (?e - 1) * 2 powi int ?b"
      by (rule mult_left_mono) (use qr in auto)
    also have "\<dots> = 2 powi (?e - 1 + int ?b)" by (rule power_int_add [symmetric]) simp
    also have "\<dots> = 2 powi (int ?a - 1)" by simp
    finally have "2 powi (?e - 1) * (of_nat q :: rat) \<le> of_nat p" using pr(1) by linarith
    then show ?thesis using pq by (simp add: x le_divide_eq)
  qed
  show "2 powi ilog2 x \<le> x" using lo il by auto
  show "x < 2 powi (ilog2 x + 1)" using up il by auto
qed

lemma two_powi_mono: "e \<le> f \<Longrightarrow> (2 :: rat) powi e \<le> 2 powi f"
  by (simp add: power_int_increasing)

lemma ilog2_mono:
  assumes "0 < x" "x \<le> y"
  shows "ilog2 x \<le> ilog2 y"
proof (rule ccontr)
  assume "\<not> ilog2 x \<le> ilog2 y"
  then have "(2 :: rat) powi (ilog2 y + 1) \<le> 2 powi ilog2 x" by (intro two_powi_mono) simp
  with ilog2_bounds(1) [of x] ilog2_bounds(2) [of y] assms show False by linarith
qed

lemma round_half_even_mono: "x \<le> y \<Longrightarrow> round_half_even x \<le> round_half_even y"
proof -
  assume xy: "x \<le> y"
  have fl: "\<lfloor>x\<rfloor> \<le> \<lfloor>y\<rfloor>" using xy by (rule floor_mono)
  show ?thesis
  proof (cases "\<lfloor>x\<rfloor> = \<lfloor>y\<rfloor>")
    case True
    with xy show ?thesis by (auto simp: round_half_even_def Let_def)
  next
    case False
    with fl have "\<lfloor>x\<rfloor> + 1 \<le> \<lfloor>y\<rfloor>" by simp
    then show ?thesis by (auto simp: round_half_even_def Let_def)
  qed
qed

lemma round_half_even_int [simp]: "round_half_even (of_int k) = k"
  by (simp add: round_half_even_def)

lemma round_half_even_le: "x \<le> of_int k \<Longrightarrow> round_half_even x \<le> k"
  using round_half_even_mono [of x "of_int k"] by simp

lemma round_half_even_ge: "of_int k \<le> x \<Longrightarrow> k \<le> round_half_even x"
  using round_half_even_mono [of "of_int k" x] by simp

lemma rnd64_pos: "0 < x \<Longrightarrow>
    rnd64 x = of_int (round_half_even (x / 2 powi ulp_exp x)) * 2 powi ulp_exp x"
  by (simp add: rnd64_def)

lemma rnd64_le_powi:
  assumes "0 < x"
  shows "rnd64 x \<le> 2 powi (max (ilog2 x) (- 1022) + 1)"
proof -
  let ?u = "ulp_exp x"
  have split: "(2 :: rat) powi (max (ilog2 x) (- 1022) + 1) = 2 ^ 53 * 2 powi ?u"
  proof -
    have "(2 :: rat) powi (53 + ?u) = 2 powi 53 * 2 powi ?u" by (rule power_int_add) simp
    then show ?thesis by (simp add: ulp_exp_def algebra_simps)
  qed
  have "x < 2 powi (ilog2 x + 1)" using ilog2_bounds(2) [OF assms] .
  also have "\<dots> \<le> 2 powi (max (ilog2 x) (- 1022) + 1)" by (rule two_powi_mono) simp
  finally have "x / 2 powi ?u \<le> of_int (2 ^ 53)"
    unfolding split by (simp add: divide_le_eq)
  then have "of_int (round_half_even (x / 2 powi ?u)) \<le> (of_int (2 ^ 53) :: rat)"
    by (simp only: of_int_le_iff round_half_even_le)
  then have "of_int (round_half_even (x / 2 powi ?u)) * 2 powi ?u \<le> (of_int (2 ^ 53) :: rat) * 2 powi ?u"
    by (rule mult_right_mono) simp
  then show ?thesis unfolding split rnd64_pos [OF assms] by simp
qed

lemma powi_le_rnd64:
  assumes "0 < x" "- 1022 \<le> ilog2 x"
  shows "2 powi ilog2 x \<le> rnd64 x"
proof -
  let ?u = "ulp_exp x"
  have split: "(2 :: rat) powi ilog2 x = 2 ^ 52 * 2 powi ?u"
  proof -
    have "(2 :: rat) powi (52 + ?u) = 2 powi 52 * 2 powi ?u" by (rule power_int_add) simp
    then show ?thesis using assms(2) by (simp add: ulp_exp_def)
  qed
  have "of_int (2 ^ 52) \<le> x / 2 powi ?u"
    using ilog2_bounds(1) [OF assms(1)] unfolding split by (simp add: le_divide_eq)
  then have "(of_int (2 ^ 52) :: rat) \<le> of_int (round_half_even (x / 2 powi ?u))"
    by (simp only: of_int_le_iff round_half_even_ge)
  then have "(of_int (2 ^ 52) :: rat) * 2 powi ?u \<le> of_int (round_half_even (x / 2 powi ?u)) * 2 powi ?u"
    by (rule mult_right_mono) simp
  then show ?thesis unfolding split rnd64_pos [OF assms(1)] by simp
qed

lemma rnd64_mono_pos:
  assumes "0 < x" "x \<le> y"
  shows "rnd64 x \<le> rnd64 y"
proof (cases "ulp_exp x = ulp_exp y")
  case True
  let ?u = "ulp_exp y"
  have "round_half_even (x / 2 powi ?u) \<le> round_half_even (y / 2 powi ?u)"
    by (rule round_half_even_mono) (use assms in \<open>simp add: divide_right_mono\<close>)
  then have "(of_int (round_half_even (x / 2 powi ?u)) :: rat) * 2 powi ?u
      \<le> of_int (round_half_even (y / 2 powi ?u)) * 2 powi ?u"
    by (intro mult_right_mono) simp_all
  with True assms show ?thesis by (simp add: rnd64_pos)
next
  case False
  with ilog2_mono [OF assms] have "max (ilog2 x) (- 1022) + 1 \<le> ilog2 y" "- 1022 \<le> ilog2 y"
    by (auto simp: ulp_exp_def)
  then have "(2 :: rat) powi (max (ilog2 x) (- 1022) + 1) \<le> 2 powi ilog2 y"
    by (intro two_powi_mono)
  with rnd64_le_powi [OF assms(1)] powi_le_rnd64 [of y] assms \<open>- 1022 \<le> ilog2 y\<close>
  show ?thesis by linarith
qed

lemma rnd64_0 [simp]: "rnd64 0 = 0"
  by (simp add: rnd64_def)

lemma rnd64_nonneg: "0 \<le> x \<Longrightarrow> 0 \<le> rnd64 x"
proof (cases "x = 0")
  case False
  moreover assume "0 \<le> x"
  ultimately have "0 < x" by simp
  then show ?thesis
    using round_half_even_ge [of 0 "x / 2 powi ulp_exp x"] by (simp add: rnd64_pos)
qed simp

lemma rnd64_mono: "0 \<le> x \<Longrightarrow> x \<le> y \<Longrightarrow> rnd64 x \<le> rnd64 y"
  using rnd64_mono_pos [of x y] rnd64_nonneg [of y] by (cases "x = 0") auto

lemma rnd64_of_int:
  assumes "0 \<le> k" "k < 2 ^ 53"
  shows "rnd64 (of_int k) = of_int k"
proof (cases "k = 0")
  case False
  with assms have k: "0 < (of_int k :: rat)" "1 \<le> (of_int k :: rat)" by simp_all
  let ?u = "ulp_exp (of_int k)"
  have "ilog2 (of_int k) < 53"
  proof (rule ccontr)
    assume "\<not> ilog2 (of_int k) < 53"
    then have "(2 :: rat) powi 53 \<le> 2 powi ilog2 (of_int k)" by (intro two_powi_mono) simp
    with ilog2_bounds(1) [OF k(1)] have "(2 :: rat) ^ 53 \<le> of_int k" by simp
    then have "(of_int (2 ^ 53) :: rat) \<le> of_int k" by simp
    then have "2 ^ 53 \<le> k" by (simp only: of_int_le_iff)
    with assms show False by simp
  qed
  moreover have "0 \<le> ilog2 (of_int k)"
  proof (rule ccontr)
    assume "\<not> 0 \<le> ilog2 (of_int k)"
    then have "(2 :: rat) powi (ilog2 (of_int k) + 1) \<le> 2 powi 0" by (intro two_powi_mono) simp
    with ilog2_bounds(2) [OF k(1)] k(2) show False by simp
  qed
  ultimately have u: "?u \<le> 0" by (simp add: ulp_exp_def)
  then have "(of_int k :: rat) / 2 powi ?u = of_int (k * 2 ^ nat (- ?u))"
    by (simp add: power_int_def field_simps)
  then have "rnd64 (of_int k) = of_int (k * 2 ^ nat (- ?u)) * 2 powi ?u"
    using rnd64_pos [OF k(1)] by (simp only: round_half_even_int)
  also have "\<dots> = of_int k"
    using u by (simp add: power_int_def power_one_over field_simps)
  finally show ?thesis .
qed simp

lemma float_of_int_small: "0 \<le> k \<Longrightarrow> k < 2 ^ 53 \<Longrightarrow> float_of_int k = of_int k"
  by (simp add: float_of_int_def rnd64_of_int)

text \<open>A share of a whole, scaled to a percentage, lies between 0 and 100 in floating point too.\<close>

lemma percent_bounds:
  assumes "0 \<le> a" "a \<le> b" "0 < b"
  shows "0 \<le> fmul (fdiv a b) 100 \<and> fmul (fdiv a b) 100 \<le> 100"
proof -
  have one: "rnd64 1 = 1" using rnd64_of_int [of 1] by simp
  have hundred: "rnd64 100 = 100" using rnd64_of_int [of 100] by simp
  have q: "0 \<le> a / b" "a / b \<le> 1" using assms by simp_all
  have d: "0 \<le> fdiv a b" "fdiv a b \<le> 1"
    using rnd64_nonneg [OF q(1)] rnd64_mono [OF q] one by (simp_all add: fdiv_def)
  then have "0 \<le> fdiv a b * 100" "fdiv a b * 100 \<le> 100" by simp_all
  then show ?thesis
    using rnd64_nonneg rnd64_mono [of "fdiv a b * 100" 100] hundred by (simp add: fmul_def)
qed

end
