(* ===== verification/LmsTypes.thy ===== *)
theory LmsTypes
  imports ErgPrelude Float64 "HOL-Library.Word"
begin

text \<open>
  The data of the LMS module (\<open>src/internal/modules/lms/application/service\<close>): the entities of
  \<open>entities.go\<close> as records, the sentinel errors of \<open>service.go\<close>, dynamically typed JSON and BSON
  values, and the environment the module takes from packages that are not part of the repository.

  Conventions. A \<open>time.Time\<close> is the number of nanoseconds since the zero time, so the zero value
  is 0; a pointer is an \<open>option\<close>; nil slices and maps are the empty list; a Go map is an
  association list with distinct keys; \<open>bson.ObjectID\<close> is its 12 bytes as a 96-bit word, with
  \<open>bson.NilObjectID\<close> the word 0.
\<close>

type_synonym oid = "96 word"
type_synonym gotime = int

section \<open>JSON values\<close>

datatype jval =
    JNull
  | JBool bool
  | JNum float64
  | JStr string
  | JArr "jval list"
  | JObj "(string \<times> jval) list"

type_synonym jobj = "(string \<times> jval) list"

section \<open>What the module takes from its environment\<close>

text \<open>
  \<open>ge_from_hex\<close> and \<open>ge_hex\<close> are \<open>bson.ObjectIDFromHex\<close> and \<open>ObjectID.Hex\<close> of the MongoDB
  driver; \<open>ge_lower\<close> is the Unicode path of \<open>strings.ToLower\<close>; \<open>ge_marshal\<close> is the length of
  \<open>json.Marshal\<close>'s output, \<open>None\<close> when it returns an error; \<open>ge_sha256\<close> is the hexadecimal SHA-256
  of the marshalled value.
\<close>

record goenv =
  ge_from_hex :: "string \<Rightarrow> oid option"
  ge_hex :: "oid \<Rightarrow> string"
  ge_lower :: "string \<Rightarrow> string"
  ge_marshal :: "jval \<Rightarrow> nat option"
  ge_sha256 :: "jval \<Rightarrow> string"

text \<open>
  The interface of the ObjectID codec: the hexadecimal form has 24 characters, lower-case hexadecimal
  digits, decoding it gives the identifier back, and nothing of another length decodes.
\<close>

locale objectid_codec =
  fixes from_hex :: "string \<Rightarrow> oid option" and hex :: "oid \<Rightarrow> string"
  assumes from_hex_hex: "from_hex (hex i) = Some i"
    and length_hex: "length (hex i) = 24"
    and hex_chars: "set (hex i) \<subseteq> set ''0123456789abcdef''"
    and from_hex_length: "from_hex s = Some i \<Longrightarrow> length s = 24"
begin

lemma hex_inject: "hex i = hex j \<longleftrightarrow> i = j"
  by (metis from_hex_hex option.inject)

lemma hex_eq_iff: "from_hex s = Some i \<Longrightarrow> hex j = s \<Longrightarrow> i = j"
  by (metis from_hex_hex option.inject)

end

definition env_ok :: "goenv \<Rightarrow> bool" where
  "env_ok env \<longleftrightarrow> objectid_codec (ge_from_hex env) (ge_hex env)"

lemma env_ok_hex: "env_ok env \<Longrightarrow> ge_from_hex env (ge_hex env i) = Some i"
  by (simp add: env_ok_def objectid_codec.from_hex_hex)

lemma env_ok_hex_inject: "env_ok env \<Longrightarrow> ge_hex env i = ge_hex env j \<longleftrightarrow> i = j"
  by (simp add: env_ok_def objectid_codec.hex_inject)

lemma env_ok_hex_nonempty: "env_ok env \<Longrightarrow> ge_hex env i \<noteq> []"
  using objectid_codec.length_hex [of "ge_from_hex env" "ge_hex env" i] by (auto simp: env_ok_def)

lemma env_ok_hex_chars: "env_ok env \<Longrightarrow> set (ge_hex env i) \<subseteq> set ''0123456789abcdef''"
  using objectid_codec.hex_chars [of "ge_from_hex env" "ge_hex env" i] by (simp add: env_ok_def)

lemma env_ok_from_hex_length: "env_ok env \<Longrightarrow> ge_from_hex env s = Some i \<Longrightarrow> length s = 24"
  using objectid_codec.from_hex_length [of "ge_from_hex env" "ge_hex env" s i] by (auto simp: env_ok_def)

section \<open>Errors\<close>

datatype lms_error =
    ErrScopeForbidden
  | ErrNotFound
  | ErrSheetAccess
  | ErrEmptyRecipient
  | ErrAttemptDone
  | ErrHashMismatch
  | ErrInvalidFieldKey
  | ErrInvalidQuestionKind
  | ErrInvalidEducationUnitType
  | ErrInvalidStudentProfile
  | ErrInvalidContentPayload
  | ErrInvalidStudentAccountPayload
  | ErrInvalidAccessPolicy
  | ErrAccessManagementUnavailable
  | ErrInvalidObjectID string
  | ErrOther string

type_synonym 'a lres = "(lms_error, 'a) outcome"

section \<open>Entities\<close>

record center =
  c_ID :: oid
  c_TenantID :: string
  c_Type :: string
  c_Name :: string
  c_Code :: string
  c_ParentID :: oid
  c_AvatarURL :: string
  c_Address :: string
  c_Description :: string
  c_Phone :: string
  c_Email :: string
  c_Website :: string
  c_Status :: string
  c_ManagerUserID :: string
  c_CreatedAt :: gotime
  c_UpdatedAt :: gotime

record class_rec =
  k_ID :: oid
  k_TenantID :: string
  k_CenterID :: oid
  k_Name :: string
  k_Grade :: string
  k_AcademicYear :: string
  k_Status :: string
  k_HomeroomTeacherID :: string
  k_CreatedAt :: gotime
  k_UpdatedAt :: gotime

record student_metrics =
  sm_AverageScore :: "float64 option"
  sm_CompletedAssignments :: int
  sm_LastActivityAt :: "gotime option"

record student =
  s_ID :: oid
  s_TenantID :: string
  s_CenterID :: oid
  s_ClassID :: oid
  s_StudentCode :: string
  s_FullName :: string
  s_Username :: string
  s_AuthUserID :: string
  s_Email :: string
  s_Gender :: string
  s_Birthday :: "gotime option"
  s_Phone :: string
  s_Address :: string
  s_ParentName :: string
  s_ParentPhone :: string
  s_ParentEmail :: string
  s_ParentRelationship :: string
  s_EnrollmentDate :: "gotime option"
  s_Note :: string
  s_Status :: string
  s_Metrics :: student_metrics
  s_CreatedAt :: gotime
  s_UpdatedAt :: gotime

record current_scope =
  cs_ID :: oid
  cs_TenantID :: string
  cs_UserID :: string
  cs_Level :: string
  cs_CenterID :: string
  cs_ClassID :: string
  cs_UpdatedAt :: gotime

record content_scope =
  sc_Type :: string
  sc_CenterID :: string

record subject =
  sb_ID :: oid
  sb_TenantID :: string
  sb_Scope :: content_scope
  sb_Name :: string
  sb_Code :: string
  sb_Status :: string
  sb_CreatedAt :: gotime
  sb_UpdatedAt :: gotime

record level =
  l_ID :: oid
  l_TenantID :: string
  l_SubjectID :: oid
  l_Name :: string
  l_Code :: string
  l_Order :: int
  l_Status :: string
  l_CreatedAt :: gotime
  l_UpdatedAt :: gotime

record topic =
  t_ID :: oid
  t_TenantID :: string
  t_LevelID :: oid
  t_Name :: string
  t_Code :: string
  t_Order :: int
  t_Status :: string
  t_CreatedAt :: gotime
  t_UpdatedAt :: gotime

record question_choice =
  qc_ID :: string
  qc_Label :: string
  qc_Correct :: bool

record question =
  q_ID :: oid
  q_TenantID :: string
  q_Scope :: content_scope
  q_SubjectID :: oid
  q_LevelID :: oid
  q_TopicID :: oid
  q_Type :: string
  q_Stem :: string
  q_Choices :: "question_choice list"
  q_Answer :: jval
  q_Metadata :: jobj
  q_Status :: string
  q_ArchivedAt :: "gotime option"
  q_CreatedAt :: gotime
  q_UpdatedAt :: gotime

record quiz =
  z_ID :: oid
  z_TenantID :: string
  z_Scope :: content_scope
  z_Title :: string
  z_Kind :: string
  z_SubjectID :: oid
  z_LevelID :: oid
  z_TopicIDs :: "oid list"
  z_QuestionIDs :: "oid list"
  z_Slides :: "jval list"
  z_Settings :: jobj
  z_Result :: jobj
  z_Theme :: jobj
  z_ThemeID :: string
  z_Status :: string
  z_Version :: int
  z_PackageHash :: string
  z_PublishedAt :: "gotime option"
  z_CreatedAt :: gotime
  z_UpdatedAt :: gotime

record assignment =
  a_ID :: oid
  a_TenantID :: string
  a_ClassID :: oid
  a_QuizID :: oid
  a_SubjectID :: oid
  a_StudentIDs :: "oid list"
  a_DueAt :: "gotime option"
  a_TeacherNote :: string
  a_Status :: string
  a_AssignedBy :: string
  a_RecipientMode :: string
  a_CreatedAt :: gotime
  a_UpdatedAt :: gotime

record attempt_answer =
  aa_QuestionID :: string
  aa_Answer :: jval
  aa_ClientResult :: jobj
  aa_AnsweredAt :: "gotime option"

type_synonym answers = "(string \<times> attempt_answer) list"

record attempt =
  at_ID :: oid
  at_TenantID :: string
  at_AssignmentID :: oid
  at_QuizID :: oid
  at_StudentID :: oid
  at_PackageID :: string
  at_PackageHash :: string
  at_QuizVersion :: string
  at_Status :: string
  at_Answers :: answers
  at_Events :: "jobj list"
  at_Client :: jobj
  at_Score :: float64
  at_MaxScore :: float64
  at_Percent :: float64
  at_Passed :: bool
  at_StartedAt :: gotime
  at_SubmittedAt :: "gotime option"
  at_UpdatedAt :: gotime

section \<open>BSON documents\<close>

text \<open>
  The values a \<open>bson.M\<close> carries in this module, by dynamic type: what a type assertion
  \<open>v.(string)\<close>, \<open>v.(bson.ObjectID)\<close>, \dots{} distinguishes.
\<close>

datatype bval =
    BNil
  | BStr string
  | BOid oid
  | BOids "oid list"
  | BTime gotime
  | BInt int
  | BFloat float64
  | BBool bool
  | BScope content_scope
  | BChoices "question_choice list"
  | BAnswer attempt_answer
  | BMaps "jobj list"
  | BMap jobj
  | BAnys "jval list"
  | BAny jval
  | BM "(string \<times> bval) list"

type_synonym bsonM = "(string \<times> bval) list"

fun as_str :: "bval option \<Rightarrow> string option" where
  "as_str (Some (BStr v)) = Some v" | "as_str _ = None"

fun as_oid :: "bval option \<Rightarrow> oid option" where
  "as_oid (Some (BOid v)) = Some v" | "as_oid _ = None"

fun as_oids :: "bval option \<Rightarrow> oid list option" where
  "as_oids (Some (BOids v)) = Some v" | "as_oids _ = None"

fun as_time :: "bval option \<Rightarrow> gotime option" where
  "as_time (Some (BTime v)) = Some v" | "as_time _ = None"

fun as_int :: "bval option \<Rightarrow> int option" where
  "as_int (Some (BInt v)) = Some v" | "as_int _ = None"

fun as_float :: "bval option \<Rightarrow> float64 option" where
  "as_float (Some (BFloat v)) = Some v" | "as_float _ = None"

fun as_bool :: "bval option \<Rightarrow> bool option" where
  "as_bool (Some (BBool v)) = Some v" | "as_bool _ = None"

fun as_scope :: "bval option \<Rightarrow> content_scope option" where
  "as_scope (Some (BScope v)) = Some v" | "as_scope _ = None"

fun as_choices :: "bval option \<Rightarrow> question_choice list option" where
  "as_choices (Some (BChoices v)) = Some v" | "as_choices _ = None"

fun as_maps :: "bval option \<Rightarrow> jobj list option" where
  "as_maps (Some (BMaps v)) = Some v" | "as_maps _ = None"

fun as_map :: "bval option \<Rightarrow> jobj option" where
  "as_map (Some (BMap v)) = Some v" | "as_map _ = None"

fun as_anys :: "bval option \<Rightarrow> jval list option" where
  "as_anys (Some (BAnys v)) = Some v" | "as_anys _ = None"

fun as_bsonM :: "bval option \<Rightarrow> bsonM option" where
  "as_bsonM (Some (BM v)) = Some v" | "as_bsonM _ = None"

fun as_answer :: "bval option \<Rightarrow> attempt_answer option" where
  "as_answer (Some (BAnswer v)) = Some v" | "as_answer _ = None"

text \<open>\<open>if v, ok := update[key].(T); ok { x.Field = v }\<close>\<close>

definition set_if :: "'v option \<Rightarrow> ('v \<Rightarrow> 'r \<Rightarrow> 'r) \<Rightarrow> 'r \<Rightarrow> 'r" where
  "set_if v f x = (case v of None \<Rightarrow> x | Some v \<Rightarrow> f v x)"

lemma set_if_simps [simp]: "set_if None f x = x" "set_if (Some v) f x = f v x"
  by (simp_all add: set_if_def)

text \<open>A field the setter does not touch keeps its value.\<close>

lemma set_if_field: "(\<And>v y. g (f v y) = g y) \<Longrightarrow> g (set_if v f x) = g x"
  by (cases v) auto

end
