(* ===== verification/LmsPaging.thy ===== *)
theory LmsPaging
  imports LmsTypes
begin

text \<open>
  Pagination of the LMS repository (\<open>repository.go\<close>, \<open>repository_memory.go\<close>): page numbers
  (\<open>paged\<close>, \<open>pageCenters\<close>, \<open>pageClasses\<close>) and offset cursors (\<open>cursorOffset\<close>, \<open>pageCursor\<close>).
  Offsets are 64-bit: the product in \<open>paged\<close> wraps around, and a slice expression with bounds out
  of range panics.
\<close>

definition defaultManagementPageSize :: int where "defaultManagementPageSize = 20"
definition defaultStudentBatchSize :: int where "defaultStudentBatchSize = 20"
definition maxStudentBatchSize :: int where "maxStudentBatchSize = 100"

lemmas page_sizes = defaultManagementPageSize_def defaultStudentBatchSize_def maxStudentBatchSize_def

text \<open>\<open>items[lo:hi]\<close>\<close>

definition go_slice :: "'a list \<Rightarrow> int \<Rightarrow> int \<Rightarrow> ('e, 'a list) outcome" where
  "go_slice xs lo hi =
     (if 0 \<le> lo \<and> lo \<le> hi \<and> hi \<le> int (length xs)
      then Ret (take (nat (hi - lo)) (drop (nat lo) xs)) else Panic)"

definition paged :: "int \<Rightarrow> int \<Rightarrow> int \<times> int" where
  "paged page limit =
     (let page = (if page < 1 then 1 else page);
          limit = (if limit \<le> 0 \<or> 100 < limit then defaultManagementPageSize else limit)
      in (wrap64 (wrap64 (page - 1) * limit), limit))"

definition cursorOffset :: "string \<Rightarrow> int" where
  "cursorOffset cursor =
     (if cursor = [] then 0
      else let n = fst (parse_int64 cursor) in if n < 0 then 0 else n)"

definition page_items :: "'a list \<Rightarrow> int \<Rightarrow> int \<Rightarrow> ('e, 'a list \<times> int) outcome" where
  "page_items items page limit =
     (case paged page limit of (offset, limit) \<Rightarrow>
        let total = int (length items) in
        if total < offset then Ret ([], total)
        else
          let end1 = wrap64 (offset + limit);
              end2 = (if total < end1 then total else end1)
          in map_out (\<lambda>xs. (xs, total)) (go_slice items offset end2))"

definition pageCenters :: "center list \<Rightarrow> int \<Rightarrow> int \<Rightarrow> (center list \<times> int) lres" where
  "pageCenters items page limit = page_items items page limit"

definition pageClasses :: "class_rec list \<Rightarrow> int \<Rightarrow> int \<Rightarrow> (class_rec list \<times> int) lres" where
  "pageClasses items page limit = page_items items page limit"

text \<open>The common tail of \<open>pageCursor\<close> and \<open>listStudents\<close>: one batch from an offset, and the next cursor.\<close>

definition cut_batch :: "'a list \<Rightarrow> int \<Rightarrow> int \<Rightarrow> ('e, 'a list \<times> int \<times> string) outcome" where
  "cut_batch items offset limit =
     (let total = int (length items) in
      if total < offset then Ret ([], total, [])
      else
        let end1 = wrap64 (offset + limit);
            end2 = (if total < end1 then total else end1);
            nxt = (if end2 < total then format_int end2 else [])
        in map_out (\<lambda>xs. (xs, total, nxt)) (go_slice items offset end2))"

definition pageCursor :: "'a list \<Rightarrow> string \<Rightarrow> int \<Rightarrow> ('e, 'a list \<times> int \<times> string) outcome" where
  "pageCursor items cursor limit =
     cut_batch items (cursorOffset cursor)
       (if limit \<le> 0 \<or> maxStudentBatchSize < limit then defaultStudentBatchSize else limit)"

section \<open>Properties\<close>

lemma wrap64_id: "- (2 ^ 63) \<le> x \<Longrightarrow> x \<le> max_int64 \<Longrightarrow> wrap64 x = x"
  by (simp add: wrap64_def max_int64_def)

lemma paged_in_range:
  assumes "1 \<le> page" "0 < limit" "limit \<le> 100" "(page - 1) * limit \<le> max_int64"
  shows "paged page limit = ((page - 1) * limit, limit)"
proof -
  have "page - 1 \<le> (page - 1) * limit" using assms mult_left_mono [of 1 limit "page - 1"] by simp
  then have "wrap64 (page - 1) = page - 1" using assms by (intro wrap64_id) (auto simp: max_int64_def)
  moreover have "wrap64 ((page - 1) * limit) = (page - 1) * limit"
    by (intro wrap64_id) (use assms in \<open>auto simp: max_int64_def intro: order_trans [of _ 0]\<close>)
  ultimately show ?thesis using assms by (simp add: paged_def Let_def)
qed

lemma go_slice_Ret:
  "0 \<le> lo \<Longrightarrow> lo \<le> hi \<Longrightarrow> hi \<le> int (length xs) \<Longrightarrow>
     go_slice xs lo hi = Ret (take (nat (hi - lo)) (drop (nat lo) xs))"
  by (simp add: go_slice_def)

text \<open>A batch from an offset within the list.\<close>

lemma cut_batch_in_range:
  assumes "0 \<le> offset" "offset \<le> int (length items)" "0 < limit" "limit \<le> 100"
    and "int (length items) \<le> max_int64 - 100"
  shows "cut_batch items offset limit =
    Ret (take (nat limit) (drop (nat offset) items), int (length items),
         if offset + limit < int (length items) then format_int (offset + limit) else [])"
proof -
  have w: "wrap64 (offset + limit) = offset + limit"
    using assms by (intro wrap64_id) (auto simp: max_int64_def)
  show ?thesis
  proof (cases "int (length items) < offset + limit")
    case True
    then have "length (drop (nat offset) items) \<le> nat limit" using assms by simp
    moreover have "length (drop (nat offset) items) \<le> nat (int (length items) - offset)"
      using assms by simp
    ultimately have "take (nat (int (length items) - offset)) (drop (nat offset) items)
        = take (nat limit) (drop (nat offset) items)"
      by simp
    with True w assms show ?thesis
      by (simp add: cut_batch_def Let_def go_slice_Ret)
  next
    case False
    with w assms show ?thesis by (auto simp: cut_batch_def Let_def go_slice_Ret)
  qed
qed

lemma page_items_in_range:
  assumes "1 \<le> page" "0 < limit" "limit \<le> 100" "(page - 1) * limit \<le> max_int64"
    and "int (length items) \<le> max_int64 - 100"
  shows "page_items items page limit =
    Ret (take (nat limit) (drop (nat ((page - 1) * limit)) items), int (length items))"
proof -
  let ?o = "(page - 1) * limit"
  have bounds: "0 \<le> ?o" using assms by simp
  note p = paged_in_range [OF assms(1-4)]
  show ?thesis
  proof (cases "int (length items) < ?o")
    case True
    then have "length items \<le> nat ?o" by simp
    with True p show ?thesis by (simp add: page_items_def)
  next
    case False
    then have le: "?o \<le> int (length items)" by simp
    have "wrap64 (?o + limit) = ?o + limit"
      by (rule wrap64_id) (use assms(2,3,5) bounds le in \<open>simp_all add: max_int64_def\<close>)
    moreover have "cut_batch items ?o limit = Ret (take (nat limit) (drop (nat ?o) items),
        int (length items), if ?o + limit < int (length items) then format_int (?o + limit) else [])"
      by (rule cut_batch_in_range [OF bounds le assms(2,3,5)])
    ultimately show ?thesis
      using False p by (auto simp: page_items_def cut_batch_def Let_def outcome_simps split: if_splits)
  qed
qed

text \<open>
  What a client does with cursors: ask with the empty cursor, then with the cursor of each answer,
  until an answer carries none.
\<close>

fun drain :: "nat \<Rightarrow> (string \<Rightarrow> ('e, 'a list \<times> int \<times> string) outcome) \<Rightarrow> string \<Rightarrow> 'a list option" where
  "drain 0 ask cursor = None"
| "drain (Suc n) ask cursor =
     (case ask cursor of
        Ret (xs, _, nxt) \<Rightarrow> if nxt = [] then Some xs else map_option ((@) xs) (drain n ask nxt)
      | _ \<Rightarrow> None)"

lemma format_int_not_Nil [simp]: "format_int n \<noteq> []"
  by (simp add: format_int_def)

lemma cursorOffset_format:
  "0 \<le> n \<Longrightarrow> n \<le> max_int64 \<Longrightarrow> cursorOffset (format_int n) = n"
  by (simp add: cursorOffset_def parse_int64_format_int)

lemma cursorOffset_nonneg: "0 \<le> cursorOffset c"
  by (simp add: cursorOffset_def Let_def)

lemma drain_from:
  assumes bsz: "0 < bsz" "bsz \<le> 100" and len: "int (length items) \<le> max_int64 - 100"
    and ask: "\<And>c. ask c = (cut_batch items (cursorOffset c) bsz :: ('e, 'a list \<times> int \<times> string) outcome)"
  shows "cursorOffset c \<le> int (length items) \<Longrightarrow> length items - nat (cursorOffset c) < fuel \<Longrightarrow>
    drain fuel ask c = Some (drop (nat (cursorOffset c)) items)"
proof (induction fuel arbitrary: c)
  case 0
  then show ?case by simp
next
  case (Suc fuel)
  let ?o = "cursorOffset c"
  have batch: "ask c = Ret (take (nat bsz) (drop (nat ?o) items), int (length items),
      if ?o + bsz < int (length items) then format_int (?o + bsz) else [])"
    unfolding ask using Suc.prems bsz len cursorOffset_nonneg by (intro cut_batch_in_range)
  show ?case
  proof (cases "?o + bsz < int (length items)")
    case True
    have off: "cursorOffset (format_int (?o + bsz)) = ?o + bsz"
      using True bsz len cursorOffset_nonneg [of c] by (intro cursorOffset_format) auto
    have n: "nat (?o + bsz) = nat ?o + nat bsz"
      using bsz cursorOffset_nonneg by (simp add: nat_add_distrib)
    have "drain fuel ask (format_int (?o + bsz)) = Some (drop (nat (?o + bsz)) items)"
      using Suc.IH [of "format_int (?o + bsz)"] Suc.prems True bsz n by (simp add: off)
    moreover have "take (nat bsz) (drop (nat ?o) items) @ drop (nat ?o + nat bsz) items
        = drop (nat ?o) items"
      by (metis append_take_drop_id drop_drop add.commute)
    ultimately show ?thesis using True by (simp add: batch n)
  next
    case False
    then have "length (drop (nat ?o) items) \<le> nat bsz" using Suc.prems by simp
    with False show ?thesis by (simp add: batch)
  qed
qed

text \<open>
  C27. Following the cursors of \<open>pageCursor\<close> from the start, with any batch size asked for, returns
  every item of the list exactly once and in order, after at most one request more than there are
  items: no item is skipped or repeated, and the walk ends.
\<close>

theorem pageCursor_drains:
  assumes "int (length items) \<le> max_int64 - 100" and "length items < fuel"
  shows "drain fuel (\<lambda>c. pageCursor items c limit :: ('e, 'a list \<times> int \<times> string) outcome) [] = Some items"
proof -
  let ?bsz = "if limit \<le> 0 \<or> maxStudentBatchSize < limit then defaultStudentBatchSize else limit"
  have "0 < ?bsz" "?bsz \<le> 100" by (auto simp: page_sizes)
  then show ?thesis
    using drain_from [of ?bsz items "\<lambda>c. pageCursor items c limit" "[]" fuel] assms
    by (simp add: pageCursor_def cursorOffset_def)
qed

theorem pageCursor_drains_witness:
  "drain 6 (\<lambda>c. pageCursor [10, 20, 30, 40, 50 :: int] c 2 :: (lms_error, int list \<times> int \<times> string) outcome) []
   = Some [10, 20, 30, 40, 50]"
  by (rule pageCursor_drains) (simp_all add: max_int64_def)

text \<open>
  Page \<open>p\<close> of \<open>pageCenters\<close> is the \<open>p\<close>-th block of \<open>limit\<close> items, with the full count, for every
  page whose offset fits in 64 bits; pages past the end are empty.
\<close>

lemma pageCenters_block:
  assumes "1 \<le> page" "0 < limit" "limit \<le> 100" "(page - 1) * limit \<le> max_int64"
    and "int (length items) \<le> max_int64 - 100"
  shows "pageCenters items page limit =
    Ret (take (nat limit) (drop (nat ((page - 1) * limit)) items), int (length items))"
  unfolding pageCenters_def using assms by (rule page_items_in_range)

lemma wrap64_mod: "wrap64 x = (let k = x mod 2 ^ 64 in if 2 ^ 63 \<le> k then k - 2 ^ 64 else k)"
proof -
  have k: "(x + 2 ^ 63) mod 2 ^ 64 = (x mod 2 ^ 64 + 2 ^ 63) mod 2 ^ 64" by (simp add: mod_add_left_eq)
  have w: "wrap64 x = (x mod 2 ^ 64 + 2 ^ 63) mod 2 ^ 64 - 2 ^ 63" by (simp only: wrap64_def k)
  have b: "0 \<le> x mod 2 ^ 64" "x mod 2 ^ 64 < 2 ^ 64" by simp_all
  show ?thesis
  proof (cases "2 ^ 63 \<le> x mod 2 ^ 64")
    case True
    have "(x mod 2 ^ 64 - 2 ^ 63 + 2 ^ 64) mod 2 ^ 64 = (x mod 2 ^ 64 - 2 ^ 63) mod 2 ^ 64" by (rule mod_add_self2)
    also have "\<dots> = x mod 2 ^ 64 - 2 ^ 63" using True b by (intro mod_pos_pos_trivial) simp_all
    also have "x mod 2 ^ 64 - 2 ^ 63 + 2 ^ 64 = x mod 2 ^ 64 + (2 ^ 63 :: int)" by simp
    finally have e: "(x mod 2 ^ 64 + 2 ^ 63) mod 2 ^ 64 = x mod 2 ^ 64 - 2 ^ 63" .
    show ?thesis unfolding w e Let_def using True by simp
  next
    case False
    then have e: "(x mod 2 ^ 64 + 2 ^ 63) mod 2 ^ 64 = x mod 2 ^ 64 + 2 ^ 63" using b by (intro mod_pos_pos_trivial) simp_all
    show ?thesis unfolding w e Let_def using False by simp
  qed
qed

text \<open>
  C32. The offset product of \<open>paged\<close> is not checked and wraps at 64 bits. For every page number and every
  limit up to 100 the answer is the block at the wrapped offset; when the wrapped offset is negative the
  slice expression panics, whatever the list holds. So the pages whose product lies between \<open>2 ^ 63\<close> and
  \<open>2 ^ 64\<close> panic, and those after them show blocks from the beginning of the list again.
\<close>

theorem pageCenters_wraps:
  assumes "1 \<le> page" "page \<le> max_int64" "0 < limit" "limit \<le> 100" "int (length items) \<le> max_int64 - 100"
  shows "pageCenters items page limit =
    (let offset = ((page - 1) * limit) mod 2 ^ 64
     in if 2 ^ 63 \<le> offset then Panic else Ret (take (nat limit) (drop (nat offset) items), int (length items)))"
proof -
  let ?o = "((page - 1) * limit) mod 2 ^ 64"
  have bounds: "0 \<le> ?o" "?o < 2 ^ 64" by simp_all
  have p: "paged page limit = (wrap64 ((page - 1) * limit), limit)"
    using assms(1-4) by (simp add: paged_def wrap64_id max_int64_def)
  show ?thesis
  proof (cases "2 ^ 63 \<le> ?o")
    case True
    then have "wrap64 ((page - 1) * limit) < 0" using bounds by (simp add: wrap64_mod Let_def)
    then show ?thesis using True by (simp add: pageCenters_def page_items_def p go_slice_def)
  next
    case False
    then have w: "wrap64 ((page - 1) * limit) = ?o" by (simp add: wrap64_mod Let_def)
    show ?thesis
    proof (cases "int (length items) < ?o")
      case True
      then show ?thesis using False bounds by (simp add: pageCenters_def page_items_def p w)
    next
      case inside: False
      then have "wrap64 (?o + limit) = ?o + limit" using assms(3-5) bounds by (intro wrap64_id) (simp_all add: max_int64_def)
      moreover have "length items - nat n \<le> nat (int (length items) - n)" "length items - nat n \<le> nat limit"
        if "0 \<le> n" "int (length items) < n + limit" for n :: int
        using that by linarith+
      note this [OF bounds(1)]
      ultimately show ?thesis
        using inside False assms(3) bounds by (simp add: pageCenters_def page_items_def p w go_slice_def Let_def)
    qed
  qed
qed

theorem pageCenters_wraps_witness:
  "pageCenters [] max_int64 20 = Panic"
  using pageCenters_wraps [of max_int64 20 "[]"] by (simp add: max_int64_def)

end
