(* ===== verification/LmsStore.thy ===== *)
theory LmsStore
  imports LmsPaging
begin

text \<open>
  The in-memory repository of the LMS module (\<open>repository_memory.go\<close>), organisation part: centers,
  classes, students and the current scope of a user. Each method of \<open>memoryStore\<close> is a function of
  the store; a method that mutates it returns the new store. \<open>time.Now()\<close> and \<open>bson.NewObjectID()\<close>
  are the arguments \<open>now\<close> and \<open>fresh\<close>.
\<close>

record memoryStore =
  m_centers :: "center list"
  m_classes :: "class_rec list"
  m_students :: "student list"
  m_subjects :: "subject list"
  m_levels :: "level list"
  m_topics :: "topic list"
  m_questions :: "question list"
  m_quizzes :: "quiz list"
  m_assignments :: "assignment list"
  m_attempts :: "attempt list"
  m_currentScopes :: "current_scope list"

definition newMemoryRepository :: memoryStore where
  "newMemoryRepository =
     \<lparr>m_centers = [], m_classes = [], m_students = [], m_subjects = [], m_levels = [], m_topics = [],
      m_questions = [], m_quizzes = [], m_assignments = [], m_attempts = [], m_currentScopes = []\<rparr>"

section \<open>Helpers\<close>

definition statusActive :: string where "statusActive = ''active''"
definition statusArchived :: string where "statusArchived = ''archived''"
definition educationUnitTypeSystem :: string where "educationUnitTypeSystem = ''system''"
definition educationUnitTypeCenter :: string where "educationUnitTypeCenter = ''center''"
definition educationUnitTypeSchool :: string where "educationUnitTypeSchool = ''school''"

definition objectID :: "goenv \<Rightarrow> string \<Rightarrow> oid lres" where
  "objectID env i = (case ge_from_hex env i of None \<Rightarrow> Fail (ErrInvalidObjectID i) | Some v \<Rightarrow> Ret v)"

definition lower :: "goenv \<Rightarrow> string \<Rightarrow> string" where
  "lower env s = to_lower (ge_lower env) s"

definition normalizeEducationUnitType :: "goenv \<Rightarrow> string \<Rightarrow> string" where
  "normalizeEducationUnitType env unitType = lower env (trim_space unitType)"

definition isEducationUnitType :: "string \<Rightarrow> bool" where
  "isEducationUnitType unitType \<longleftrightarrow> unitType = educationUnitTypeSchool \<or> unitType = educationUnitTypeCenter"

definition centerType :: "goenv \<Rightarrow> center \<Rightarrow> string" where
  "centerType env c =
     (let unitType = normalizeEducationUnitType env (c_Type c)
      in if unitType = [] then educationUnitTypeCenter else unitType)"

fun objectIDIn :: "oid \<Rightarrow> oid list \<Rightarrow> bool" where
  "objectIDIn i [] = False"
| "objectIDIn i (x # xs) = (if x = i then True else objectIDIn i xs)"

definition containsFold :: "goenv \<Rightarrow> string \<Rightarrow> string \<Rightarrow> bool" where
  "containsFold env s substr \<longleftrightarrow> contains (lower env s) (lower env substr)"

lemma objectIDIn_iff [simp]: "objectIDIn i xs \<longleftrightarrow> i \<in> set xs"
  by (induction xs) auto

lemma objectID_hex: "env_ok env \<Longrightarrow> objectID env (ge_hex env i) = Ret i"
  by (simp add: objectID_def env_ok_hex)

section \<open>Centers\<close>

record centerListReq =
  cl_Keyword :: string
  cl_Status :: string
  cl_Type :: string
  cl_Page :: int
  cl_Limit :: int

definition centerMatches :: "goenv \<Rightarrow> string \<Rightarrow> centerListReq \<Rightarrow> string \<Rightarrow> center \<Rightarrow> bool" where
  "centerMatches env tenantID req managerUserID c \<longleftrightarrow>
     c_TenantID c = tenantID
   \<and> (cl_Status req \<noteq> [] \<longrightarrow> c_Status c = cl_Status req)
   \<and> (cl_Type req \<noteq> [] \<longrightarrow> centerType env c = cl_Type req)
   \<and> (managerUserID \<noteq> [] \<longrightarrow> c_ManagerUserID c = managerUserID)
   \<and> (cl_Keyword req \<noteq> [] \<longrightarrow>
        containsFold env (c_Name c) (cl_Keyword req) \<or> containsFold env (c_Code c) (cl_Keyword req))"

definition centerNameLess :: "center \<Rightarrow> center \<Rightarrow> bool" where
  "centerNameLess a b \<longleftrightarrow> c_Name a < c_Name b"

definition listCenters ::
  "goenv \<Rightarrow> memoryStore \<Rightarrow> string \<Rightarrow> centerListReq \<Rightarrow> string \<Rightarrow> (center list \<times> int) lres" where
  "listCenters env m tenantID req managerUserID =
     pageCenters (sort_slice centerNameLess (filter (centerMatches env tenantID req managerUserID) (m_centers m)))
       (cl_Page req) (cl_Limit req)"

text \<open>The defaults a new center gets before it is stored.\<close>

definition centerDefaults :: "oid \<Rightarrow> center \<Rightarrow> center" where
  "centerDefaults fresh c =
     (let c = (if c_ID c = 0 then c\<lparr>c_ID := fresh\<rparr> else c);
          c = (if c_Type c = [] then c\<lparr>c_Type := educationUnitTypeCenter\<rparr> else c)
      in if c_Status c = [] then c\<lparr>c_Status := statusActive\<rparr> else c)"

definition createCenter :: "gotime \<Rightarrow> oid \<Rightarrow> center \<Rightarrow> memoryStore \<Rightarrow> memoryStore \<times> center" where
  "createCenter now fresh c m =
     (let c = (centerDefaults fresh c)\<lparr>c_CreatedAt := now, c_UpdatedAt := now\<rparr>
      in (m\<lparr>m_centers := m_centers m @ [c]\<rparr>, c))"

definition upsertCenterByCode :: "gotime \<Rightarrow> oid \<Rightarrow> center \<Rightarrow> memoryStore \<Rightarrow> memoryStore \<times> center" where
  "upsertCenterByCode now fresh c0 m =
     (let c = centerDefaults fresh c0;
          p = (\<lambda>x. c_TenantID x = c_TenantID c \<and> c_Code x = c_Code c);
          f = (\<lambda>x. x\<lparr>c_Type := c_Type c, c_Name := c_Name c, c_ParentID := c_ParentID c,
                 c_AvatarURL := c_AvatarURL c, c_Address := c_Address c, c_Description := c_Description c,
                 c_Phone := c_Phone c, c_Email := c_Email c, c_Website := c_Website c,
                 c_Status := c_Status c, c_ManagerUserID := c_ManagerUserID c, c_UpdatedAt := now\<rparr>)
      in case find p (m_centers m) of
           Some x \<Rightarrow> (m\<lparr>m_centers := update_first p f (m_centers m)\<rparr>, f x)
         | None \<Rightarrow>
             (let c = c\<lparr>c_CreatedAt := now, c_UpdatedAt := now\<rparr>
              in (m\<lparr>m_centers := m_centers m @ [c]\<rparr>, c)))"

definition getCenter :: "goenv \<Rightarrow> memoryStore \<Rightarrow> string \<Rightarrow> string \<Rightarrow> center option lres" where
  "getCenter env m tenantID i =
     map_out (\<lambda>v. find (\<lambda>c. c_TenantID c = tenantID \<and> c_ID c = v) (m_centers m)) (objectID env i)"

definition applyCenterUpdate :: "gotime \<Rightarrow> bsonM \<Rightarrow> center \<Rightarrow> center" where
  "applyCenterUpdate now u c =
     (let c = set_if (as_str (map_of u ''type'')) (\<lambda>v c. c\<lparr>c_Type := v\<rparr>) c;
          c = set_if (as_str (map_of u ''name'')) (\<lambda>v c. c\<lparr>c_Name := v\<rparr>) c;
          c = set_if (as_oid (map_of u ''parent_id'')) (\<lambda>v c. c\<lparr>c_ParentID := v\<rparr>) c;
          c = set_if (as_str (map_of u ''avatar_url'')) (\<lambda>v c. c\<lparr>c_AvatarURL := v\<rparr>) c;
          c = set_if (as_str (map_of u ''address'')) (\<lambda>v c. c\<lparr>c_Address := v\<rparr>) c;
          c = set_if (as_str (map_of u ''description'')) (\<lambda>v c. c\<lparr>c_Description := v\<rparr>) c;
          c = set_if (as_str (map_of u ''phone'')) (\<lambda>v c. c\<lparr>c_Phone := v\<rparr>) c;
          c = set_if (as_str (map_of u ''email'')) (\<lambda>v c. c\<lparr>c_Email := v\<rparr>) c;
          c = set_if (as_str (map_of u ''website'')) (\<lambda>v c. c\<lparr>c_Website := v\<rparr>) c;
          c = set_if (as_str (map_of u ''status'')) (\<lambda>v c. c\<lparr>c_Status := v\<rparr>) c;
          c = set_if (as_str (map_of u ''manager_user_id'')) (\<lambda>v c. c\<lparr>c_ManagerUserID := v\<rparr>) c
      in c\<lparr>c_UpdatedAt := now\<rparr>)"

definition updateCenter ::
  "goenv \<Rightarrow> gotime \<Rightarrow> string \<Rightarrow> string \<Rightarrow> bsonM \<Rightarrow> memoryStore \<Rightarrow> memoryStore \<times> center option lres" where
  "updateCenter env now tenantID i u m =
     (case objectID env i of
        Ret v \<Rightarrow>
          (let p = (\<lambda>c. c_TenantID c = tenantID \<and> c_ID c = v)
           in (m\<lparr>m_centers := update_first p (applyCenterUpdate now u) (m_centers m)\<rparr>,
               Ret (map_option (applyCenterUpdate now u) (find p (m_centers m)))))
      | Fail e \<Rightarrow> (m, Fail e)
      | Panic \<Rightarrow> (m, Panic))"

section \<open>Classes\<close>

record classListReq =
  kl_CenterID :: string
  kl_UnitID :: string
  kl_Grade :: string
  kl_Keyword :: string
  kl_Status :: string
  kl_AcademicYear :: string
  kl_Page :: int
  kl_Limit :: int

definition classMatches ::
  "goenv \<Rightarrow> string \<Rightarrow> classListReq \<Rightarrow> string \<Rightarrow> oid \<Rightarrow> oid list \<Rightarrow> string \<Rightarrow> class_rec \<Rightarrow> bool" where
  "classMatches env tenantID req centerIDValue requestedCenterID allowedCenterIDs homeroomTeacherID k \<longleftrightarrow>
     k_TenantID k = tenantID
   \<and> (if centerIDValue \<noteq> [] then k_CenterID k = requestedCenterID
      else allowedCenterIDs \<noteq> [] \<longrightarrow> objectIDIn (k_CenterID k) allowedCenterIDs)
   \<and> (homeroomTeacherID \<noteq> [] \<longrightarrow> k_HomeroomTeacherID k = homeroomTeacherID)
   \<and> (kl_Grade req \<noteq> [] \<longrightarrow> k_Grade k = kl_Grade req)
   \<and> (kl_AcademicYear req \<noteq> [] \<longrightarrow> k_AcademicYear k = kl_AcademicYear req)
   \<and> (kl_Status req \<noteq> [] \<longrightarrow> k_Status k = kl_Status req)
   \<and> (kl_Keyword req \<noteq> [] \<longrightarrow> containsFold env (k_Name k) (kl_Keyword req))"

definition classNameLess :: "class_rec \<Rightarrow> class_rec \<Rightarrow> bool" where
  "classNameLess a b \<longleftrightarrow> k_Name a < k_Name b"

definition listClasses ::
  "goenv \<Rightarrow> memoryStore \<Rightarrow> string \<Rightarrow> classListReq \<Rightarrow> oid list \<Rightarrow> string \<Rightarrow> (class_rec list \<times> int) lres" where
  "listClasses env m tenantID req allowedCenterIDs homeroomTeacherID =
     (let centerIDValue = (if kl_CenterID req = [] then kl_UnitID req else kl_CenterID req)
      in bind_out (if centerIDValue \<noteq> [] then objectID env centerIDValue else Ret 0)
           (\<lambda>requestedCenterID.
              pageClasses
                (sort_slice classNameLess
                  (filter (classMatches env tenantID req centerIDValue requestedCenterID allowedCenterIDs homeroomTeacherID)
                    (m_classes m)))
                (kl_Page req) (kl_Limit req)))"

definition createClass :: "gotime \<Rightarrow> oid \<Rightarrow> class_rec \<Rightarrow> memoryStore \<Rightarrow> memoryStore \<times> class_rec" where
  "createClass now fresh k m =
     (let k = (if k_ID k = 0 then k\<lparr>k_ID := fresh\<rparr> else k);
          k = (if k_Status k = [] then k\<lparr>k_Status := statusActive\<rparr> else k);
          k = k\<lparr>k_CreatedAt := now, k_UpdatedAt := now\<rparr>
      in (m\<lparr>m_classes := m_classes m @ [k]\<rparr>, k))"

definition getClass :: "goenv \<Rightarrow> memoryStore \<Rightarrow> string \<Rightarrow> string \<Rightarrow> class_rec option lres" where
  "getClass env m tenantID i =
     map_out (\<lambda>v. find (\<lambda>k. k_TenantID k = tenantID \<and> k_ID k = v) (m_classes m)) (objectID env i)"

definition getClassByName :: "memoryStore \<Rightarrow> string \<Rightarrow> oid \<Rightarrow> string \<Rightarrow> class_rec option" where
  "getClassByName m tenantID centerID name =
     find (\<lambda>k. k_TenantID k = tenantID \<and> k_CenterID k = centerID \<and> k_Name k = name) (m_classes m)"

definition applyClassUpdate :: "gotime \<Rightarrow> bsonM \<Rightarrow> class_rec \<Rightarrow> class_rec" where
  "applyClassUpdate now u k =
     (let k = set_if (as_str (map_of u ''name'')) (\<lambda>v k. k\<lparr>k_Name := v\<rparr>) k;
          k = set_if (as_str (map_of u ''grade'')) (\<lambda>v k. k\<lparr>k_Grade := v\<rparr>) k;
          k = set_if (as_str (map_of u ''academic_year'')) (\<lambda>v k. k\<lparr>k_AcademicYear := v\<rparr>) k;
          k = set_if (as_str (map_of u ''status'')) (\<lambda>v k. k\<lparr>k_Status := v\<rparr>) k;
          k = set_if (as_str (map_of u ''homeroom_teacher_id'')) (\<lambda>v k. k\<lparr>k_HomeroomTeacherID := v\<rparr>) k
      in k\<lparr>k_UpdatedAt := now\<rparr>)"

definition updateClass ::
  "goenv \<Rightarrow> gotime \<Rightarrow> string \<Rightarrow> string \<Rightarrow> bsonM \<Rightarrow> memoryStore \<Rightarrow> memoryStore \<times> class_rec option lres" where
  "updateClass env now tenantID i u m =
     (case objectID env i of
        Ret v \<Rightarrow>
          (let p = (\<lambda>k. k_TenantID k = tenantID \<and> k_ID k = v)
           in (m\<lparr>m_classes := update_first p (applyClassUpdate now u) (m_classes m)\<rparr>,
               Ret (map_option (applyClassUpdate now u) (find p (m_classes m)))))
      | Fail e \<Rightarrow> (m, Fail e)
      | Panic \<Rightarrow> (m, Panic))"

section \<open>Students\<close>

record studentListReq =
  sl_CenterID :: string
  sl_ClassID :: string
  sl_Keyword :: string
  sl_Status :: string
  sl_Progress :: string
  sl_SubjectID :: string
  sl_Cursor :: string
  sl_Limit :: int

definition createStudent :: "gotime \<Rightarrow> oid \<Rightarrow> student \<Rightarrow> memoryStore \<Rightarrow> memoryStore \<times> student" where
  "createStudent now fresh s m =
     (let s = (if s_ID s = 0 then s\<lparr>s_ID := fresh\<rparr> else s);
          s = (if s_Status s = [] then s\<lparr>s_Status := statusActive\<rparr> else s);
          s = s\<lparr>s_CreatedAt := now, s_UpdatedAt := now\<rparr>
      in (m\<lparr>m_students := m_students m @ [s]\<rparr>, s))"

definition usernameExists :: "memoryStore \<Rightarrow> string \<Rightarrow> string \<Rightarrow> bool" where
  "usernameExists m tenantID username \<longleftrightarrow>
     list_ex (\<lambda>s. s_TenantID s = tenantID \<and> s_Username s = username) (m_students m)"

definition getStudent :: "goenv \<Rightarrow> memoryStore \<Rightarrow> string \<Rightarrow> string \<Rightarrow> student option lres" where
  "getStudent env m tenantID i =
     map_out (\<lambda>v. find (\<lambda>s. s_TenantID s = tenantID \<and> s_ID s = v) (m_students m)) (objectID env i)"

definition studentMatches ::
  "goenv \<Rightarrow> string \<Rightarrow> studentListReq \<Rightarrow> oid \<Rightarrow> oid \<Rightarrow> oid list \<Rightarrow> oid list \<Rightarrow> student \<Rightarrow> bool" where
  "studentMatches env tenantID req requestedCenterID requestedClassID allowedCenterIDs allowedClassIDs s \<longleftrightarrow>
     s_TenantID s = tenantID
   \<and> (if sl_CenterID req \<noteq> [] then s_CenterID s = requestedCenterID
      else allowedCenterIDs \<noteq> [] \<longrightarrow> objectIDIn (s_CenterID s) allowedCenterIDs)
   \<and> (if sl_ClassID req \<noteq> [] then s_ClassID s = requestedClassID
      else allowedClassIDs \<noteq> [] \<longrightarrow> objectIDIn (s_ClassID s) allowedClassIDs)
   \<and> (sl_Status req \<noteq> [] \<longrightarrow> s_Status s = sl_Status req)
   \<and> (sl_Keyword req \<noteq> [] \<longrightarrow>
        list_ex (\<lambda>field. containsFold env field (sl_Keyword req))
          [s_StudentCode s, s_FullName s, s_Username s, s_Email s, s_Phone s, s_ParentName s, s_ParentPhone s])"

definition studentCreatedAfter :: "student \<Rightarrow> student \<Rightarrow> bool" where
  "studentCreatedAfter a b \<longleftrightarrow> s_CreatedAt b < s_CreatedAt a"

definition listStudents ::
  "goenv \<Rightarrow> memoryStore \<Rightarrow> string \<Rightarrow> studentListReq \<Rightarrow> oid list \<Rightarrow> oid list \<Rightarrow> (student list \<times> int \<times> string) lres" where
  "listStudents env m tenantID req allowedCenterIDs allowedClassIDs =
     bind_out (if sl_CenterID req \<noteq> [] then objectID env (sl_CenterID req) else Ret 0) (\<lambda>requestedCenterID.
     bind_out (if sl_ClassID req \<noteq> [] then objectID env (sl_ClassID req) else Ret 0) (\<lambda>requestedClassID.
       let items = sort_slice studentCreatedAfter
             (filter (studentMatches env tenantID req requestedCenterID requestedClassID allowedCenterIDs allowedClassIDs)
               (m_students m));
           limit = (if sl_Limit req \<le> 0 then defaultStudentBatchSize else sl_Limit req);
           limit = (if maxStudentBatchSize < limit then maxStudentBatchSize else limit)
       in cut_batch items (cursorOffset (sl_Cursor req)) limit))"

definition applyStudentUpdate :: "gotime \<Rightarrow> bsonM \<Rightarrow> student \<Rightarrow> student" where
  "applyStudentUpdate now u s =
     (let s = set_if (as_str (map_of u ''full_name'')) (\<lambda>v s. s\<lparr>s_FullName := v\<rparr>) s;
          s = set_if (as_str (map_of u ''student_code'')) (\<lambda>v s. s\<lparr>s_StudentCode := v\<rparr>) s;
          s = set_if (as_str (map_of u ''email'')) (\<lambda>v s. s\<lparr>s_Email := v\<rparr>) s;
          s = set_if (as_str (map_of u ''gender'')) (\<lambda>v s. s\<lparr>s_Gender := v\<rparr>) s;
          s = set_if (as_time (map_of u ''birthday'')) (\<lambda>v s. s\<lparr>s_Birthday := Some v\<rparr>) s;
          s = set_if (as_str (map_of u ''phone'')) (\<lambda>v s. s\<lparr>s_Phone := v\<rparr>) s;
          s = set_if (as_str (map_of u ''address'')) (\<lambda>v s. s\<lparr>s_Address := v\<rparr>) s;
          s = set_if (as_str (map_of u ''parent_name'')) (\<lambda>v s. s\<lparr>s_ParentName := v\<rparr>) s;
          s = set_if (as_str (map_of u ''parent_phone'')) (\<lambda>v s. s\<lparr>s_ParentPhone := v\<rparr>) s;
          s = set_if (as_str (map_of u ''parent_email'')) (\<lambda>v s. s\<lparr>s_ParentEmail := v\<rparr>) s;
          s = set_if (as_str (map_of u ''parent_relationship'')) (\<lambda>v s. s\<lparr>s_ParentRelationship := v\<rparr>) s;
          s = set_if (as_time (map_of u ''enrollment_date'')) (\<lambda>v s. s\<lparr>s_EnrollmentDate := Some v\<rparr>) s;
          s = set_if (as_str (map_of u ''note'')) (\<lambda>v s. s\<lparr>s_Note := v\<rparr>) s;
          s = set_if (as_str (map_of u ''status'')) (\<lambda>v s. s\<lparr>s_Status := v\<rparr>) s;
          s = set_if (as_oid (map_of u ''class_id'')) (\<lambda>v s. s\<lparr>s_ClassID := v\<rparr>) s;
          s = set_if (as_oid (map_of u ''center_id'')) (\<lambda>v s. s\<lparr>s_CenterID := v\<rparr>) s
      in s\<lparr>s_UpdatedAt := now\<rparr>)"

definition updateStudent ::
  "goenv \<Rightarrow> gotime \<Rightarrow> string \<Rightarrow> string \<Rightarrow> bsonM \<Rightarrow> memoryStore \<Rightarrow> memoryStore \<times> student option lres" where
  "updateStudent env now tenantID i u m =
     (case objectID env i of
        Ret v \<Rightarrow>
          (let p = (\<lambda>s. s_TenantID s = tenantID \<and> s_ID s = v)
           in (m\<lparr>m_students := update_first p (applyStudentUpdate now u) (m_students m)\<rparr>,
               Ret (map_option (applyStudentUpdate now u) (find p (m_students m)))))
      | Fail e \<Rightarrow> (m, Fail e)
      | Panic \<Rightarrow> (m, Panic))"

definition setStudentClass ::
  "goenv \<Rightarrow> gotime \<Rightarrow> string \<Rightarrow> string \<Rightarrow> class_rec \<Rightarrow> memoryStore \<Rightarrow> memoryStore \<times> unit lres" where
  "setStudentClass env now tenantID studentID targetClass m =
     (case objectID env studentID of
        Ret v \<Rightarrow>
          (m\<lparr>m_students := update_first (\<lambda>s. s_TenantID s = tenantID \<and> s_ID s = v)
               (\<lambda>s. s\<lparr>s_CenterID := k_CenterID targetClass, s_ClassID := k_ID targetClass, s_UpdatedAt := now\<rparr>)
               (m_students m)\<rparr>, Ret ())
      | Fail e \<Rightarrow> (m, Fail e)
      | Panic \<Rightarrow> (m, Panic))"

section \<open>Current scope\<close>

definition getCurrentScope :: "memoryStore \<Rightarrow> string \<Rightarrow> string \<Rightarrow> current_scope option" where
  "getCurrentScope m tenantID userID =
     find (\<lambda>c. cs_TenantID c = tenantID \<and> cs_UserID c = userID) (m_currentScopes m)"

definition upsertCurrentScope :: "gotime \<Rightarrow> oid \<Rightarrow> current_scope \<Rightarrow> memoryStore \<Rightarrow> memoryStore" where
  "upsertCurrentScope now fresh c m =
     (let c = c\<lparr>cs_UpdatedAt := now\<rparr>;
          p = (\<lambda>x. cs_TenantID x = cs_TenantID c \<and> cs_UserID x = cs_UserID c)
      in case find p (m_currentScopes m) of
           Some _ \<Rightarrow> m\<lparr>m_currentScopes := update_first p (\<lambda>_. c) (m_currentScopes m)\<rparr>
         | None \<Rightarrow>
             (let c = (if cs_ID c = 0 then c\<lparr>cs_ID := fresh\<rparr> else c)
              in m\<lparr>m_currentScopes := m_currentScopes m @ [c]\<rparr>))"

section \<open>Orders of the listings\<close>

interpretation center_order: slice_order centerNameLess
  unfolding centerNameLess_def by (rule slice_order_key)

interpretation class_order: slice_order classNameLess
  unfolding classNameLess_def by (rule slice_order_key)

interpretation student_order: slice_order studentCreatedAfter
  unfolding studentCreatedAfter_def by (rule slice_order_key_desc)

end
