(* ===== verification/HexCodec.thy ===== *)
theory HexCodec
  imports LmsTypes
begin

text \<open>
  The codec the MongoDB driver documents for \<open>bson.ObjectID\<close>: \<open>Hex\<close> writes 24 lower-case
  hexadecimal digits, \<open>ObjectIDFromHex\<close> takes a string of exactly 24 digits of either case. It
  instantiates the interface \<open>objectid_codec\<close>, and with it the environment that the evaluated
  examples of the development use.
\<close>

definition hex_char :: "nat \<Rightarrow> char" where
  "hex_char d = (if d < 10 then char_of (48 + d) else char_of (87 + d))"

definition hex_val :: "char \<Rightarrow> nat option" where
  "hex_val c =
     (let b = byte c in
      if 48 \<le> b \<and> b \<le> 57 then Some (b - 48)
      else if 97 \<le> b \<and> b \<le> 102 then Some (b - 87)
      else if 65 \<le> b \<and> b \<le> 70 then Some (b - 55)
      else None)"

fun hex_digits :: "nat \<Rightarrow> nat \<Rightarrow> string" where
  "hex_digits 0 x = []"
| "hex_digits (Suc n) x = hex_digits n (x div 16) @ [hex_char (x mod 16)]"

fun hex_value :: "nat \<Rightarrow> string \<Rightarrow> nat option" where
  "hex_value acc [] = Some acc"
| "hex_value acc (c # cs) = (case hex_val c of None \<Rightarrow> None | Some d \<Rightarrow> hex_value (acc * 16 + d) cs)"

definition hexOf :: "oid \<Rightarrow> string" where
  "hexOf i = hex_digits 24 (unat i)"

definition fromHex :: "string \<Rightarrow> oid option" where
  "fromHex s = (if length s \<noteq> 24 then None else map_option of_nat (hex_value 0 s))"

lemma hex_val_char: "d < 16 \<Longrightarrow> hex_val (hex_char d) = Some d"
  by (auto simp: hex_val_def hex_char_def byte_def Let_def)

lemma length_hex_digits [simp]: "length (hex_digits n x) = n"
  by (induction n x rule: hex_digits.induct) auto

lemma hex_value_append:
  "hex_value acc (s @ t) = (case hex_value acc s of None \<Rightarrow> None | Some v \<Rightarrow> hex_value v t)"
  by (induction acc s rule: hex_value.induct) (auto split: option.splits)

lemma hex_value_digits: "x < 16 ^ n \<Longrightarrow> hex_value 0 (hex_digits n x) = Some x"
proof (induction n x rule: hex_digits.induct)
  case (2 n x)
  then have "x div 16 < 16 ^ n" by (simp add: less_mult_imp_div_less)
  with 2 show ?case by (simp add: hex_value_append hex_val_char)
qed simp

lemma hex_char_digit: "d < 16 \<Longrightarrow> hex_char d \<in> set ''0123456789abcdef''"
proof -
  have "list_all (\<lambda>d. hex_char d \<in> set ''0123456789abcdef'') [0..<16]" by code_simp
  then show "d < 16 \<Longrightarrow> ?thesis" by (simp add: list_all_iff)
qed

lemma hex_digits_chars: "set (hex_digits n x) \<subseteq> set ''0123456789abcdef''"
proof (induction n x rule: hex_digits.induct)
  case (2 n x)
  moreover have "hex_char (x mod 16) \<in> set ''0123456789abcdef''" by (rule hex_char_digit) simp
  ultimately show ?case unfolding hex_digits.simps by (simp only: set_append Un_subset_iff list.set empty_subsetI insert_subset simp_thms)
qed simp

interpretation hex_codec: objectid_codec fromHex hexOf
proof
  fix i :: oid
  have "unat i < 2 ^ 96" using unsigned_less [of i] by simp
  then have "unat i < 16 ^ 24" by simp
  then show "fromHex (hexOf i) = Some i" by (simp add: fromHex_def hexOf_def hex_value_digits)
  show "length (hexOf i) = 24" by (simp add: hexOf_def)
  show "set (hexOf i) \<subseteq> set ''0123456789abcdef''" unfolding hexOf_def by (rule hex_digits_chars)
  show "length s = 24" if "fromHex s = Some i" for s
    using that by (auto simp: fromHex_def split: if_splits)
qed

text \<open>An environment with this codec; the other fields are total functions of the right type.\<close>

definition sampleEnv :: goenv where
  "sampleEnv = \<lparr>ge_from_hex = fromHex, ge_hex = hexOf, ge_lower = (\<lambda>s. s), ge_marshal = (\<lambda>_. Some 2), ge_sha256 = (\<lambda>_. ''00'')\<rparr>"

lemma sampleEnv_ok [simp]: "env_ok sampleEnv"
  by (simp add: env_ok_def sampleEnv_def hex_codec.objectid_codec_axioms)

lemma sampleEnv_hex [simp]: "ge_from_hex sampleEnv (ge_hex sampleEnv i) = Some i"
  by (simp add: env_ok_hex)

end
