(* ===== verification/GoText.thy ===== *)
theory GoText
  imports ErgPrelude
begin

text \<open>
  What the services use of Go's text packages: decoding a string, a list of bytes, into runes
  (\<open>unicode/utf8\<close> and the \<open>range\<close> loop over a string), \<open>unicode.IsControl\<close>, \<open>strings.EqualFold\<close>
  against a lower-case ASCII word, \<open>strings.ReplaceAll\<close> of one byte, \<open>strings.Fields\<close> with
  \<open>strings.Join\<close>, and \<open>time.RFC3339Nano\<close> for times in UTC, counted in nanoseconds from the zero time.
\<close>

section \<open>Runes\<close>

definition rune_error :: nat where "rune_error = 0xFFFD"

definition in_range :: "nat \<Rightarrow> nat \<Rightarrow> nat \<Rightarrow> bool" where
  "in_range lo hi n \<longleftrightarrow> lo \<le> n \<and> n \<le> hi"

abbreviation continuation :: "nat \<Rightarrow> bool" where
  "continuation \<equiv> in_range 0x80 0xBF"

text \<open>
  \<open>utf8.DecodeRune\<close>: the rune and its width in bytes. The range of the second byte depends on the
  first, which excludes overlong forms, surrogates and values above 0x10FFFF; an ill-formed sequence
  is \<open>RuneError\<close> of width 1.
\<close>

definition second_ok :: "nat \<Rightarrow> nat \<Rightarrow> bool" where
  "second_ok b0 b1 =
     (if b0 = 0xE0 then in_range 0xA0 0xBF b1
      else if b0 = 0xED then in_range 0x80 0x9F b1
      else if b0 = 0xF0 then in_range 0x90 0xBF b1
      else if b0 = 0xF4 then in_range 0x80 0x8F b1
      else continuation b1)"

definition decode_rune :: "nat list \<Rightarrow> nat \<times> nat" where
  "decode_rune bs =
     (case bs of
        [] \<Rightarrow> (rune_error, 0)
      | b0 # r0 \<Rightarrow>
          if b0 < 0x80 then (b0, 1)
          else (case r0 of
              [] \<Rightarrow> (rune_error, 1)
            | b1 # r1 \<Rightarrow>
                if in_range 0xC2 0xDF b0 then
                  (if continuation b1 then ((b0 - 0xC0) * 64 + (b1 - 0x80), 2) else (rune_error, 1))
                else if \<not> in_range 0xE0 0xF4 b0 \<or> \<not> second_ok b0 b1 then (rune_error, 1)
                else (case r1 of
                    [] \<Rightarrow> (rune_error, 1)
                  | b2 # r2 \<Rightarrow>
                      if \<not> continuation b2 then (rune_error, 1)
                      else if b0 < 0xF0 then ((b0 - 0xE0) * 4096 + (b1 - 0x80) * 64 + (b2 - 0x80), 3)
                      else (case r2 of
                          [] \<Rightarrow> (rune_error, 1)
                        | b3 # _ \<Rightarrow>
                            if \<not> continuation b3 then (rune_error, 1)
                            else ((b0 - 0xF0) * 262144 + (b1 - 0x80) * 4096 + (b2 - 0x80) * 64 + (b3 - 0x80), 4)))))"

text \<open>The runes a \<open>range\<close> loop over the string visits.\<close>

function runes_of :: "nat list \<Rightarrow> nat list" where
  "runes_of [] = []"
| "runes_of (b # bs) = fst (decode_rune (b # bs)) # runes_of (drop (snd (decode_rune (b # bs)) - 1) bs)"
  by pat_completeness auto
termination by (relation "measure length") auto

definition runes :: "string \<Rightarrow> nat list" where
  "runes s = runes_of (map byte s)"

definition RuneCountInString :: "string \<Rightarrow> int" where
  "RuneCountInString s = int (length (runes s))"

definition IsControl :: "nat \<Rightarrow> bool" where
  "IsControl r \<longleftrightarrow> r < 0x20 \<or> in_range 0x7F 0x9F r"

text \<open>
  Simple case folding of a rune against an ASCII character that is not an upper-case letter: besides
  the two cases of a letter, U+017F folds to s and U+212A to k.
\<close>

definition fold_eq :: "nat \<Rightarrow> nat \<Rightarrow> bool" where
  "fold_eq c r \<longleftrightarrow> r = c \<or> 0x61 \<le> c \<and> c \<le> 0x7A \<and> r + 32 = c \<or> c = 0x73 \<and> r = 0x17F \<or> c = 0x6B \<and> r = 0x212A"

definition EqualFold :: "string \<Rightarrow> string \<Rightarrow> bool" where
  "EqualFold s word \<longleftrightarrow> list_all2 fold_eq (map byte word) (runes s)"

definition replace_byte :: "char \<Rightarrow> char \<Rightarrow> string \<Rightarrow> string" where
  "replace_byte old new s = map (\<lambda>c. if c = old then new else c) s"

lemma runes_of_ascii: "list_all (\<lambda>b. b < 0x80) bs \<Longrightarrow> runes_of bs = bs"
  by (induction bs) (simp_all add: decode_rune_def)

text \<open>On ASCII text every byte is a rune.\<close>

lemma runes_ascii: "list_all (\<lambda>c. byte c < 0x80) s \<Longrightarrow> runes s = map byte s"
  unfolding runes_def by (rule runes_of_ascii) (simp add: list.pred_map comp_def)

lemma length_runes_of_le: "length (runes_of bs) \<le> length bs"
  by (induction bs rule: runes_of.induct) auto

lemma RuneCount_le_bytes: "RuneCountInString s \<le> int (length s)"
  using length_runes_of_le [of "map byte s"] by (simp add: RuneCountInString_def runes_def)

lemma RuneCount_pos: "s \<noteq> [] \<Longrightarrow> 0 < RuneCountInString s"
  by (cases s) (simp_all add: RuneCountInString_def runes_def)

section \<open>Printable ASCII\<close>

text \<open>
  Text without white space, control characters and bytes above 0x7E is its own trim and is lowered
  byte by byte, whatever the case tables are.
\<close>

definition printableChar :: "char \<Rightarrow> bool" where
  "printableChar c \<longleftrightarrow> 0x21 \<le> byte c \<and> byte c \<le> 0x7E"

definition printableText :: "string \<Rightarrow> bool" where
  "printableText s = list_all printableChar s"

lemma spaces_not_printable: "list_all (\<lambda>q. q \<noteq> [] \<and> \<not> printableChar (hd q) \<and> \<not> printableChar (last q)) go_spaces"
  by code_simp

lemma head_space_printable:
  assumes "printableText s" and "\<And>q. q \<in> set sps \<Longrightarrow> q \<noteq> [] \<and> \<not> printableChar (hd q)"
  shows "head_space sps s = None"
proof -
  have "take (length q) s \<noteq> q" if q: "q \<in> set sps" for q
  proof
    assume eq: "take (length q) s = q"
    have "q \<noteq> []" "\<not> printableChar (hd q)" using assms(2) q by auto
    moreover from \<open>q \<noteq> []\<close> have "hd q \<in> set q" by simp
    then have "hd q \<in> set s" using eq by (metis in_set_takeD)
    ultimately show False using assms(1) by (auto simp: printableText_def list_all_iff)
  qed
  then show ?thesis by (auto simp: head_space_def find_None_iff)
qed

lemma trim_space_printable: "printableText s \<Longrightarrow> trim_space s = s"
  unfolding trim_space_def
  using spaces_not_printable
  by (intro trim_with_id head_space_printable) (auto simp: printableText_def list_all_iff hd_rev)

lemma to_lower_printable: "printableText s \<Longrightarrow> to_lower uni s = map lower_ascii s"
  by (auto simp: to_lower_def printableText_def printableChar_def list_all_iff)

lemma head_space_ends:
  assumes "s \<noteq> []" "printableChar (hd s)" and "\<And>q. q \<in> set sps \<Longrightarrow> q \<noteq> [] \<and> \<not> printableChar (hd q)"
  shows "head_space sps s = None"
proof -
  have "take (length q) s \<noteq> q" if q: "q \<in> set sps" for q
  proof
    assume eq: "take (length q) s = q"
    have "q \<noteq> []" "\<not> printableChar (hd q)" using assms(3) q by auto
    moreover from this have "hd q = hd s" using eq by (metis hd_take length_greater_0_conv)
    ultimately show False using assms(2) by simp
  qed
  then show ?thesis by (auto simp: head_space_def find_None_iff)
qed

lemma trim_space_ends: "s \<noteq> [] \<Longrightarrow> printableChar (hd s) \<Longrightarrow> printableChar (last s) \<Longrightarrow> trim_space s = s"
  unfolding trim_space_def using spaces_not_printable
  by (intro trim_with_id head_space_ends) (auto simp: list_all_iff hd_rev)

lemma lower_ascii_idem [simp]: "lower_ascii (lower_ascii c) = lower_ascii c"
  by (simp add: lower_ascii_def byte_def)

lemma printableText_lower: "printableText s \<Longrightarrow> printableText (map lower_ascii s)"
  by (auto simp: printableText_def printableChar_def list_all_iff lower_ascii_def byte_def)

text \<open>The same on the bits of a character, for evaluation.\<close>

lemma byte_Char: "byte (Char b0 b1 b2 b3 b4 b5 b6 b7) =
   of_bool b0 + 2 * of_bool b1 + 4 * of_bool b2 + 8 * of_bool b3 + 16 * of_bool b4 + 32 * of_bool b5 + 64 * of_bool b6 + 128 * of_bool b7"
  by (simp add: byte_def)

lemma printableChar_bits [code]: "printableChar (Char b0 b1 b2 b3 b4 b5 b6 b7) \<longleftrightarrow>
    \<not> b7 \<and> (b6 \<or> b5) \<and> (b6 \<or> b4 \<or> b3 \<or> b2 \<or> b1 \<or> b0) \<and> \<not> (b0 \<and> b1 \<and> b2 \<and> b3 \<and> b4 \<and> b5 \<and> b6)"
  unfolding printableChar_def byte_Char
  by (cases b0; cases b1; cases b2; cases b3; cases b4; cases b5; cases b6; cases b7; simp)

lemma lower_ascii_bits [code]: "lower_ascii (Char b0 b1 b2 b3 b4 b5 b6 b7) =
   (if \<not> b7 \<and> b6 \<and> \<not> b5 \<and> (b0 \<or> b1 \<or> b2 \<or> b3 \<or> b4) \<and> \<not> (b4 \<and> b3 \<and> (b2 \<or> b1 \<and> b0))
    then Char b0 b1 b2 b3 b4 True b6 b7 else Char b0 b1 b2 b3 b4 b5 b6 b7)"
  unfolding lower_ascii_def byte_Char
  by (cases b0; cases b1; cases b2; cases b3; cases b4; cases b5; cases b6; cases b7; simp add: char_of_def bit_numeral_rec bit_simps)

section \<open>Times\<close>

definition month_lengths :: "bool \<Rightarrow> int list" where
  "month_lengths leap = [31, if leap then 29 else 28, 31, 30, 31, 30, 31, 31, 30, 31, 30, 31]"

fun month_day :: "int \<Rightarrow> int list \<Rightarrow> int \<Rightarrow> int \<times> int" where
  "month_day m [] d = (m, d + 1)"
| "month_day m (n # ns) d = (if d < n \<or> ns = [] then (m, d + 1) else month_day (m + 1) ns (d - n))"

text \<open>Year, month and day of the day with the given number, 0 being January 1 of year 1.\<close>

definition civil_date :: "int \<Rightarrow> int \<times> int \<times> int" where
  "civil_date days =
     (let n400 = days div 146097; d = days mod 146097;
          n100 = min 3 (d div 36524); d = d - n100 * 36524;
          n4 = d div 1461; d = d mod 1461;
          n1 = min 3 (d div 365); d = d - n1 * 365;
          year = 400 * n400 + 100 * n100 + 4 * n4 + n1 + 1;
          leap = (year mod 4 = 0 \<and> (year mod 100 \<noteq> 0 \<or> year mod 400 = 0));
          (month, day) = month_day 1 (month_lengths leap) d
      in (year, month, day))"

definition pad :: "nat \<Rightarrow> int \<Rightarrow> string" where
  "pad width n = (let s = format_int n in replicate (width - length s) CHR ''0'' @ s)"

definition drop_zeros :: "string \<Rightarrow> string" where
  "drop_zeros s = rev (dropWhile (\<lambda>c. c = CHR ''0'') (rev s))"

definition format_rfc3339nano :: "int \<Rightarrow> string" where
  "format_rfc3339nano t =
     (let secs = t div 1000000000; nanos = t mod 1000000000;
          (year, month, day) = civil_date (secs div 86400); sod = secs mod 86400;
          frac = drop_zeros (pad 9 nanos)
      in pad 4 year @ ''-'' @ pad 2 month @ ''-'' @ pad 2 day @ ''T'' @ pad 2 (sod div 3600) @ '':'' @
         pad 2 (sod mod 3600 div 60) @ '':'' @ pad 2 (sod mod 60) @ (if frac = [] then [] else ''.'' @ frac) @ ''Z'')"

lemma format_rfc3339nano_zero: "format_rfc3339nano 0 = ''0001-01-01T00:00:00Z''"
  by code_simp

lemma civil_date_leap: "civil_date 738944 = (2024, 2, 29)"
  by code_simp

end
