(* ===== verification/AccessPolicy.thy ===== *)
theory AccessPolicy
  imports LmsStore HexCodec GoText
begin

text \<open>
  The access policy (\<open>src/internal/modules/access_control/domain/policy\<close>): roles with their portals and
  permissions, permission patterns and aliases, the subject of a request as the token's claims give it,
  and the decision.

  Portals are strings, as in the code. Permission constants are written as their values. Lower-casing
  takes the environment for text that is not ASCII. The attributes of subjects, resources and scopes are
  carried by the code and read by none of these functions; they are left out.
\<close>

section \<open>Tokens\<close>

text \<open>\<open>auth.JWTClaims\<close>: \<open>jc_RegSubject\<close> is the subject of the embedded registered claims.\<close>

record jwtClaims =
  jc_UserID :: string
  jc_Subject :: string
  jc_Email :: string
  jc_TenantID :: string
  jc_Portal :: string
  jc_Portals :: "string list"
  jc_Permissions :: "string list"
  jc_DeniedPermissions :: "string list"
  jc_Roles :: "string list"
  jc_RegSubject :: string

section \<open>Roles\<close>

record roleDefinition =
  rd_Name :: string
  rd_Domain :: string
  rd_Description :: string
  rd_Portals :: "string list"
  rd_Permissions :: "string list"
  rd_IsDefault :: bool
  rd_Legacy :: bool

definition EnterpriseRoleDefinitions :: "roleDefinition list" where
  "EnterpriseRoleDefinitions =
     [\<lparr>rd_Name = ''system.super_admin'', rd_Domain = ''system'', rd_Description = ''Enterprise super administrator'',
        rd_Portals = [''*''],
        rd_Permissions = [''*''],
        rd_IsDefault = False, rd_Legacy = False\<rparr>,
      \<lparr>rd_Name = ''system.admin'', rd_Domain = ''system'', rd_Description = ''Enterprise administrator'',
        rd_Portals = [''*''],
        rd_Permissions = [''hoclieu.*'', ''lms.*'', ''elearning.*'', ''rbac.*'', ''audit.read'', ''media.*'', ''cms.*''],
        rd_IsDefault = False, rd_Legacy = False\<rparr>,
      \<lparr>rd_Name = ''erg_super_admin'', rd_Domain = ''system'', rd_Description = ''ERG platform super administrator'',
        rd_Portals = [''*''],
        rd_Permissions = [''*''],
        rd_IsDefault = False, rd_Legacy = False\<rparr>,
      \<lparr>rd_Name = ''system.rbac_admin'', rd_Domain = ''system'', rd_Description = ''RBAC administrator'',
        rd_Portals = [''cms''],
        rd_Permissions = [''rbac.*'', ''audit.read''],
        rd_IsDefault = False, rd_Legacy = False\<rparr>,
      \<lparr>rd_Name = ''system.audit_reader'', rd_Domain = ''system'', rd_Description = ''Audit log reader'',
        rd_Portals = [''cms''],
        rd_Permissions = [''audit.read''],
        rd_IsDefault = False, rd_Legacy = False\<rparr>,
      \<lparr>rd_Name = ''media.manager'', rd_Domain = ''media'', rd_Description = ''Media library administrator'',
        rd_Portals = [''cms'', ''lms'', ''elearning'', ''hoclieu''],
        rd_Permissions = [''media.*'', ''hoclieu.asset.upload'', ''hoclieu.asset.download''],
        rd_IsDefault = False, rd_Legacy = False\<rparr>,
      \<lparr>rd_Name = ''hoclieu.admin'', rd_Domain = ''hoclieu'', rd_Description = ''HocLieu administrator'',
        rd_Portals = [''hoclieu''],
        rd_Permissions = [''hoclieu.*'', ''audit.read''],
        rd_IsDefault = False, rd_Legacy = False\<rparr>,
      \<lparr>rd_Name = ''hoclieu.editor'', rd_Domain = ''hoclieu'', rd_Description = ''HocLieu editor'',
        rd_Portals = [''hoclieu''],
        rd_Permissions = [''hoclieu.content.read'', ''hoclieu.content.create'', ''hoclieu.content.update'',
          ''hoclieu.content.publish'', ''hoclieu.program.read'', ''hoclieu.resource.read'',
          ''hoclieu.resource.create'', ''hoclieu.resource.update'', ''hoclieu.resource.publish'',
          ''hoclieu.asset.upload'', ''hoclieu.asset.launch'', ''hoclieu.asset.download''],
        rd_IsDefault = False, rd_Legacy = False\<rparr>,
      \<lparr>rd_Name = ''hoclieu.viewer'', rd_Domain = ''hoclieu'', rd_Description = ''HocLieu viewer'',
        rd_Portals = [''hoclieu''],
        rd_Permissions = [''hoclieu.content.read'', ''hoclieu.program.read'', ''hoclieu.resource.read'', ''hoclieu.asset.launch'',
          ''hoclieu.asset.download''],
        rd_IsDefault = True, rd_Legacy = False\<rparr>,
      \<lparr>rd_Name = ''lms.admin'', rd_Domain = ''lms'', rd_Description = ''LMS administrator'',
        rd_Portals = [''lms''],
        rd_Permissions = [''lms.*'', ''audit.read''],
        rd_IsDefault = False, rd_Legacy = False\<rparr>,
      \<lparr>rd_Name = ''lms.teacher'', rd_Domain = ''lms'', rd_Description = ''LMS teacher'',
        rd_Portals = [''lms''],
        rd_Permissions = [''lms.scope.read'', ''lms.unit.read'', ''lms.course.read'', ''lms.class.read'', ''lms.student.read'',
          ''lms.exam.read'', ''lms.exam.manage'', ''lms.question.read'', ''lms.question.create'',
          ''lms.question.update'', ''lms.quiz.read'', ''lms.quiz.create'', ''lms.quiz.update'',
          ''lms.assignment.read'', ''lms.assignment.create'', ''lms.assignment.update'', ''lms.assignment.grade'',
          ''lms.grade.read'', ''lms.grade.update'', ''lms.report.read''],
        rd_IsDefault = False, rd_Legacy = False\<rparr>,
      \<lparr>rd_Name = ''lms.student'', rd_Domain = ''lms'', rd_Description = ''LMS student'',
        rd_Portals = [''lms''],
        rd_Permissions = [''lms.scope.read'', ''lms.course.read'', ''lms.class.read'', ''lms.assignment.read'',
          ''lms.assignment.submit'', ''lms.grade.read'', ''lms.report.read''],
        rd_IsDefault = True, rd_Legacy = False\<rparr>,
      \<lparr>rd_Name = ''elearning.admin'', rd_Domain = ''elearning'', rd_Description = ''Elearning administrator'',
        rd_Portals = [''elearning''],
        rd_Permissions = [''elearning.*'', ''audit.read''],
        rd_IsDefault = False, rd_Legacy = False\<rparr>,
      \<lparr>rd_Name = ''elearning.instructor'', rd_Domain = ''elearning'', rd_Description = ''Elearning instructor'',
        rd_Portals = [''elearning''],
        rd_Permissions = [''elearning.course.read'', ''elearning.course.create'', ''elearning.course.update'',
          ''elearning.course.publish'', ''elearning.lesson.read'', ''elearning.lesson.create'',
          ''elearning.lesson.update''],
        rd_IsDefault = False, rd_Legacy = False\<rparr>,
      \<lparr>rd_Name = ''elearning.learner'', rd_Domain = ''elearning'', rd_Description = ''Elearning learner'',
        rd_Portals = [''elearning''],
        rd_Permissions = [''elearning.profile.read_self'', ''elearning.assignment.read_self'',
          ''elearning.assignment.start_attempt'', ''elearning.assignment.save_answer'',
          ''elearning.assignment.submit'', ''elearning.score.read_self'', ''elearning.discussion.read'',
          ''elearning.discussion.create'', ''elearning.discussion.reply'', ''elearning.notification.read_self'',
          ''elearning.notification.update_self''],
        rd_IsDefault = True, rd_Legacy = False\<rparr>]"

definition LegacyRoleDefinitions :: "roleDefinition list" where
  "LegacyRoleDefinitions =
     [\<lparr>rd_Name = ''SUPER_ADMIN'', rd_Domain = ''system'', rd_Description = ''Legacy root administrator'',
        rd_Portals = [''*''],
        rd_Permissions = [''*''],
        rd_IsDefault = False, rd_Legacy = True\<rparr>,
      \<lparr>rd_Name = ''admin'', rd_Domain = ''system'', rd_Description = ''Legacy administrator'',
        rd_Portals = [''*''],
        rd_Permissions = [''*''],
        rd_IsDefault = False, rd_Legacy = True\<rparr>,
      \<lparr>rd_Name = ''erg_super_admin'', rd_Domain = ''system'', rd_Description = ''Legacy ERG root administrator'',
        rd_Portals = [''*''],
        rd_Permissions = [''*''],
        rd_IsDefault = False, rd_Legacy = True\<rparr>,
      \<lparr>rd_Name = ''content_manager'', rd_Domain = ''cms'', rd_Description = ''Legacy CMS content manager'',
        rd_Portals = [''cms''],
        rd_Permissions = [''posts.*'', ''courses.*'', ''crawler.*'', ''seo.*''],
        rd_IsDefault = False, rd_Legacy = True\<rparr>,
      \<lparr>rd_Name = ''editor'', rd_Domain = ''cms'', rd_Description = ''Legacy CMS editor'',
        rd_Portals = [''cms''],
        rd_Permissions = [''posts.read'', ''posts.create'', ''posts.update'', ''posts.delete'', ''users.read''],
        rd_IsDefault = False, rd_Legacy = True\<rparr>,
      \<lparr>rd_Name = ''viewer'', rd_Domain = ''cms'', rd_Description = ''Legacy read-only viewer'',
        rd_Portals = [''cms''],
        rd_Permissions = [''*.read''],
        rd_IsDefault = False, rd_Legacy = True\<rparr>,
      \<lparr>rd_Name = ''teacher'', rd_Domain = ''lms'', rd_Description = ''Legacy LMS teacher'',
        rd_Portals = [''lms'', ''hoclieu''],
        rd_Permissions = [''lms.scope.read'', ''lms.unit.read'', ''lms.course.read'', ''lms.class.read'', ''lms.student.read'',
          ''lms.exam.read'', ''lms.question.read'', ''lms.quiz.read'', ''lms.assignment.read'',
          ''lms.assignment.create'', ''lms.grade.read'', ''lms.report.read'', ''hoclieu.program.read'',
          ''hoclieu.resource.read'', ''hoclieu.asset.launch'', ''hoclieu.asset.download''],
        rd_IsDefault = False, rd_Legacy = True\<rparr>,
      \<lparr>rd_Name = ''student'', rd_Domain = ''elearning'', rd_Description = ''Legacy Elearning student'',
        rd_Portals = [''elearning''],
        rd_Permissions = [''elearning.profile.read_self'', ''elearning.assignment.read_self'',
          ''elearning.assignment.start_attempt'', ''elearning.assignment.save_answer'',
          ''elearning.assignment.submit'', ''elearning.score.read_self'', ''elearning.discussion.read'',
          ''elearning.discussion.create'', ''elearning.discussion.reply'', ''elearning.notification.read_self'',
          ''elearning.notification.update_self''],
        rd_IsDefault = False, rd_Legacy = True\<rparr>]"

definition AllRoleDefinitions :: "roleDefinition list" where
  "AllRoleDefinitions = EnterpriseRoleDefinitions @ LegacyRoleDefinitions"

definition SupportedPortals :: "string list" where
  "SupportedPortals = [''lms'', ''elearning'', ''hoclieu'', ''cms'']"

definition PortalAll :: string where "PortalAll = ''*''"
definition PermissionAll :: string where "PermissionAll = ''*''"

definition normalizeRole :: "goenv \<Rightarrow> string \<Rightarrow> string" where
  "normalizeRole env role = lower env (trim_space role)"

definition NormalizePortal :: "goenv \<Rightarrow> string \<Rightarrow> string" where
  "NormalizePortal env portal = lower env (trim_space portal)"

text \<open>A later definition of the same name replaces an earlier one.\<close>

definition roleDefinitionByName :: "goenv \<Rightarrow> (string \<times> roleDefinition) list" where
  "roleDefinitionByName env = fold (\<lambda>def. AList.update (normalizeRole env (rd_Name def)) def) AllRoleDefinitions []"

text \<open>The loops of \<open>uniqueStrings\<close> and \<open>uniquePortals\<close>: trimmed (and lowered) values without empty ones and repetitions.\<close>

fun uniqueLoop :: "(string \<Rightarrow> string) \<Rightarrow> string list \<Rightarrow> string list \<Rightarrow> string list" where
  "uniqueLoop nf seen [] = []"
| "uniqueLoop nf seen (value # values) =
     (let v = nf value
      in if v = [] \<or> v \<in> set seen then uniqueLoop nf seen values else v # uniqueLoop nf (v # seen) values)"

definition uniqueStrings :: "string list \<Rightarrow> string list" where
  "uniqueStrings values = sort_slice (\<lambda>a b. a < b) (uniqueLoop trim_space [] values)"

definition uniquePortals :: "goenv \<Rightarrow> string list \<Rightarrow> string list" where
  "uniquePortals env values = sort_slice (\<lambda>a b. a < b) (uniqueLoop (NormalizePortal env) [] values)"

definition PermissionsForRoles :: "goenv \<Rightarrow> string list \<Rightarrow> string list" where
  "PermissionsForRoles env roles =
     (let byName = roleDefinitionByName env
      in uniqueStrings (concat (map (\<lambda>role. case map_of byName (normalizeRole env role) of None \<Rightarrow> [] | Some def \<Rightarrow> rd_Permissions def) roles)))"

definition PortalsForRoles :: "goenv \<Rightarrow> string list \<Rightarrow> string list" where
  "PortalsForRoles env roles =
     (let byName = roleDefinitionByName env
      in uniquePortals env (concat (map (\<lambda>role. case map_of byName (normalizeRole env role) of None \<Rightarrow> [] | Some def \<Rightarrow> rd_Portals def) roles)))"

definition ValidPortal :: "goenv \<Rightarrow> string \<Rightarrow> bool" where
  "ValidPortal env portal \<longleftrightarrow> (let portal = NormalizePortal env portal in portal = PortalAll \<or> portal \<in> set SupportedPortals)"

section \<open>Permissions\<close>

definition has_suffix :: "string \<Rightarrow> string \<Rightarrow> bool" where
  "has_suffix s t \<longleftrightarrow> has_prefix (rev s) (rev t)"

definition PermissionMatches :: "goenv \<Rightarrow> string \<Rightarrow> string \<Rightarrow> bool" where
  "PermissionMatches env granted required =
     (let granted = lower env (trim_space granted); required = lower env (trim_space required)
      in if granted = [] \<or> required = [] then False
         else if granted = PermissionAll then True
         else if granted = required then True
         else if has_suffix granted ''.*'' then has_prefix required (butlast granted)
         else granted = ''*.read'' \<and> has_suffix required ''.read'')"

fun findMatchingPermission :: "goenv \<Rightarrow> string list \<Rightarrow> string \<Rightarrow> string option" where
  "findMatchingPermission env [] required = None"
| "findMatchingPermission env (permission # permissions) required =
     (if PermissionMatches env permission required then Some permission else findMatchingPermission env permissions required)"

definition PermissionListMatches :: "goenv \<Rightarrow> string list \<Rightarrow> string \<Rightarrow> bool" where
  "PermissionListMatches env permissions required \<longleftrightarrow> findMatchingPermission env permissions required \<noteq> None"

definition RoleGrantsAllPermissions :: "goenv \<Rightarrow> string list \<Rightarrow> bool" where
  "RoleGrantsAllPermissions env roles = PermissionListMatches env (PermissionsForRoles env roles) PermissionAll"

definition PermissionAliases :: "string \<Rightarrow> string list" where
  "PermissionAliases permission =
     (let p = trim_space permission in
     if p = ''rbac.role.read'' then [''roles.read'']
     else if p = ''rbac.role.create'' then [''roles.create'']
     else if p = ''rbac.role.update'' then [''roles.update'']
     else if p = ''rbac.role.delete'' then [''roles.delete'']
     else if p = ''rbac.role.assign'' then [''roles.assign'']
     else if p = ''rbac.permission.read'' then [''roles.read'']
     else if p = ''rbac.override.manage'' then [''roles.assign'']
     else if p = ''audit.read'' then [''system.logs'']
     else if p = ''roles.read'' then [''rbac.role.read'', ''rbac.permission.read'']
     else if p = ''roles.create'' then [''rbac.role.create'']
     else if p = ''roles.update'' then [''rbac.role.update'']
     else if p = ''roles.delete'' then [''rbac.role.delete'']
     else if p = ''roles.assign'' then [''rbac.role.assign'', ''rbac.override.manage'']
     else if p = ''system.logs'' then [''audit.read'']
     else [])"

definition permissionEquivalents :: "string \<Rightarrow> string list" where
  "permissionEquivalents required = uniqueStrings (required # PermissionAliases required)"

section \<open>Subjects and decisions\<close>

record policySubject =
  ps_ID :: string
  ps_TenantID :: string
  ps_Roles :: "string list"
  ps_Permissions :: "string list"
  ps_DeniedPermissions :: "string list"
  ps_Portals :: "string list"

record policyResource =
  pr_Namespace :: string
  pr_Type :: string
  pr_ID :: string
  pr_OwnerID :: string
  pr_TenantID :: string
  pr_Permission :: string

record policyScope =
  pc_Portal :: string
  pc_TenantID :: string

record policyRequest =
  pq_Subject :: policySubject
  pq_Action :: string
  pq_Resource :: policyResource
  pq_Scope :: policyScope

record decision =
  de_Allowed :: bool
  de_Reason :: string
  de_RequiredPermission :: string
  de_MatchedPermission :: string

definition normalizePortals :: "goenv \<Rightarrow> string list \<Rightarrow> string list" where
  "normalizePortals env values = uniquePortals env (filter (\<lambda>p. p \<noteq> []) (map (NormalizePortal env) values))"

definition SubjectFromClaims :: "goenv \<Rightarrow> jwtClaims option \<Rightarrow> policySubject" where
  "SubjectFromClaims env claims =
     (case claims of
        None \<Rightarrow> \<lparr>ps_ID = [], ps_TenantID = [], ps_Roles = [], ps_Permissions = [], ps_DeniedPermissions = [], ps_Portals = []\<rparr>
      | Some c \<Rightarrow>
          let subjectID = jc_UserID c;
              subjectID = (if subjectID = [] then jc_Subject c else subjectID);
              subjectID = (if subjectID = [] then jc_RegSubject c else subjectID);
              portals = jc_Portals c @ (if jc_Portal c \<noteq> [] then [jc_Portal c] else []) @ PortalsForRoles env (jc_Roles c)
          in \<lparr>ps_ID = subjectID, ps_TenantID = jc_TenantID c, ps_Roles = uniqueStrings (jc_Roles c),
              ps_Permissions = uniqueStrings (jc_Permissions c), ps_DeniedPermissions = uniqueStrings (jc_DeniedPermissions c),
              ps_Portals = normalizePortals env portals\<rparr>)"

definition SubjectHasPortal :: "goenv \<Rightarrow> policySubject \<Rightarrow> string \<Rightarrow> bool" where
  "SubjectHasPortal env s portal =
     (let required = NormalizePortal env portal
      in if required = [] then True
         else list_ex (\<lambda>allowed. NormalizePortal env allowed = PortalAll \<or> NormalizePortal env allowed = required)
                (ps_Portals s @ PortalsForRoles env (ps_Roles s)))"

text \<open>\<open>strings.Trim(s, ". ")\<close>\<close>

definition trim_dots :: "string \<Rightarrow> string" where
  "trim_dots s = (let drop = dropWhile (\<lambda>c. c = CHR ''.'' \<or> c = CHR '' '') in rev (drop (rev (drop s))))"

definition RequiredPermission :: "goenv \<Rightarrow> string \<Rightarrow> policyResource \<Rightarrow> string" where
  "RequiredPermission env action resource =
     (if pr_Permission resource \<noteq> [] then trim_space (pr_Permission resource)
      else
        let action = trim_dots (lower env action)
        in if action = [] then []
           else if pr_Namespace resource = [] \<and> pr_Type resource = [] then action
           else
             let namespace = trim_dots (lower env (pr_Namespace resource)); resourceType = trim_dots (lower env (pr_Type resource));
                 parts = (if namespace \<noteq> [] then [namespace] else []) @ (if resourceType \<noteq> [] then [resourceType] else []) @ [action]
             in concat (map (\<lambda>p. p @ ''.'') (butlast parts)) @ last parts)"

text \<open>The first of the candidates that a list of permissions matches, with the permission that matches it.\<close>

fun firstMatch :: "goenv \<Rightarrow> string list \<Rightarrow> string list \<Rightarrow> string option" where
  "firstMatch env permissions [] = None"
| "firstMatch env permissions (candidate # candidates) =
     (case findMatchingPermission env permissions candidate of Some p \<Rightarrow> Some p | None \<Rightarrow> firstMatch env permissions candidates)"

definition deniedDecision :: "string \<Rightarrow> string \<Rightarrow> string \<Rightarrow> decision" where
  "deniedDecision required matched reason =
     \<lparr>de_Allowed = False, de_Reason = reason, de_RequiredPermission = required, de_MatchedPermission = matched\<rparr>"

definition Decide :: "goenv \<Rightarrow> policyRequest \<Rightarrow> decision" where
  "Decide env req =
     (let s = pq_Subject req; r = pq_Resource req; sc = pq_Scope req; required = RequiredPermission env (pq_Action req) r
      in if required = [] then deniedDecision [] [] ''permission required''
         else if pc_Portal sc \<noteq> [] \<and> \<not> SubjectHasPortal env s (pc_Portal sc) then deniedDecision required [] ''portal denied''
         else if pc_TenantID sc \<noteq> [] \<and> ps_TenantID s \<noteq> [] \<and> ps_TenantID s \<noteq> pc_TenantID sc then deniedDecision required [] ''tenant denied''
         else if pr_TenantID r \<noteq> [] \<and> ps_TenantID s \<noteq> [] \<and> ps_TenantID s \<noteq> pr_TenantID r then deniedDecision required [] ''resource tenant denied''
         else
           let equivalents = permissionEquivalents required
           in case firstMatch env (ps_DeniedPermissions s) equivalents of
                Some matched \<Rightarrow> deniedDecision required matched ''deny override''
              | None \<Rightarrow>
                  (case firstMatch env (ps_Permissions s @ PermissionsForRoles env (ps_Roles s)) equivalents of
                     Some matched \<Rightarrow> \<lparr>de_Allowed = True, de_Reason = ''allowed'', de_RequiredPermission = required, de_MatchedPermission = matched\<rparr>
                   | None \<Rightarrow> deniedDecision required [] ''permission denied''))"

section \<open>What a decision means\<close>

lemma findMatchingPermission_None: "findMatchingPermission env ps r = None \<longleftrightarrow> list_all (\<lambda>p. \<not> PermissionMatches env p r) ps"
  by (induction ps) auto

lemma findMatchingPermission_Some: "findMatchingPermission env ps r = Some p \<Longrightarrow> p \<in> set ps \<and> PermissionMatches env p r"
  by (induction ps) (auto split: if_splits)

lemma firstMatch_None: "firstMatch env ps cs = None \<longleftrightarrow> \<not> list_ex (\<lambda>c. list_ex (\<lambda>p. PermissionMatches env p c) ps) cs"
  by (induction cs) (auto simp: findMatchingPermission_None list_all_iff list_ex_iff split: option.splits
      dest: findMatchingPermission_Some)

lemma firstMatch_Some: "firstMatch env ps cs = Some p \<Longrightarrow> p \<in> set ps \<and> list_ex (PermissionMatches env p) cs"
  by (induction cs) (auto dest: findMatchingPermission_Some split: option.splits)

text \<open>The conditions the subject must meet whatever the permissions are.\<close>

definition scopeAdmits :: "goenv \<Rightarrow> policyRequest \<Rightarrow> bool" where
  "scopeAdmits env req \<longleftrightarrow>
     (pc_Portal (pq_Scope req) = [] \<or> SubjectHasPortal env (pq_Subject req) (pc_Portal (pq_Scope req)))
   \<and> (ps_TenantID (pq_Subject req) = [] \<or> pc_TenantID (pq_Scope req) \<in> {[], ps_TenantID (pq_Subject req)})
   \<and> (ps_TenantID (pq_Subject req) = [] \<or> pr_TenantID (pq_Resource req) \<in> {[], ps_TenantID (pq_Subject req)})"

definition anyMatch :: "goenv \<Rightarrow> string list \<Rightarrow> string \<Rightarrow> bool" where
  "anyMatch env permissions required =
     list_ex (\<lambda>c. list_ex (\<lambda>p. PermissionMatches env p c) permissions) (permissionEquivalents required)"

lemma anyMatch_firstMatch: "anyMatch env permissions required \<longleftrightarrow> firstMatch env permissions (permissionEquivalents required) \<noteq> None"
  by (simp add: anyMatch_def firstMatch_None)

lemma Decide_allowed_iff:
  "de_Allowed (Decide env req) \<longleftrightarrow>
     RequiredPermission env (pq_Action req) (pq_Resource req) \<noteq> [] \<and> scopeAdmits env req
   \<and> \<not> anyMatch env (ps_DeniedPermissions (pq_Subject req)) (RequiredPermission env (pq_Action req) (pq_Resource req))
   \<and> anyMatch env (ps_Permissions (pq_Subject req) @ PermissionsForRoles env (ps_Roles (pq_Subject req)))
       (RequiredPermission env (pq_Action req) (pq_Resource req))"
  unfolding anyMatch_firstMatch scopeAdmits_def Decide_def Let_def deniedDecision_def
  by (auto split: option.splits)

lemma anyMatch_mono: "set ps \<subseteq> set qs \<Longrightarrow> anyMatch env ps r \<Longrightarrow> anyMatch env qs r"
  unfolding anyMatch_def list_ex_iff by blast

text \<open>
  C23. The decision is the one the policy states: access is allowed exactly when a permission is required,
  the subject is admitted to the portal and is not bound to another tenant than those of the scope and
  of the resource, no denied permission of the subject matches the required permission or one of its
  aliases, and a permission of the subject or of one of its roles does. A denied permission therefore
  wins over every grant, wildcards included.
\<close>

theorem decide_iff:
  "de_Allowed (Decide env req) \<longleftrightarrow>
     (let required = RequiredPermission env (pq_Action req) (pq_Resource req); s = pq_Subject req
      in required \<noteq> [] \<and> scopeAdmits env req
       \<and> \<not> list_ex (\<lambda>c. list_ex (\<lambda>p. PermissionMatches env p c) (ps_DeniedPermissions s)) (permissionEquivalents required)
       \<and> list_ex (\<lambda>c. list_ex (\<lambda>p. PermissionMatches env p c) (ps_Permissions s @ PermissionsForRoles env (ps_Roles s)))
           (permissionEquivalents required))"
  using Decide_allowed_iff [of env req] unfolding anyMatch_def Let_def .

text \<open>
  Grants only add and denials only remove: what a subject may do, a subject of the same tenant,
  portals and roles with more permissions and fewer denied permissions may do as well.
\<close>

lemma decide_monotone:
  assumes "de_Allowed (Decide env req)" and "set (ps_Permissions (pq_Subject req)) \<subseteq> set grants"
    and "set denials \<subseteq> set (ps_DeniedPermissions (pq_Subject req))"
  shows "de_Allowed (Decide env (req\<lparr>pq_Subject := (pq_Subject req)\<lparr>ps_Permissions := grants, ps_DeniedPermissions := denials\<rparr>\<rparr>))"
proof -
  let ?r = "RequiredPermission env (pq_Action req) (pq_Resource req)" and ?s = "pq_Subject req"
  have a: "?r \<noteq> []" "scopeAdmits env req" "\<not> anyMatch env (ps_DeniedPermissions ?s) ?r"
    "anyMatch env (ps_Permissions ?s @ PermissionsForRoles env (ps_Roles ?s)) ?r"
    using assms(1) by (simp_all add: Decide_allowed_iff)
  have "\<not> anyMatch env denials ?r" using a(3) anyMatch_mono [OF assms(3)] by blast
  moreover have "anyMatch env (grants @ PermissionsForRoles env (ps_Roles ?s)) ?r"
    using anyMatch_mono [OF _ a(4)] assms(2) by (metis Un_mono order_refl set_append)
  moreover have "scopeAdmits env (req\<lparr>pq_Subject := ?s\<lparr>ps_Permissions := grants, ps_DeniedPermissions := denials\<rparr>\<rparr>)"
    using a(2) by (auto simp: scopeAdmits_def SubjectHasPortal_def Let_def split: if_splits)
  ultimately show ?thesis using a(1) by (simp add: Decide_allowed_iff)
qed

section \<open>Evaluating the policy\<close>

text \<open>
  The names in the tables are printable ASCII, so a lookup compares lower-case names and does not
  depend on the case tables.
\<close>

lemma lower_printable: "printableText s \<Longrightarrow> lower env s = map lower_ascii s"
  by (simp add: lower_def to_lower_printable)

lemma normalizeRole_printable: "printableText s \<Longrightarrow> normalizeRole env s = map lower_ascii s"
  by (simp add: normalizeRole_def trim_space_printable lower_printable)

lemma NormalizePortal_printable: "printableText s \<Longrightarrow> NormalizePortal env s = map lower_ascii s"
  by (simp add: NormalizePortal_def trim_space_printable lower_printable)

lemma role_names_printable: "list_all (\<lambda>d. printableText (rd_Name d)) AllRoleDefinitions"
  by code_simp

lemma map_of_fold_named:
  "map_of (fold (\<lambda>d. AList.update (k d) d) xs m) r = (case find (\<lambda>d. k d = r) (rev xs) of Some d \<Rightarrow> Some d | None \<Rightarrow> map_of m r)"
  by (induction xs arbitrary: m) (simp_all add: find_append update_conv' split: option.splits)

lemma role_lookup:
  "map_of (roleDefinitionByName env) r = find (\<lambda>d. map lower_ascii (rd_Name d) = r) (rev AllRoleDefinitions)"
proof -
  have "find (\<lambda>d. normalizeRole env (rd_Name d) = r) (rev AllRoleDefinitions)
      = find (\<lambda>d. map lower_ascii (rd_Name d) = r) (rev AllRoleDefinitions)"
    using role_names_printable by (intro find_cong) (auto simp: list_all_iff normalizeRole_printable)
  then show ?thesis by (simp add: roleDefinitionByName_def map_of_fold_named split: option.splits)
qed

definition matchesPrintable :: "string \<Rightarrow> string \<Rightarrow> bool" where
  "matchesPrintable granted required =
     (let granted = map lower_ascii granted; required = map lower_ascii required
      in if granted = [] \<or> required = [] then False
         else if granted = PermissionAll then True
         else if granted = required then True
         else if has_suffix granted ''.*'' then has_prefix required (butlast granted)
         else granted = ''*.read'' \<and> has_suffix required ''.read'')"

lemma PermissionMatches_printable:
  "printableText g \<Longrightarrow> printableText r \<Longrightarrow> PermissionMatches env g r = matchesPrintable g r"
  by (simp add: PermissionMatches_def matchesPrintable_def trim_space_printable lower_printable)

lemma set_uniqueLoop: "set (uniqueLoop nf seen vs) = nf ` set vs - {[]} - set seen"
  by (induction nf seen vs rule: uniqueLoop.induct) (auto simp: Let_def)

lemma set_uniqueStrings: "set (uniqueStrings vs) = trim_space ` set vs - {[]}"
  by (simp add: uniqueStrings_def set_uniqueLoop)

lemma set_uniquePortals: "set (uniquePortals env vs) = NormalizePortal env ` set vs - {[]}"
  by (simp add: uniquePortals_def set_uniqueLoop)

lemma image_fixed: "(\<And>x. x \<in> S \<Longrightarrow> f x = x) \<Longrightarrow> f ` S = S"
  by force

lemma set_uniqueStrings_printable:
  assumes "list_all printableText vs" shows "set (uniqueStrings vs) = set vs - {[]}"
proof -
  have "trim_space ` set vs = set vs"
    using assms by (intro image_fixed) (simp add: list_all_iff trim_space_printable)
  then show ?thesis by (simp add: set_uniqueStrings)
qed

text \<open>What a role grants, as the tables say it.\<close>

definition roleOf :: "string \<Rightarrow> roleDefinition option" where
  "roleOf role = find (\<lambda>d. map lower_ascii (rd_Name d) = map lower_ascii role) (rev AllRoleDefinitions)"

definition roleGrants :: "string \<Rightarrow> string list" where
  "roleGrants role = (case roleOf role of None \<Rightarrow> [] | Some d \<Rightarrow> rd_Permissions d)"

definition rolePortals :: "string \<Rightarrow> string list" where
  "rolePortals role = (case roleOf role of None \<Rightarrow> [] | Some d \<Rightarrow> rd_Portals d)"

lemma tables_printable:
  "list_all (\<lambda>d. list_all (\<lambda>p. p \<noteq> [] \<and> printableText p) (rd_Permissions d)
     \<and> list_all (\<lambda>p. p \<noteq> [] \<and> printableText p \<and> map lower_ascii p = p) (rd_Portals d)) AllRoleDefinitions"
  by code_simp

lemma roleOf_printable:
  "roleOf role = Some d \<Longrightarrow> list_all (\<lambda>p. p \<noteq> [] \<and> printableText p) (rd_Permissions d)
     \<and> list_all (\<lambda>p. p \<noteq> [] \<and> printableText p \<and> map lower_ascii p = p) (rd_Portals d)"
  using tables_printable find_Some_iff2 [of _ "rev AllRoleDefinitions" d] by (auto simp: roleOf_def list_all_iff)

lemma role_lookup_printable:
  "printableText role \<Longrightarrow> map_of (roleDefinitionByName env) (normalizeRole env role) = roleOf role"
  by (simp add: role_lookup roleOf_def normalizeRole_printable)

lemma roleGrants_printable: "p \<in> set (roleGrants role) \<Longrightarrow> p \<noteq> [] \<and> printableText p"
  by (cases "roleOf role") (auto simp: roleGrants_def list_all_iff dest!: roleOf_printable)

lemma rolePortals_printable: "p \<in> set (rolePortals role) \<Longrightarrow> p \<noteq> [] \<and> printableText p \<and> map lower_ascii p = p"
  by (cases "roleOf role") (auto simp: rolePortals_def list_all_iff dest!: roleOf_printable)

lemma set_PermissionsForRoles:
  assumes "list_all printableText roles"
  shows "set (PermissionsForRoles env roles) = (\<Union>r \<in> set roles. set (roleGrants r))"
proof -
  let ?g = "\<lambda>role. case map_of (roleDefinitionByName env) (normalizeRole env role) of None \<Rightarrow> [] | Some def \<Rightarrow> rd_Permissions def"
  have eq: "map ?g roles = map roleGrants roles"
    using assms by (auto simp: list_all_iff role_lookup_printable roleGrants_def)
  have all: "list_all printableText (concat (map roleGrants roles))"
    using roleGrants_printable by (auto simp: list_all_iff)
  have "set (PermissionsForRoles env roles) = set (concat (map roleGrants roles)) - {[]}"
    unfolding PermissionsForRoles_def Let_def eq by (rule set_uniqueStrings_printable [OF all])
  then show ?thesis using roleGrants_printable by auto
qed

lemma set_PortalsForRoles:
  assumes "list_all printableText roles"
  shows "set (PortalsForRoles env roles) = (\<Union>r \<in> set roles. set (rolePortals r))"
proof -
  let ?g = "\<lambda>role. case map_of (roleDefinitionByName env) (normalizeRole env role) of None \<Rightarrow> [] | Some def \<Rightarrow> rd_Portals def"
  have eq: "map ?g roles = map rolePortals roles"
    using assms by (auto simp: list_all_iff role_lookup_printable rolePortals_def)
  have "NormalizePortal env p = p" if "p \<in> set (rolePortals r)" for p r
    using rolePortals_printable [OF that] by (simp add: NormalizePortal_printable)
  then have id: "NormalizePortal env p = p" if "p \<in> set (concat (map rolePortals roles))" for p
    using that by auto
  have "set (PortalsForRoles env roles) = NormalizePortal env ` set (concat (map rolePortals roles)) - {[]}"
    by (simp add: PortalsForRoles_def eq set_uniquePortals)
  also have "NormalizePortal env ` set (concat (map rolePortals roles)) = set (concat (map rolePortals roles))"
    by (rule image_fixed) (rule id)
  finally show ?thesis using rolePortals_printable by auto
qed

lemma permissionEquivalents_plain:
  assumes "printableText r" "r \<noteq> []" "PermissionAliases r = []"
  shows "set (permissionEquivalents r) = {r}"
  using assms by (auto simp: permissionEquivalents_def set_uniqueStrings trim_space_printable)

lemma anyMatch_plain:
  assumes "printableText r" "r \<noteq> []" "PermissionAliases r = []" "\<And>p. p \<in> set ps \<Longrightarrow> printableText p"
  shows "anyMatch env ps r \<longleftrightarrow> (\<exists>p \<in> set ps. matchesPrintable p r)"
  using assms(4) unfolding anyMatch_def list_ex_iff permissionEquivalents_plain [OF assms(1-3)]
  by (auto simp: PermissionMatches_printable assms(1))

end
