(* ===== verification/K6Flow.thy ===== *)
theory K6Flow
  imports LmsTypes
begin

text \<open>
  The load client of the LMS exam path (\<open>src/load/k6/lms_exam_flow.js\<close>), function by function.

  A run has an environment: the variables \<open>__ENV\<close>, the files \<open>open\<close> reads, the clock behind
  \<open>new Date().toISOString()\<close>, and \<open>Number::toString\<close> for numbers that are not integers. The system
  under test is a function from its state and a request to its new state and a response. What the
  script emits, requests, metric samples and sleeps, is an event log, in order. A JavaScript
  exception ends the iteration; it is the \<open>Fail\<close> of a result, and the log up to it stays.

  JavaScript values are JSON values, with \<open>None\<close> for \<open>undefined\<close>. Requests of an \<open>http.batch\<close>
  are served in the order of the array.
\<close>

section \<open>JavaScript\<close>

datatype js_error = JsTypeError | JsRangeError | JsInvalidJSON | JsFileError

text \<open>Numbers: NaN, the two infinities (\<open>True\<close> for the negative one), and the finite ones.\<close>

datatype jsnum = NumNaN | NumInf bool | NumFin float64

fun truthy :: "jval \<Rightarrow> bool" where
  "truthy JNull = False"
| "truthy (JBool b) = b"
| "truthy (JNum x) = (x \<noteq> 0)"
| "truthy (JStr s) = (s \<noteq> [])"
| "truthy (JArr _) = True"
| "truthy (JObj _) = True"

text \<open>\<open>a || b || \<dots> || d\<close>\<close>

fun js_or :: "jval option list \<Rightarrow> jval \<Rightarrow> jval" where
  "js_or [] d = d"
| "js_or (x # xs) d = (case x of Some v \<Rightarrow> if truthy v then v else js_or xs d | None \<Rightarrow> js_or xs d)"

text \<open>\<open>v?.name\<close> for the names the script uses, which no built-in prototype has.\<close>

fun jsprop :: "jval option \<Rightarrow> string \<Rightarrow> jval option" where
  "jsprop (Some (JObj kvs)) name = map_of kvs name"
| "jsprop _ name = None"

text \<open>\<open>String(v)\<close>; \<open>numstr\<close> is \<open>Number::toString\<close> on numbers that are not integers below \<open>10\<^sup>2\<^sup>1\<close>.\<close>

fun js_string :: "(float64 \<Rightarrow> string) \<Rightarrow> jval \<Rightarrow> string" where
  "js_string numstr JNull = ''null''"
| "js_string numstr (JBool b) = (if b then ''true'' else ''false'')"
| "js_string numstr (JNum x) =
     (if of_int \<lfloor>x\<rfloor> = x \<and> \<bar>x\<bar> < 10 ^ 21 then format_int \<lfloor>x\<rfloor> else numstr x)"
| "js_string numstr (JStr s) = s"
| "js_string numstr (JArr xs) =
     concat (case map (\<lambda>x. if x = JNull then [] else js_string numstr x) xs of
        [] \<Rightarrow> [] | y # ys \<Rightarrow> y # map (\<lambda>z. '','' @ z) ys)"
| "js_string numstr (JObj _) = ''[object Object]''"

subsection \<open>Number\<close>

definition digits_value :: "string \<Rightarrow> nat" where
  "digits_value ds = foldl (\<lambda>acc c. acc * 10 + digit_val c) 0 ds"

definition js_round :: "rat \<Rightarrow> jsnum" where
  "js_round q = (if 2 ^ 1024 - 2 ^ 970 \<le> q then NumInf False else NumFin (rnd64 q))"

text \<open>An exponent part, or nothing.\<close>

definition parse_exponent :: "string \<Rightarrow> int option" where
  "parse_exponent s =
     (case s of
        [] \<Rightarrow> Some 0
      | c # r \<Rightarrow>
          if c = CHR ''e'' \<or> c = CHR ''E'' then
            let neg = (r \<noteq> [] \<and> hd r = CHR ''-'');
                ds = (if r \<noteq> [] \<and> (hd r = CHR ''-'' \<or> hd r = CHR ''+'') then tl r else r)
            in if ds \<noteq> [] \<and> list_all is_digit ds
               then Some (if neg then - int (digits_value ds) else int (digits_value ds)) else None
          else None)"

definition parse_unsigned_decimal :: "string \<Rightarrow> jsnum" where
  "parse_unsigned_decimal s =
     (if s = ''Infinity'' then NumInf False
      else
        let a = takeWhile is_digit s; r = dropWhile is_digit s;
            dot = (r \<noteq> [] \<and> hd r = CHR ''.'');
            b = (if dot then takeWhile is_digit (tl r) else []);
            r2 = (if dot then dropWhile is_digit (tl r) else r)
        in if a = [] \<and> b = [] then NumNaN
           else case parse_exponent r2 of
                  None \<Rightarrow> NumNaN
                | Some e \<Rightarrow> js_round (of_nat (digits_value (a @ b)) * 10 powi (e - int (length b))))"

definition radix_digit :: "nat \<Rightarrow> char \<Rightarrow> nat option" where
  "radix_digit base c =
     (let k = byte c;
          d = (if 48 \<le> k \<and> k \<le> 57 then k - 48 else if 97 \<le> k \<and> k \<le> 122 then k - 87
               else if 65 \<le> k \<and> k \<le> 90 then k - 55 else 99)
      in if d < base then Some d else None)"

fun radix_value :: "nat \<Rightarrow> nat \<Rightarrow> string \<Rightarrow> nat option" where
  "radix_value base acc [] = Some acc"
| "radix_value base acc (c # cs) =
     (case radix_digit base c of None \<Rightarrow> None | Some d \<Rightarrow> radix_value base (acc * base + d) cs)"

fun negate_num :: "jsnum \<Rightarrow> jsnum" where
  "negate_num NumNaN = NumNaN"
| "negate_num (NumInf n) = NumInf (\<not> n)"
| "negate_num (NumFin q) = NumFin (- q)"

definition js_number :: "string \<Rightarrow> jsnum" where
  "js_number s =
     (let t = js_trim s;
          radix = (\<lambda>base. if length t \<le> 2 then NumNaN
             else case radix_value base 0 (drop 2 t) of None \<Rightarrow> NumNaN | Some n \<Rightarrow> js_round (of_nat n))
      in if t = [] then NumFin 0
         else if has_prefix t ''0x'' \<or> has_prefix t ''0X'' then radix 16
         else if has_prefix t ''0o'' \<or> has_prefix t ''0O'' then radix 8
         else if has_prefix t ''0b'' \<or> has_prefix t ''0B'' then radix 2
         else if hd t = CHR ''-'' then negate_num (parse_unsigned_decimal (tl t))
         else if hd t = CHR ''+'' then parse_unsigned_decimal (tl t)
         else parse_unsigned_decimal t)"

text \<open>\<open>ToIntegerOrInfinity\<close> with infinities cut off at \<open>bound\<close>.\<close>

definition trunc_num :: "int \<Rightarrow> jsnum \<Rightarrow> int" where
  "trunc_num bound n =
     (case n of
        NumNaN \<Rightarrow> 0
      | NumInf neg \<Rightarrow> if neg then - bound else bound
      | NumFin q \<Rightarrow> if 0 \<le> q then \<lfloor>q\<rfloor> else \<lceil>q\<rceil>)"

text \<open>\<open>xs.slice(0, n)\<close>\<close>

definition js_slice0 :: "'a list \<Rightarrow> jsnum \<Rightarrow> 'a list" where
  "js_slice0 xs n =
     (let len = int (length xs); e = trunc_num len n
      in take (nat (if e < 0 then max (len + e) 0 else min e len)) xs)"

text \<open>\<open>Array.from({length: n}, (_, i) => f(i))\<close>\<close>

definition js_array_from :: "jsnum \<Rightarrow> (nat \<Rightarrow> 'a) \<Rightarrow> (js_error, 'a list) outcome" where
  "js_array_from n f =
     (let len = min (max (trunc_num (2 ^ 53 - 1) n) 0) (2 ^ 53 - 1)
      in if 2 ^ 32 - 1 < len then Fail JsRangeError else Ret (map f [0..<nat len]))"

subsection \<open>Strings\<close>

text \<open>\<open>s.split(c)\<close> for a one-character separator.\<close>

fun split_char :: "char \<Rightarrow> string \<Rightarrow> string list" where
  "split_char c [] = [[]]"
| "split_char c (x # xs) =
     (if x = c then [] # split_char c xs
      else case split_char c xs of [] \<Rightarrow> [[x]] | y # ys \<Rightarrow> (x # y) # ys)"

text \<open>\<open>s.split(/\r?\n/)\<close>\<close>

fun split_lines :: "string \<Rightarrow> string list" where
  "split_lines [] = [[]]"
| "split_lines [x] = (if x = CHR 0x0A then [[], []] else [[x]])"
| "split_lines (x # y # xs) =
     (if x = CHR 0x0D \<and> y = CHR 0x0A then [] # split_lines xs
      else if x = CHR 0x0A then [] # split_lines (y # xs)
      else case split_lines (y # xs) of [] \<Rightarrow> [[x]] | l # ls \<Rightarrow> (x # l) # ls)"

section \<open>Configuration\<close>

record k6env =
  ke_ENV :: "string \<Rightarrow> string option"
  ke_open :: "string \<Rightarrow> string option"
  ke_iso :: "nat \<Rightarrow> string"
  ke_numstr :: "float64 \<Rightarrow> string"

text \<open>\<open>__ENV.name || d\<close> for a string \<open>d\<close>\<close>

definition env_or :: "k6env \<Rightarrow> string \<Rightarrow> string \<Rightarrow> string" where
  "env_or ke name d = (case ke_ENV ke name of None \<Rightarrow> d | Some v \<Rightarrow> if v = [] then d else v)"

text \<open>\<open>Number(__ENV.name || d)\<close> for a number \<open>d\<close>\<close>

definition env_num :: "k6env \<Rightarrow> string \<Rightarrow> float64 \<Rightarrow> jsnum" where
  "env_num ke name d = (let v = env_or ke name [] in if v = [] then NumFin d else js_number v)"

record credential =
  cr_email :: string
  cr_password :: string

record k6cfg =
  kc_baseURL :: string
  kc_tenantID :: string
  kc_staticStudentToken :: string
  kc_staticTeacherToken :: string
  kc_quizID :: string
  kc_assignmentID :: string
  kc_classID :: string
  kc_packageID :: string
  kc_packageHashFallback :: string
  kc_questionsPerAttempt :: jsnum
  kc_thinkTimeSeconds :: jsnum
  kc_loginPath :: string
  kc_teacherOverviewVUs :: jsnum
  kc_credentials :: "credential list"

text \<open>\<open>s.replace(/\/$/, "")\<close>\<close>

definition strip_slash :: "string \<Rightarrow> string" where
  "strip_slash s = (if s \<noteq> [] \<and> last s = CHR ''/'' then butlast s else s)"

text \<open>One line of the credentials file: the first two comma-separated fields, if both are there and not empty.\<close>

definition parse_credential :: "string \<Rightarrow> credential option" where
  "parse_credential line =
     (case map js_trim (split_char (CHR '','') line) of
        email # password # _ \<Rightarrow>
          if email \<noteq> [] \<and> password \<noteq> [] then Some \<lparr>cr_email = email, cr_password = password\<rparr> else None
      | _ \<Rightarrow> None)"

definition parse_credentials :: "string \<Rightarrow> credential list" where
  "parse_credentials text =
     List.map_filter parse_credential
       (filter (\<lambda>line. line \<noteq> [] \<and> \<not> has_prefix line ''#'') (map js_trim (split_lines text)))"

definition load_credentials :: "k6env \<Rightarrow> (js_error, credential list) outcome" where
  "load_credentials ke =
     (let path = env_or ke ''CREDENTIALS_FILE'' []
      in if path = [] then Ret []
         else case ke_open ke path of None \<Rightarrow> Fail JsFileError | Some text \<Rightarrow> Ret (parse_credentials text))"

definition k6_init :: "k6env \<Rightarrow> (js_error, k6cfg) outcome" where
  "k6_init ke =
     map_out (\<lambda>creds.
        let student = env_or ke ''AUTH_TOKEN'' (env_or ke ''STUDENT_TOKEN'' []);
            quiz = env_or ke ''QUIZ_ID'' []
        in \<lparr>kc_baseURL = strip_slash (env_or ke ''BASE_URL'' ''http://localhost:8080''),
            kc_tenantID = env_or ke ''TENANT_ID'' ''default'',
            kc_staticStudentToken = student,
            kc_staticTeacherToken = env_or ke ''TEACHER_TOKEN'' student,
            kc_quizID = quiz,
            kc_assignmentID = env_or ke ''ASSIGNMENT_ID'' [],
            kc_classID = env_or ke ''CLASS_ID'' [],
            kc_packageID = env_or ke ''PACKAGE_ID'' (if quiz = [] then ''load-package'' else quiz),
            kc_packageHashFallback = env_or ke ''PACKAGE_HASH'' ''load-package-hash'',
            kc_questionsPerAttempt = env_num ke ''QUESTIONS_PER_ATTEMPT'' 5,
            kc_thinkTimeSeconds = env_num ke ''THINK_TIME_SECONDS'' 1,
            kc_loginPath = env_or ke ''LOGIN_PATH'' ''/api/lms/auth/login'',
            kc_teacherOverviewVUs = env_num ke ''TEACHER_OVERVIEW_VUS'' 1,
            kc_credentials = creds\<rparr>) (load_credentials ke)"

section \<open>Scenarios and thresholds\<close>

datatype scenario =
    RampingVUs string "(string \<times> jsnum) list" string
  | ConstantVUs string jsnum string

text \<open>\<open>n > 0\<close>\<close>

definition num_pos :: "jsnum \<Rightarrow> bool" where
  "num_pos n = (case n of NumNaN \<Rightarrow> False | NumInf neg \<Rightarrow> \<not> neg | NumFin q \<Rightarrow> 0 < q)"

definition buildScenarios :: "k6env \<Rightarrow> k6cfg \<Rightarrow> (string \<times> scenario) list" where
  "buildScenarios ke cfg =
     (if ke_ENV ke ''ONLY_AUTH_LOGIN'' \<noteq> Some ''true'' then
        [(''lms_exam_flow'',
          RampingVUs ''studentExamFlow''
            [(env_or ke ''RAMP_DURATION'' ''2m'', env_num ke ''RAMP_VUS'' 10),
             (env_or ke ''STEADY_DURATION'' ''5m'', env_num ke ''STEADY_VUS'' 10),
             (env_or ke ''RAMP_DOWN_DURATION'' ''1m'', NumFin 0)] ''60s'')]
      else [])
     @ (if ke_ENV ke ''LOGIN_EACH_ITERATION'' = Some ''true'' \<and> kc_credentials cfg \<noteq> [] then
          [(''auth_login'', ConstantVUs ''authLogin'' (env_num ke ''AUTH_VUS'' 10) (env_or ke ''AUTH_DURATION'' ''5m''))]
        else [])
     @ (if num_pos (kc_teacherOverviewVUs cfg) \<and> kc_staticTeacherToken cfg \<noteq> [] \<and> kc_quizID cfg \<noteq> [] then
          [(''teacher_overview'', ConstantVUs ''teacherOverview'' (kc_teacherOverviewVUs cfg)
              (env_or ke ''TEACHER_OVERVIEW_DURATION'' (env_or ke ''STEADY_DURATION'' ''5m'')))]
        else [])"

definition thresholds :: "(string \<times> string list) list" where
  "thresholds =
     [(''http_req_failed'', [''rate<0.01'']),
      (''http_req_duration'', [''p(95)<500'', ''p(99)<1500'']),
      (''erg_lms_success_rate'', [''rate>0.99'']),
      (''erg_lms_answer_latency'', [''p(95)<300'', ''p(99)<1000'']),
      (''erg_lms_submit_latency'', [''p(95)<1000'', ''p(99)<3000''])]"

section \<open>Requests, responses and the event log\<close>

record request =
  rq_method :: string
  rq_url :: string
  rq_body :: jval
  rq_headers :: "(string \<times> string) list"

record response =
  rs_status :: int
  rs_json :: "jval option"
  rs_duration :: float64

datatype k6_event =
    Request request
  | Errors int
  | SuccessRate bool
  | AttemptLatency float64
  | AnswerLatency float64
  | SubmitLatency float64
  | Sleep jsnum

record 'w k6state =
  k6_world :: 'w
  k6_log :: "k6_event list"
  k6_dates :: nat

record vu =
  vu_idInTest :: nat
  vu_iterationInTest :: nat

type_synonym 'w server = "'w \<Rightarrow> request \<Rightarrow> 'w \<times> response"

definition emit :: "k6_event \<Rightarrow> 'w k6state \<Rightarrow> 'w k6state" where
  "emit e s = s\<lparr>k6_log := k6_log s @ [e]\<rparr>"

definition send :: "'w server \<Rightarrow> request \<Rightarrow> 'w k6state \<Rightarrow> 'w k6state \<times> response" where
  "send srv rq s =
     (case srv (k6_world s) rq of (w, rs) \<Rightarrow> (emit (Request rq) (s\<lparr>k6_world := w\<rparr>), rs))"

fun batch :: "'w server \<Rightarrow> request list \<Rightarrow> 'w k6state \<Rightarrow> 'w k6state \<times> response list" where
  "batch srv [] s = (s, [])"
| "batch srv (rq # rqs) s =
     (case send srv rq s of (s1, rs) \<Rightarrow> case batch srv rqs s1 of (s2, rss) \<Rightarrow> (s2, rs # rss))"

text \<open>\<open>new Date().toISOString()\<close>\<close>

definition iso_now :: "k6env \<Rightarrow> 'w k6state \<Rightarrow> 'w k6state \<times> string" where
  "iso_now ke s = (s\<lparr>k6_dates := Suc (k6_dates s)\<rparr>, ke_iso ke (k6_dates s))"

text \<open>\<open>successRate.add(ok); if (!ok) errors.add(1)\<close>\<close>

definition record_ok :: "bool \<Rightarrow> 'w k6state \<Rightarrow> 'w k6state" where
  "record_ok ok s = (let s = emit (SuccessRate ok) s in if ok then s else emit (Errors 1) s)"

definition ok2xx :: "response \<Rightarrow> bool" where
  "ok2xx r \<longleftrightarrow> 200 \<le> rs_status r \<and> rs_status r < 300"

section \<open>Helpers of the script\<close>

definition headers :: "k6env \<Rightarrow> k6cfg \<Rightarrow> jval \<Rightarrow> (string \<times> string) list \<Rightarrow> (string \<times> string) list" where
  "headers ke cfg token extra =
     (let h = fold (\<lambda>(k, v). AList.update k v) extra
            [(''Content-Type'', ''application/json''), (''X-Tenant-ID'', kc_tenantID cfg)]
      in if truthy token then AList.update ''Authorization'' (''Bearer '' @ js_string (ke_numstr ke) token) h else h)"

definition dataOf :: "response \<Rightarrow> (js_error, jval) outcome" where
  "dataOf r =
     (case rs_json r of
        None \<Rightarrow> Fail JsInvalidJSON
      | Some body \<Rightarrow> Ret (js_or [jsprop (Some body) ''data'', Some body] (JObj [])))"

definition pickCredential :: "k6cfg \<Rightarrow> vu \<Rightarrow> credential option" where
  "pickCredential cfg v =
     (if kc_credentials cfg = [] then None
      else Some (kc_credentials cfg ! ((vu_idInTest v - 1) mod length (kc_credentials cfg))))"

definition num :: "nat \<Rightarrow> string" where
  "num n = format_int (int n)"

definition login :: "k6env \<Rightarrow> k6cfg \<Rightarrow> vu \<Rightarrow> 'w server \<Rightarrow> 'w k6state \<Rightarrow> 'w k6state \<times> (js_error, jval) outcome" where
  "login ke cfg v srv s =
     (case pickCredential cfg v of
        None \<Rightarrow> (s, Ret (JStr []))
      | Some cred \<Rightarrow>
          (case send srv
             \<lparr>rq_method = ''POST'', rq_url = kc_baseURL cfg @ kc_loginPath cfg,
              rq_body = JObj [(''email'', JStr (cr_email cred)), (''password'', JStr (cr_password cred)),
                (''deviceId'', JStr (''k6-'' @ num (vu_idInTest v))), (''deviceName'', JStr ''k6 load generator''),
                (''deviceFingerprint'', JStr (''k6-'' @ num (vu_idInTest v) @ ''-'' @ num (vu_iterationInTest v)))],
              rq_headers = headers ke cfg (JStr []) []\<rparr> s of (s, res) \<Rightarrow>
             let ok = (rs_status res = 200); s = record_ok ok s
             in if \<not> ok then (s, Ret (JStr []))
                else and_then (dataOf res) s (\<lambda>d. (s, Ret (js_or [jsprop (Some d) ''accessToken''] (JStr []))))))"

definition studentToken :: "k6env \<Rightarrow> k6cfg \<Rightarrow> vu \<Rightarrow> 'w server \<Rightarrow> 'w k6state \<Rightarrow> 'w k6state \<times> (js_error, jval) outcome" where
  "studentToken ke cfg v srv s =
     (if kc_staticStudentToken cfg \<noteq> [] then (s, Ret (JStr (kc_staticStudentToken cfg))) else login ke cfg v srv s)"

record pkg =
  pk_packageHash :: jval
  pk_questionIds :: jval

definition packageInfo :: "k6env \<Rightarrow> k6cfg \<Rightarrow> jval \<Rightarrow> 'w server \<Rightarrow> 'w k6state \<Rightarrow> 'w k6state \<times> (js_error, pkg) outcome" where
  "packageInfo ke cfg token srv s =
     (let fallback = \<lparr>pk_packageHash = JStr (kc_packageHashFallback cfg), pk_questionIds = JArr []\<rparr>
      in if kc_quizID cfg = [] then (s, Ret fallback)
         else case send srv
             \<lparr>rq_method = ''GET'', rq_url = kc_baseURL cfg @ ''/api/lms/quizzes/'' @ kc_quizID cfg @ ''/package'',
              rq_body = JNull, rq_headers = headers ke cfg token []\<rparr> s of (s, res) \<Rightarrow>
           let ok = (rs_status res = 200); s = record_ok ok s
           in if \<not> ok then (s, Ret fallback)
              else and_then (dataOf res) s (\<lambda>payload.
                let quiz = jsprop (Some payload) ''quiz'';
                    ids = js_or [jsprop (jsprop quiz ''quiz'') ''questionIds'', jsprop quiz ''questionIds''] (JArr [])
                in (s, Ret \<lparr>pk_packageHash = js_or [jsprop (Some payload) ''contentHash''] (JStr (kc_packageHashFallback cfg)),
                            pk_questionIds = ids\<rparr>)))"

text \<open>
  \<open>ids.length > 0\<close>, \<open>ids.slice\<close> and the \<open>entries()\<close> of the caller, by the type of \<open>ids\<close>: an array
  has them; a string has a length and a slice but no entries; an object has the properties it has,
  and neither method; the others have no length.
\<close>

definition answerQuestionIds :: "k6env \<Rightarrow> k6cfg \<Rightarrow> pkg \<Rightarrow> (js_error, jval list) outcome" where
  "answerQuestionIds ke cfg p =
     (let fromEnv = filter (\<lambda>x. x \<noteq> []) (map js_trim (split_char (CHR '','') (env_or ke ''QUESTION_IDS'' [])));
          ids = (if fromEnv \<noteq> [] then JArr (map JStr fromEnv) else pk_questionIds p);
          generated = js_array_from (kc_questionsPerAttempt cfg) (\<lambda>i. JStr (''load-question-'' @ num i))
      in case ids of
           JArr xs \<Rightarrow> if xs \<noteq> [] then Ret (js_slice0 xs (kc_questionsPerAttempt cfg)) else generated
         | JStr _ \<Rightarrow> Fail JsTypeError
         | JObj kvs \<Rightarrow>
             (case map_of kvs ''length'' of
                Some (JNum n) \<Rightarrow> if 0 < n then Fail JsTypeError else generated
              | Some (JBool True) \<Rightarrow> Fail JsTypeError
              | Some (JStr n) \<Rightarrow> if num_pos (js_number n) then Fail JsTypeError else generated
              | Some (JArr xs) \<Rightarrow>
                  if num_pos (js_number (js_string (ke_numstr ke) (JArr xs))) then Fail JsTypeError else generated
              | _ \<Rightarrow> generated)
         | _ \<Rightarrow> generated)"

section \<open>The exported functions\<close>

definition authLogin :: "k6env \<Rightarrow> k6cfg \<Rightarrow> vu \<Rightarrow> 'w server \<Rightarrow> 'w k6state \<Rightarrow> 'w k6state \<times> (js_error, unit) outcome" where
  "authLogin ke cfg v srv s =
     then_do (login ke cfg v srv s) (\<lambda>s _. (emit (Sleep (kc_thinkTimeSeconds cfg)) s, Ret ()))"

text \<open>The group "start attempt": the identifier of the attempt, or the empty string.\<close>

definition startGroup ::
  "k6env \<Rightarrow> k6cfg \<Rightarrow> vu \<Rightarrow> jval \<Rightarrow> pkg \<Rightarrow> 'w server \<Rightarrow> 'w k6state \<Rightarrow> 'w k6state \<times> (js_error, jval) outcome" where
  "startGroup ke cfg v token p srv s =
     (case send srv
        \<lparr>rq_method = ''POST'', rq_url = kc_baseURL cfg @ ''/api/lms/attempts'',
         rq_body = JObj [(''assignmentId'', JStr (kc_assignmentID cfg)), (''quizId'', JStr (kc_quizID cfg)),
           (''packageId'', JStr (kc_packageID cfg)), (''packageHash'', pk_packageHash p)],
         rq_headers = headers ke cfg token [(''X-Idempotency-Key'', ''start-'' @ num (vu_idInTest v))]\<rparr> s of (s, start) \<Rightarrow>
        let s = emit (AttemptLatency (rs_duration start)) s; ok = ok2xx start; s = record_ok ok s
        in if \<not> ok then (s, Ret (JStr []))
           else and_then (dataOf start) s (\<lambda>body.
             (s, Ret (js_or [jsprop (Some body) ''id'', jsprop (Some body) ''attemptId''] (JStr [])))))"

text \<open>The loop over the questions: saves the answers and collects them.\<close>

fun answerLoop ::
  "k6env \<Rightarrow> k6cfg \<Rightarrow> vu \<Rightarrow> jval \<Rightarrow> string \<Rightarrow> 'w server \<Rightarrow> nat \<Rightarrow> jval list \<Rightarrow> jobj \<Rightarrow> 'w k6state \<Rightarrow> 'w k6state \<times> jobj" where
  "answerLoop ke cfg v token attemptID srv i [] answers s = (s, answers)"
| "answerLoop ke cfg v token attemptID srv i (questionID # rest) answers s =
     (let answer = ''answer-'' @ num (vu_idInTest v) @ ''-'' @ num (vu_iterationInTest v) @ ''-'' @ num i;
          key = js_string (ke_numstr ke) questionID;
          answers = AList.update key (JStr answer) answers
      in case iso_now ke s of (s, stamp) \<Rightarrow>
         case send srv
           \<lparr>rq_method = ''POST'', rq_url = kc_baseURL cfg @ ''/api/lms/attempts/'' @ attemptID @ ''/answers'',
            rq_body = JObj [(''questionId'', questionID), (''answer'', JStr answer),
              (''clientResult'', JObj [(''source'', JStr ''k6''), (''sequence'', JNum (of_nat i))]), (''answeredAt'', JStr stamp)],
            rq_headers = headers ke cfg token
              [(''X-Idempotency-Key'', ''answer-'' @ attemptID @ ''-'' @ key @ ''-'' @ num i)]\<rparr> s of (s, res) \<Rightarrow>
           let s = record_ok (ok2xx res) (emit (AnswerLatency (rs_duration res)) s);
               s = emit (Sleep (kc_thinkTimeSeconds cfg)) s
           in answerLoop ke cfg v token attemptID srv (Suc i) rest answers s)"

definition syncGroup :: "k6env \<Rightarrow> k6cfg \<Rightarrow> jval \<Rightarrow> pkg \<Rightarrow> string \<Rightarrow> 'w server \<Rightarrow> 'w k6state \<Rightarrow> 'w k6state" where
  "syncGroup ke cfg token p attemptID srv s =
     (case iso_now ke s of (s, stamp) \<Rightarrow>
      case send srv
        \<lparr>rq_method = ''POST'', rq_url = kc_baseURL cfg @ ''/api/lms/attempts/'' @ attemptID @ ''/sync'',
         rq_body = JObj [(''packageHash'', pk_packageHash p), (''quizVersion'', JStr (env_or ke ''QUIZ_VERSION'' ''load'')),
           (''attempt'', JObj [(''status'', JStr ''in_progress'')]),
           (''events'', JArr [JObj [(''type'', JStr ''sync''), (''at'', JStr stamp)]]),
           (''client'', JObj [(''source'', JStr ''k6'')])],
         rq_headers = headers ke cfg token [(''X-Idempotency-Key'', ''sync-'' @ attemptID)]\<rparr> s of (s, res) \<Rightarrow>
        record_ok (ok2xx res) s)"

definition submitGroup :: "k6env \<Rightarrow> k6cfg \<Rightarrow> jval \<Rightarrow> string \<Rightarrow> jobj \<Rightarrow> 'w server \<Rightarrow> 'w k6state \<Rightarrow> 'w k6state" where
  "submitGroup ke cfg token attemptID answers srv s =
     (case iso_now ke s of (s, stamp) \<Rightarrow>
      case send srv
        \<lparr>rq_method = ''POST'', rq_url = kc_baseURL cfg @ ''/api/lms/attempts/'' @ attemptID @ ''/submit'',
         rq_body = JObj [(''answers'', JObj answers), (''submittedAt'', JStr stamp)],
         rq_headers = headers ke cfg token [(''X-Idempotency-Key'', ''submit-'' @ attemptID)]\<rparr> s of (s, res) \<Rightarrow>
        record_ok (ok2xx res) (emit (SubmitLatency (rs_duration res)) s))"

definition dashboardRequests :: "k6env \<Rightarrow> k6cfg \<Rightarrow> jval \<Rightarrow> request list" where
  "dashboardRequests ke cfg token =
     [\<lparr>rq_method = ''GET'', rq_url = kc_baseURL cfg @ ''/api/lms/students/me/assignments'', rq_body = JNull,
       rq_headers = headers ke cfg token []\<rparr>,
      \<lparr>rq_method = ''GET'', rq_url = kc_baseURL cfg @ ''/api/lms/students/me/scores'', rq_body = JNull,
       rq_headers = headers ke cfg token []\<rparr>]"

definition studentExamFlow ::
  "k6env \<Rightarrow> k6cfg \<Rightarrow> vu \<Rightarrow> 'w server \<Rightarrow> 'w k6state \<Rightarrow> 'w k6state \<times> (js_error, unit) outcome" where
  "studentExamFlow ke cfg v srv s =
     then_do (studentToken ke cfg v srv s) (\<lambda>s token.
       if \<not> truthy token \<or> kc_assignmentID cfg = [] \<or> kc_quizID cfg = [] then
         (emit (Sleep (NumFin 1)) (emit (SuccessRate False) (emit (Errors 1) s)), Ret ())
       else
         case batch srv (dashboardRequests ke cfg token) s of (s, _) \<Rightarrow>
         then_do (packageInfo ke cfg token srv s) (\<lambda>s p.
         then_do (startGroup ke cfg v token p srv s) (\<lambda>s attempt.
           if \<not> truthy attempt then (emit (Sleep (NumFin 1)) (emit (Errors 1) s), Ret ())
           else
             let attemptID = js_string (ke_numstr ke) attempt
             in and_then (answerQuestionIds ke cfg p) s (\<lambda>ids.
                  case answerLoop ke cfg v token attemptID srv 0 ids [] s of (s, answers) \<Rightarrow>
                    let s = syncGroup ke cfg token p attemptID srv s
                    in (submitGroup ke cfg token attemptID answers srv s, Ret ())))))"

definition teacherRequests :: "k6env \<Rightarrow> k6cfg \<Rightarrow> request list" where
  "teacherRequests ke cfg =
     \<lparr>rq_method = ''GET'',
      rq_url = kc_baseURL cfg @ ''/api/lms/quizzes/'' @ kc_quizID cfg @ ''/students''
        @ (if kc_classID cfg \<noteq> [] then ''?classId='' @ kc_classID cfg else []),
      rq_body = JNull, rq_headers = headers ke cfg (JStr (kc_staticTeacherToken cfg)) []\<rparr>
     # (if kc_assignmentID cfg \<noteq> [] then
          [\<lparr>rq_method = ''GET'', rq_url = kc_baseURL cfg @ ''/api/lms/assignments/'' @ kc_assignmentID cfg @ ''/progress'',
            rq_body = JNull, rq_headers = headers ke cfg (JStr (kc_staticTeacherToken cfg)) []\<rparr>]
        else [])"

definition teacherOverview :: "k6env \<Rightarrow> k6cfg \<Rightarrow> 'w server \<Rightarrow> 'w k6state \<Rightarrow> 'w k6state" where
  "teacherOverview ke cfg srv s =
     (case batch srv (teacherRequests ke cfg) s of (s, responses) \<Rightarrow>
        emit (Sleep (kc_thinkTimeSeconds cfg)) (fold (\<lambda>res. record_ok (ok2xx res)) responses s))"

end
