(* ===== verification/RequestAuth.thy ===== *)
theory RequestAuth
  imports AccessPolicy K6Flow "HOL-Library.Word"
begin

unbundle bit_operations_syntax

text \<open>
  Where a request carries its token (\<open>src/pkg/auth/cookie.go\<close>) and the protection of requests that carry
  it in a cookie (\<open>src/pkg/auth/csrf.go\<close>): a header must repeat a second cookie. Requests are those of the
  load client; their headers are read the way \<open>net/http\<close> reads them.
\<close>

section \<open>Headers and cookies\<close>

text \<open>\<open>http.Header.Get\<close>: header names are compared without case.\<close>

definition header :: "request \<Rightarrow> string \<Rightarrow> string" where
  "header rq name =
     (case find (\<lambda>(k, v). map lower_ascii k = map lower_ascii name) (rq_headers rq) of Some (k, v) \<Rightarrow> v | None \<Rightarrow> [])"

definition cookieLines :: "request \<Rightarrow> string list" where
  "cookieLines rq = map snd (filter (\<lambda>(k, v). map lower_ascii k = ''cookie'') (rq_headers rq))"

text \<open>\<open>textproto.TrimString\<close>\<close>

definition trim_string :: "string \<Rightarrow> string" where
  "trim_string s =
     (let drop = dropWhile (\<lambda>c. c \<in> {CHR '' '', CHR 0x09, CHR 0x0A, CHR 0x0D}) in rev (drop (rev (drop s))))"

definition cookieName :: "string \<Rightarrow> bool" where
  "cookieName s \<longleftrightarrow> s \<noteq> [] \<and>
     list_all (\<lambda>c. 48 \<le> byte c \<and> byte c \<le> 57 \<or> 65 \<le> byte c \<and> byte c \<le> 90 \<or> 97 \<le> byte c \<and> byte c \<le> 122
       \<or> c \<in> set ''!#$%&*+-.^_`|~'' \<or> c = CHR 0x27) s"

definition cookieByte :: "char \<Rightarrow> bool" where
  "cookieByte c \<longleftrightarrow> 0x20 \<le> byte c \<and> byte c < 0x7F \<and> c \<noteq> CHR 0x22 \<and> c \<noteq> CHR '';'' \<and> c \<noteq> CHR 0x5C"

definition cookieValue :: "string \<Rightarrow> string option" where
  "cookieValue raw =
     (let raw = (if 1 < length raw \<and> hd raw = CHR 0x22 \<and> last raw = CHR 0x22 then butlast (tl raw) else raw)
      in if list_all cookieByte raw then Some raw else None)"

text \<open>One part of a cookie line: the name and the value, when it is the cookie asked for and well formed.\<close>

definition cookiePart :: "string \<Rightarrow> string \<Rightarrow> string option" where
  "cookiePart name part =
     (let part = trim_string part; raw = takeWhile (\<lambda>c. c \<noteq> CHR ''='') part
      in if part \<noteq> [] \<and> cookieName (trim_string raw) \<and> trim_string raw = name then cookieValue (drop (length raw + 1) part) else None)"

text \<open>\<open>Request.Cookie\<close>: the first such part.\<close>

definition requestCookie :: "request \<Rightarrow> string \<Rightarrow> string option" where
  "requestCookie rq name =
     (case List.map_filter (cookiePart name) (concat (map (split_char (CHR '';'')) (cookieLines rq))) of
        [] \<Rightarrow> None
      | v # _ \<Rightarrow> Some v)"

section \<open>Tokens of a request\<close>

definition DefaultAccessTokenCookieName :: string where "DefaultAccessTokenCookieName = ''erg_access_token''"
definition LegacyAccessTokenCookieName :: string where "LegacyAccessTokenCookieName = ''accessToken''"
definition DefaultCSRFTokenCookieName :: string where "DefaultCSRFTokenCookieName = ''erg_csrf_token''"
definition CSRFHeaderName :: string where "CSRFHeaderName = ''X-CSRF-Token''"

definition uniqueCookieNames :: "string list \<Rightarrow> string list" where
  "uniqueCookieNames names = uniqueLoop trim_space [] names"

fun firstToken :: "request \<Rightarrow> string list \<Rightarrow> string" where
  "firstToken rq [] = []"
| "firstToken rq (name # names) =
     (case requestCookie rq name of
        None \<Rightarrow> firstToken rq names
      | Some v \<Rightarrow> if trim_space v \<noteq> [] then trim_space v else firstToken rq names)"

definition AccessTokenFromRequest :: "request \<Rightarrow> string \<Rightarrow> string" where
  "AccessTokenFromRequest rq cookie =
     firstToken rq (uniqueCookieNames [cookie, DefaultAccessTokenCookieName, LegacyAccessTokenCookieName])"

definition AuthorizationHeaderFromRequest :: "request \<Rightarrow> string \<Rightarrow> string" where
  "AuthorizationHeaderFromRequest rq cookie =
     (let h = trim_space (header rq ''Authorization''); token = AccessTokenFromRequest rq cookie
      in if h \<noteq> [] then h else if token = [] then [] else ''Bearer '' @ token)"

definition UsesCookieAuth :: "request \<Rightarrow> string \<Rightarrow> bool" where
  "UsesCookieAuth rq cookie \<longleftrightarrow> trim_space (header rq ''Authorization'') = [] \<and> AccessTokenFromRequest rq cookie \<noteq> []"

section \<open>Cross-site requests\<close>

text \<open>Methods are ASCII tokens, so that upper-casing is byte by byte.\<close>

definition UnsafeMethod :: "string \<Rightarrow> bool" where
  "UnsafeMethod methd \<longleftrightarrow> map lower_ascii (trim_space methd) \<notin> {''get'', ''head'', ''options'', ''trace''}"

text \<open>The byte positions a \<open>range\<close> loop over a string visits: those where a rune starts.\<close>

function rune_starts :: "nat \<Rightarrow> nat list \<Rightarrow> nat list" where
  "rune_starts i [] = []"
| "rune_starts i (b # bs) = (let w = snd (decode_rune (b # bs)) in i # rune_starts (i + w) (drop (w - 1) bs))"
  by pat_completeness auto
termination by (relation "measure (length o snd)") auto

definition constantTimeStringEqual :: "string \<Rightarrow> string \<Rightarrow> bool" where
  "constantTimeStringEqual a b \<longleftrightarrow>
     (if length a \<noteq> length b then False
      else foldl (\<lambda>diff i. diff OR (word_of_nat (byte (a ! i)) XOR word_of_nat (byte (b ! i)))) (0 :: 8 word)
             (rune_starts 0 (map byte a)) = 0)"

text \<open>Whether \<open>ValidateCSRF\<close> returns no error.\<close>

definition ValidateCSRF :: "request \<Rightarrow> bool" where
  "ValidateCSRF rq \<longleftrightarrow>
     (if \<not> UnsafeMethod (rq_method rq) then True
      else
        let h = trim_space (header rq CSRFHeaderName)
        in if h = [] then False
           else case requestCookie rq DefaultCSRFTokenCookieName of
                  None \<Rightarrow> False
                | Some v \<Rightarrow> trim_space v \<noteq> [] \<and> constantTimeStringEqual h v)"

section \<open>What the comparison decides\<close>

lemma foldl_or_zero:
  "foldl (\<lambda>diff i. diff OR f i) d is = (0 :: 'a :: len word) \<longleftrightarrow> d = 0 \<and> (\<forall>i \<in> set is. f i = 0)"
  by (induction "is" arbitrary: d) (auto simp: or_eq_0_iff)

lemma byte_less [simp]: "byte c < 256"
  by (simp add: byte_def)

lemma byte_inject [simp]: "byte c = byte d \<longleftrightarrow> c = d"
  by (simp add: byte_def)

lemma xor_bytes: "(word_of_nat (byte c) XOR word_of_nat (byte d) :: 8 word) = 0 \<longleftrightarrow> c = d"
proof -
  have "(word_of_nat (byte c) XOR word_of_nat (byte d) :: 8 word) = 0 \<longleftrightarrow> (word_of_nat (byte c) :: 8 word) = word_of_nat (byte d)"
    by (auto simp: bit_eq_iff bit_xor_iff)
  also have "\<dots> \<longleftrightarrow> byte c = byte d"
    by (simp add: word_of_nat_eq_iff take_bit_nat_eq_self)
  finally show ?thesis by simp
qed

lemma constantTimeStringEqual_iff:
  "constantTimeStringEqual a b \<longleftrightarrow> length a = length b \<and> (\<forall>i \<in> set (rune_starts 0 (map byte a)). a ! i = b ! i)"
  by (simp add: constantTimeStringEqual_def foldl_or_zero xor_bytes)

text \<open>A byte below 0x80 is a rune, so that a string of such bytes is compared in every place.\<close>

lemma decode_rune_ascii [simp]: "b < 0x80 \<Longrightarrow> decode_rune (b # bs) = (b, 1)"
  by (simp add: decode_rune_def)

lemma rune_starts_first: "rune_starts i (b # bs) = i # rune_starts (i + snd (decode_rune (b # bs))) (drop (snd (decode_rune (b # bs)) - 1) bs)"
  by (simp add: Let_def)

lemma constant_time_suffix:
  assumes "list_all (\<lambda>c. byte c < 0x80) b" and "length a = length b"
    and "\<forall>j \<in> set (rune_starts i (map byte a)). (p @ a) ! j = (q @ b) ! j" and "length p = i" and "length q = i"
  shows "a = b"
  using assms
proof (induction a arbitrary: b i p q)
  case (Cons c a)
  then obtain d b' where b: "b = d # b'" by (cases b) auto
  have "c = d" using Cons.prems(3-5) by (simp add: b Let_def nth_append)
  moreover from this have "byte c < 0x80" using Cons.prems(1) by (simp add: b)
  moreover from this have "\<forall>j \<in> set (rune_starts (Suc i) (map byte a)). ((p @ [c]) @ a) ! j = ((q @ [d]) @ b') ! j"
    using Cons.prems(3) by (simp add: b)
  then have "a = b'"
    by (rule Cons.IH [rotated 2]) (use Cons.prems in \<open>simp_all add: b\<close>)
  ultimately show ?case by (simp add: b)
qed simp

lemma constantTimeStringEqual_ascii:
  assumes "list_all (\<lambda>c. byte c < 0x80) b" shows "constantTimeStringEqual a b \<longleftrightarrow> a = b"
proof
  assume "constantTimeStringEqual a b"
  then have "length a = length b" "\<forall>i \<in> set (rune_starts 0 (map byte a)). ([] @ a) ! i = ([] @ b) ! i"
    by (simp_all add: constantTimeStringEqual_iff)
  then show "a = b" by (rule constant_time_suffix [OF assms]) simp_all
qed (simp add: constantTimeStringEqual_iff)

text \<open>Beyond ASCII the loop skips the continuation bytes, so that strings of runes with the same first bytes are equal to it.\<close>

lemma constantTimeStringEqual_runes: "constantTimeStringEqual [CHR 0xC3, CHR 0xA9] [CHR 0xC3, CHR 0xA8]"
  by code_simp

lemma cookieByte_less: "cookieByte c \<Longrightarrow> byte c < 0x80"
  unfolding cookieByte_def by linarith

lemma requestCookie_bytes: "requestCookie rq name = Some v \<Longrightarrow> list_all cookieByte v"
proof -
  assume "requestCookie rq name = Some v"
  then have "v \<in> set (List.map_filter (cookiePart name) (concat (map (split_char (CHR '';'')) (cookieLines rq))))"
    by (auto simp: requestCookie_def split: list.splits)
  then obtain part where "cookiePart name part = Some v" by (auto simp: List.map_filter_def)
  then show ?thesis by (auto simp: cookiePart_def cookieValue_def Let_def split: if_splits)
qed

text \<open>
  The value of a cookie is printable ASCII, so that the loop compares it byte by byte: a request that
  passes repeats its cookie in the header.
\<close>

lemma ValidateCSRF_unsafe:
  assumes "UnsafeMethod (rq_method rq)" and "ValidateCSRF rq"
  shows "trim_space (header rq CSRFHeaderName) \<noteq> []
    \<and> requestCookie rq DefaultCSRFTokenCookieName = Some (trim_space (header rq CSRFHeaderName))"
proof (cases "requestCookie rq DefaultCSRFTokenCookieName")
  case None
  then show ?thesis using assms by (simp add: ValidateCSRF_def Let_def split: if_splits)
next
  case (Some v)
  have "list_all (\<lambda>c. byte c < 0x80) v"
    using requestCookie_bytes [OF Some] by (rule list.pred_mono_strong) (simp add: cookieByte_less)
  note ascii = constantTimeStringEqual_ascii [OF this]
  have "trim_space (header rq CSRFHeaderName) \<noteq> [] \<and> constantTimeStringEqual (trim_space (header rq CSRFHeaderName)) v"
    using assms(2) unfolding ValidateCSRF_def Let_def Some option.case
    by (cases "trim_space (header rq CSRFHeaderName) = []"; simp only: assms(1) simp_thms if_True if_False)
  then show ?thesis unfolding ascii Some by metis
qed

end
