(* ===== verification/TenantDocs.thy ===== *)
theory TenantDocs
  imports LmsTypes
begin

text \<open>
  The shape every collection of the LMS repository shares: documents with a tenant and an
  identifier, found by both, and updated in place at the first document that matches. The locale
  states what an update promises, that it keeps the document's tenant and identifier, and derives
  once what lookups return after it.
\<close>

locale tenant_docs =
  fixes tenant_of :: "'d \<Rightarrow> string" and id_of :: "'d \<Rightarrow> oid" and upd :: "'u \<Rightarrow> 'd \<Rightarrow> 'd"
  assumes upd_tenant: "tenant_of (upd u d) = tenant_of d"
    and upd_id: "id_of (upd u d) = id_of d"
begin

lemma find_after_update:
  "find (\<lambda>d. tenant_of d = t \<and> id_of d = i)
     (update_first (\<lambda>d. tenant_of d = t' \<and> id_of d = i') (upd u) ds) =
   (if t = t' \<and> i = i' then map_option (upd u) (find (\<lambda>d. tenant_of d = t \<and> id_of d = i) ds)
    else find (\<lambda>d. tenant_of d = t \<and> id_of d = i) ds)"
proof (cases "t = t' \<and> i = i'")
  case True
  then show ?thesis by (simp add: find_update_first upd_tenant upd_id)
next
  case False
  have "find (\<lambda>d. tenant_of d = t \<and> id_of d = i)
      (update_first (\<lambda>d. tenant_of d = t' \<and> id_of d = i') (upd u) ds)
    = find (\<lambda>d. tenant_of d = t \<and> id_of d = i) ds"
    by (rule find_update_first_other) (use False in \<open>auto simp: upd_tenant upd_id\<close>)
  with False show ?thesis by auto
qed

lemma other_tenant_unchanged:
  "t \<noteq> t' \<Longrightarrow>
     filter (\<lambda>d. tenant_of d = t) (update_first (\<lambda>d. tenant_of d = t' \<and> id_of d = i) (upd u) ds)
   = filter (\<lambda>d. tenant_of d = t) ds"
  by (rule filter_update_first_other) (auto simp: upd_tenant)

lemma keys_unchanged:
  "map (\<lambda>d. (tenant_of d, id_of d)) (update_first p (upd u) ds) = map (\<lambda>d. (tenant_of d, id_of d)) ds"
  by (rule map_update_first) (simp add: upd_tenant upd_id)

lemma set_after_update:
  assumes "d \<in> set (update_first (\<lambda>d. tenant_of d = t \<and> id_of d = i) (upd u) ds)"
  shows "d \<in> set ds \<or>
    (\<exists>d0 \<in> set ds. find (\<lambda>d. tenant_of d = t \<and> id_of d = i) ds = Some d0 \<and> d = upd u d0)"
  using set_update_first [OF assms] .

end

end
