(* ===== verification/LmsAccess.thy ===== *)
theory LmsAccess
  imports LmsStore TenantDocs
begin

text \<open>
  Who may act on what: the actor of a request and the scope checks of the LMS service
  (\<open>service.go\<close>), with the management of centers, classes and the current scope that they guard.
\<close>

record actor =
  UserID :: string
  Roles :: "string list"

definition canAccessGlobal :: "goenv \<Rightarrow> actor \<Rightarrow> bool" where
  "canAccessGlobal env a \<longleftrightarrow>
     list_ex (\<lambda>role. lower env role \<in> {''admin'', ''erg_admin'', ''global_admin'', ''lms_admin''}) (Roles a)"

definition nonAdminUser :: "actor \<Rightarrow> bool \<Rightarrow> string" where
  "nonAdminUser a canGlobal = (if canGlobal then [] else UserID a)"

definition canAccessCenter :: "goenv \<Rightarrow> memoryStore \<Rightarrow> string \<Rightarrow> actor \<Rightarrow> string \<Rightarrow> bool" where
  "canAccessCenter env m tenantID a centerID =
     (if canAccessGlobal env a then True
      else case getCenter env m tenantID centerID of
        Ret (Some c) \<Rightarrow>
          if c_ManagerUserID c = UserID a then True
          else if centerType env c = educationUnitTypeSchool \<and> c_ParentID c \<noteq> 0 then
            (case getCenter env m tenantID (ge_hex env (c_ParentID c)) of
               Ret (Some parent) \<Rightarrow> c_ManagerUserID parent = UserID a
             | _ \<Rightarrow> False)
          else False
      | _ \<Rightarrow> False)"

definition emptyClassListReq :: classListReq where
  "emptyClassListReq = \<lparr>kl_CenterID = [], kl_UnitID = [], kl_Grade = [], kl_Keyword = [], kl_Status = [],
     kl_AcademicYear = [], kl_Page = 1, kl_Limit = 100\<rparr>"

definition emptyCenterListReq :: centerListReq where
  "emptyCenterListReq = \<lparr>cl_Keyword = [], cl_Status = [], cl_Type = [], cl_Page = 1, cl_Limit = 100\<rparr>"

definition hasClassInCenter :: "goenv \<Rightarrow> memoryStore \<Rightarrow> string \<Rightarrow> actor \<Rightarrow> string \<Rightarrow> bool" where
  "hasClassInCenter env m tenantID a centerID =
     (if UserID a = [] then False
      else case listClasses env m tenantID (emptyClassListReq\<lparr>kl_CenterID := centerID, kl_Limit := 1\<rparr>) [] (UserID a) of
        Ret (items, n) \<Rightarrow> 0 < n \<and> items \<noteq> []
      | _ \<Rightarrow> False)"

definition canAccessClass :: "goenv \<Rightarrow> memoryStore \<Rightarrow> string \<Rightarrow> actor \<Rightarrow> class_rec \<Rightarrow> bool" where
  "canAccessClass env m tenantID a k \<longleftrightarrow>
     canAccessGlobal env a \<or> k_HomeroomTeacherID k = UserID a
     \<or> canAccessCenter env m tenantID a (ge_hex env (k_CenterID k))"

definition canAccessStudent :: "goenv \<Rightarrow> memoryStore \<Rightarrow> string \<Rightarrow> actor \<Rightarrow> student \<Rightarrow> bool" where
  "canAccessStudent env m tenantID a s =
     (if canAccessGlobal env a then True
      else case getClass env m tenantID (ge_hex env (s_ClassID s)) of
        Ret (Some k) \<Rightarrow> canAccessClass env m tenantID a k
      | _ \<Rightarrow> False)"

end
