(* ===== verification/LmsGuards.thy ===== *)
theory LmsGuards
  imports RequestAuth LmsAccess
begin

text \<open>
  What a request of the LMS passes before a handler sees it: the tenant middleware
  (\<open>pkg/tenant/middleware.go\<close>), the token middleware (\<open>internal/middleware/auth.go\<close>), the portal and
  permission checks (\<open>internal/middleware/enterprise_auth.go\<close>) and the table of route permissions
  (\<open>internal/modules/lms/module.go\<close>). Requests are those of the load client.

  Validating a token (signature, issuer, expiry) is the parameter \<open>gc_validate\<close>. The paths the token
  middleware skips (health, metrics, documentation) are none of the LMS.
\<close>

section \<open>The deployment\<close>

record guardcfg =
  gc_env :: goenv
  gc_host :: string
  gc_tenantEnabled :: bool
  gc_defaultTenant :: string
  gc_validate :: "string \<Rightarrow> jwtClaims option"

section \<open>Tenants\<close>

text \<open>Blanks are dropped wherever they are, and ASCII letters lowered.\<close>

definition normalizeTenant :: "string \<Rightarrow> string" where
  "normalizeTenant s = map lower_ascii (filter (\<lambda>c. c \<notin> {CHR '' '', CHR 0x09, CHR 0x0A, CHR 0x0D}) s)"

definition extractSubdomain :: "string \<Rightarrow> string" where
  "extractSubdomain host =
     (let host = (if CHR '':'' \<in> set host then butlast (rev (dropWhile (\<lambda>c. c \<noteq> CHR '':'') (rev host))) else host);
          parts = split_char (CHR ''.'') host
      in if length parts < 2 \<or> hd parts = [] then [] else hd parts)"

text \<open>\<open>defaultTenantID\<close> of \<open>routes.go\<close>\<close>

definition defaultTenantID :: "guardcfg \<Rightarrow> string" where
  "defaultTenantID cfg = (if gc_defaultTenant cfg \<noteq> [] then gc_defaultTenant cfg else ''default'')"

text \<open>
  The claims the tenant middleware looks for are of another type and key than those the token middleware
  stores, and it runs before the token middleware: the second source of the code never applies.
\<close>

definition resolveTenantID :: "guardcfg \<Rightarrow> request \<Rightarrow> string" where
  "resolveTenantID cfg rq =
     (let i = trim_space (header rq ''X-Tenant-ID''); sub = extractSubdomain (gc_host cfg)
      in if i \<noteq> [] then normalizeTenant i
         else if gc_tenantEnabled cfg \<and> sub \<noteq> [] then normalizeTenant sub
         else normalizeTenant (defaultTenantID cfg))"

section \<open>Tokens, portals, permissions\<close>

text \<open>\<open>ValidateRequest\<close>: the scheme without case, then the token, trimmed by \<open>Validate\<close>.\<close>

definition ValidateRequest :: "guardcfg \<Rightarrow> string \<Rightarrow> jwtClaims option" where
  "ValidateRequest cfg authHeader =
     (case dropWhile (\<lambda>c. c \<noteq> CHR '' '') authHeader of
        [] \<Rightarrow> None
      | _ # token \<Rightarrow>
          if EqualFold (takeWhile (\<lambda>c. c \<noteq> CHR '' '') authHeader) ''bearer'' then gc_validate cfg (trim_space token) else None)"

definition RequirePortal :: "goenv \<Rightarrow> string \<Rightarrow> jwtClaims \<Rightarrow> bool" where
  "RequirePortal env portal claims \<longleftrightarrow>
     (let required = NormalizePortal env portal
      in ValidPortal env required \<and> SubjectHasPortal env (SubjectFromClaims env (Some claims)) required)"

definition permissionRequest :: "policySubject \<Rightarrow> string \<Rightarrow> policyRequest" where
  "permissionRequest subject permission =
     \<lparr>pq_Subject = subject, pq_Action = [],
      pq_Resource = \<lparr>pr_Namespace = [], pr_Type = [], pr_ID = [], pr_OwnerID = [], pr_TenantID = [], pr_Permission = permission\<rparr>,
      pq_Scope = \<lparr>pc_Portal = [], pc_TenantID = []\<rparr>\<rparr>"

definition RequireAccessPermission :: "goenv \<Rightarrow> string \<Rightarrow> jwtClaims \<Rightarrow> bool" where
  "RequireAccessPermission env permission claims =
     de_Allowed (Decide env (permissionRequest (SubjectFromClaims env (Some claims)) permission))"

section \<open>The permissions of the routes\<close>

definition lmsRoutePermissions :: "(string \<times> string) list" where
  "lmsRoutePermissions =
     [(''GET /api/lms/scopes/me'', ''lms.scope.read''),
      (''PUT /api/lms/scopes/current'', ''lms.scope.update''),
      (''GET /api/lms/access-management/options'', ''lms.scope.read''),
      (''GET /api/lms/access-management/users'', ''lms.scope.read''),
      (''GET /api/lms/access-management/users/:userId/access'', ''lms.scope.read''),
      (''POST /api/lms/access-management/preview'', ''lms.scope.read''),
      (''PUT /api/lms/access-management/users/:userId/access'', ''lms.scope.update''),
      (''GET /api/lms/dashboard/overview'', ''lms.report.read''),
      (''GET /api/lms/dashboard/interventions'', ''lms.report.read''),
      (''GET /api/lms/education-units'', ''lms.unit.read''),
      (''POST /api/lms/education-units'', ''lms.unit.create''),
      (''GET /api/lms/education-units/:id/classes'', ''lms.class.read''),
      (''GET /api/lms/education-units/:id'', ''lms.unit.read''),
      (''PATCH /api/lms/education-units/:id'', ''lms.unit.update''),
      (''GET /api/lms/centers'', ''lms.unit.read''),
      (''POST /api/lms/centers'', ''lms.unit.create''),
      (''PATCH /api/lms/centers/:centerId'', ''lms.unit.update''),
      (''GET /api/lms/classes'', ''lms.class.read''),
      (''POST /api/lms/classes'', ''lms.class.create''),
      (''PATCH /api/lms/classes/:classId'', ''lms.class.update''),
      (''GET /api/lms/classes/:classId/reports'', ''lms.report.read''),
      (''GET /api/lms/classes/:classId/students'', ''lms.class.read''),
      (''GET /api/lms/classes/:classId'', ''lms.class.read''),
      (''POST /api/lms/classes/:classId/students/bulk-move'', ''lms.class.update''),
      (''GET /api/lms/classes/:classId/assignments'', ''lms.assignment.read''),
      (''GET /api/lms/classes/:classId/discussions'', ''lms.class.read''),
      (''POST /api/lms/classes/:classId/discussions'', ''lms.class.update''),
      (''GET /api/lms/students'', ''lms.class.read''),
      (''GET /api/lms/students/:studentId/journey'', ''lms.report.read''),
      (''GET /api/lms/students/:studentId'', ''lms.class.read''),
      (''POST /api/lms/students'', ''lms.class.update''),
      (''POST /api/lms/students/bulk-accounts'', ''lms.student.import''),
      (''PATCH /api/lms/students/:studentId'', ''lms.class.update''),
      (''GET /api/lms/students/me/assignments'', ''lms.assignment.read''),
      (''GET /api/lms/students/me/scores'', ''lms.report.read''),
      (''POST /api/lms/imports/google-sheet/tabs'', ''lms.unit.read''),
      (''POST /api/lms/imports/google-sheet/preview'', ''lms.unit.read''),
      (''POST /api/lms/imports/google-sheet/commit'', ''lms.unit.update''),
      (''GET /api/lms/imports/:jobId'', ''lms.unit.read''),
      (''POST /api/lms/imports/:jobId/writeback'', ''lms.unit.update''),
      (''GET /api/lms/question-bank/subjects'', ''lms.question.read''),
      (''GET /api/lms/question-bank/categories'', ''lms.question.read''),
      (''GET /api/lms/question-bank/questions'', ''lms.question.read''),
      (''POST /api/lms/question-bank/questions'', ''lms.question.create''),
      (''PATCH /api/lms/question-bank/questions/:questionId'', ''lms.question.update''),
      (''GET /api/lms/quiz-bank'', ''lms.quiz.read''),
      (''GET /api/lms/subjects'', ''lms.question.read''),
      (''GET /api/lms/subjects/:subjectId/levels'', ''lms.question.read''),
      (''GET /api/lms/levels/:levelId/topics'', ''lms.question.read''),
      (''GET /api/lms/questions'', ''lms.question.read''),
      (''POST /api/lms/questions'', ''lms.question.create''),
      (''POST /api/lms/questions/random-pick'', ''lms.question.read''),
      (''PATCH /api/lms/questions/:questionId'', ''lms.question.update''),
      (''DELETE /api/lms/questions/:questionId'', ''lms.question.delete''),
      (''GET /api/lms/quizzes'', ''lms.quiz.read''),
      (''POST /api/lms/quizzes'', ''lms.quiz.create''),
      (''POST /api/lms/quizzes/from-questions'', ''lms.quiz.create''),
      (''POST /api/lms/quizzes/random'', ''lms.quiz.create''),
      (''GET /api/lms/quizzes/:quizId/students'', ''lms.report.read''),
      (''GET /api/lms/quizzes/:quizId'', ''lms.quiz.read''),
      (''PATCH /api/lms/quizzes/:quizId'', ''lms.quiz.update''),
      (''PUT /api/lms/quizzes/:quizId'', ''lms.quiz.update''),
      (''POST /api/lms/quizzes/:quizId/publish'', ''lms.quiz.update''),
      (''GET /api/lms/quizzes/:quizId/package'', ''lms.quiz.read''),
      (''GET /api/lms/assignments/active'', ''lms.assignment.read''),
      (''POST /api/lms/assignments/deliveries'', ''lms.assignment.create''),
      (''POST /api/lms/assignments'', ''lms.assignment.create''),
      (''GET /api/lms/assignments/:assignmentId/progress'', ''lms.assignment.read''),
      (''POST /api/lms/attempts'', ''lms.assignment.submit''),
      (''PATCH /api/lms/attempts/:attemptId/draft'', ''lms.assignment.submit''),
      (''PUT /api/lms/attempts/:attemptId/answers/:questionId'', ''lms.assignment.submit''),
      (''POST /api/lms/attempts/:attemptId/answers'', ''lms.assignment.submit''),
      (''POST /api/lms/attempts/:attemptId/submit'', ''lms.assignment.submit''),
      (''POST /api/lms/attempts/:attemptId/sync'', ''lms.assignment.submit''),
      (''POST /api/lms/discussions/:threadId/replies'', ''lms.class.update''),
      (''POST /api/lms/discussions/attachments'', ''lms.class.update''),
      (''GET /api/lms/moderation/profanity-words'', ''lms.class.read''),
      (''POST /api/lms/moderation/check'', ''lms.class.read''),
      (''GET /api/lms/announcements'', ''lms.class.read''),
      (''POST /api/lms/announcements'', ''lms.class.update''),
      (''GET /api/lms/reports/classroom'', ''lms.report.read''),
      (''GET /api/lms/reports/students/:studentId'', ''lms.report.read''),
      (''GET /api/lms/reports/assignments/:assignmentId'', ''lms.report.read''),
      (''GET /api/lms/reports/export'', ''lms.report.read''),
      (''GET /api/lms/internal-documents'', ''lms.unit.read''),
      (''POST /api/lms/internal-documents'', ''lms.unit.create'')]"

text \<open>The routes of the controller with their handlers.\<close>

definition lmsRoutes :: "(string \<times> string) list" where
  "lmsRoutes =
     [(''GET /api/lms/scopes/me'', ''GetScope''),
      (''PUT /api/lms/scopes/current'', ''UpdateScope''),
      (''GET /api/lms/access-management/options'', ''AccessManagementOptions''),
      (''GET /api/lms/access-management/scopes'', ''ListAccessScopes''),
      (''GET /api/lms/access-management/users'', ''ListAccessManagedUsers''),
      (''GET /api/lms/access-management/users/:userId/access'', ''GetUserAccess''),
      (''PUT /api/lms/access-management/users/:userId/access'', ''SaveUserAccess''),
      (''POST /api/lms/access-management/preview'', ''PreviewUserAccess''),
      (''GET /api/lms/dashboard/overview'', ''DashboardOverview''),
      (''GET /api/lms/dashboard/interventions'', ''DashboardInterventions''),
      (''GET /api/lms/education-units'', ''ListEducationUnits''),
      (''POST /api/lms/education-units'', ''CreateEducationUnit''),
      (''GET /api/lms/education-units/:id/classes'', ''ListEducationUnitClasses''),
      (''GET /api/lms/education-units/:id'', ''GetEducationUnit''),
      (''PATCH /api/lms/education-units/:id'', ''UpdateEducationUnit''),
      (''GET /api/lms/centers'', ''ListCenters''),
      (''POST /api/lms/centers'', ''CreateCenter''),
      (''PATCH /api/lms/centers/:centerId'', ''UpdateCenter''),
      (''GET /api/lms/classes'', ''ListClasses''),
      (''POST /api/lms/classes'', ''CreateClass''),
      (''PATCH /api/lms/classes/:classId'', ''UpdateClass''),
      (''GET /api/lms/classes/:classId/reports'', ''ClassReport''),
      (''GET /api/lms/classes/:classId/students'', ''ClassStudents''),
      (''GET /api/lms/classes/:classId'', ''GetClass''),
      (''POST /api/lms/classes/:classId/students/bulk-move'', ''BulkMoveStudents''),
      (''GET /api/lms/classes/:classId/assignments'', ''ClassAssignments''),
      (''GET /api/lms/classes/:classId/discussions'', ''ListDiscussions''),
      (''POST /api/lms/classes/:classId/discussions'', ''CreateDiscussion''),
      (''GET /api/lms/students'', ''ListStudents''),
      (''GET /api/lms/students/:studentId/journey'', ''StudentJourney''),
      (''GET /api/lms/students/:studentId'', ''GetStudent''),
      (''POST /api/lms/students'', ''CreateStudent''),
      (''POST /api/lms/students/bulk-accounts'', ''BulkCreateStudentAccounts''),
      (''PATCH /api/lms/students/:studentId'', ''UpdateStudent''),
      (''GET /api/lms/students/me/assignments'', ''StudentAssignments''),
      (''GET /api/lms/students/me/scores'', ''StudentScores''),
      (''POST /api/lms/imports/google-sheet/tabs'', ''GoogleSheetTabs''),
      (''POST /api/lms/imports/google-sheet/preview'', ''PreviewGoogleSheet''),
      (''POST /api/lms/imports/google-sheet/commit'', ''CommitGoogleSheetImport''),
      (''GET /api/lms/imports/:jobId'', ''GetImportJob''),
      (''POST /api/lms/imports/:jobId/writeback'', ''WritebackImportJob''),
      (''GET /api/lms/question-bank/subjects'', ''ListSubjects''),
      (''GET /api/lms/question-bank/categories'', ''ListQuestionBankCategories''),
      (''GET /api/lms/question-bank/questions'', ''ListQuestions''),
      (''POST /api/lms/question-bank/questions'', ''CreateQuestion''),
      (''PATCH /api/lms/question-bank/questions/:questionId'', ''UpdateQuestion''),
      (''GET /api/lms/quiz-bank'', ''ListQuizzes''),
      (''GET /api/lms/subjects'', ''ListSubjects''),
      (''GET /api/lms/subjects/:subjectId/levels'', ''ListLevels''),
      (''GET /api/lms/levels/:levelId/topics'', ''ListTopics''),
      (''GET /api/lms/questions'', ''ListQuestions''),
      (''POST /api/lms/questions'', ''CreateQuestion''),
      (''POST /api/lms/questions/random-pick'', ''RandomPickQuestions''),
      (''PATCH /api/lms/questions/:questionId'', ''UpdateQuestion''),
      (''DELETE /api/lms/questions/:questionId'', ''ArchiveQuestion''),
      (''GET /api/lms/quizzes'', ''ListQuizzes''),
      (''POST /api/lms/quizzes'', ''CreateQuiz''),
      (''POST /api/lms/quizzes/from-questions'', ''CreateQuizFromQuestions''),
      (''POST /api/lms/quizzes/random'', ''CreateRandomQuiz''),
      (''GET /api/lms/quizzes/:quizId/students'', ''QuizStudentProgress''),
      (''GET /api/lms/quizzes/:quizId'', ''GetQuizDetail''),
      (''PATCH /api/lms/quizzes/:quizId'', ''UpdateQuiz''),
      (''PUT /api/lms/quizzes/:quizId'', ''UpdateQuiz''),
      (''POST /api/lms/quizzes/:quizId/publish'', ''PublishQuiz''),
      (''GET /api/lms/quizzes/:quizId/package'', ''QuizPackage''),
      (''GET /api/lms/assignments/active'', ''ActiveAssignments''),
      (''POST /api/lms/assignments/deliveries'', ''CreateAssignmentDelivery''),
      (''POST /api/lms/assignments'', ''CreateAssignment''),
      (''GET /api/lms/assignments/:assignmentId/progress'', ''AssignmentProgress''),
      (''POST /api/lms/attempts'', ''StartAttempt''),
      (''PATCH /api/lms/attempts/:attemptId/draft'', ''SaveAttemptDraft''),
      (''PUT /api/lms/attempts/:attemptId/answers/:questionId'', ''SaveAnswer''),
      (''POST /api/lms/attempts/:attemptId/answers'', ''SaveAnswerCompat''),
      (''POST /api/lms/attempts/:attemptId/submit'', ''SubmitAttempt''),
      (''POST /api/lms/attempts/:attemptId/sync'', ''SyncAttempt''),
      (''POST /api/lms/discussions/:threadId/replies'', ''CreateDiscussionReply''),
      (''POST /api/lms/discussions/attachments'', ''CreateDiscussionAttachment''),
      (''GET /api/lms/moderation/profanity-words'', ''ProfanityWords''),
      (''POST /api/lms/moderation/check'', ''ModerationCheck''),
      (''GET /api/lms/announcements'', ''ListAnnouncements''),
      (''POST /api/lms/announcements'', ''CreateAnnouncement''),
      (''GET /api/lms/reports/classroom'', ''ClassroomReport''),
      (''GET /api/lms/reports/students/:studentId'', ''StudentJourney''),
      (''GET /api/lms/reports/assignments/:assignmentId'', ''AssignmentReport''),
      (''GET /api/lms/reports/export'', ''ExportReport''),
      (''GET /api/lms/internal-documents'', ''ListInternalDocuments''),
      (''POST /api/lms/internal-documents'', ''CreateInternalDocument'')]"

text \<open>A route that is not in the table is let through: \<open>None\<close>; else the permission that is missing.\<close>

definition requireLMSRoutePermission :: "goenv \<Rightarrow> string \<Rightarrow> string \<Rightarrow> jwtClaims \<Rightarrow> string option" where
  "requireLMSRoutePermission env methd fullPath claims =
     (case map_of lmsRoutePermissions (methd @ '' '' @ fullPath) of
        None \<Rightarrow> None
      | Some permission \<Rightarrow> if RequireAccessPermission env permission claims then None else Some permission)"

section \<open>The chain\<close>

datatype guardResult = Rejected int jval | Admitted string jwtClaims

definition ginError :: "string \<Rightarrow> string \<Rightarrow> jval" where
  "ginError kind message = JObj [(''error'', JStr kind), (''message'', JStr message)]"

definition quoted :: "string \<Rightarrow> string" where
  "quoted s = [CHR 0x27] @ s @ [CHR 0x27]"

text \<open>The middleware: an error, a status and a body, or what it passes on.\<close>

definition TenantMiddlewareGin :: "guardcfg \<Rightarrow> request \<Rightarrow> (int \<times> jval) + string" where
  "TenantMiddlewareGin cfg rq =
     (let tenant = resolveTenantID cfg rq
      in if tenant = [] \<and> gc_tenantEnabled cfg then
           Inl (400, JObj [(''error'', JStr ''tenant_id required''), (''code'', JStr ''TENANT_ID_REQUIRED'')])
         else Inr tenant)"

definition JWTMiddleware :: "guardcfg \<Rightarrow> request \<Rightarrow> (int \<times> jval) + jwtClaims" where
  "JWTMiddleware cfg rq =
     (if UsesCookieAuth rq [] \<and> UnsafeMethod (rq_method rq) \<and> \<not> ValidateCSRF rq then
        Inl (403, ginError ''forbidden'' ''missing or invalid CSRF token'')
      else
        let authHeader = AuthorizationHeaderFromRequest rq []
        in if authHeader = [] then Inl (401, ginError ''unauthorized'' ''missing Authorization header'')
           else case ValidateRequest cfg authHeader of
                  None \<Rightarrow> Inl (401, ginError ''unauthorized'' ''invalid token'')
                | Some claims \<Rightarrow> Inr claims)"

text \<open>
  The chain in the order of registration: the tenant for the whole router, then token, portal and
  permission for the group \<open>/api/lms\<close>; \<open>fullPath\<close> is the pattern of the route.
\<close>

definition lmsGuards :: "guardcfg \<Rightarrow> string \<Rightarrow> request \<Rightarrow> guardResult" where
  "lmsGuards cfg fullPath rq =
     (case TenantMiddlewareGin cfg rq of
        Inl (status, body) \<Rightarrow> Rejected status body
      | Inr tenant \<Rightarrow>
          (case JWTMiddleware cfg rq of
             Inl (status, body) \<Rightarrow> Rejected status body
           | Inr claims \<Rightarrow>
               if \<not> RequirePortal (gc_env cfg) ''lms'' claims then
                 Rejected 403 (ginError ''forbidden'' (''portal '' @ quoted ''lms'' @ '' required''))
               else (case requireLMSRoutePermission (gc_env cfg) (rq_method rq) fullPath claims of
                       Some permission \<Rightarrow> Rejected 403 (ginError ''forbidden'' (''permission '' @ quoted permission @ '' required''))
                     | None \<Rightarrow> Admitted tenant claims)))"

definition actorFromContext :: "jwtClaims \<Rightarrow> actor" where
  "actorFromContext claims = \<lparr>UserID = jc_UserID claims, Roles = jc_Roles claims\<rparr>"


section \<open>Evaluating the guards\<close>

text \<open>
  For a token whose names are printable ASCII the checks are membership tests on the tables: the portals
  and permissions a token has, its own and those of its roles.
\<close>

definition plainClaims :: "jwtClaims \<Rightarrow> bool" where
  "plainClaims c \<longleftrightarrow> list_all printableText (jc_Portal c # jc_Portals c @ jc_Roles c @ jc_Permissions c @ jc_DeniedPermissions c)"

definition claimsPortal :: "string \<Rightarrow> jwtClaims \<Rightarrow> bool" where
  "claimsPortal portal c \<longleftrightarrow>
     list_ex (\<lambda>p. map lower_ascii p = ''*'' \<or> map lower_ascii p = portal) (jc_Portal c # jc_Portals c)
   \<or> list_ex (\<lambda>r. list_ex (\<lambda>p. p = ''*'' \<or> p = portal) (rolePortals r)) (jc_Roles c)"

definition claimsGrant :: "string \<Rightarrow> jwtClaims \<Rightarrow> bool" where
  "claimsGrant permission c \<longleftrightarrow>
     \<not> list_ex (\<lambda>d. matchesPrintable d permission) (jc_DeniedPermissions c)
   \<and> (list_ex (\<lambda>g. matchesPrintable g permission) (jc_Permissions c)
     \<or> list_ex (\<lambda>r. list_ex (\<lambda>g. matchesPrintable g permission) (roleGrants r)) (jc_Roles c))"

lemma PermissionAliases_lms: "printableText p \<Longrightarrow> has_prefix p ''lms.'' \<Longrightarrow> PermissionAliases p = []"
proof -
  assume "printableText p" and "has_prefix p ''lms.''"
  moreover from this obtain r where "p = CHR ''l'' # r" by (cases p) (auto simp: has_prefix_def)
  ultimately show ?thesis by (simp add: PermissionAliases_def trim_space_printable Let_def)
qed

lemma no_role_without_name: "roleOf [] = None"
  by code_simp

lemma matchesPrintable_empty [simp]: "\<not> matchesPrintable [] r"
  by (simp add: matchesPrintable_def)

lemma RequireAccessPermission_plain:
  assumes c: "plainClaims c" and p: "printableText p" "has_prefix p ''lms.''"
  shows "RequireAccessPermission env p c \<longleftrightarrow> claimsGrant p c"
proof -
  let ?s = "SubjectFromClaims env (Some c)"
  have ne: "p \<noteq> []" using p(2) by (auto simp: has_prefix_def)
  have lists: "list_all printableText (jc_Roles c)" "list_all printableText (jc_Permissions c)" "list_all printableText (jc_DeniedPermissions c)"
    using c by (auto simp: plainClaims_def)
  have roles: "set (ps_Roles ?s) = set (jc_Roles c) - {[]}" and perms: "set (ps_Permissions ?s) = set (jc_Permissions c) - {[]}"
    and denied: "set (ps_DeniedPermissions ?s) = set (jc_DeniedPermissions c) - {[]}"
    using lists by (simp_all add: SubjectFromClaims_def Let_def set_uniqueStrings_printable)
  have "list_all printableText (ps_Roles ?s)" using lists roles by (auto simp: list_all_iff)
  then have fromRoles: "set (PermissionsForRoles env (ps_Roles ?s)) = (\<Union>r \<in> set (jc_Roles c). set (roleGrants r))"
    by (simp only: set_PermissionsForRoles roles) (auto simp: roleGrants_def no_role_without_name)
  note plain = anyMatch_plain [OF p(1) ne PermissionAliases_lms [OF p]]
  have "anyMatch env (ps_DeniedPermissions ?s) p \<longleftrightarrow> (\<exists>d \<in> set (jc_DeniedPermissions c). matchesPrintable d p)"
    using lists denied by (subst plain) (auto simp: list_all_iff)
  moreover have "anyMatch env (ps_Permissions ?s @ PermissionsForRoles env (ps_Roles ?s)) p \<longleftrightarrow>
      (\<exists>g \<in> set (jc_Permissions c) \<union> (\<Union>r \<in> set (jc_Roles c). set (roleGrants r)). matchesPrintable g p)"
    using lists perms fromRoles roleGrants_printable by (subst plain) (auto simp: list_all_iff)
  ultimately show ?thesis
    using ne p(1)
    by (auto simp: RequireAccessPermission_def Decide_allowed_iff permissionRequest_def scopeAdmits_def RequiredPermission_def
        trim_space_printable claimsGrant_def list_ex_iff)
qed

lemma set_filter_nonempty: "set (filter (\<lambda>p. p \<noteq> []) xs) = set xs - {[]}"
  by auto

lemma NormalizePortal_idem: "printableText q \<Longrightarrow> NormalizePortal env (NormalizePortal env q) = NormalizePortal env q"
  by (simp add: NormalizePortal_printable printableText_lower lower_ascii_idem comp_def)

lemma ex_normalized:
  assumes "\<And>q. q \<in> A \<Longrightarrow> n (n q) = n q" and "B \<subseteq> A" and "\<not> P []"
  shows "(\<exists>a \<in> (n ` A - {[]}) \<union> B. P (n a)) \<longleftrightarrow> (\<exists>q \<in> A. P (n q))"
proof
  assume "\<exists>q \<in> A. P (n q)"
  then obtain q where "q \<in> A" "P (n q)" by blast
  then have "n q \<in> n ` A - {[]}" "P (n (n q))" using assms by auto
  then show "\<exists>a \<in> (n ` A - {[]}) \<union> B. P (n a)" by blast
qed (use assms in auto)

lemma RequirePortal_plain:
  assumes c: "plainClaims c" and p: "printableText portal" "map lower_ascii portal = portal" "portal \<in> set SupportedPortals"
  shows "RequirePortal env portal c \<longleftrightarrow> claimsPortal portal c"
proof -
  let ?s = "SubjectFromClaims env (Some c)" and ?n = "NormalizePortal env"
  have norm: "?n portal = portal" using p by (simp add: NormalizePortal_printable)
  have ne: "portal \<noteq> []" using p(3) by (auto simp: SupportedPortals_def)
  have lists: "list_all printableText (jc_Roles c)" "\<And>q. q \<in> set (jc_Portal c # jc_Portals c) \<Longrightarrow> ?n q = map lower_ascii q"
    using c by (auto simp: plainClaims_def list_all_iff NormalizePortal_printable)
  let ?all = "jc_Portals c @ (if jc_Portal c \<noteq> [] then [jc_Portal c] else []) @ PortalsForRoles env (jc_Roles c)"
  have fromRoles: "set (PortalsForRoles env (jc_Roles c)) = (\<Union>r \<in> set (jc_Roles c). set (rolePortals r))"
    by (rule set_PortalsForRoles) (rule lists)
  have fixed: "?n q = q" if "q \<in> set (PortalsForRoles env (jc_Roles c))" for q
    using that rolePortals_printable unfolding fromRoles by (auto simp: NormalizePortal_printable)
  have idem: "?n (?n q) = ?n q" if "q \<in> set ?all" for q
    using that c fixed by (auto simp: plainClaims_def list_all_iff NormalizePortal_idem split: if_splits)
  have all: "set (ps_Portals ?s) = ?n ` set ?all - {[]}"
  proof -
    have "set (ps_Portals ?s) = ?n ` (set (map ?n ?all) - {[]}) - {[]}"
      unfolding SubjectFromClaims_def normalizePortals_def Let_def
      by (simp only: option.case policySubject.simps set_uniquePortals set_filter_nonempty)
    also have "?n ` (set (map ?n ?all) - {[]}) = set (map ?n ?all) - {[]}"
      using idem by (intro image_fixed) auto
    finally show ?thesis by (simp only: set_map Diff_idemp)
  qed
  have roles: "set (ps_Roles ?s) = set (jc_Roles c) - {[]}"
    using lists(1) by (simp add: SubjectFromClaims_def Let_def set_uniqueStrings_printable)
  have "list_all printableText (ps_Roles ?s)" using lists(1) roles by (auto simp: list_all_iff)
  then have again: "set (PortalsForRoles env (ps_Roles ?s)) = set (PortalsForRoles env (jc_Roles c))"
    unfolding fromRoles by (simp only: set_PortalsForRoles roles) (auto simp: rolePortals_def no_role_without_name)
  let ?ok = "\<lambda>a. a = PortalAll \<or> a = portal"
  have "SubjectHasPortal env ?s portal \<longleftrightarrow> (\<exists>a \<in> set (ps_Portals ?s) \<union> set (PortalsForRoles env (jc_Roles c)). ?ok (?n a))"
    using ne by (simp add: SubjectHasPortal_def norm list_ex_iff again bex_Un)
  also have "\<dots> \<longleftrightarrow> (\<exists>q \<in> set ?all. ?ok (?n q))"
    unfolding all by (rule ex_normalized) (use idem ne in \<open>auto simp: PortalAll_def\<close>)
  also have "\<dots> \<longleftrightarrow> claimsPortal portal c"
  proof -
    have "(\<exists>q \<in> set (PortalsForRoles env (jc_Roles c)). ?ok (?n q)) \<longleftrightarrow> (\<exists>r \<in> set (jc_Roles c). \<exists>q \<in> set (rolePortals r). ?ok q)"
    proof -
      have "(\<exists>q \<in> set (PortalsForRoles env (jc_Roles c)). ?ok (?n q)) \<longleftrightarrow> (\<exists>q \<in> set (PortalsForRoles env (jc_Roles c)). ?ok q)"
        by (rule bex_cong) (simp_all add: fixed)
      then show ?thesis by (simp add: fromRoles)
    qed
    moreover have "(\<exists>q \<in> set (jc_Portals c). ?ok (?n q)) \<longleftrightarrow> (\<exists>q \<in> set (jc_Portals c). ?ok (map lower_ascii q))"
      using lists(2) by auto
    moreover have "?ok (?n (jc_Portal c)) \<longleftrightarrow> ?ok (map lower_ascii (jc_Portal c))" using lists(2) by simp
    ultimately show ?thesis
      using ne by (cases "jc_Portal c = []") (simp_all add: claimsPortal_def PortalAll_def list_ex_iff bex_Un disj_commute disj_left_commute)
  qed
  finally show ?thesis
    using p(3) by (simp add: RequirePortal_def norm ValidPortal_def)
qed

section \<open>What the guards admit\<close>

lemma normalizeTenant_printable: "printableText t \<Longrightarrow> normalizeTenant t = map lower_ascii t"
  unfolding normalizeTenant_def
  by (rule arg_cong [of _ _ "map lower_ascii"]) (auto simp: filter_id_conv printableText_def list_all_iff printableChar_bits)

lemma table_permissions: "list_all (\<lambda>(route, p). printableText p \<and> has_prefix p ''lms.'') lmsRoutePermissions"
  by code_simp

lemma table_permission: "map_of lmsRoutePermissions route = Some p \<Longrightarrow> printableText p \<and> has_prefix p ''lms.''"
  using table_permissions by (auto simp: list_all_iff dest: map_of_SomeD)

text \<open>The permission a route asks for is one the token has.\<close>

definition routeGranted :: "string \<Rightarrow> jwtClaims \<Rightarrow> bool" where
  "routeGranted route c = (case map_of lmsRoutePermissions route of None \<Rightarrow> True | Some p \<Rightarrow> claimsGrant p c)"

lemma requireLMSRoutePermission_plain:
  "plainClaims c \<Longrightarrow> requireLMSRoutePermission env methd path c =
     (if routeGranted (methd @ '' '' @ path) c then None else map_of lmsRoutePermissions (methd @ '' '' @ path))"
  by (auto simp: requireLMSRoutePermission_def routeGranted_def RequireAccessPermission_plain split: option.splits dest!: table_permission)

lemma RequirePortal_lms: "plainClaims c \<Longrightarrow> RequirePortal env ''lms'' c \<longleftrightarrow> claimsPortal ''lms'' c"
  by (rule RequirePortal_plain) (code_simp | simp)+

text \<open>With a bearer token in the header the cookies do not matter.\<close>

lemma JWTMiddleware_bearer:
  assumes "ValidateRequest cfg (trim_space (header rq ''Authorization'')) = Some c"
  shows "JWTMiddleware cfg rq = Inr c"
proof -
  have "trim_space (header rq ''Authorization'') \<noteq> []"
    using assms by (auto simp: ValidateRequest_def)
  then show ?thesis using assms by (simp add: JWTMiddleware_def UsesCookieAuth_def AuthorizationHeaderFromRequest_def)
qed

lemma lmsGuards_admits:
  assumes "ValidateRequest cfg (trim_space (header rq ''Authorization'')) = Some c" and "plainClaims c"
  shows "lmsGuards cfg path rq =
    (if resolveTenantID cfg rq = [] \<and> gc_tenantEnabled cfg then
       Rejected 400 (JObj [(''error'', JStr ''tenant_id required''), (''code'', JStr ''TENANT_ID_REQUIRED'')])
     else if \<not> claimsPortal ''lms'' c then Rejected 403 (ginError ''forbidden'' (''portal '' @ quoted ''lms'' @ '' required''))
     else if \<not> routeGranted (rq_method rq @ '' '' @ path) c then
       Rejected 403 (ginError ''forbidden'' (''permission '' @ quoted (the (map_of lmsRoutePermissions (rq_method rq @ '' '' @ path))) @ '' required''))
     else Admitted (resolveTenantID cfg rq) c)"
  using RequirePortal_lms [OF assms(2)] requireLMSRoutePermission_plain [OF assms(2)]
  by (auto simp: lmsGuards_def TenantMiddlewareGin_def JWTMiddleware_bearer [OF assms(1)] routeGranted_def Let_def split: option.splits)

text \<open>A token of the role \<open>lms.student\<close> without permissions of its own.\<close>

definition studentClaims :: "string \<Rightarrow> string \<Rightarrow> jwtClaims" where
  "studentClaims user tenant =
     \<lparr>jc_UserID = user, jc_Subject = [], jc_Email = [], jc_TenantID = tenant, jc_Portal = [], jc_Portals = [], jc_Permissions = [],
      jc_DeniedPermissions = [], jc_Roles = [''lms.student''], jc_RegSubject = []\<rparr>"

lemma studentClaims_plain: "plainClaims (studentClaims user tenant)"
  by (simp add: plainClaims_def studentClaims_def) code_simp

lemma student_grants:
  "roleGrants ''lms.student'' = [''lms.scope.read'', ''lms.course.read'', ''lms.class.read'', ''lms.assignment.read'', ''lms.assignment.submit'',
     ''lms.grade.read'', ''lms.report.read'']"
  by code_simp

definition studentRoutes :: "string list" where
  "studentRoutes =
     [''GET /api/lms/scopes/me'',
      ''GET /api/lms/access-management/options'',
      ''GET /api/lms/access-management/users'',
      ''GET /api/lms/access-management/users/:userId/access'',
      ''POST /api/lms/access-management/preview'',
      ''GET /api/lms/dashboard/overview'',
      ''GET /api/lms/dashboard/interventions'',
      ''GET /api/lms/education-units/:id/classes'',
      ''GET /api/lms/classes'',
      ''GET /api/lms/classes/:classId/reports'',
      ''GET /api/lms/classes/:classId/students'',
      ''GET /api/lms/classes/:classId'',
      ''GET /api/lms/classes/:classId/assignments'',
      ''GET /api/lms/classes/:classId/discussions'',
      ''GET /api/lms/students'',
      ''GET /api/lms/students/:studentId/journey'',
      ''GET /api/lms/students/:studentId'',
      ''GET /api/lms/students/me/assignments'',
      ''GET /api/lms/students/me/scores'',
      ''GET /api/lms/quizzes/:quizId/students'',
      ''GET /api/lms/assignments/active'',
      ''GET /api/lms/assignments/:assignmentId/progress'',
      ''POST /api/lms/attempts'',
      ''PATCH /api/lms/attempts/:attemptId/draft'',
      ''PUT /api/lms/attempts/:attemptId/answers/:questionId'',
      ''POST /api/lms/attempts/:attemptId/answers'',
      ''POST /api/lms/attempts/:attemptId/submit'',
      ''POST /api/lms/attempts/:attemptId/sync'',
      ''GET /api/lms/moderation/profanity-words'',
      ''POST /api/lms/moderation/check'',
      ''GET /api/lms/announcements'',
      ''GET /api/lms/reports/classroom'',
      ''GET /api/lms/reports/students/:studentId'',
      ''GET /api/lms/reports/assignments/:assignmentId'',
      ''GET /api/lms/reports/export'']"

lemma student_table:
  "map fst (filter (\<lambda>(route, p). list_ex (\<lambda>g. matchesPrintable g p) [''lms.scope.read'', ''lms.course.read'', ''lms.class.read'',
       ''lms.assignment.read'', ''lms.assignment.submit'', ''lms.grade.read'', ''lms.report.read'']) lmsRoutePermissions) = studentRoutes"
  unfolding studentRoutes_def by code_simp

text \<open>The table follows the order of registration but for two entries.\<close>

lemma routes_of_table:
  "map fst lmsRoutes =
     (let keys = map fst lmsRoutePermissions
      in take 3 keys @ [''GET /api/lms/access-management/scopes''] @ take 2 (drop 3 keys) @ [keys ! 6, keys ! 5] @ drop 7 keys)"
  by code_simp

lemma swapped_set:
  "7 \<le> length xs \<Longrightarrow> set (take 3 xs @ [y] @ take 2 (drop 3 xs) @ [xs ! 6, xs ! 5] @ drop 7 xs) = insert y (set xs)"
proof -
  assume "7 \<le> length xs"
  then obtain a b c d e f g r where "xs = a # b # c # d # e # f # g # r"
    by (auto simp: Suc_le_length_iff numeral_eq_Suc)
  then show ?thesis by (auto simp: numeral_eq_Suc)
qed

text \<open>
  Every registered route of the LMS has a permission, except one: the list of access scopes is open to
  every token of the portal.
\<close>

lemma unguarded_routes:
  "{route \<in> fst ` set lmsRoutes. map_of lmsRoutePermissions route = None} = {''GET /api/lms/access-management/scopes''}
   \<and> requireLMSRoutePermission env ''GET'' ''/api/lms/access-management/scopes'' c = None"
proof -
  let ?open = "''GET /api/lms/access-management/scopes''"
  have len: "7 \<le> length (map fst lmsRoutePermissions)" by (simp add: lmsRoutePermissions_def)
  have routes: "fst ` set lmsRoutes = insert ?open (fst ` set lmsRoutePermissions)"
  proof -
    have "fst ` set lmsRoutes = set (map fst lmsRoutes)" by simp
    also have "\<dots> = insert ?open (set (map fst lmsRoutePermissions))"
      by (simp only: routes_of_table Let_def swapped_set [OF len])
    finally show ?thesis by simp
  qed
  have "?open \<notin> set (map fst lmsRoutePermissions)" by code_simp
  then have none: "map_of lmsRoutePermissions ?open = None" by (simp add: map_of_eq_None_iff)
  then have "requireLMSRoutePermission env ''GET'' ''/api/lms/access-management/scopes'' c = None"
    by (simp add: requireLMSRoutePermission_def)
  then show ?thesis using none by (auto simp: routes map_of_eq_None_iff)
qed

lemma table_distinct: "distinct (map fst lmsRoutePermissions)"
  by code_simp

text \<open>
  C24. The routes a student reaches. A request with a bearer token of the role \<open>lms.student\<close>, without
  permissions of its own, and with a tenant passes the chain of guards on a registered route exactly when
  the route is one of \<open>studentRoutes\<close>, which are those its role has the permission of, or the list of
  access scopes, which asks for none. The package of a quiz, which the load client fetches with the
  student's token, is not among them, while the progress of all students of a quiz and the list of students are.
\<close>

theorem student_routes:
  assumes "ValidateRequest cfg (trim_space (header rq ''Authorization'')) = Some (studentClaims user tenant)"
    and "resolveTenantID cfg rq \<noteq> []" and "rq_method rq @ '' '' @ path \<in> set (map fst lmsRoutes)"
  shows "(\<exists>t c. lmsGuards cfg path rq = Admitted t c)
    \<longleftrightarrow> rq_method rq @ '' '' @ path \<in> set (''GET /api/lms/access-management/scopes'' # studentRoutes)"
proof -
  let ?c = "studentClaims user tenant" and ?key = "rq_method rq @ '' '' @ path"
  have lms: "claimsPortal ''lms'' ?c" unfolding claimsPortal_def studentClaims_def by code_simp
  have grant: "claimsGrant p ?c = list_ex (\<lambda>g. matchesPrintable g p) (roleGrants ''lms.student'')" for p
    by (simp add: claimsGrant_def studentClaims_def)
  have mem: "?key \<in> set studentRoutes \<longleftrightarrow> (\<exists>p. (?key, p) \<in> set lmsRoutePermissions \<and> claimsGrant p ?c)"
    unfolding student_table [symmetric] grant student_grants by force
  have none: "map_of lmsRoutePermissions ''GET /api/lms/access-management/scopes'' = None"
    using unguarded_routes [THEN conjunct1] by blast
  have "routeGranted ?key ?c \<longleftrightarrow> ?key = ''GET /api/lms/access-management/scopes'' \<or> ?key \<in> set studentRoutes"
  proof (cases "map_of lmsRoutePermissions ?key")
    case None
    then have "?key = ''GET /api/lms/access-management/scopes''" using unguarded_routes assms(3) by auto
    with None show ?thesis by (simp add: routeGranted_def)
  next
    case (Some p)
    have "(?key, p') \<in> set lmsRoutePermissions \<longleftrightarrow> p' = p" for p'
      unfolding map_of_eq_Some_iff [OF table_distinct, symmetric] Some by auto
    moreover have "?key \<noteq> ''GET /api/lms/access-management/scopes''" using none Some by (metis option.distinct(1))
    ultimately show ?thesis unfolding routeGranted_def mem Some by simp
  qed
  then show ?thesis
    using assms(2) lms by (simp add: lmsGuards_admits [OF assms(1) studentClaims_plain])
qed

text \<open>
  C26. The tenant a request acts in is the one its header names, whatever the tenant of its token: an
  admitted request stays admitted, with the same identity, when it names another tenant.
\<close>

theorem tenant_header_wins:
  assumes "lmsGuards cfg path rq = Admitted t c" and "printableText t'" and "t' \<noteq> []" and "map lower_ascii t' = t'"
  shows "lmsGuards cfg path (rq\<lparr>rq_headers := (''X-Tenant-ID'', t') # rq_headers rq\<rparr>) = Admitted t' c"
proof -
  let ?rq = "rq\<lparr>rq_headers := (''X-Tenant-ID'', t') # rq_headers rq\<rparr>"
  have "header ?rq ''X-Tenant-ID'' = t'" by (simp add: header_def)
  then have tenant: "resolveTenantID cfg ?rq = t'"
    using assms(2-4) by (simp add: resolveTenantID_def Let_def trim_space_printable normalizeTenant_printable)
  have auth: "header ?rq name = header rq name" if "map lower_ascii name \<noteq> ''x-tenant-id''" for name
    using that by (auto simp: header_def lower_ascii_bits)
  have "cookieLines ?rq = cookieLines rq" by (simp add: cookieLines_def lower_ascii_bits)
  then have cookies: "requestCookie ?rq = requestCookie rq" by (simp add: requestCookie_def fun_eq_iff)
  have token: "firstToken ?rq names = firstToken rq names" for names by (induction names) (simp_all add: cookies split: option.split)
  have "JWTMiddleware cfg ?rq = JWTMiddleware cfg rq"
    by (simp add: JWTMiddleware_def UsesCookieAuth_def AuthorizationHeaderFromRequest_def AccessTokenFromRequest_def ValidateCSRF_def
        token cookies auth CSRFHeaderName_def lower_ascii_bits)
  then show ?thesis
    using assms(1,3) by (auto simp: lmsGuards_def TenantMiddlewareGin_def tenant Let_def split: if_splits option.splits sum.splits)
qed

text \<open>
  C25. Cross-site requests do not pass: a request that changes something and carries its token in a cookie is
  admitted only when a header repeats the value of the CSRF cookie, a value that is not empty.
\<close>

theorem csrf_protects:
  assumes "lmsGuards cfg path rq = Admitted t c" and "UnsafeMethod (rq_method rq)" and "trim_space (header rq ''Authorization'') = []"
  shows "\<exists>v. v \<noteq> [] \<and> trim_space (header rq ''X-CSRF-Token'') = v \<and> requestCookie rq ''erg_csrf_token'' = Some v"
proof -
  obtain c' where jwt: "JWTMiddleware cfg rq = Inr c'"
    using assms(1) by (auto simp: lmsGuards_def split: sum.splits)
  then have "AccessTokenFromRequest rq [] \<noteq> []"
    using assms(3) by (auto simp: JWTMiddleware_def AuthorizationHeaderFromRequest_def split: if_splits)
  then have "ValidateCSRF rq"
    using jwt assms(2,3) by (auto simp: JWTMiddleware_def UsesCookieAuth_def split: if_splits)
  from ValidateCSRF_unsafe [OF assms(2) this] show ?thesis
    unfolding CSRFHeaderName_def DefaultCSRFTokenCookieName_def by blast
qed

definition sampleGuards :: guardcfg where
  "sampleGuards =
     \<lparr>gc_env = sampleEnv, gc_host = ''erg.ninja'', gc_tenantEnabled = True, gc_defaultTenant = [],
      gc_validate = (\<lambda>token. if token = ''abc'' then Some (studentClaims ''u'' ''acme'') else None)\<rparr>"

definition sampleRequest :: request where
  "sampleRequest = \<lparr>rq_method = ''POST'', rq_url = [], rq_body = JNull,
     rq_headers = [(''Content-Type'', ''application/json''), (''X-Tenant-ID'', ''acme''), (''Authorization'', ''Bearer abc'')]\<rparr>"

lemma sample_admitted: "lmsGuards sampleGuards ''/api/lms/attempts'' sampleRequest = Admitted ''acme'' (studentClaims ''u'' ''acme'')"
proof -
  let ?c = "studentClaims ''u'' ''acme''"
  have "ValidateRequest sampleGuards (trim_space (header sampleRequest ''Authorization'')) = Some ?c" by code_simp
  moreover have "resolveTenantID sampleGuards sampleRequest = ''acme''" by code_simp
  moreover have "claimsPortal ''lms'' ?c" by code_simp
  moreover have "routeGranted (rq_method sampleRequest @ '' '' @ ''/api/lms/attempts'') ?c" by code_simp
  ultimately show ?thesis by (simp add: lmsGuards_admits studentClaims_plain)
qed

theorem student_routes_witness:
  "(\<exists>t c. lmsGuards sampleGuards ''/api/lms/attempts'' sampleRequest = Admitted t c)
    \<longleftrightarrow> rq_method sampleRequest @ '' '' @ ''/api/lms/attempts'' \<in> set (''GET /api/lms/access-management/scopes'' # studentRoutes)"
proof (rule student_routes)
  show "ValidateRequest sampleGuards (trim_space (header sampleRequest ''Authorization'')) = Some (studentClaims ''u'' ''acme'')" by code_simp
  show "resolveTenantID sampleGuards sampleRequest \<noteq> []" by code_simp
  show "rq_method sampleRequest @ '' '' @ ''/api/lms/attempts'' \<in> set (map fst lmsRoutes)" by (simp add: sampleRequest_def lmsRoutes_def)
qed

theorem tenant_header_wins_witness:
  "lmsGuards sampleGuards ''/api/lms/attempts'' (sampleRequest\<lparr>rq_headers := (''X-Tenant-ID'', ''other'') # rq_headers sampleRequest\<rparr>)
     = Admitted ''other'' (studentClaims ''u'' ''acme'')"
  using tenant_header_wins [OF sample_admitted, of "''other''"] by (simp add: printableText_def printableChar_bits lower_ascii_bits)

text \<open>The same request with the token in a cookie.\<close>

definition sampleCookieRequest :: request where
  "sampleCookieRequest = sampleRequest\<lparr>rq_headers := [(''X-Tenant-ID'', ''acme''), (''X-CSRF-Token'', ''k1''),
     (''Cookie'', ''erg_access_token=abc; erg_csrf_token=k1'')]\<rparr>"

lemma sample_cookie_admitted:
  "lmsGuards sampleGuards ''/api/lms/attempts'' sampleCookieRequest = Admitted ''acme'' (studentClaims ''u'' ''acme'')"
proof -
  let ?c = "studentClaims ''u'' ''acme''"
  have "JWTMiddleware sampleGuards sampleCookieRequest = Inr ?c" by code_simp
  moreover have "resolveTenantID sampleGuards sampleCookieRequest = ''acme''" by code_simp
  moreover have "claimsPortal ''lms'' ?c" by code_simp
  moreover have "routeGranted (rq_method sampleCookieRequest @ '' '' @ ''/api/lms/attempts'') ?c" by code_simp
  ultimately show ?thesis
    using RequirePortal_lms [OF studentClaims_plain] requireLMSRoutePermission_plain [OF studentClaims_plain]
    by (auto simp: lmsGuards_def TenantMiddlewareGin_def routeGranted_def Let_def split: option.splits)
qed

theorem csrf_protects_witness:
  "\<exists>v. v \<noteq> [] \<and> trim_space (header sampleCookieRequest ''X-CSRF-Token'') = v \<and> requestCookie sampleCookieRequest ''erg_csrf_token'' = Some v"
  by (rule csrf_protects [OF sample_cookie_admitted]) code_simp+

end
