(* ===== verification/AuthTokens.thy ===== *)
theory AuthTokens
  imports LmsGuards "HOL-Library.Countable"
begin

text \<open>
  What is in a token: the permissions of a user (\<open>GetEffectivePermissions\<close> of
  \<open>access_control/application/service/ac_service.go\<close>), the classification of accounts
  (\<open>auth/application/service/auth_service.go\<close>) and the pair of tokens of a session (\<open>src/pkg/auth/jwt.go\<close>).

  Signing and parsing of tokens is the library's: a parameter with the law that parsing a token gives its
  claims back until it expires. Times in tokens are whole seconds. The role and permission tables of the
  database are parameters.
\<close>

section \<open>Permissions\<close>

record permOverride =
  po_Permission :: string
  po_GrantType :: string
  po_ExpiresAt :: "gotime option"

record effectivePermissions =
  ep_RolePermissions :: "string list"
  ep_GrantedPermissions :: "string list"
  ep_DeniedPermissions :: "string list"
  ep_EffectivePermissions :: "string list"

text \<open>The loop over the overrides: the effective set, and what was granted and denied.\<close>

fun applyOverrides :: "gotime \<Rightarrow> permOverride list \<Rightarrow> string set \<Rightarrow> string list \<Rightarrow> string list \<Rightarrow> string set \<times> string list \<times> string list" where
  "applyOverrides now [] eff granted denied = (eff, granted, denied)"
| "applyOverrides now (ov # ovs) eff granted denied =
     (if (case po_ExpiresAt ov of None \<Rightarrow> False | Some t \<Rightarrow> t < now) then applyOverrides now ovs eff granted denied
      else if po_GrantType ov = ''DENY'' then applyOverrides now ovs (eff - {po_Permission ov}) granted (denied @ [po_Permission ov])
      else if po_GrantType ov = ''GRANT'' then applyOverrides now ovs (insert (po_Permission ov) eff) (granted @ [po_Permission ov]) denied
      else applyOverrides now ovs eff granted denied)"

definition GetEffectivePermissions :: "gotime \<Rightarrow> string list \<Rightarrow> permOverride list \<Rightarrow> effectivePermissions" where
  "GetEffectivePermissions now rolePerms overrides =
     (case applyOverrides now overrides (set rolePerms) [] [] of
        (eff, granted, denied) \<Rightarrow>
          \<lparr>ep_RolePermissions = rolePerms, ep_GrantedPermissions = sort_slice (\<lambda>a b. a < b) granted,
           ep_DeniedPermissions = sort_slice (\<lambda>a b. a < b) denied,
           ep_EffectivePermissions =
             sort_slice (\<lambda>a b. a < b) (filter (\<lambda>p. p \<in> eff) (remdups (rolePerms @ map po_Permission overrides)))\<rparr>)"

section \<open>Classification of accounts\<close>

definition grantsAllPermissions :: "string list \<Rightarrow> bool" where
  "grantsAllPermissions roles \<longleftrightarrow>
     list_ex (\<lambda>r. EqualFold r ''admin'' \<or> EqualFold r ''super_admin'' \<or> EqualFold r ''system.super_admin'' \<or> EqualFold r ''erg_super_admin'') roles"

definition containsPortal :: "string list \<Rightarrow> string \<Rightarrow> bool" where
  "containsPortal portals portal = list_ex (\<lambda>item. EqualFold (trim_space item) portal) portals"

definition containsPermission :: "string list \<Rightarrow> string \<Rightarrow> bool" where
  "containsPermission permissions permission = list_ex (\<lambda>item. EqualFold (trim_space item) permission) permissions"

definition portalsForToken :: "goenv \<Rightarrow> string list \<Rightarrow> string list" where
  "portalsForToken env roles = PortalsForRoles env roles"

definition classifyAccountAccess :: "string list \<Rightarrow> string list \<Rightarrow> string list \<Rightarrow> string \<times> string" where
  "classifyAccountAccess roles portals permissions =
     (if grantsAllPermissions roles \<or> containsPortal portals ''*'' \<or> containsPermission permissions ''*'' then (''admin'', ''full'')
      else if containsPortal portals ''cms'' then (''staff'', ''cms'')
      else if containsPortal portals ''elearning'' \<and> \<not> containsPortal portals ''lms'' \<and> \<not> containsPortal portals ''hoclieu'' then
        (''student'', ''elearning'')
      else if containsPortal portals ''lms'' \<and> containsPortal portals ''hoclieu'' then (''teacher'', ''full'')
      else if containsPortal portals ''lms'' then (''teacher'', ''lms'')
      else if containsPortal portals ''hoclieu'' then (''teacher'', ''hoclieu'')
      else (''community'', ''community_only''))"

section \<open>Tokens\<close>

text \<open>The claims of a token: those the policy reads, the session, the classification, issuer and times in seconds.\<close>

record tokenClaims =
  tc_claims :: jwtClaims
  tc_SessionID :: string
  tc_AccountType :: string
  tc_AccessLevel :: string
  tc_Issuer :: string
  tc_IssuedAt :: int
  tc_ExpiresAt :: int

definition noClaims :: jwtClaims where
  "noClaims = \<lparr>jc_UserID = [], jc_Subject = [], jc_Email = [], jc_TenantID = [], jc_Portal = [], jc_Portals = [],
     jc_Permissions = [], jc_DeniedPermissions = [], jc_Roles = [], jc_RegSubject = []\<rparr>"

text \<open>
  The provider: signing with the access and with the refresh secret, parsing with the refresh secret at a
  time, the issuer and the lifetimes.
\<close>

record provider =
  pv_signAccess :: "tokenClaims \<Rightarrow> string"
  pv_signRefresh :: "tokenClaims \<Rightarrow> string"
  pv_parseRefresh :: "gotime \<Rightarrow> string \<Rightarrow> tokenClaims option"
  pv_issuer :: string
  pv_accessExpiry :: int
  pv_refreshExpiry :: int

record tokenPair =
  tp_AccessToken :: string
  tp_RefreshToken :: string
  tp_ExpiresIn :: int
  tp_TokenType :: string

abbreviation nanos :: int where
  "nanos \<equiv> 1000000000"

definition tokenIssuer :: "provider \<Rightarrow> string" where
  "tokenIssuer pv = (if trim_space (pv_issuer pv) = [] then ''erg-server'' else pv_issuer pv)"

definition accessClaims :: "provider \<Rightarrow> gotime \<Rightarrow> string \<Rightarrow> string \<Rightarrow> string \<Rightarrow> string list \<Rightarrow> string list \<Rightarrow> string list \<Rightarrow> string \<times> string \<Rightarrow> tokenClaims" where
  "accessClaims pv now sessionID userID email roles perms portals access =
     \<lparr>tc_claims = noClaims\<lparr>jc_UserID := userID, jc_Email := email, jc_Roles := roles, jc_Permissions := perms, jc_Portals := portals,
        jc_RegSubject := userID\<rparr>,
      tc_SessionID = sessionID, tc_AccountType = fst access, tc_AccessLevel = snd access, tc_Issuer = tokenIssuer pv,
      tc_IssuedAt = now div nanos, tc_ExpiresAt = (now + pv_accessExpiry pv) div nanos\<rparr>"

definition refreshClaims :: "provider \<Rightarrow> gotime \<Rightarrow> string \<Rightarrow> string \<Rightarrow> tokenClaims" where
  "refreshClaims pv now sessionID userID =
     \<lparr>tc_claims = noClaims\<lparr>jc_UserID := userID, jc_RegSubject := userID\<rparr>, tc_SessionID = sessionID, tc_AccountType = [],
      tc_AccessLevel = [], tc_Issuer = tokenIssuer pv, tc_IssuedAt = now div nanos, tc_ExpiresAt = (now + pv_refreshExpiry pv) div nanos\<rparr>"

definition IssuePair ::
  "provider \<Rightarrow> gotime \<Rightarrow> string \<Rightarrow> string \<Rightarrow> string \<Rightarrow> string list \<Rightarrow> string list \<Rightarrow> string list \<Rightarrow> string \<times> string \<Rightarrow> tokenPair" where
  "IssuePair pv now sessionID userID email roles perms portals access =
     \<lparr>tp_AccessToken = pv_signAccess pv (accessClaims pv now sessionID userID email roles perms portals access),
      tp_RefreshToken = pv_signRefresh pv (refreshClaims pv now sessionID userID),
      tp_ExpiresIn = pv_accessExpiry pv div nanos, tp_TokenType = ''Bearer''\<rparr>"

text \<open>\<open>ValidateRefreshToken\<close>: parse, then the checks of \<open>Validate\<close>.\<close>

definition ValidateRefreshToken :: "provider \<Rightarrow> gotime \<Rightarrow> string \<Rightarrow> tokenClaims option" where
  "ValidateRefreshToken pv now token =
     (case pv_parseRefresh pv now (trim_space token) of
        None \<Rightarrow> None
      | Some c \<Rightarrow>
          if tc_Issuer c \<noteq> tokenIssuer pv then None
          else if tc_ExpiresAt c * nanos < now then None
          else Some (if jc_UserID (tc_claims c) = [] then c\<lparr>tc_claims := tc_claims c\<lparr>jc_UserID := jc_Subject (tc_claims c)\<rparr>\<rparr> else c))"

definition SessionIDFromClaims :: "tokenClaims \<Rightarrow> string" where
  "SessionIDFromClaims c =
     (if tc_SessionID c \<noteq> [] then tc_SessionID c else case jc_Permissions (tc_claims c) of [] \<Rightarrow> [] | p # _ \<Rightarrow> p)"

section \<open>The law of tokens\<close>

text \<open>
  What the code relies on: until a refresh token expires, parsing it gives its user, session, issuer and
  times back; a signed token has no blanks at its ends.
\<close>

locale token_codec =
  fixes sign :: "tokenClaims \<Rightarrow> string" and parse :: "gotime \<Rightarrow> string \<Rightarrow> tokenClaims option"
  assumes parse_live: "now < tc_ExpiresAt c * nanos \<Longrightarrow> parse now (sign c) \<noteq> None"
    and parse_claims: "parse now (sign c) = Some d \<Longrightarrow> jc_UserID (tc_claims d) = jc_UserID (tc_claims c) \<and> tc_SessionID d = tc_SessionID c
      \<and> tc_Issuer d = tc_Issuer c \<and> tc_IssuedAt d = tc_IssuedAt c \<and> tc_ExpiresAt d = tc_ExpiresAt c"
    and trim_sign: "trim_space (sign c) = sign c"
begin

lemma parse_sign: "now < tc_ExpiresAt c * nanos \<Longrightarrow> \<exists>d. parse now (sign c) = Some d"
  using parse_live by auto

lemma sign_inject:
  assumes "sign c = sign d"
  shows "tc_IssuedAt c = tc_IssuedAt d \<and> tc_SessionID c = tc_SessionID d \<and> jc_UserID (tc_claims c) = jc_UserID (tc_claims d)"
proof -
  let ?now = "min (tc_ExpiresAt c) (tc_ExpiresAt d) * nanos - 1"
  have "?now < tc_ExpiresAt c * nanos" by (simp add: min_def)
  then obtain e where "parse ?now (sign c) = Some e" using parse_sign by blast
  with assms parse_claims [of ?now c e] parse_claims [of ?now d e] show ?thesis by simp
qed

end

definition tokens_ok :: "provider \<Rightarrow> bool" where
  "tokens_ok pv \<longleftrightarrow> token_codec (pv_signRefresh pv) (pv_parseRefresh pv)"

lemmas tokens_parse = token_codec.parse_sign [OF tokens_ok_def [THEN iffD1]]
lemmas tokens_claims = token_codec.parse_claims [OF tokens_ok_def [THEN iffD1]]
lemmas tokens_trim = token_codec.trim_sign [OF tokens_ok_def [THEN iffD1]]
lemmas tokens_inject = token_codec.sign_inject [OF tokens_ok_def [THEN iffD1]]

text \<open>The refresh token of a session: accepted until it expires, and never read as another's.\<close>

lemma refreshClaims_simps [simp]:
  "tc_SessionID (refreshClaims pv t sid user) = sid" "jc_UserID (tc_claims (refreshClaims pv t sid user)) = user"
  "tc_Issuer (refreshClaims pv t sid user) = tokenIssuer pv" "tc_IssuedAt (refreshClaims pv t sid user) = t div nanos"
  "tc_ExpiresAt (refreshClaims pv t sid user) = (t + pv_refreshExpiry pv) div nanos"
  by (simp_all add: refreshClaims_def)

lemma ValidateRefreshToken_claims:
  assumes "tokens_ok pv" "ValidateRefreshToken pv now (pv_signRefresh pv c) = Some d" "jc_UserID (tc_claims c) \<noteq> []"
  shows "jc_UserID (tc_claims d) = jc_UserID (tc_claims c) \<and> tc_SessionID d = tc_SessionID c"
  using assms(2,3) tokens_claims [OF assms(1)] tokens_trim [OF assms(1), of c]
  by (auto simp: ValidateRefreshToken_def split: option.splits if_splits)

lemma ValidateRefreshToken_live:
  assumes "tokens_ok pv" "now < tc_ExpiresAt c * nanos" "tc_Issuer c = tokenIssuer pv"
  shows "\<exists>d. ValidateRefreshToken pv now (pv_signRefresh pv c) = Some d"
  using assms(2,3) tokens_parse [OF assms(1), of now c] tokens_claims [OF assms(1)] tokens_trim [OF assms(1), of c]
  by (auto simp: ValidateRefreshToken_def)

section \<open>A codec of tokens\<close>

text \<open>
  A signature without a key: the parts one after another, each character marked, each field closed. Times
  are written in unary after their sign.
\<close>

definition pack :: "string list \<Rightarrow> string" where
  "pack parts = concat (map (\<lambda>f. concat (map (\<lambda>c. [CHR ''x'', c]) f) @ [CHR ''y'']) parts)"

fun unpack :: "string \<Rightarrow> string list" where
  "unpack [] = []"
| "unpack [c] = [[]]"
| "unpack (c # d # s) =
     (if c = CHR ''y'' then [] # unpack (d # s)
      else case unpack s of [] \<Rightarrow> [[d]] | f # fs \<Rightarrow> (d # f) # fs)"

definition packInt :: "int \<Rightarrow> string" where
  "packInt n = (if n < 0 then CHR ''-'' else CHR ''+'') # replicate (nat \<bar>n\<bar>) (CHR ''1'')"

definition unpackInt :: "string \<Rightarrow> int" where
  "unpackInt s = (if hd s = CHR ''-'' then - int (length (tl s)) else int (length (tl s)))"

definition plainSign :: "tokenClaims \<Rightarrow> string" where
  "plainSign c = pack [jc_UserID (tc_claims c), tc_SessionID c, tc_Issuer c, packInt (tc_IssuedAt c), packInt (tc_ExpiresAt c)]"

definition plainParse :: "gotime \<Rightarrow> string \<Rightarrow> tokenClaims option" where
  "plainParse now token =
     (case unpack token of
        [user, session, issuer, iat, ends] \<Rightarrow>
          if now < unpackInt ends * nanos then
            Some \<lparr>tc_claims = noClaims\<lparr>jc_UserID := user\<rparr>, tc_SessionID = session, tc_AccountType = [], tc_AccessLevel = [],
              tc_Issuer = issuer, tc_IssuedAt = unpackInt iat, tc_ExpiresAt = unpackInt ends\<rparr>
          else None
      | _ \<Rightarrow> None)"

lemma unpack_field: "unpack (concat (map (\<lambda>c. [CHR ''x'', c]) f) @ CHR ''y'' # s) = f # unpack s"
proof (induction f)
  case Nil
  then show ?case by (cases s) simp_all
qed simp

lemma unpack_pack: "unpack (pack parts) = parts"
  by (induction parts) (simp_all add: pack_def unpack_field)

lemma unpackInt_packInt [simp]: "unpackInt (packInt n) = n"
  by (simp add: packInt_def unpackInt_def)

lemma pack_ends: "parts \<noteq> [] \<Longrightarrow> pack parts \<noteq> [] \<and> hd (pack parts) \<in> {CHR ''x'', CHR ''y''} \<and> last (pack parts) = CHR ''y''"
proof (induction parts)
  case (Cons f fs)
  then show ?case by (cases f; cases fs) (auto simp: pack_def)
qed simp

interpretation plain: token_codec plainSign plainParse
proof
  fix c
  show "trim_space (plainSign c) = plainSign c"
    unfolding plainSign_def
    using pack_ends [of "[jc_UserID (tc_claims c), tc_SessionID c, tc_Issuer c, packInt (tc_IssuedAt c), packInt (tc_ExpiresAt c)]"]
    by (intro trim_space_ends) (auto simp: printableChar_bits)
qed (auto simp: plainSign_def plainParse_def unpack_pack noClaims_def split: if_splits)

definition plainProvider :: provider where
  "plainProvider = \<lparr>pv_signAccess = plainSign, pv_signRefresh = plainSign, pv_parseRefresh = plainParse, pv_issuer = [],
     pv_accessExpiry = 5 * nanos, pv_refreshExpiry = 100 * nanos\<rparr>"

lemma plainProvider_ok: "tokens_ok plainProvider"
  by (simp add: tokens_ok_def plainProvider_def plain.token_codec_axioms)

end
