(* ===== verification/RedisCache.thy ===== *)
theory RedisCache
  imports LmsTypes
begin

text \<open>
  The cache (\<open>src/pkg/cache/redis.go\<close>): a thin wrapper of the Redis client. The server is a parameter, the
  replies and effects of the commands the code sends; the locale states what the documentation of Redis
  says of them, and is interpreted on a server that is a map of keys. Times are in nanoseconds.
\<close>

section \<open>The client and its wrapper\<close>

datatype redisReply = RedisErr | RedisNil | RedisVal string

record 'r redisOps =
  rd_get :: "gotime \<Rightarrow> 'r \<Rightarrow> string \<Rightarrow> redisReply"
  rd_exists :: "gotime \<Rightarrow> 'r \<Rightarrow> string \<Rightarrow> int option"
  rd_set :: "gotime \<Rightarrow> string \<Rightarrow> string \<Rightarrow> int \<Rightarrow> 'r \<Rightarrow> 'r"
  rd_incr :: "gotime \<Rightarrow> string \<Rightarrow> 'r \<Rightarrow> 'r \<times> int option"
  rd_ttl :: "gotime \<Rightarrow> 'r \<Rightarrow> string \<Rightarrow> int option"
  rd_expire :: "gotime \<Rightarrow> string \<Rightarrow> int \<Rightarrow> 'r \<Rightarrow> 'r"
  rd_del :: "string list \<Rightarrow> 'r \<Rightarrow> 'r"

text \<open>\<open>Get\<close>: \<open>None\<close> is an error; a key that does not exist is the empty string.\<close>

definition cacheGet :: "'r redisOps \<Rightarrow> gotime \<Rightarrow> 'r \<Rightarrow> string \<Rightarrow> string option" where
  "cacheGet rd now r key = (case rd_get rd now r key of RedisErr \<Rightarrow> None | RedisNil \<Rightarrow> Some [] | RedisVal v \<Rightarrow> Some v)"

definition cacheDel :: "'r redisOps \<Rightarrow> string list \<Rightarrow> 'r \<Rightarrow> 'r" where
  "cacheDel rd keys r = (if keys = [] then r else rd_del rd keys r)"

section \<open>The law of the server\<close>

type_synonym redisCell = "(string \<times> gotime option) option"

text \<open>What a cell holds at a time: the value until it expires.\<close>

definition liveValue :: "gotime \<Rightarrow> redisCell \<Rightarrow> string option" where
  "liveValue now c = (case c of None \<Rightarrow> None | Some (v, None) \<Rightarrow> Some v | Some (v, Some t) \<Rightarrow> if now < t then Some v else None)"

locale redis_store =
  fixes rd :: "'r redisOps" and cell :: "'r \<Rightarrow> string \<Rightarrow> redisCell"
  assumes get: "rd_get rd now r k = (case liveValue now (cell r k) of None \<Rightarrow> RedisNil | Some v \<Rightarrow> RedisVal v)"
    and exists: "rd_exists rd now r k = Some (if liveValue now (cell r k) = None then 0 else 1)"
    and set: "0 < ttl \<Longrightarrow> cell (rd_set rd now k v ttl r) = (cell r)(k := Some (v, Some (now + ttl)))"
    and incr_new: "liveValue now (cell r k) = None \<Longrightarrow>
      snd (rd_incr rd now k r) = Some 1 \<and> cell (fst (rd_incr rd now k r)) = (cell r)(k := Some (format_int 1, None))"
    and incr_next: "cell r k = Some (format_int n, e) \<Longrightarrow> liveValue now (cell r k) \<noteq> None \<Longrightarrow> 0 \<le> n \<Longrightarrow> n < max_int64 \<Longrightarrow>
      snd (rd_incr rd now k r) = Some (n + 1) \<and> cell (fst (rd_incr rd now k r)) = (cell r)(k := Some (format_int (n + 1), e))"
    and incr_other: "k' \<noteq> k \<Longrightarrow> cell (fst (rd_incr rd now k r)) k' = cell r k'"
    and ttl: "cell r k = Some (v, None) \<Longrightarrow> \<exists>d. rd_ttl rd now r k = Some d \<and> d \<le> 0"
    and expire: "cell r k = Some (v, e) \<Longrightarrow> liveValue now (cell r k) \<noteq> None \<Longrightarrow> 0 < d \<Longrightarrow>
      cell (rd_expire rd now k d r) = (cell r)(k := Some (v, Some (now + d)))"
    and expire_other: "k' \<noteq> k \<Longrightarrow> cell (rd_expire rd now k d r) k' = cell r k'"
    and del: "cell (rd_del rd ks r) k = (if k \<in> List.set ks then None else cell r k)"
begin

lemma cacheGet_cell: "cacheGet rd now r k = Some (case liveValue now (cell r k) of None \<Rightarrow> [] | Some v \<Rightarrow> v)"
  by (simp add: cacheGet_def get split: option.split)

lemma cell_cacheDel: "cell (cacheDel rd ks r) k = (if k \<in> List.set ks then None else cell r k)"
  by (simp add: cacheDel_def del)

end

section \<open>A server\<close>

type_synonym redisMap = "string \<Rightarrow> redisCell"

definition mapIncr :: "gotime \<Rightarrow> string \<Rightarrow> redisMap \<Rightarrow> redisMap \<times> int option" where
  "mapIncr now k r =
     (case liveValue now (r k) of
        None \<Rightarrow> (r(k := Some (format_int 1, None)), Some 1)
      | Some v \<Rightarrow>
          (case parse_int64 v of
             (n, None) \<Rightarrow> (r(k := Some (format_int (n + 1), snd (the (r k)))), Some (n + 1))
           | _ \<Rightarrow> (r, None)))"

definition mapTtl :: "gotime \<Rightarrow> redisMap \<Rightarrow> string \<Rightarrow> int option" where
  "mapTtl now r k = Some (case r k of None \<Rightarrow> -2 | Some (_, None) \<Rightarrow> -1 | Some (_, Some t) \<Rightarrow> t - now)"

definition mapRedis :: "redisMap redisOps" where
  "mapRedis = \<lparr>rd_get = (\<lambda>now r k. case liveValue now (r k) of None \<Rightarrow> RedisNil | Some v \<Rightarrow> RedisVal v),
     rd_exists = (\<lambda>now r k. Some (if liveValue now (r k) = None then 0 else 1)),
     rd_set = (\<lambda>now k v ttl r. r(k := Some (v, if 0 < ttl then Some (now + ttl) else None))),
     rd_incr = mapIncr, rd_ttl = mapTtl,
     rd_expire = (\<lambda>now k d r. case liveValue now (r k) of None \<Rightarrow> r | Some v \<Rightarrow> r(k := Some (v, Some (now + d)))),
     rd_del = (\<lambda>ks r k. if k \<in> List.set ks then None else r k)\<rparr>"

lemma liveValue_Some: "liveValue now c = Some v \<Longrightarrow> \<exists>e. c = Some (v, e)"
  by (auto simp: liveValue_def split: option.splits if_splits)

interpretation map_redis: redis_store mapRedis "\<lambda>r. r"
proof (unfold_locales, goal_cases)
  case (5 r k n e now)
  moreover have "liveValue now (r k) = Some (format_int n)" using 5(1,2) liveValue_Some [of now "r k"] by force
  ultimately show ?case by (simp add: mapRedis_def mapIncr_def parse_int64_format_int)
next
  case (8 r k v e now d)
  then have "liveValue now (r k) = Some v" using liveValue_Some [of now "r k"] by force
  with 8 show ?case by (simp add: mapRedis_def)
qed (auto simp: mapRedis_def mapIncr_def mapTtl_def split: option.splits prod.splits)

definition redis_ok :: "'r redisOps \<Rightarrow> ('r \<Rightarrow> string \<Rightarrow> redisCell) \<Rightarrow> bool" where
  "redis_ok rd cell \<longleftrightarrow> redis_store rd cell"

lemma mapRedis_ok: "redis_ok mapRedis (\<lambda>r. r)"
  by (simp add: redis_ok_def map_redis.redis_store_axioms)

end
