(* ===== verification/AuthStore.thy ===== *)
theory AuthStore
  imports AuthTokens RedisCache
begin

text \<open>
  The tables of the authentication module and the queries on them
  (\<open>repository.go\<close> and \<open>login_attempt.go\<close> of \<open>src/internal/modules/auth/infrastructure/repository\<close>): users,
  sessions, one-time PINs, login attempts, firewall rules.

  A table is its list of rows in the order of their primary keys, which is the order they are created in;
  a query is the condition of its \<open>WHERE\<close> clause. The database answers, and no row is
  soft-deleted. \<open>now\<close> is the time of the request.
\<close>

section \<open>Rows\<close>

text \<open>The descriptive fields of a profile are carried by the code and left out.\<close>

record authUser =
  au_ID :: oid
  au_Email :: string
  au_PasswordHash :: string
  au_FullName :: string
  au_AvatarURL :: string
  au_Status :: string
  au_Provider :: string
  au_ProviderID :: string
  au_AccountType :: string
  au_GoogleSub :: string
  au_GoogleEmail :: string
  au_GoogleEmailVerified :: bool
  au_LastLoginProvider :: string
  au_Roles :: "string list"
  au_TenantID :: string
  au_Phone :: string
  au_IsProfileCompleted :: bool
  au_LastLoginAt :: "gotime option"
  au_LoginCount :: int
  au_CreatedAt :: gotime
  au_UpdatedAt :: gotime

record userSession =
  us_ID :: oid
  us_UserID :: oid
  us_SessionID :: string
  us_DeviceID :: string
  us_DeviceName :: string
  us_IPAddress :: string
  us_UserAgent :: string
  us_RefreshToken :: string
  us_TenantID :: string
  us_ExpiresAt :: gotime
  us_RevokedAt :: "gotime option"
  us_RevokedReason :: string
  us_LastActiveAt :: gotime
  us_CreatedAt :: gotime

record pinCode =
  pn_ID :: oid
  pn_Email :: string
  pn_Code :: string
  pn_Purpose :: string
  pn_ExpiresAt :: gotime
  pn_UsedAt :: "gotime option"
  pn_CreatedAt :: gotime

record loginAttempt =
  la_TenantID :: string
  la_UserID :: string
  la_AttemptedEmail :: string
  la_AttemptedEmailHash :: string
  la_IPAddress :: string
  la_CountryCode :: string
  la_CountryName :: string
  la_ContinentCode :: string
  la_UserAgent :: string
  la_DeviceID :: string
  la_DeviceName :: string
  la_Result :: string
  la_Reason :: string
  la_CreatedAt :: gotime

record firewallRule =
  fr_Entry :: string
  fr_RuleType :: string
  fr_Reason :: string
  fr_Source :: string
  fr_Active :: bool
  fr_ExpiresAt :: "gotime option"
  fr_RevokedAt :: "gotime option"
  fr_CreatedBy :: string
  fr_CreatedAt :: gotime
  fr_UpdatedAt :: gotime

definition LoginAttemptSuccess :: string where "LoginAttemptSuccess = ''success''"
definition LoginAttemptFailed :: string where "LoginAttemptFailed = ''failed''"
definition LoginAttemptBlocked :: string where "LoginAttemptBlocked = ''blocked''"
definition FirewallRuleTypeBlock :: string where "FirewallRuleTypeBlock = ''block''"
definition FirewallRuleTypeAllowlist :: string where "FirewallRuleTypeAllowlist = ''allowlist''"

definition UserStatusActive :: string where "UserStatusActive = ''ACTIVE''"
definition UserStatusPending :: string where "UserStatusPending = ''PENDING''"
definition UserStatusBanned :: string where "UserStatusBanned = ''BANNED''"
definition UserStatusBlocked :: string where "UserStatusBlocked = ''BLOCKED''"
definition PinPurposeRegister :: string where "PinPurposeRegister = ''register''"
definition PinPurposeForgotPassword :: string where "PinPurposeForgotPassword = ''forgot_password''"
definition PinPurposeVerify :: string where "PinPurposeVerify = ''verify''"

definition pinTTL :: int where "pinTTL = 15 * 60 * nanos"

record loginSecurityContext =
  ls_IPAddress :: string
  ls_UserAgent :: string
  ls_DeviceID :: string
  ls_DeviceName :: string
  ls_DeviceFingerprint :: string
  ls_CountryCode :: string
  ls_CountryName :: string
  ls_ContinentCode :: string

text \<open>
  The goroutines a login starts and does not wait for: \<open>RecordSuccess\<close> carries the tenant, the user, the address
  and where the login came from, \<open>Rehash\<close> the address, the tenant and the password.
\<close>

datatype authJob =
    ReplaceSessions oid string string
  | TouchLogin oid string
  | RecordSuccess string string string loginSecurityContext
  | Rehash string string string

record 'r authState =
  as_users :: "authUser list"
  as_sessions :: "userSession list"
  as_pins :: "pinCode list"
  as_attempts :: "loginAttempt list"
  as_firewall :: "firewallRule list"
  as_redis :: 'r
  as_jobs :: "authJob list"

text \<open>The names in the roles table, the Redis server when there is one, upper case.\<close>

record 'r authDeps =
  ad_env :: goenv
  ad_roleNames :: "string list"
  ad_redis :: "'r redisOps option"
  ad_upper :: "string \<Rightarrow> string"

datatype authError =
    ErrInvalidCredentials
  | ErrUserNotFound
  | ErrEmailExists
  | ErrAccountLocked
  | ErrEmailNotVerified
  | ErrGoogleOAuthNotConfigured
  | ErrGoogleIdentityInvalid
  | ErrTokenReuseDetected
  | ErrTooManyAttempts
  | ErrIPBlocked
  | ErrGeoBlocked
  | ErrInvalidPIN
  | ErrInvalidToken
  | ErrSessionReplaced
  | ErrInvalidOldPassword
  | ErrSessionNotFound
  | ErrDuplicateEmail
  | ErrPinNotFound
  | ErrPinExpired
  | ErrPinAlreadyUsed
  | ErrWrapped string

type_synonym 'a ares = "(authError, 'a) outcome"

definition normalizeEmail :: "goenv \<Rightarrow> string \<Rightarrow> string" where
  "normalizeEmail env email = trim_space (lower env email)"

section \<open>Users\<close>

definition userKey :: "goenv \<Rightarrow> string \<Rightarrow> string \<Rightarrow> authUser \<Rightarrow> bool" where
  "userKey env email tenantID u \<longleftrightarrow> au_TenantID u = tenantID \<and> au_Email u = normalizeEmail env email"

definition FindUserByEmail :: "'r authDeps \<Rightarrow> string \<Rightarrow> string \<Rightarrow> 'r authState \<Rightarrow> authUser ares" where
  "FindUserByEmail dp email tenantID st =
     (case find (userKey (ad_env dp) email tenantID) (as_users st) of None \<Rightarrow> Fail ErrUserNotFound | Some u \<Rightarrow> Ret u)"

definition FindUserByGoogleSub :: "string \<Rightarrow> string \<Rightarrow> 'r authState \<Rightarrow> authUser ares" where
  "FindUserByGoogleSub googleSub tenantID st =
     (case find (\<lambda>u. au_TenantID u = tenantID \<and> au_GoogleSub u = trim_space googleSub) (as_users st) of
        None \<Rightarrow> Fail ErrUserNotFound | Some u \<Rightarrow> Ret u)"

definition FindUserByID :: "oid \<Rightarrow> 'r authState \<Rightarrow> authUser ares" where
  "FindUserByID i st = (case find (\<lambda>u. au_ID u = i) (as_users st) of None \<Rightarrow> Fail ErrUserNotFound | Some u \<Rightarrow> Ret u)"

text \<open>\<open>defaultString\<close>, \<open>defaultAccountType\<close>, and the role names \<open>replaceUserRolesTx\<close> keeps: those of the table, in order.\<close>

definition defaultString :: "string \<Rightarrow> string \<Rightarrow> string" where
  "defaultString value fallback = (if trim_space value = [] then fallback else trim_space value)"

definition defaultAccountType :: "goenv \<Rightarrow> string \<Rightarrow> string \<Rightarrow> string \<Rightarrow> string" where
  "defaultAccountType env current prov googleSub =
     (let current = trim_space (lower env current)
      in if current \<noteq> [] then current
         else if trim_space googleSub \<noteq> [] \<or> trim_space (lower env prov) = ''google'' then ''google''
         else ''erg'')"

definition storedRoles :: "'r authDeps \<Rightarrow> string list \<Rightarrow> string list" where
  "storedRoles dp roles = sort_slice (\<lambda>a b. a < b) (filter (\<lambda>r. r \<in> set (ad_roleNames dp)) (uniqueLoop trim_space [] roles))"

definition newAuthUserRecord :: "'r authDeps \<Rightarrow> oid \<Rightarrow> gotime \<Rightarrow> authUser \<Rightarrow> authUser" where
  "newAuthUserRecord dp i now u =
     u\<lparr>au_ID := if au_ID u = 0 then i else au_ID u, au_CreatedAt := now, au_UpdatedAt := now,
       au_Email := normalizeEmail (ad_env dp) (au_Email u),
       au_AccountType := defaultAccountType (ad_env dp) (au_AccountType u) (au_Provider u) (au_GoogleSub u),
       au_GoogleSub := trim_space (au_GoogleSub u),
       au_GoogleEmail := normalizeEmail (ad_env dp) (defaultString (au_GoogleEmail u) (au_Email u)),
       au_LastLoginProvider := defaultString (au_LastLoginProvider u) (au_Provider u),
       au_Roles := storedRoles dp (au_Roles u)\<rparr>"

text \<open>The unique index \<open>idx_users_tenant_email\<close> of the schema covers the address alone, not the tenant.\<close>

definition emailTaken :: "goenv \<Rightarrow> string \<Rightarrow> authUser \<Rightarrow> bool" where
  "emailTaken env email u \<longleftrightarrow> au_Email u = normalizeEmail env email"

definition CreateUser :: "'r authDeps \<Rightarrow> oid \<Rightarrow> gotime \<Rightarrow> authUser \<Rightarrow> 'r authState \<Rightarrow> 'r authState \<times> unit ares" where
  "CreateUser dp i now u st =
     (if list_ex (emailTaken (ad_env dp) (au_Email u)) (as_users st) then (st, Fail ErrDuplicateEmail)
      else (st\<lparr>as_users := as_users st @ [newAuthUserRecord dp i now u]\<rparr>, Ret ()))"

text \<open>An \<open>UPDATE\<close> of the rows a condition selects; no row is \<open>ErrUserNotFound\<close>.\<close>

definition updateUsers :: "(authUser \<Rightarrow> bool) \<Rightarrow> (authUser \<Rightarrow> authUser) \<Rightarrow> 'r authState \<Rightarrow> 'r authState \<times> unit ares" where
  "updateUsers p f st =
     (st\<lparr>as_users := map (\<lambda>u. if p u then f u else u) (as_users st)\<rparr>,
      if list_ex p (as_users st) then Ret () else Fail ErrUserNotFound)"

definition UpdateUserStatus :: "'r authDeps \<Rightarrow> gotime \<Rightarrow> string \<Rightarrow> string \<Rightarrow> string \<Rightarrow> 'r authState \<Rightarrow> 'r authState \<times> unit ares" where
  "UpdateUserStatus dp now email tenantID status =
     updateUsers (userKey (ad_env dp) email tenantID) (\<lambda>u. u\<lparr>au_Status := status, au_UpdatedAt := now\<rparr>)"

definition UpdatePasswordHash :: "'r authDeps \<Rightarrow> gotime \<Rightarrow> string \<Rightarrow> string \<Rightarrow> string \<Rightarrow> 'r authState \<Rightarrow> 'r authState \<times> unit ares" where
  "UpdatePasswordHash dp now email tenantID h =
     updateUsers (userKey (ad_env dp) email tenantID) (\<lambda>u. u\<lparr>au_PasswordHash := h, au_UpdatedAt := now\<rparr>)"

text \<open>
  \<open>updates\<close> is the map of columns as a function on the row, \<open>None\<close> the empty map. \<open>UpdateUserRoles\<close> keeps the names the
  table of roles has.
\<close>

definition UpdateUserIdentityFields :: "gotime \<Rightarrow> oid \<Rightarrow> (authUser \<Rightarrow> authUser) option \<Rightarrow> 'r authState \<Rightarrow> 'r authState \<times> unit ares" where
  "UpdateUserIdentityFields now i updates st =
     (case updates of None \<Rightarrow> (st, Ret ()) | Some f \<Rightarrow> updateUsers (\<lambda>u. au_ID u = i) (\<lambda>u. (f u)\<lparr>au_UpdatedAt := now\<rparr>) st)"

definition UpdateUserRoles :: "'r authDeps \<Rightarrow> oid \<Rightarrow> string list \<Rightarrow> 'r authState \<Rightarrow> 'r authState \<times> unit ares" where
  "UpdateUserRoles dp i roles = updateUsers (\<lambda>u. au_ID u = i) (\<lambda>u. u\<lparr>au_Roles := storedRoles dp roles\<rparr>)"

definition TouchSuccessfulLogin :: "gotime \<Rightarrow> oid \<Rightarrow> string \<Rightarrow> 'r authState \<Rightarrow> 'r authState \<times> unit ares" where
  "TouchSuccessfulLogin now i prov =
     updateUsers (\<lambda>u. au_ID u = i)
       (\<lambda>u. u\<lparr>au_LastLoginAt := Some now, au_LastLoginProvider := trim_space prov, au_LoginCount := wrap64 (au_LoginCount u + 1),
              au_UpdatedAt := now\<rparr>)"

section \<open>Sessions\<close>

definition sessionKey :: "string \<Rightarrow> string \<Rightarrow> userSession \<Rightarrow> bool" where
  "sessionKey sessionID tenantID s \<longleftrightarrow> us_SessionID s = sessionID \<and> us_TenantID s = tenantID"

definition CreateSession :: "oid \<Rightarrow> gotime \<Rightarrow> userSession \<Rightarrow> 'r authState \<Rightarrow> 'r authState \<times> unit ares" where
  "CreateSession i now s st =
     (if list_ex (sessionKey (us_SessionID s) (us_TenantID s)) (as_sessions st) then (st, Fail (ErrWrapped ''auth.repository.createSession''))
      else (st\<lparr>as_sessions := as_sessions st @ [s\<lparr>us_ID := i, us_CreatedAt := now, us_LastActiveAt := now\<rparr>]\<rparr>, Ret ()))"

definition FindSessionByID :: "string \<Rightarrow> string \<Rightarrow> 'r authState \<Rightarrow> userSession ares" where
  "FindSessionByID sessionID tenantID st =
     (case find (sessionKey sessionID tenantID) (as_sessions st) of None \<Rightarrow> Fail ErrSessionNotFound | Some s \<Rightarrow> Ret s)"

definition updateSessions :: "(userSession \<Rightarrow> bool) \<Rightarrow> (userSession \<Rightarrow> userSession) \<Rightarrow> 'r authState \<Rightarrow> 'r authState" where
  "updateSessions p f st = st\<lparr>as_sessions := map (\<lambda>s. if p s then f s else s) (as_sessions st)\<rparr>"

definition revoked :: "gotime \<Rightarrow> string \<Rightarrow> userSession \<Rightarrow> userSession" where
  "revoked now reason s = s\<lparr>us_RevokedAt := Some now, us_RevokedReason := trim_space reason\<rparr>"

definition IsRevoked :: "userSession \<Rightarrow> bool" where
  "IsRevoked s \<longleftrightarrow> us_RevokedAt s \<noteq> None"

definition RevokeSessionWithReason :: "gotime \<Rightarrow> string \<Rightarrow> string \<Rightarrow> string \<Rightarrow> 'r authState \<Rightarrow> 'r authState \<times> unit ares" where
  "RevokeSessionWithReason now sessionID tenantID reason st =
     (updateSessions (sessionKey sessionID tenantID) (\<lambda>s. (revoked now reason s)\<lparr>us_LastActiveAt := now\<rparr>) st,
      if list_ex (sessionKey sessionID tenantID) (as_sessions st) then Ret () else Fail ErrSessionNotFound)"

definition RevokeSession :: "gotime \<Rightarrow> string \<Rightarrow> string \<Rightarrow> 'r authState \<Rightarrow> 'r authState \<times> unit ares" where
  "RevokeSession now sessionID tenantID = RevokeSessionWithReason now sessionID tenantID ''logout''"

definition rotatable :: "gotime \<Rightarrow> string \<Rightarrow> string \<Rightarrow> string \<Rightarrow> userSession \<Rightarrow> bool" where
  "rotatable now sessionID tenantID currentHash s \<longleftrightarrow>
     sessionKey sessionID tenantID s \<and> us_RefreshToken s = currentHash \<and> us_RevokedAt s = None \<and> now < us_ExpiresAt s"

definition RotateSessionRefreshToken ::
  "gotime \<Rightarrow> string \<Rightarrow> string \<Rightarrow> string \<Rightarrow> string \<Rightarrow> gotime \<Rightarrow> 'r authState \<Rightarrow> 'r authState \<times> unit ares" where
  "RotateSessionRefreshToken now sessionID tenantID currentHash nextHash expiresAt st =
     (updateSessions (rotatable now sessionID tenantID currentHash)
        (\<lambda>s. s\<lparr>us_RefreshToken := nextHash, us_ExpiresAt := expiresAt, us_LastActiveAt := now\<rparr>) st,
      if list_ex (rotatable now sessionID tenantID currentHash) (as_sessions st) then Ret () else Fail ErrSessionNotFound)"

definition ofUser :: "oid \<Rightarrow> string \<Rightarrow> userSession \<Rightarrow> bool" where
  "ofUser userID tenantID s \<longleftrightarrow> us_UserID s = userID \<and> us_RevokedAt s = None \<and> (tenantID \<noteq> [] \<longrightarrow> us_TenantID s = tenantID)"

definition RevokeAllUserSessionsWithReason :: "gotime \<Rightarrow> oid \<Rightarrow> string \<Rightarrow> string \<Rightarrow> 'r authState \<Rightarrow> 'r authState" where
  "RevokeAllUserSessionsWithReason now userID tenantID reason = updateSessions (ofUser userID tenantID) (revoked now reason)"

definition RevokeAllUserSessions :: "gotime \<Rightarrow> oid \<Rightarrow> string \<Rightarrow> 'r authState \<Rightarrow> 'r authState" where
  "RevokeAllUserSessions now userID tenantID = RevokeAllUserSessionsWithReason now userID tenantID ''logout''"

definition RevokeOtherActiveUserSessionsWithReason :: "gotime \<Rightarrow> oid \<Rightarrow> string \<Rightarrow> string \<Rightarrow> string \<Rightarrow> 'r authState \<Rightarrow> 'r authState" where
  "RevokeOtherActiveUserSessionsWithReason now userID tenantID keepSessionID reason =
     updateSessions
       (\<lambda>s. ofUser userID tenantID s \<and> now < us_ExpiresAt s \<and> (trim_space keepSessionID \<noteq> [] \<longrightarrow> us_SessionID s \<noteq> trim_space keepSessionID))
       (revoked now reason)"

section \<open>PINs\<close>

definition CreatePin :: "'r authDeps \<Rightarrow> oid \<Rightarrow> gotime \<Rightarrow> string \<Rightarrow> string \<Rightarrow> string \<Rightarrow> 'r authState \<Rightarrow> 'r authState" where
  "CreatePin dp i now email code purpose st =
     (let email = normalizeEmail (ad_env dp) email
      in st\<lparr>as_pins := filter (\<lambda>p. \<not> (pn_Email p = email \<and> pn_Purpose p = purpose \<and> pn_UsedAt p = None)) (as_pins st)
              @ [\<lparr>pn_ID = i, pn_Email = email, pn_Code = code, pn_Purpose = purpose, pn_ExpiresAt = now + pinTTL, pn_UsedAt = None,
                   pn_CreatedAt = now\<rparr>]\<rparr>)"

definition pinKey :: "'r authDeps \<Rightarrow> string \<Rightarrow> string \<Rightarrow> string \<Rightarrow> pinCode \<Rightarrow> bool" where
  "pinKey dp email code purpose p \<longleftrightarrow> pn_Email p = normalizeEmail (ad_env dp) email \<and> pn_Code p = code \<and> pn_Purpose p = purpose"

definition pinLookupFailure :: "'r authDeps \<Rightarrow> gotime \<Rightarrow> string \<Rightarrow> string \<Rightarrow> string \<Rightarrow> 'r authState \<Rightarrow> authError" where
  "pinLookupFailure dp now email code purpose st =
     (case find (pinKey dp email code purpose) (as_pins st) of
        None \<Rightarrow> ErrPinNotFound
      | Some p \<Rightarrow> if pn_UsedAt p \<noteq> None then ErrPinAlreadyUsed else if pn_ExpiresAt p < now then ErrPinExpired else ErrPinNotFound)"

definition ValidateAndConsumePin ::
  "'r authDeps \<Rightarrow> gotime \<Rightarrow> string \<Rightarrow> string \<Rightarrow> string \<Rightarrow> 'r authState \<Rightarrow> 'r authState \<times> pinCode ares" where
  "ValidateAndConsumePin dp now email code purpose st =
     (case find (\<lambda>p. pinKey dp email code purpose p \<and> pn_UsedAt p = None \<and> now < pn_ExpiresAt p) (as_pins st) of
        None \<Rightarrow> (st, Fail (pinLookupFailure dp now email code purpose st))
      | Some p \<Rightarrow>
          (st\<lparr>as_pins := map (\<lambda>q. if pn_ID q = pn_ID p \<and> pn_UsedAt q = None then q\<lparr>pn_UsedAt := Some now\<rparr> else q) (as_pins st)\<rparr>,
           Ret (p\<lparr>pn_UsedAt := Some now\<rparr>)))"

section \<open>Refresh tokens that were used\<close>

definition usedKey :: "string \<Rightarrow> string \<Rightarrow> string" where
  "usedKey userID tokenHash = ''rt_used:'' @ userID @ '':'' @ tokenHash"

definition MarkRefreshTokenUsed :: "'r authDeps \<Rightarrow> gotime \<Rightarrow> int \<Rightarrow> string \<Rightarrow> string \<Rightarrow> 'r authState \<Rightarrow> 'r authState" where
  "MarkRefreshTokenUsed dp now ttl userID tokenHash st =
     (case ad_redis dp of None \<Rightarrow> st | Some rd \<Rightarrow> st\<lparr>as_redis := rd_set rd now (usedKey userID tokenHash) ''1'' ttl (as_redis st)\<rparr>)"

text \<open>The caller ignores an error, and the answer is then no.\<close>

definition IsRefreshTokenUsed :: "'r authDeps \<Rightarrow> gotime \<Rightarrow> string \<Rightarrow> string \<Rightarrow> 'r authState \<Rightarrow> bool" where
  "IsRefreshTokenUsed dp now userID tokenHash st =
     (case ad_redis dp of
        None \<Rightarrow> False
      | Some rd \<Rightarrow> (case rd_exists rd now (as_redis st) (usedKey userID tokenHash) of None \<Rightarrow> False | Some n \<Rightarrow> 0 < n))"

section \<open>Login attempts\<close>

definition CreateLoginAttempt :: "'r authDeps \<Rightarrow> loginAttempt \<Rightarrow> 'r authState \<Rightarrow> 'r authState" where
  "CreateLoginAttempt dp a st = st\<lparr>as_attempts := as_attempts st @
     [a\<lparr>la_AttemptedEmail := normalizeEmail (ad_env dp) (la_AttemptedEmail a), la_IPAddress := trim_space (la_IPAddress a),
        la_CountryCode := ad_upper dp (trim_space (la_CountryCode a)), la_CountryName := trim_space (la_CountryName a),
        la_ContinentCode := ad_upper dp (trim_space (la_ContinentCode a)), la_UserAgent := trim_space (la_UserAgent a),
        la_DeviceID := trim_space (la_DeviceID a), la_DeviceName := trim_space (la_DeviceName a)\<rparr>]\<rparr>"

record failedCountParams =
  fc_TenantID :: string
  fc_EmailHash :: string
  fc_IP :: string
  fc_Since :: gotime
  fc_IncludeBlocked :: bool
  fc_ResetOnSuccess :: bool

definition attemptSelected :: "failedCountParams \<Rightarrow> loginAttempt \<Rightarrow> bool" where
  "attemptSelected p a \<longleftrightarrow> (fc_TenantID p \<noteq> [] \<longrightarrow> la_TenantID a = fc_TenantID p)
     \<and> (fc_EmailHash p \<noteq> [] \<longrightarrow> la_AttemptedEmailHash a = trim_space (fc_EmailHash p))
     \<and> (fc_IP p \<noteq> [] \<longrightarrow> la_IPAddress a = trim_space (fc_IP p)) \<and> fc_Since p \<le> la_CreatedAt a"

definition latestSuccessfulLoginAt :: "failedCountParams \<Rightarrow> 'r authState \<Rightarrow> gotime option" where
  "latestSuccessfulLoginAt p st =
     (case map la_CreatedAt (filter (\<lambda>a. la_Result a = LoginAttemptSuccess \<and> attemptSelected p a) (as_attempts st)) of
        [] \<Rightarrow> None | t # ts \<Rightarrow> Some (fold max ts t))"

definition CountFailedLoginAttempts :: "failedCountParams \<Rightarrow> 'r authState \<Rightarrow> int" where
  "CountFailedLoginAttempts p st =
     int (length (filter (\<lambda>a. attemptSelected p a
       \<and> (fc_ResetOnSuccess p \<longrightarrow> (case latestSuccessfulLoginAt p st of None \<Rightarrow> True | Some t \<Rightarrow> fc_Since p < t \<longrightarrow> t < la_CreatedAt a))
       \<and> (la_Result a = LoginAttemptFailed \<or> fc_IncludeBlocked p \<and> la_Result a = LoginAttemptBlocked)) (as_attempts st)))"

section \<open>Firewall rules\<close>

definition ruleKey :: "string \<Rightarrow> string \<Rightarrow> firewallRule \<Rightarrow> bool" where
  "ruleKey ruleType entry r \<longleftrightarrow> fr_RuleType r = ruleType \<and> fr_Entry r = entry \<and> fr_Active r"

definition UpsertFirewallRule :: "gotime \<Rightarrow> firewallRule \<Rightarrow> 'r authState \<Rightarrow> 'r authState" where
  "UpsertFirewallRule now rule st =
     (let entry = trim_space (fr_Entry rule); ruleType = trim_space (fr_RuleType rule)
      in if entry = [] \<or> ruleType = [] then st
         else st\<lparr>as_firewall :=
           map (\<lambda>r. if ruleKey ruleType entry r then r\<lparr>fr_Active := False, fr_RevokedAt := Some now, fr_UpdatedAt := now\<rparr> else r) (as_firewall st)
           @ [\<lparr>fr_Entry = entry, fr_RuleType = ruleType, fr_Reason = trim_space (fr_Reason rule), fr_Source = trim_space (fr_Source rule),
               fr_Active = True, fr_ExpiresAt = fr_ExpiresAt rule, fr_RevokedAt = None, fr_CreatedBy = trim_space (fr_CreatedBy rule),
               fr_CreatedAt = fr_CreatedAt rule, fr_UpdatedAt = fr_UpdatedAt rule\<rparr>]\<rparr>)"

definition activeFirewallRule :: "gotime \<Rightarrow> string \<Rightarrow> firewallRule \<Rightarrow> bool" where
  "activeFirewallRule now ruleType r \<longleftrightarrow>
     fr_Active r \<and> (case fr_ExpiresAt r of None \<Rightarrow> True | Some t \<Rightarrow> now < t) \<and> (ruleType \<noteq> [] \<longrightarrow> fr_RuleType r = ruleType)"

definition IsFirewallRuleActive :: "gotime \<Rightarrow> string \<Rightarrow> string \<Rightarrow> 'r authState \<Rightarrow> bool" where
  "IsFirewallRuleActive now ruleType entry st =
     list_ex (\<lambda>r. activeFirewallRule now (trim_space ruleType) r \<and> fr_Entry r = trim_space entry) (as_firewall st)"

definition ListActiveFirewallRules :: "gotime \<Rightarrow> string \<Rightarrow> 'r authState \<Rightarrow> firewallRule list" where
  "ListActiveFirewallRules now ruleType st =
     sort_slice (\<lambda>a b. fr_CreatedAt b < fr_CreatedAt a) (filter (activeFirewallRule now (trim_space ruleType)) (as_firewall st))"

end
