(* ===== verification/AuthSecurity.thy ===== *)
theory AuthSecurity
  imports AuthStore
begin

text \<open>
  The defences of a login (\<open>security.go\<close> of the authentication service): counters of failed logins, blocked
  addresses, blocked regions, the record of attempts.

  The counters are kept in Redis when there is one, else counted in the table of attempts. Parsing of IP
  addresses (\<open>net/netip\<close>), hashing and the JSON text of a block are parameters.
\<close>

section \<open>The deployment\<close>

text \<open>\<open>ac_idtoken\<close> validates a Google token for a client: the subject and the claims; \<open>ac_verifyPassword\<close> also tells whether the hash is outdated.\<close>

record 'r authcfg =
  ac_deps :: "'r authDeps"
  ac_provider :: provider
  ac_defaultTenant :: string
  ac_refreshTTL :: int
  ac_appEnv :: string
  ac_maxFailedLogin :: int
  ac_failedLoginWindow :: int
  ac_blockDuration :: int
  ac_geoBlockEnabled :: bool
  ac_allowedContinents :: "string list"
  ac_blockUnknownGeo :: bool
  ac_adminEmail :: string
  ac_adminPassword :: string
  ac_googleClientID :: string
  ac_googleClientIDs :: "string list"
  ac_hash :: "string \<Rightarrow> string"
  ac_hashPassword :: "nat \<Rightarrow> string \<Rightarrow> string option"
  ac_verifyPassword :: "string \<Rightarrow> string \<Rightarrow> bool \<times> bool"
  ac_rolePermissions :: "oid \<Rightarrow> string list"
  ac_overrides :: "oid \<Rightarrow> permOverride list"
  ac_privateIP :: "string \<Rightarrow> bool"
  ac_ipMatches :: "string \<Rightarrow> string \<Rightarrow> bool"
  ac_marshalBlock :: "firewallRule \<Rightarrow> string"
  ac_idtoken :: "string \<Rightarrow> string \<Rightarrow> (string \<times> jobj) option"

abbreviation ac_env :: "'r authcfg \<Rightarrow> goenv" where
  "ac_env cfg \<equiv> ad_env (ac_deps cfg)"

text \<open>The surroundings of a request: the time, fresh identifiers, a PIN, a salt, a random password.\<close>

record authio =
  ai_now :: gotime
  ai_fresh :: oid
  ai_sessionID :: string
  ai_pin :: string
  ai_salt :: nat
  ai_password :: string

definition defaultTenant :: "'r authcfg \<Rightarrow> string" where
  "defaultTenant cfg = (if ac_defaultTenant cfg \<noteq> [] then ac_defaultTenant cfg else ''default'')"

section \<open>Where a login comes from\<close>

definition continentForCountryCode :: "'r authcfg \<Rightarrow> string \<Rightarrow> string" where
  "continentForCountryCode cfg country =
     (if ad_upper (ac_deps cfg) (trim_space country) \<in> set [''AF'', ''AM'', ''AZ'', ''BH'', ''BD'', ''BT'', ''BN'', ''KH'', ''CN'', ''CY'', ''GE'', ''HK'',
          ''IN'', ''ID'', ''IR'', ''IQ'', ''IL'', ''JP'', ''JO'', ''KZ'', ''KW'', ''KG'', ''LA'', ''LB'', ''MO'', ''MY'', ''MV'', ''MN'', ''MM'',
          ''NP'', ''KP'', ''OM'', ''PK'', ''PS'', ''PH'', ''QA'', ''SA'', ''SG'', ''KR'', ''LK'', ''SY'', ''TW'', ''TJ'', ''TH'', ''TL'', ''TR'',
          ''TM'', ''AE'', ''UZ'', ''VN'', ''YE'', ''RU'']
      then ''AS'' else [])"

definition normalizeSecurityContext :: "'r authcfg \<Rightarrow> loginSecurityContext \<Rightarrow> loginSecurityContext" where
  "normalizeSecurityContext cfg sec =
     (let country = ad_upper (ac_deps cfg) (trim_space (ls_CountryCode sec)); continent = ad_upper (ac_deps cfg) (trim_space (ls_ContinentCode sec));
          device = trim_space (ls_DeviceID sec); fingerprint = trim_space (ls_DeviceFingerprint sec)
      in \<lparr>ls_IPAddress = trim_space (ls_IPAddress sec), ls_UserAgent = trim_space (ls_UserAgent sec),
          ls_DeviceID = (if device = [] then fingerprint else device), ls_DeviceName = trim_space (ls_DeviceName sec),
          ls_DeviceFingerprint = fingerprint, ls_CountryCode = country, ls_CountryName = trim_space (ls_CountryName sec),
          ls_ContinentCode = (if continent = [] \<and> country \<noteq> [] then continentForCountryCode cfg country else continent)\<rparr>)"

definition isPrivateOrLoopbackIP :: "'r authcfg \<Rightarrow> string \<Rightarrow> bool" where
  "isPrivateOrLoopbackIP cfg ip = ac_privateIP cfg (trim_space ip)"

definition isAllowedContinent :: "'r authcfg \<Rightarrow> string \<Rightarrow> string list \<Rightarrow> bool" where
  "isAllowedContinent cfg continent allowed =
     (let up = (\<lambda>s. ad_upper (ac_deps cfg) (trim_space s)) in list_ex (\<lambda>item. up continent = up item) allowed)"

definition shouldBlockByGeo :: "'r authcfg \<Rightarrow> loginSecurityContext \<Rightarrow> bool" where
  "shouldBlockByGeo cfg sec =
     (if \<not> ac_geoBlockEnabled cfg \<or> ls_IPAddress sec = [] \<or> isPrivateOrLoopbackIP cfg (ls_IPAddress sec) then False
      else let allowed = (if ac_allowedContinents cfg = [] then [''AS''] else ac_allowedContinents cfg)
           in if ls_ContinentCode sec = [] then ac_blockUnknownGeo cfg else \<not> isAllowedContinent cfg (ls_ContinentCode sec) allowed)"

section \<open>Counters of failed logins\<close>

definition minutes15 :: int where "minutes15 = 15 * 60 * nanos"

definition failedLoginWindow :: "'r authcfg \<Rightarrow> int" where
  "failedLoginWindow cfg =
     (if 0 < ac_failedLoginWindow cfg then ac_failedLoginWindow cfg else if 0 < ac_blockDuration cfg then ac_blockDuration cfg else minutes15)"

definition blockDuration :: "'r authcfg \<Rightarrow> int" where
  "blockDuration cfg = (if 0 < ac_blockDuration cfg then ac_blockDuration cfg else minutes15)"

definition normalizeEmailForSecurity :: "goenv \<Rightarrow> string \<Rightarrow> string" where
  "normalizeEmailForSecurity env email = trim_space (lower env email)"

definition emailHash :: "'r authcfg \<Rightarrow> string \<Rightarrow> string" where
  "emailHash cfg email =
     (let normalized = normalizeEmailForSecurity (ac_env cfg) email in if normalized = [] then [] else ac_hash cfg normalized)"

definition failedEmailKey :: "'r authcfg \<Rightarrow> string \<Rightarrow> string \<Rightarrow> string" where
  "failedEmailKey cfg tenantID email =
     (let email = normalizeEmailForSecurity (ac_env cfg) email
      in if email = [] then [] else ''auth_fail:email:'' @ trim_space tenantID @ '':'' @ emailHash cfg email)"

definition failedIPKey :: "string \<Rightarrow> string" where
  "failedIPKey ip = (let ip = trim_space ip in if ip = [] then [] else ''auth_fail:ip:'' @ ip)"

text \<open>The loop over the keys; \<open>None\<close> when a value cannot be read or is not a number.\<close>

fun maxCounter :: "(string \<Rightarrow> string option) \<Rightarrow> string list \<Rightarrow> int \<Rightarrow> int option" where
  "maxCounter get [] maxCount = Some maxCount"
| "maxCounter get (key # keys) maxCount =
     (case get key of
        None \<Rightarrow> None
      | Some v \<Rightarrow>
          if trim_space v = [] then maxCounter get keys maxCount
          else (case parse_int64 v of
                  (n, None) \<Rightarrow> maxCounter get keys (if maxCount < n then n else maxCount)
                | _ \<Rightarrow> None))"

definition cachedFailedLoginCount :: "'r authcfg \<Rightarrow> gotime \<Rightarrow> string \<Rightarrow> string \<Rightarrow> string \<Rightarrow> 'r authState \<Rightarrow> int option" where
  "cachedFailedLoginCount cfg now tenantID email ip st =
     (case ad_redis (ac_deps cfg) of
        None \<Rightarrow> None
      | Some rd \<Rightarrow>
          let keys = (if normalizeEmailForSecurity (ac_env cfg) email \<noteq> [] then [failedEmailKey cfg tenantID email] else [])
                     @ (if trim_space ip \<noteq> [] then [failedIPKey ip] else [])
          in maxCounter (cacheGet rd now (as_redis st)) keys 0)"

definition failedLoginCount :: "'r authcfg \<Rightarrow> gotime \<Rightarrow> string \<Rightarrow> string \<Rightarrow> string \<Rightarrow> 'r authState \<Rightarrow> int" where
  "failedLoginCount cfg now tenantID email ip st =
     (let h = (if email \<noteq> [] then emailHash cfg email else []); ip = trim_space ip
      in if h = [] \<and> ip = [] then 0
         else case cachedFailedLoginCount cfg now tenantID email ip st of
                Some n \<Rightarrow> n
              | None \<Rightarrow> CountFailedLoginAttempts
                  \<lparr>fc_TenantID = tenantID, fc_EmailHash = h, fc_IP = ip, fc_Since = now - failedLoginWindow cfg, fc_IncludeBlocked = False,
                   fc_ResetOnSuccess = True\<rparr> st)"

definition incrementCounter :: "'r authcfg \<Rightarrow> gotime \<Rightarrow> string \<Rightarrow> int \<Rightarrow> 'r authState \<Rightarrow> 'r authState" where
  "incrementCounter cfg now key ttl st =
     (case ad_redis (ac_deps cfg) of
        None \<Rightarrow> st
      | Some rd \<Rightarrow>
          if key = [] then st
          else case rd_incr rd now key (as_redis st) of
                 (r, None) \<Rightarrow> st\<lparr>as_redis := r\<rparr>
               | (r, Some _) \<Rightarrow>
                   let existingTTL = (case rd_ttl rd now r key of None \<Rightarrow> 0 | Some d \<Rightarrow> d)
                   in st\<lparr>as_redis := if existingTTL \<le> 0 then rd_expire rd now key ttl r else r\<rparr>)"

definition resetFailedLoginCounters :: "'r authcfg \<Rightarrow> string \<Rightarrow> string \<Rightarrow> string \<Rightarrow> 'r authState \<Rightarrow> 'r authState" where
  "resetFailedLoginCounters cfg tenantID email ip st =
     (case ad_redis (ac_deps cfg) of
        None \<Rightarrow> st
      | Some rd \<Rightarrow>
          st\<lparr>as_redis := cacheDel rd (failedEmailKey cfg tenantID email # (if trim_space ip \<noteq> [] then [failedIPKey ip] else [])) (as_redis st)\<rparr>)"

section \<open>Blocked addresses\<close>

definition blockRule :: "'r authcfg \<Rightarrow> gotime \<Rightarrow> string \<Rightarrow> string \<Rightarrow> firewallRule" where
  "blockRule cfg now ip reason =
     \<lparr>fr_Entry = trim_space ip, fr_RuleType = FirewallRuleTypeBlock, fr_Reason = trim_space reason, fr_Source = ''auth'', fr_Active = False,
      fr_ExpiresAt = Some (now + blockDuration cfg), fr_RevokedAt = None, fr_CreatedBy = [], fr_CreatedAt = now, fr_UpdatedAt = now\<rparr>"

definition blockIP :: "'r authcfg \<Rightarrow> gotime \<Rightarrow> string \<Rightarrow> string \<Rightarrow> 'r authState \<Rightarrow> 'r authState" where
  "blockIP cfg now ip reason st =
     (if trim_space ip = [] then st
      else let rule = blockRule cfg now ip reason; st = UpsertFirewallRule now rule st
           in case ad_redis (ac_deps cfg) of
                None \<Rightarrow> st
              | Some rd \<Rightarrow>
                  st\<lparr>as_redis := rd_set rd now (''ip_blocked:'' @ fr_Entry rule) (ac_marshalBlock cfg rule) (blockDuration cfg) (as_redis st)\<rparr>)"

definition isIPBlocked :: "'r authcfg \<Rightarrow> gotime \<Rightarrow> string \<Rightarrow> 'r authState \<Rightarrow> bool" where
  "isIPBlocked cfg now ip st =
     (let ip = trim_space ip
      in if ip = [] then False
         else if \<not> EqualFold (ac_appEnv cfg) ''production'' \<and> isPrivateOrLoopbackIP cfg ip then False
         else IsFirewallRuleActive now FirewallRuleTypeBlock ip st)"

definition isIPAllowlisted :: "'r authcfg \<Rightarrow> gotime \<Rightarrow> string \<Rightarrow> 'r authState \<Rightarrow> bool" where
  "isIPAllowlisted cfg now ip st =
     (let ip = trim_space ip
      in ip \<noteq> [] \<and> list_ex (\<lambda>rule. ac_ipMatches cfg ip (fr_Entry rule)) (ListActiveFirewallRules now FirewallRuleTypeAllowlist st))"

section \<open>Before and after the password\<close>

text \<open>The reason and the error, when the login is refused.\<close>

definition precheckLoginSecurity ::
  "'r authcfg \<Rightarrow> gotime \<Rightarrow> string \<Rightarrow> string \<Rightarrow> loginSecurityContext \<Rightarrow> 'r authState \<Rightarrow> 'r authState \<times> (string \<times> authError) option" where
  "precheckLoginSecurity cfg now tenantID email sec st =
     (let ip = ls_IPAddress sec; most = ac_maxFailedLogin cfg
      in if ip \<noteq> [] \<and> isIPBlocked cfg now ip st then (st, Some (''ip_blocked'', ErrIPBlocked))
         else if shouldBlockByGeo cfg sec \<and> \<not> isIPAllowlisted cfg now ip st then
           (blockIP cfg now ip ''geo_blocked'' st, Some (''geo_blocked'', ErrGeoBlocked))
         else if 0 < most \<and> (most \<le> failedLoginCount cfg now tenantID email [] st \<or> most \<le> failedLoginCount cfg now tenantID [] ip st) then
           (blockIP cfg now ip ''too_many_attempts'' st, Some (''too_many_attempts'', ErrTooManyAttempts))
         else (st, None))"

definition recordFailedLogin ::
  "'r authcfg \<Rightarrow> gotime \<Rightarrow> string \<Rightarrow> string \<Rightarrow> loginSecurityContext \<Rightarrow> 'r authState \<Rightarrow> 'r authState \<times> authError option" where
  "recordFailedLogin cfg now tenantID email sec st =
     (if ac_maxFailedLogin cfg \<le> 0 then (st, None)
      else
        let ip = ls_IPAddress sec; window = failedLoginWindow cfg;
            hasEmail = normalizeEmailForSecurity (ac_env cfg) email \<noteq> []; hasIP = trim_space ip \<noteq> [];
            emailCount = failedLoginCount cfg now tenantID email [] st + (if hasEmail then 1 else 0);
            ipCount = failedLoginCount cfg now tenantID [] ip st + (if hasIP then 1 else 0);
            st = (if hasEmail then incrementCounter cfg now (failedEmailKey cfg tenantID email) window st else st);
            st = (if hasIP then incrementCounter cfg now (failedIPKey ip) window st else st)
        in if ac_maxFailedLogin cfg \<le> emailCount \<or> ac_maxFailedLogin cfg \<le> ipCount then
             (blockIP cfg now ip ''too_many_attempts'' st, Some ErrTooManyAttempts)
           else (st, None))"

definition recordLoginAttempt ::
  "'r authcfg \<Rightarrow> gotime \<Rightarrow> string \<Rightarrow> string \<Rightarrow> string \<Rightarrow> string \<Rightarrow> string \<Rightarrow> loginSecurityContext \<Rightarrow> 'r authState \<Rightarrow> 'r authState" where
  "recordLoginAttempt cfg now tenantID userID email result reason sec =
     CreateLoginAttempt (ac_deps cfg)
       \<lparr>la_TenantID = tenantID, la_UserID = trim_space userID, la_AttemptedEmail = normalizeEmailForSecurity (ac_env cfg) email,
        la_AttemptedEmailHash = emailHash cfg email, la_IPAddress = ls_IPAddress sec, la_CountryCode = ls_CountryCode sec,
        la_CountryName = ls_CountryName sec, la_ContinentCode = ls_ContinentCode sec, la_UserAgent = ls_UserAgent sec,
        la_DeviceID = ls_DeviceID sec, la_DeviceName = ls_DeviceName sec, la_Result = result, la_Reason = reason, la_CreatedAt = now\<rparr>"

section \<open>What an administrator sees\<close>

record ipSecurityStatus =
  ip_IP :: string
  ip_Blocked :: bool
  ip_Allowlisted :: bool
  ip_CountryCode :: string
  ip_ContinentCode :: string
  ip_GeoBlocked :: bool
  ip_FailedAttemptsIP :: int
  ip_FailedAttemptsEmail :: int
  ip_WindowSeconds :: int
  ip_Threshold :: int

definition GetIPSecurityStatus :: "'r authcfg \<Rightarrow> gotime \<Rightarrow> string \<Rightarrow> loginSecurityContext \<Rightarrow> 'r authState \<Rightarrow> ipSecurityStatus" where
  "GetIPSecurityStatus cfg now email sec st =
     (let sec = normalizeSecurityContext cfg sec; ip = ls_IPAddress sec; allowlisted = isIPAllowlisted cfg now ip st
      in \<lparr>ip_IP = ip, ip_Blocked = isIPBlocked cfg now ip st, ip_Allowlisted = allowlisted, ip_CountryCode = ls_CountryCode sec,
          ip_ContinentCode = ls_ContinentCode sec, ip_GeoBlocked = \<not> allowlisted \<and> shouldBlockByGeo cfg sec,
          ip_FailedAttemptsIP = failedLoginCount cfg now (defaultTenant cfg) [] ip st,
          ip_FailedAttemptsEmail = failedLoginCount cfg now (defaultTenant cfg) email [] st,
          ip_WindowSeconds = failedLoginWindow cfg div nanos, ip_Threshold = ac_maxFailedLogin cfg\<rparr>)"

end
