(* ===== verification/AuthService.thy ===== *)
theory AuthService
  imports AuthSecurity
begin

text \<open>
  The authentication service (\<open>src/internal/modules/auth/application/service/auth_service.go\<close>): logins,
  registration, one-time PINs, passwords, the sessions of a user and the rotation of refresh tokens. A
  handler takes the state and returns it with its result.

  Goroutines a login starts are put in \<open>as_jobs\<close> and run later, in any order, by \<open>runAuthJob\<close>. E-mails are
  not sent by the code yet. The profile and the device of an answer are left out.
\<close>

section \<open>Issuing tokens\<close>

record authResponse =
  ax_tokens :: tokenPair
  ax_Permissions :: "string list"
  ax_Portals :: "string list"
  ax_AccountType :: string
  ax_AccessLevel :: string

definition effectiveOf :: "'r authcfg \<Rightarrow> gotime \<Rightarrow> oid \<Rightarrow> string list" where
  "effectiveOf cfg now userID = ep_EffectivePermissions (GetEffectivePermissions now (ac_rolePermissions cfg userID) (ac_overrides cfg userID))"

definition permissionsForToken :: "'r authcfg \<Rightarrow> gotime \<Rightarrow> authUser \<Rightarrow> string list" where
  "permissionsForToken cfg now u = (if grantsAllPermissions (au_Roles u) then [''*''] else effectiveOf cfg now (au_ID u))"

definition issueTokensForUser ::
  "'r authcfg \<Rightarrow> authio \<Rightarrow> authUser \<Rightarrow> loginSecurityContext \<Rightarrow> string \<Rightarrow> 'r authState \<Rightarrow> 'r authState \<times> authResponse ares" where
  "issueTokensForUser cfg io u sec loginProvider st =
     (let sessionID = ai_sessionID io; sec = normalizeSecurityContext cfg sec;
          device = (if ls_DeviceID sec = [] then sessionID else ls_DeviceID sec);
          perms = permissionsForToken cfg (ai_now io) u; portals = portalsForToken (ac_env cfg) (au_Roles u);
          access = classifyAccountAccess (au_Roles u) portals perms;
          tokens = IssuePair (ac_provider cfg) (ai_now io) sessionID (ge_hex (ac_env cfg) (au_ID u)) (au_Email u) (au_Roles u) perms portals access;
          session = \<lparr>us_ID = 0, us_UserID = au_ID u, us_SessionID = sessionID, us_DeviceID = device, us_DeviceName = ls_DeviceName sec,
            us_IPAddress = ls_IPAddress sec, us_UserAgent = ls_UserAgent sec, us_RefreshToken = ac_hash cfg (tp_RefreshToken tokens),
            us_TenantID = au_TenantID u, us_ExpiresAt = ai_now io + ac_refreshTTL cfg, us_RevokedAt = None, us_RevokedReason = [],
            us_LastActiveAt = 0, us_CreatedAt = 0\<rparr>
      in then_do (CreateSession (ai_fresh io) (ai_now io) session st) (\<lambda>st _.
         (st\<lparr>as_jobs := as_jobs st @ [ReplaceSessions (au_ID u) (au_TenantID u) sessionID, TouchLogin (au_ID u) loginProvider]\<rparr>,
          Ret \<lparr>ax_tokens = tokens, ax_Permissions = perms, ax_Portals = portals, ax_AccountType = fst access, ax_AccessLevel = snd access\<rparr>)))"

text \<open>What the goroutines do.\<close>

fun runAuthJob :: "'r authcfg \<Rightarrow> authio \<Rightarrow> authJob \<Rightarrow> 'r authState \<Rightarrow> 'r authState" where
  "runAuthJob cfg io (ReplaceSessions userID tenantID keepSessionID) st =
     RevokeOtherActiveUserSessionsWithReason (ai_now io) userID tenantID keepSessionID ''replaced_by_new_login'' st"
| "runAuthJob cfg io (TouchLogin userID loginProvider) st = fst (TouchSuccessfulLogin (ai_now io) userID loginProvider st)"
| "runAuthJob cfg io (RecordSuccess tenantID userID email sec) st =
     recordLoginAttempt cfg (ai_now io) tenantID userID email LoginAttemptSuccess ''success'' sec
       (resetFailedLoginCounters cfg tenantID email (ls_IPAddress sec) st)"
| "runAuthJob cfg io (Rehash email tenantID plain) st =
     (case ac_hashPassword cfg (ai_salt io) plain of
        None \<Rightarrow> st
      | Some h \<Rightarrow> fst (UpdatePasswordHash (ac_deps cfg) (ai_now io) email tenantID h st))"

section \<open>Refresh\<close>

definition idFromHex :: "goenv \<Rightarrow> string \<Rightarrow> oid" where
  "idFromHex env s = (case ge_from_hex env s of None \<Rightarrow> 0 | Some i \<Rightarrow> i)"

text \<open>The checks on the session, after the token was marked as used.\<close>

definition refreshSession ::
  "'r authcfg \<Rightarrow> authio \<Rightarrow> string \<Rightarrow> string \<Rightarrow> tokenClaims \<Rightarrow> authUser \<Rightarrow> 'r authState \<Rightarrow> 'r authState \<times> tokenPair ares" where
  "refreshSession cfg io rtHash deviceID claims u st =
     (let now = ai_now io; sid = SessionIDFromClaims claims; sessionID = (if sid = [] then ai_sessionID io else sid);
          perms = effectiveOf cfg now (au_ID u); portals = portalsForToken (ac_env cfg) (au_Roles u);
          tokens = IssuePair (ac_provider cfg) now sessionID (ge_hex (ac_env cfg) (au_ID u)) (au_Email u) (au_Roles u) perms portals
            (classifyAccountAccess (au_Roles u) portals perms)
      in case FindSessionByID sessionID (au_TenantID u) st of
           Ret s \<Rightarrow>
             if IsRevoked s \<or> us_ExpiresAt s < now then (st, Fail ErrSessionReplaced)
             else if us_RefreshToken s \<noteq> rtHash then
               (RevokeAllUserSessionsWithReason now (au_ID u) (au_TenantID u) ''refresh_token_reuse'' st, Fail ErrTokenReuseDetected)
             else if trim_space deviceID \<noteq> [] \<and> us_DeviceID s \<noteq> [] \<and> trim_space deviceID \<noteq> us_DeviceID s then (st, Fail ErrSessionReplaced)
             else (case RotateSessionRefreshToken now sessionID (au_TenantID u) rtHash (ac_hash cfg (tp_RefreshToken tokens))
                          (now + ac_refreshTTL cfg) st of
                     (st, Ret _) \<Rightarrow> (st, Ret tokens)
                   | (st, _) \<Rightarrow>
                       (RevokeAllUserSessionsWithReason now (au_ID u) (au_TenantID u) ''refresh_token_race'' st, Fail ErrTokenReuseDetected))
         | _ \<Rightarrow> (st, Fail ErrSessionReplaced))"

definition RefreshToken :: "'r authcfg \<Rightarrow> authio \<Rightarrow> string \<Rightarrow> string \<Rightarrow> 'r authState \<Rightarrow> 'r authState \<times> tokenPair ares" where
  "RefreshToken cfg io token deviceID st =
     (let now = ai_now io; dp = ac_deps cfg; rtHash = ac_hash cfg token
      in case ValidateRefreshToken (ac_provider cfg) now token of
           None \<Rightarrow> (st, Fail (ErrWrapped ''auth.service.refreshToken: validate''))
         | Some claims \<Rightarrow>
             let user = jc_UserID (tc_claims claims); userID = idFromHex (ad_env dp) user
             in if IsRefreshTokenUsed dp now user rtHash st then (RevokeAllUserSessions now userID [] st, Fail ErrTokenReuseDetected)
                else
                  let st = MarkRefreshTokenUsed dp now (ac_refreshTTL cfg) user rtHash st
                  in case FindUserByID userID st of
                       Ret u \<Rightarrow> refreshSession cfg io rtHash deviceID claims u st
                     | _ \<Rightarrow> (st, Fail (ErrWrapped ''auth.service.refreshToken: find user'')))"

section \<open>Registration, PINs and passwords\<close>

definition newUser :: "string \<Rightarrow> string \<Rightarrow> string \<Rightarrow> string \<Rightarrow> authUser" where
  "newUser email h fullName tenantID =
     \<lparr>au_ID = 0, au_Email = email, au_PasswordHash = h, au_FullName = fullName, au_AvatarURL = [], au_Status = UserStatusPending,
      au_Provider = ''local'', au_ProviderID = [], au_AccountType = [], au_GoogleSub = [], au_GoogleEmail = [],
      au_GoogleEmailVerified = False, au_LastLoginProvider = [], au_Roles = [''user''], au_TenantID = tenantID, au_Phone = [],
      au_IsProfileCompleted = False, au_LastLoginAt = None, au_LoginCount = 0, au_CreatedAt = 0, au_UpdatedAt = 0\<rparr>"

definition hashPassword :: "'r authcfg \<Rightarrow> authio \<Rightarrow> string \<Rightarrow> string \<Rightarrow> string ares" where
  "hashPassword cfg io caller pw =
     (case ac_hashPassword cfg (ai_salt io) pw of
        Some h \<Rightarrow> Ret h
      | None \<Rightarrow> Fail (ErrWrapped (''auth.service.'' @ caller @ '': hash password'')))"

definition Register :: "'r authcfg \<Rightarrow> authio \<Rightarrow> string \<Rightarrow> string \<Rightarrow> string \<Rightarrow> 'r authState \<Rightarrow> 'r authState \<times> unit ares" where
  "Register cfg io email pw fullName st =
     (let tenantID = defaultTenant cfg
      in if is_ret (FindUserByEmail (ac_deps cfg) email tenantID st) then (st, Fail ErrEmailExists)
         else and_then (hashPassword cfg io ''register'' pw) st (\<lambda>h.
           case CreateUser (ac_deps cfg) (ai_fresh io) (ai_now io) (newUser email h fullName tenantID) st of
             (st, Ret _) \<Rightarrow> (CreatePin (ac_deps cfg) (ai_fresh io) (ai_now io) email (ai_pin io) PinPurposeRegister st, Ret ())
           | (st, _) \<Rightarrow> (st, Fail ErrEmailExists)))"

text \<open>Every way a PIN can be unusable is the same error to the caller.\<close>

definition consumePin :: "'r authcfg \<Rightarrow> authio \<Rightarrow> string \<Rightarrow> string \<Rightarrow> string \<Rightarrow> 'r authState \<Rightarrow> 'r authState \<times> unit ares" where
  "consumePin cfg io email code purpose st =
     (case ValidateAndConsumePin (ac_deps cfg) (ai_now io) email code purpose st of
        (st, Ret _) \<Rightarrow> (st, Ret ())
      | (st, _) \<Rightarrow> (st, Fail ErrInvalidPIN))"

definition VerifyPIN :: "'r authcfg \<Rightarrow> authio \<Rightarrow> string \<Rightarrow> string \<Rightarrow> string \<Rightarrow> 'r authState \<Rightarrow> 'r authState \<times> unit ares" where
  "VerifyPIN cfg io email code purpose st =
     then_do (consumePin cfg io email code purpose st) (\<lambda>st _.
       if purpose = PinPurposeRegister then
         (case UpdateUserStatus (ac_deps cfg) (ai_now io) email (defaultTenant cfg) UserStatusActive st of
            (st, Ret _) \<Rightarrow> (st, Ret ())
          | (st, _) \<Rightarrow> (st, Fail (ErrWrapped ''auth.service.verifyPIN: activate user'')))
       else (st, Ret ()))"

definition ForgotPassword :: "'r authcfg \<Rightarrow> authio \<Rightarrow> string \<Rightarrow> 'r authState \<Rightarrow> 'r authState \<times> unit ares" where
  "ForgotPassword cfg io email st =
     (case FindUserByEmail (ac_deps cfg) email (defaultTenant cfg) st of
        Ret u \<Rightarrow> (CreatePin (ac_deps cfg) (ai_fresh io) (ai_now io) email (ai_pin io) PinPurposeForgotPassword st, Ret ())
      | _ \<Rightarrow> (st, Ret ()))"

definition ResendPIN :: "'r authcfg \<Rightarrow> authio \<Rightarrow> string \<Rightarrow> string \<Rightarrow> 'r authState \<Rightarrow> 'r authState \<times> unit ares" where
  "ResendPIN cfg io email purpose st =
     (case FindUserByEmail (ac_deps cfg) email (defaultTenant cfg) st of
        Ret u \<Rightarrow>
          let purpose = (if purpose = [] then ''register'' else purpose);
              pinPurpose = (if purpose = ''forgot_password'' then PinPurposeForgotPassword
                            else if purpose = ''register'' \<or> purpose = ''verify'' then PinPurposeVerify
                            else PinPurposeVerify)
          in (CreatePin (ac_deps cfg) (ai_fresh io) (ai_now io) email (ai_pin io) pinPurpose st, Ret ())
      | _ \<Rightarrow> (st, Ret ()))"

definition ResetPassword :: "'r authcfg \<Rightarrow> authio \<Rightarrow> string \<Rightarrow> string \<Rightarrow> string \<Rightarrow> 'r authState \<Rightarrow> 'r authState \<times> unit ares" where
  "ResetPassword cfg io email code newPassword st =
     then_do (consumePin cfg io email code PinPurposeForgotPassword st) (\<lambda>st _.
     and_then (hashPassword cfg io ''resetPassword'' newPassword) st (\<lambda>h.
     case UpdatePasswordHash (ac_deps cfg) (ai_now io) email (defaultTenant cfg) h st of
       (st, Ret _) \<Rightarrow>
         (case FindUserByEmail (ac_deps cfg) email (defaultTenant cfg) st of
            Ret u \<Rightarrow> (RevokeAllUserSessions (ai_now io) (au_ID u) (defaultTenant cfg) st, Ret ())
          | _ \<Rightarrow> (st, Ret ()))
     | (st, _) \<Rightarrow> (st, Fail (ErrWrapped ''auth.service.resetPassword: update hash''))))"

definition ChangePassword :: "'r authcfg \<Rightarrow> authio \<Rightarrow> string \<Rightarrow> string \<Rightarrow> string \<Rightarrow> 'r authState \<Rightarrow> 'r authState \<times> unit ares" where
  "ChangePassword cfg io userID oldPassword newPassword st =
     (if trim_space newPassword = [] \<or> length newPassword < 8 then
        (st, Fail (ErrWrapped ''auth.service.changePassword: new password is too short''))
      else case ge_from_hex (ac_env cfg) userID of
        None \<Rightarrow> (st, Fail (ErrWrapped ''auth.service.changePassword: invalid user id''))
      | Some i \<Rightarrow>
          and_then (FindUserByID i st) st (\<lambda>u.
          if \<not> fst (ac_verifyPassword cfg oldPassword (au_PasswordHash u)) then (st, Fail ErrInvalidOldPassword)
          else and_then (hashPassword cfg io ''changePassword'' newPassword) st (\<lambda>h.
          case UpdatePasswordHash (ac_deps cfg) (ai_now io) (au_Email u) (au_TenantID u) h st of
            (st, Ret _) \<Rightarrow> (st, Ret ())
          | (st, _) \<Rightarrow> (st, Fail (ErrWrapped ''auth.service.changePassword: update password'')))))"

section \<open>The administrator\<close>

definition defaultRootAdminEmail :: string where
  "defaultRootAdminEmail = ''admin@erg.edu.vn''"

definition rootAdminEmail :: "'r authcfg \<Rightarrow> string" where
  "rootAdminEmail cfg =
     (let configured = trim_space (ac_adminEmail cfg) in if configured \<noteq> [] then lower (ac_env cfg) configured else defaultRootAdminEmail)"

definition isConfiguredAdminEmail :: "'r authcfg \<Rightarrow> string \<Rightarrow> bool" where
  "isConfiguredAdminEmail cfg email =
     (let email = trim_space email in email \<noteq> [] \<and> (EqualFold email (rootAdminEmail cfg) \<or> EqualFold email defaultRootAdminEmail))"

text \<open>The \<open>uniqueStrings\<close> of this service does not trim.\<close>

definition uniqueNames :: "string list \<Rightarrow> string list" where
  "uniqueNames = uniqueLoop (\<lambda>s. s) []"

definition adminRoleNames :: "string list" where
  "adminRoleNames = [''admin'', ''SUPER_ADMIN'', ''system.super_admin'', ''erg_super_admin'']"

definition ensureAdminRoles :: "string list \<Rightarrow> string list" where
  "ensureAdminRoles roles = (let roles = uniqueNames roles in uniqueNames (roles @ filter (\<lambda>r. r \<notin> set roles) adminRoleNames))"

definition sameStringSet :: "string list \<Rightarrow> string list \<Rightarrow> bool" where
  "sameStringSet a b = (let a = uniqueNames a; b = uniqueNames b in length a = length b \<and> list_all (\<lambda>x. x \<in> set a) b)"

text \<open>The columns of an incomplete administrator, as a function on its row; \<open>None\<close> when nothing is missing.\<close>

definition adminUpdates :: "(string \<Rightarrow> bool) \<Rightarrow> authUser \<Rightarrow> (authUser \<Rightarrow> authUser) option" where
  "adminUpdates isActive u =
     (let status = \<not> isActive (au_Status u); prov = trim_space (au_Provider u) = []; kind = trim_space (au_AccountType u) = [];
          name = trim_space (au_FullName u) = []; profile = \<not> au_IsProfileCompleted u
      in if status \<or> prov \<or> kind \<or> name \<or> profile then
           Some (\<lambda>r. r\<lparr>au_Status := if status then UserStatusActive else au_Status r, au_Provider := if prov then ''local'' else au_Provider r,
                        au_AccountType := if kind then ''erg'' else au_AccountType r,
                        au_FullName := if name then ''Super Administrator'' else au_FullName r,
                        au_IsProfileCompleted := profile \<or> au_IsProfileCompleted r\<rparr>)
         else None)"

definition repairConfiguredAdmin :: "'r authcfg \<Rightarrow> authio \<Rightarrow> authUser \<Rightarrow> 'r authState \<Rightarrow> 'r authState \<times> authUser ares" where
  "repairConfiguredAdmin cfg io u st =
     (if \<not> isConfiguredAdminEmail cfg (au_Email u) then (st, Ret u)
      else
        let updates = adminUpdates (\<lambda>s. EqualFold s ''active'') u; repaired = (case updates of None \<Rightarrow> u | Some f \<Rightarrow> f u);
            roles = ensureAdminRoles (au_Roles u)
        in then_do (UpdateUserIdentityFields (ai_now io) (au_ID u) updates st) (\<lambda>st _.
           if sameStringSet (au_Roles u) roles then (st, Ret repaired)
           else then_do (UpdateUserRoles (ac_deps cfg) (au_ID u) roles st) (\<lambda>st _. (st, Ret (repaired\<lparr>au_Roles := roles\<rparr>)))))"

definition adminUser :: "'r authcfg \<Rightarrow> string \<Rightarrow> authUser" where
  "adminUser cfg h =
     \<lparr>au_ID = 0, au_Email = rootAdminEmail cfg, au_PasswordHash = h, au_FullName = ''Super Administrator'', au_AvatarURL = [],
      au_Status = UserStatusActive, au_Provider = ''local'', au_ProviderID = [], au_AccountType = ''erg'', au_GoogleSub = [],
      au_GoogleEmail = [], au_GoogleEmailVerified = False, au_LastLoginProvider = [], au_Roles = ensureAdminRoles [],
      au_TenantID = defaultTenant cfg, au_Phone = [], au_IsProfileCompleted = True, au_LastLoginAt = None, au_LoginCount = 0,
      au_CreatedAt = 0, au_UpdatedAt = 0\<rparr>"

text \<open>At the start of the process; \<open>rootAdminEmail\<close> is never empty.\<close>

definition BootstrapAdmin :: "'r authcfg \<Rightarrow> authio \<Rightarrow> 'r authState \<Rightarrow> 'r authState \<times> unit ares" where
  "BootstrapAdmin cfg io st =
     (case FindUserByEmail (ac_deps cfg) (rootAdminEmail cfg) (defaultTenant cfg) st of
        Ret u \<Rightarrow>
          let roles = ensureAdminRoles (au_Roles u)
          in then_do (UpdateUserIdentityFields (ai_now io) (au_ID u) (adminUpdates (\<lambda>s. s = UserStatusActive) u) st) (\<lambda>st _.
             if sameStringSet (au_Roles u) roles then (st, Ret ()) else UpdateUserRoles (ac_deps cfg) (au_ID u) roles st)
      | _ \<Rightarrow>
          if trim_space (ac_adminPassword cfg) = [] then (st, Ret ())
          else and_then (hashPassword cfg io ''BootstrapAdmin'' (ac_adminPassword cfg)) st (\<lambda>h.
            (fst (CreateUser (ac_deps cfg) (ai_fresh io) (ai_now io) (adminUser cfg h) st), Ret ())))"

section \<open>Login\<close>

definition canonicalLoginEmail :: "goenv \<Rightarrow> string \<Rightarrow> string" where
  "canonicalLoginEmail env identifier =
     (let identifier = trim_space (lower env identifier)
      in if identifier = [] \<or> CHR 0x40 \<in> set identifier then identifier
         else trim_space (lower env identifier) @ ''@student.erg.edu.vn'')"

text \<open>A login with a wrong address or password.\<close>

definition rejectLogin ::
  "'r authcfg \<Rightarrow> authio \<Rightarrow> string \<Rightarrow> string \<Rightarrow> loginSecurityContext \<Rightarrow> 'r authState \<Rightarrow> 'r authState \<times> 'a ares" where
  "rejectLogin cfg io userID email sec st =
     (let now = ai_now io; tenantID = defaultTenant cfg
      in case recordFailedLogin cfg now tenantID email sec st of
           (st, Some e) \<Rightarrow> (recordLoginAttempt cfg now tenantID userID email LoginAttemptBlocked ''too_many_attempts'' sec st, Fail e)
         | (st, None) \<Rightarrow>
             (recordLoginAttempt cfg now tenantID userID email LoginAttemptFailed ''invalid_credentials'' sec st, Fail ErrInvalidCredentials))"

definition isLocked :: "authUser \<Rightarrow> bool" where
  "isLocked u \<longleftrightarrow> au_Status u = UserStatusBlocked \<or> au_Status u = UserStatusBanned"

text \<open>The success of a login is recorded in a goroutine.\<close>

definition recordSuccessfulLoginAsync :: "'r authcfg \<Rightarrow> string \<Rightarrow> string \<Rightarrow> loginSecurityContext \<Rightarrow> 'r authState \<Rightarrow> 'r authState" where
  "recordSuccessfulLoginAsync cfg userID email sec st = st\<lparr>as_jobs := as_jobs st @ [RecordSuccess (defaultTenant cfg) userID email sec]\<rparr>"

text \<open>The checks on the user that was found, after the repair of an administrator.\<close>

definition loginUser ::
  "'r authcfg \<Rightarrow> authio \<Rightarrow> string \<Rightarrow> string \<Rightarrow> loginSecurityContext \<Rightarrow> authUser \<Rightarrow> 'r authState \<Rightarrow> 'r authState \<times> authResponse ares" where
  "loginUser cfg io loginEmail pw sec u st =
     (let blocked = recordLoginAttempt cfg (ai_now io) (defaultTenant cfg) (ge_hex (ac_env cfg) (au_ID u)) loginEmail LoginAttemptBlocked
      in if isLocked u then (blocked ''account_locked'' sec st, Fail ErrAccountLocked)
         else if au_Status u = UserStatusPending \<and> au_Provider u = ''local'' then
           (blocked ''email_not_verified'' sec st, Fail ErrEmailNotVerified)
         else
           (case ac_verifyPassword cfg pw (au_PasswordHash u) of
              (passwordOK, needsRehash) \<Rightarrow>
                if \<not> passwordOK then rejectLogin cfg io (ge_hex (ac_env cfg) (au_ID u)) loginEmail sec st
                else
                  let st = (if needsRehash then st\<lparr>as_jobs := as_jobs st @ [Rehash (au_Email u) (au_TenantID u) pw]\<rparr> else st)
                  in then_do (issueTokensForUser cfg io u sec ''erg'' st) (\<lambda>st authResponse.
                     (recordSuccessfulLoginAsync cfg (ge_hex (ac_env cfg) (au_ID u)) loginEmail sec st, Ret authResponse))))"

definition Login :: "'r authcfg \<Rightarrow> authio \<Rightarrow> string \<Rightarrow> string \<Rightarrow> loginSecurityContext \<Rightarrow> 'r authState \<Rightarrow> 'r authState \<times> authResponse ares" where
  "Login cfg io email pw sec st =
     (let now = ai_now io; tenantID = defaultTenant cfg; sec = normalizeSecurityContext cfg sec;
          loginEmail = canonicalLoginEmail (ac_env cfg) (trim_space email)
      in case precheckLoginSecurity cfg now tenantID loginEmail sec st of
           (st, Some (reason, e)) \<Rightarrow> (recordLoginAttempt cfg now tenantID [] loginEmail LoginAttemptBlocked reason sec st, Fail e)
         | (st, None) \<Rightarrow>
             (case FindUserByEmail (ac_deps cfg) loginEmail tenantID st of
                Ret u \<Rightarrow> then_do (repairConfiguredAdmin cfg io u st) (\<lambda>st u. loginUser cfg io loginEmail pw sec u st)
              | _ \<Rightarrow> rejectLogin cfg io [] loginEmail sec st))"

section \<open>Login with Google\<close>

record googleLoginRequest =
  gl_IDToken :: string
  gl_Email :: string
  gl_FullName :: string
  gl_AvatarURL :: string
  gl_GoogleSub :: string
  gl_EmailVerified :: bool

definition googleClientIDs :: "'r authcfg \<Rightarrow> string list" where
  "googleClientIDs cfg = uniqueNames (filter (\<lambda>s. s \<noteq> []) (map trim_space (ac_googleClientID cfg # ac_googleClientIDs cfg)))"

definition claimString :: "jobj \<Rightarrow> string \<Rightarrow> string" where
  "claimString claims name = (case map_of claims name of Some (JStr s) \<Rightarrow> s | _ \<Rightarrow> [])"

text \<open>The first client the token validates for decides; the identity it carries.\<close>

definition verifyGoogleIDToken :: "'r authcfg \<Rightarrow> googleLoginRequest \<Rightarrow> googleLoginRequest ares" where
  "verifyGoogleIDToken cfg req =
     (if googleClientIDs cfg = [] then Fail ErrGoogleOAuthNotConfigured
      else case List.map_filter (ac_idtoken cfg (gl_IDToken req)) (googleClientIDs cfg) of
             [] \<Rightarrow> Fail ErrGoogleIdentityInvalid
           | (sub, claims) # _ \<Rightarrow>
               let verified = (map_of claims ''email_verified'' = Some (JBool True)); email = claimString claims ''email''
               in if trim_space sub = [] \<or> trim_space email = [] \<or> \<not> verified then Fail ErrGoogleIdentityInvalid
                  else Ret (req\<lparr>gl_Email := lower (ac_env cfg) (trim_space email), gl_FullName := trim_space (claimString claims ''name''),
                                gl_AvatarURL := trim_space (claimString claims ''picture''), gl_GoogleSub := trim_space sub,
                                gl_EmailVerified := True\<rparr>))"

definition mergeAccountType :: "goenv \<Rightarrow> string \<Rightarrow> string \<Rightarrow> string \<Rightarrow> string" where
  "mergeAccountType env current prov googleSub =
     (let current = trim_space (lower env current); prov = trim_space (lower env prov); hasSub = trim_space googleSub \<noteq> [];
          rest = (if hasSub \<and> prov = ''local'' then ''hybrid'' else if hasSub \<or> prov = ''google'' then ''google'' else ''erg'')
      in if current = ''hybrid'' \<or> current = ''google'' then (if prov = ''local'' then ''hybrid'' else if hasSub then current else rest)
         else if current = ''erg'' \<and> hasSub then ''hybrid''
         else rest)"

definition isProfileComplete :: "string \<Rightarrow> string \<Rightarrow> bool" where
  "isProfileComplete fullName phone \<longleftrightarrow> trim_space fullName \<noteq> [] \<and> trim_space phone \<noteq> []"

definition newGoogleUser :: "'r authcfg \<Rightarrow> googleLoginRequest \<Rightarrow> string \<Rightarrow> authUser" where
  "newGoogleUser cfg req h =
     (let email = trim_space (gl_Email req); sub = trim_space (gl_GoogleSub req); name = trim_space (gl_FullName req)
      in \<lparr>au_ID = 0, au_Email = email, au_PasswordHash = h, au_FullName = name, au_AvatarURL = trim_space (gl_AvatarURL req),
          au_Status = UserStatusActive, au_Provider = ''google'', au_ProviderID = sub, au_AccountType = ''google'', au_GoogleSub = sub,
          au_GoogleEmail = email, au_GoogleEmailVerified = True, au_LastLoginProvider = ''google'', au_Roles = [''user''],
          au_TenantID = defaultTenant cfg, au_Phone = [], au_IsProfileCompleted = isProfileComplete name [], au_LastLoginAt = None,
          au_LoginCount = 0, au_CreatedAt = 0, au_UpdatedAt = 0\<rparr>)"

text \<open>The user of the identity: by its subject, else by its address, else a new one with a random password.\<close>

definition findGoogleUser :: "'r authcfg \<Rightarrow> authio \<Rightarrow> googleLoginRequest \<Rightarrow> 'r authState \<Rightarrow> 'r authState \<times> authUser ares" where
  "findGoogleUser cfg io req st =
     (let dp = ac_deps cfg; tenantID = defaultTenant cfg; email = trim_space (gl_Email req)
      in case FindUserByGoogleSub (trim_space (gl_GoogleSub req)) tenantID st of
           Ret u \<Rightarrow> (st, Ret u)
         | _ \<Rightarrow>
             (case FindUserByEmail dp email tenantID st of
                Ret u \<Rightarrow> (st, Ret u)
              | _ \<Rightarrow>
                  case ac_hashPassword cfg (ai_salt io) (ai_password io) of
                    None \<Rightarrow> (st, Fail (ErrWrapped ''auth.service.googleLogin: bootstrap password hash''))
                  | Some h \<Rightarrow>
                  let u = (newGoogleUser cfg req h)\<lparr>au_ID := ai_fresh io, au_CreatedAt := ai_now io, au_UpdatedAt := ai_now io\<rparr>
                  in case CreateUser dp (ai_fresh io) (ai_now io) u st of
                       (st, Ret _) \<Rightarrow> (st, Ret u)
                     | (st, _) \<Rightarrow>
                         (st, case FindUserByEmail dp email tenantID st of
                                Ret u \<Rightarrow> Ret u
                              | _ \<Rightarrow> Fail (ErrWrapped ''auth.service.googleLogin: load duplicate email user''))))"

text \<open>The identity is written into the row, and into the user of the answer; a pending account becomes active.\<close>

definition linkGoogle :: "'r authcfg \<Rightarrow> googleLoginRequest \<Rightarrow> authUser \<Rightarrow> authUser \<Rightarrow> authUser" where
  "linkGoogle cfg req u r =
     (let sub = trim_space (gl_GoogleSub req); name = trim_space (gl_FullName req); avatar = trim_space (gl_AvatarURL req);
          newName = (trim_space (au_FullName u) = [] \<and> name \<noteq> []); newAvatar = (trim_space (au_AvatarURL u) = [] \<and> avatar \<noteq> [])
      in r\<lparr>au_ProviderID := sub, au_GoogleSub := sub, au_GoogleEmail := lower (ac_env cfg) (trim_space (gl_Email req)),
           au_GoogleEmailVerified := True, au_LastLoginProvider := ''google'',
           au_AccountType := mergeAccountType (ac_env cfg) (au_AccountType u) (au_Provider u) sub,
           au_Provider := if au_Provider u = [] then ''google'' else au_Provider r,
           au_FullName := if newName then name else au_FullName r, au_AvatarURL := if newAvatar then avatar else au_AvatarURL r,
           au_Status := if au_Status u = UserStatusPending then UserStatusActive else au_Status r,
           au_IsProfileCompleted := isProfileComplete (if newName then name else au_FullName u) (au_Phone u)\<rparr>)"

definition GoogleLogin ::
  "'r authcfg \<Rightarrow> authio \<Rightarrow> googleLoginRequest \<Rightarrow> loginSecurityContext \<Rightarrow> 'r authState \<Rightarrow> 'r authState \<times> authResponse ares" where
  "GoogleLogin cfg io req sec st =
     and_then (if trim_space (gl_IDToken req) = [] then Ret req else verifyGoogleIDToken cfg req) st (\<lambda>req.
     let now = ai_now io; tenantID = defaultTenant cfg; sec = normalizeSecurityContext cfg sec;
         email = trim_space (gl_Email req); sub = trim_space (gl_GoogleSub req)
     in case precheckLoginSecurity cfg now tenantID email sec st of
          (st, Some (reason, e)) \<Rightarrow> (recordLoginAttempt cfg now tenantID [] email LoginAttemptBlocked reason sec st, Fail e)
        | (st, None) \<Rightarrow>
            if email = [] \<or> sub = [] \<or> \<not> gl_EmailVerified req then
              (recordLoginAttempt cfg now tenantID [] email LoginAttemptFailed ''google_identity_invalid'' sec st, Fail ErrGoogleIdentityInvalid)
            else then_do (findGoogleUser cfg io req st) (\<lambda>st u.
              if isLocked u then
                (recordLoginAttempt cfg now tenantID (ge_hex (ac_env cfg) (au_ID u)) email LoginAttemptBlocked ''account_locked'' sec st,
                 Fail ErrAccountLocked)
              else then_do (UpdateUserIdentityFields now (au_ID u) (Some (linkGoogle cfg req u)) st) (\<lambda>st _.
                then_do (issueTokensForUser cfg io (linkGoogle cfg req u u) sec ''google'' st) (\<lambda>st authResponse.
                  (recordSuccessfulLoginAsync cfg (ge_hex (ac_env cfg) (au_ID u)) email sec st, Ret authResponse)))))"

section \<open>Sessions\<close>

definition Logout :: "'r authcfg \<Rightarrow> authio \<Rightarrow> string \<Rightarrow> 'r authState \<Rightarrow> 'r authState \<times> unit ares" where
  "Logout cfg io sessionID st =
     (case RevokeSession (ai_now io) sessionID (defaultTenant cfg) st of
        (st, Ret _) \<Rightarrow> (st, Ret ())
      | (st, _) \<Rightarrow> (st, Fail (ErrWrapped ''auth.service.logout: revoke session'')))"

definition ValidateActiveSession :: "'r authcfg \<Rightarrow> gotime \<Rightarrow> string \<Rightarrow> string \<Rightarrow> 'r authState \<Rightarrow> unit ares" where
  "ValidateActiveSession cfg now userID sessionID st =
     (if trim_space userID = [] \<or> trim_space sessionID = [] then Fail ErrInvalidToken
      else case ge_from_hex (ac_env cfg) userID of
             None \<Rightarrow> Fail ErrInvalidToken
           | Some i \<Rightarrow>
               (case FindUserByID i st of
                  Ret u \<Rightarrow>
                    (case FindSessionByID sessionID (au_TenantID u) st of
                       Ret s \<Rightarrow> if IsRevoked s \<or> us_ExpiresAt s < now then Fail ErrSessionReplaced else Ret ()
                     | _ \<Rightarrow> Fail ErrSessionReplaced)
                | _ \<Rightarrow> Fail ErrInvalidToken))"

section \<open>Requests and goroutines\<close>

text \<open>
  What can happen next: a start of the process, a request of the module, or one of the goroutines that have
  been started.
\<close>

datatype authRequest =
    BootstrapReq
  | RegisterReq string string string
  | LoginReq string string loginSecurityContext
  | GoogleReq googleLoginRequest loginSecurityContext
  | RefreshReq string string
  | VerifyReq string string string
  | ForgotReq string
  | ResendReq string string
  | ResetReq string string string
  | ChangeReq string string string
  | LogoutReq string
  | JobReq nat

fun serveAuth :: "'r authcfg \<Rightarrow> authio \<Rightarrow> authRequest \<Rightarrow> 'r authState \<Rightarrow> 'r authState" where
  "serveAuth cfg io BootstrapReq st = fst (BootstrapAdmin cfg io st)"
| "serveAuth cfg io (RegisterReq email pw fullName) st = fst (Register cfg io email pw fullName st)"
| "serveAuth cfg io (LoginReq email pw sec) st = fst (Login cfg io email pw sec st)"
| "serveAuth cfg io (GoogleReq req sec) st = fst (GoogleLogin cfg io req sec st)"
| "serveAuth cfg io (RefreshReq token deviceID) st = fst (RefreshToken cfg io token deviceID st)"
| "serveAuth cfg io (VerifyReq email code purpose) st = fst (VerifyPIN cfg io email code purpose st)"
| "serveAuth cfg io (ForgotReq email) st = fst (ForgotPassword cfg io email st)"
| "serveAuth cfg io (ResendReq email purpose) st = fst (ResendPIN cfg io email purpose st)"
| "serveAuth cfg io (ResetReq email code newPassword) st = fst (ResetPassword cfg io email code newPassword st)"
| "serveAuth cfg io (ChangeReq userID oldPassword newPassword) st = fst (ChangePassword cfg io userID oldPassword newPassword st)"
| "serveAuth cfg io (LogoutReq sessionID) st = fst (Logout cfg io sessionID st)"
| "serveAuth cfg io (JobReq k) st =
     (if k < length (as_jobs st) then
        runAuthJob cfg io (as_jobs st ! k) (st\<lparr>as_jobs := take k (as_jobs st) @ drop (Suc k) (as_jobs st)\<rparr>)
      else st)"

end
