(* ===== verification/AuthSessions.thy ===== *)
theory AuthSessions
  imports AuthService
begin

text \<open>
  The life of a session over any sequence of requests, logins and goroutines: a session keeps its owner, is
  revoked for good, and its refresh hash changes only to that of a token issued for it. From this: a revoked
  session is dead, and a refresh token that was exchanged is never accepted again.
\<close>

section \<open>Sequences of requests\<close>

fun runAuth :: "'r authcfg \<Rightarrow> (authio \<times> authRequest) list \<Rightarrow> 'r authState \<Rightarrow> 'r authState" where
  "runAuth cfg [] st = st"
| "runAuth cfg ((io, r) # xs) st = runAuth cfg xs (serveAuth cfg io r st)"

definition emptyAuth :: "'r \<Rightarrow> 'r authState" where
  "emptyAuth r = \<lparr>as_users = [], as_sessions = [], as_pins = [], as_attempts = [], as_firewall = [], as_redis = r, as_jobs = []\<rparr>"

lemma runAuth_invariant:
  assumes "\<And>io r st. (io, r) \<in> set xs \<Longrightarrow> P st \<Longrightarrow> P (serveAuth cfg io r st)" and "P st"
  shows "P (runAuth cfg xs st)"
  using assms by (induction xs arbitrary: st rule: list.induct) auto

section \<open>How a session can change\<close>

text \<open>
  \<open>evolves H\<close>: rows are kept in place and keep their keys, revocations stay, a refresh hash changes only to
  one of \<open>H\<close> of its session; new rows come last.
\<close>

definition sessionStep :: "(string \<Rightarrow> string set) \<Rightarrow> userSession \<Rightarrow> userSession \<Rightarrow> bool" where
  "sessionStep H s t \<longleftrightarrow> us_UserID t = us_UserID s \<and> us_SessionID t = us_SessionID s \<and> us_TenantID t = us_TenantID s
     \<and> (IsRevoked s \<longrightarrow> IsRevoked t \<and> us_RefreshToken t = us_RefreshToken s)
     \<and> (us_RefreshToken t = us_RefreshToken s \<or> us_RefreshToken t \<in> H (us_SessionID s))"

definition evolves :: "(string \<Rightarrow> string set) \<Rightarrow> userSession list \<Rightarrow> userSession list \<Rightarrow> bool" where
  "evolves H ss ts \<longleftrightarrow> (\<exists>us vs. ts = us @ vs \<and> list_all2 (sessionStep H) ss us)"

lemma sessionStep_refl [simp]: "sessionStep H s s"
  by (simp add: sessionStep_def)

lemma evolves_same [simp]: "evolves H ss ss"
  unfolding evolves_def by (intro exI [of _ ss] exI [of _ "[]"]) (simp add: list.rel_refl)

lemma find_append_Some: "find p xs = Some x \<Longrightarrow> find p (xs @ ys) = Some x"
  by (induction xs) auto

lemma evolves_map: "(\<And>s. sessionStep H s (f s)) \<Longrightarrow> evolves H ss (map f ss)"
  unfolding evolves_def by (intro exI [of _ "map f ss"] exI [of _ "[]"]) (simp add: list_all2_conv_all_nth)

lemma evolves_append [simp]: "evolves H ss (ss @ new)"
  unfolding evolves_def by (intro exI [of _ ss] exI [of _ new]) (simp add: list.rel_refl)

lemma evolves_updateSessions:
  assumes "\<And>s. p s \<Longrightarrow> sessionStep H s (f s)"
  shows "evolves H (as_sessions st) (as_sessions (updateSessions p f st))"
  unfolding updateSessions_def using assms by (auto intro: evolves_map)

lemma sessionStep_revoked [simp]: "sessionStep H s (revoked now reason s)" "sessionStep H s ((revoked now reason s)\<lparr>us_LastActiveAt := now\<rparr>)"
  by (simp_all add: sessionStep_def revoked_def IsRevoked_def)

lemma evolves_revokeAll [simp]:
  "evolves H (as_sessions st) (as_sessions (RevokeAllUserSessionsWithReason now i tenantID reason st))"
  "evolves H (as_sessions st) (as_sessions (RevokeAllUserSessions now i tenantID st))"
  "evolves H (as_sessions st) (as_sessions (RevokeOtherActiveUserSessionsWithReason now i tenantID keep reason st))"
  by (simp_all add: RevokeAllUserSessions_def RevokeAllUserSessionsWithReason_def RevokeOtherActiveUserSessionsWithReason_def
        evolves_updateSessions)

text \<open>The first row with a key stays the first row with it.\<close>

lemma find_evolves:
  assumes "evolves H ss ts" and "find (sessionKey sid tn) ss = Some s"
  shows "\<exists>t. find (sessionKey sid tn) ts = Some t \<and> sessionStep H s t"
proof -
  obtain us vs where ts: "ts = us @ vs" and us: "list_all2 (sessionStep H) ss us"
    using assms(1) by (auto simp: evolves_def)
  from us assms(2) have "\<exists>t. find (sessionKey sid tn) us = Some t \<and> sessionStep H s t"
    by (induction rule: list_all2_induct) (auto simp: sessionKey_def sessionStep_def split: if_splits)
  then show ?thesis
    unfolding ts by (auto simp: find_append_Some)
qed

section \<open>What a request does to the sessions\<close>

text \<open>The hashes of the refresh tokens a request can issue for a session.\<close>

definition issuedAt :: "'r authcfg \<Rightarrow> authio \<Rightarrow> string \<Rightarrow> string set" where
  "issuedAt cfg io sid = range (\<lambda>user. ac_hash cfg (pv_signRefresh (ac_provider cfg) (refreshClaims (ac_provider cfg) (ai_now io) sid user)))"

lemma IssuePair_refresh [simp]:
  "tp_RefreshToken (IssuePair pv now sid user email roles perms portals access) = pv_signRefresh pv (refreshClaims pv now sid user)"
  by (simp add: IssuePair_def)

text \<open>What holds of the state a handler returns, one rule per way of putting handlers together.\<close>

definition yields :: "('s \<Rightarrow> bool) \<Rightarrow> 's \<times> ('e, 'a) outcome \<Rightarrow> bool" where
  "yields P r \<longleftrightarrow> P (fst r)"

lemma yields_pair [simp]: "yields P (s, out) \<longleftrightarrow> P s"
  by (simp add: yields_def)

lemma yields_then: "yields P r \<Longrightarrow> (\<And>s x. P s \<Longrightarrow> yields P (f s x)) \<Longrightarrow> yields P (then_do r f)"
  by (cases r; cases "snd r") (auto simp: yields_def)

lemma yields_and: "P s \<Longrightarrow> (\<And>x. m = Ret x \<Longrightarrow> yields P (f x)) \<Longrightarrow> yields P (and_then m s f)"
  by (cases m) (auto simp: yields_def)

lemma yields_case:
  assumes "yields P r" and "\<And>s x. P s \<Longrightarrow> yields P (f s x)" and "\<And>s e. P s \<Longrightarrow> yields P (g s e)" and "\<And>s. P s \<Longrightarrow> yields P (h s)"
  shows "yields P (case r of (s, out) \<Rightarrow> (case out of Ret x \<Rightarrow> f s x | Fail e \<Rightarrow> g s e | Panic \<Rightarrow> h s))"
  using assms by (auto simp: yields_def split: prod.splits outcome.splits)

lemma yields_result:
  assumes "\<And>x. m = Ret x \<Longrightarrow> yields P (f x)" and "\<And>e. yields P (g e)" and "yields P h"
  shows "yields P (case m of Ret x \<Rightarrow> f x | Fail e \<Rightarrow> g e | Panic \<Rightarrow> h)"
  using assms by (auto split: outcome.splits)

lemma yields_if: "(c \<Longrightarrow> yields P a) \<Longrightarrow> (\<not> c \<Longrightarrow> yields P b) \<Longrightarrow> yields P (if c then a else b)"
  by auto

lemma yields_option:
  assumes "yields P a" and "\<And>x. m = Some x \<Longrightarrow> yields P (f x)"
  shows "yields P (case m of None \<Rightarrow> a | Some x \<Rightarrow> f x)"
  using assms by (auto split: option.splits)

lemma yields_refusal:
  assumes "P (fst r)" and "\<And>s a b. P s \<Longrightarrow> yields P (f s a b)" and "\<And>s. P s \<Longrightarrow> yields P (g s)"
  shows "yields P (case r of (s, refusal) \<Rightarrow> (case refusal of None \<Rightarrow> g s | Some (a, b) \<Rightarrow> f s a b))"
  using assms by (auto split: prod.splits option.splits)

lemma yields_prod: "(\<And>a b. yields P (f a b)) \<Longrightarrow> yields P (case x of (a, b) \<Rightarrow> f a b)"
  by (cases x) simp

lemma yields_fst: "yields P r \<Longrightarrow> P (fst r)"
  by (simp add: yields_def)

lemmas yields_rules = yields_then yields_and yields_case yields_result yields_if yields_option

text \<open>What no operation changes of a user.\<close>

definition userIdentity :: "authUser \<Rightarrow> oid \<times> string \<times> string" where
  "userIdentity u = (au_ID u, au_TenantID u, au_Email u)"

text \<open>An invariant that every operation on the tables keeps is kept by every request and goroutine.\<close>

locale auth_invariant =
  fixes cfg :: "'r authcfg" and io :: authio and P :: "'r authState \<Rightarrow> bool"
  assumes create_user: "P st \<Longrightarrow> yields P (CreateUser (ac_deps cfg) (ai_fresh io) (ai_now io) u st)"
    and update_users: "P st \<Longrightarrow> (\<And>u. userIdentity (f u) = userIdentity u) \<Longrightarrow> yields P (updateUsers p f st)"
    and create_session: "P st \<Longrightarrow> yields P (CreateSession (ai_fresh io) (ai_now io) s st)"
    and update_sessions: "P st \<Longrightarrow> (\<And>s. p' s \<Longrightarrow> sessionStep (issuedAt cfg io) s (f' s)) \<Longrightarrow> P (updateSessions p' f' st)"
    and create_pin: "P st \<Longrightarrow> P (CreatePin (ac_deps cfg) (ai_fresh io) (ai_now io) email (ai_pin io) purpose st)"
    and consume_pin: "P st \<Longrightarrow> yields P (ValidateAndConsumePin (ac_deps cfg) (ai_now io) email code purpose st)"
    and redis: "P st \<Longrightarrow> P (st\<lparr>as_redis := r\<rparr>)"
    and attempts: "P st \<Longrightarrow> P (st\<lparr>as_attempts := las\<rparr>)"
    and firewall: "P st \<Longrightarrow> P (st\<lparr>as_firewall := rules\<rparr>)"
    and jobs: "P st \<Longrightarrow> P (st\<lparr>as_jobs := js\<rparr>)"
begin

lemma user_updates:
  "P st \<Longrightarrow> yields P (UpdateUserStatus dp now email tn status st)"
  "P st \<Longrightarrow> yields P (UpdatePasswordHash dp now email tn h st)"
  "P st \<Longrightarrow> yields P (TouchSuccessfulLogin now i prov st)"
  by (auto simp: UpdateUserStatus_def UpdatePasswordHash_def TouchSuccessfulLogin_def userIdentity_def intro: update_users)

lemma revocations:
  "P st \<Longrightarrow> P (RevokeAllUserSessionsWithReason now i tn reason st)"
  "P st \<Longrightarrow> P (RevokeAllUserSessions now i tn st)"
  "P st \<Longrightarrow> P (RevokeOtherActiveUserSessionsWithReason now i tn keep reason st)"
  "P st \<Longrightarrow> yields P (RevokeSession now sid tn st)"
  by (auto simp: RevokeAllUserSessions_def RevokeAllUserSessionsWithReason_def RevokeOtherActiveUserSessionsWithReason_def
        RevokeSession_def RevokeSessionWithReason_def intro: update_sessions)

lemma rotation:
  "P st \<Longrightarrow> yields P (RotateSessionRefreshToken now sid tn h
     (ac_hash cfg (pv_signRefresh (ac_provider cfg) (refreshClaims (ac_provider cfg) (ai_now io) sid user))) ends st)"
  by (auto simp: RotateSessionRefreshToken_def sessionStep_def rotatable_def sessionKey_def IsRevoked_def issuedAt_def intro!: update_sessions)

lemma pins: "P st \<Longrightarrow> yields P (consumePin cfg io email code purpose st)"
  unfolding consumePin_def by (intro yields_rules consume_pin) simp_all

lemma used: "P st \<Longrightarrow> P (MarkRefreshTokenUsed dp now ttl user h st)"
  by (simp add: MarkRefreshTokenUsed_def redis split: option.split)

lemma defences:
  "P st \<Longrightarrow> P (incrementCounter cfg now key ttl st)"
  "P st \<Longrightarrow> P (resetFailedLoginCounters cfg tn email ip st)"
  "P st \<Longrightarrow> P (blockIP cfg now ip reason st)"
  "P st \<Longrightarrow> P (recordLoginAttempt cfg now tn user email result reason sec st)"
  by (simp_all add: incrementCounter_def resetFailedLoginCounters_def blockIP_def UpsertFirewallRule_def recordLoginAttempt_def
        CreateLoginAttempt_def Let_def redis attempts firewall split: option.split prod.split)

lemma precheck: "P st \<Longrightarrow> P (fst (precheckLoginSecurity cfg now tn email sec st))"
  by (simp add: precheckLoginSecurity_def Let_def defences)

lemma failed: "P st \<Longrightarrow> P (fst (recordFailedLogin cfg now tn email sec st))"
  by (simp add: recordFailedLogin_def Let_def defences)

lemma reject: "P st \<Longrightarrow> yields P (rejectLogin cfg io user email sec st)"
  using failed [of st "ai_now io" "defaultTenant cfg" email sec]
  by (auto simp: rejectLogin_def Let_def defences split: prod.split option.split)

lemma identity:
  "P st \<Longrightarrow> (\<And>f u. updates = Some f \<Longrightarrow> userIdentity (f u) = userIdentity u)
    \<Longrightarrow> yields P (UpdateUserIdentityFields now i updates st)"
  "P st \<Longrightarrow> yields P (UpdateUserRoles dp i roles st)"
  by (auto simp: UpdateUserIdentityFields_def UpdateUserRoles_def userIdentity_def intro!: update_users split: option.split)

lemma register: "P st \<Longrightarrow> yields P (Register cfg io email pw fullName st)"
  unfolding Register_def Let_def by (intro yields_rules create_user) (simp_all add: create_pin)

lemma admin:
  "P st \<Longrightarrow> yields P (repairConfiguredAdmin cfg io u st)"
  "P st \<Longrightarrow> yields P (BootstrapAdmin cfg io st)"
  unfolding repairConfiguredAdmin_def BootstrapAdmin_def Let_def
  by (intro yields_rules identity; auto simp: adminUpdates_def userIdentity_def Let_def yields_fst create_user [unfolded yields_def] split: if_splits)+

lemma issue: "P st \<Longrightarrow> yields P (issueTokensForUser cfg io u sec loginProvider st)"
  unfolding issueTokensForUser_def Let_def by (intro yields_rules create_session) (simp_all add: jobs)

lemma login: "P st \<Longrightarrow> yields P (Login cfg io email pw sec st)"
  unfolding Login_def loginUser_def recordSuccessfulLoginAsync_def Let_def
  by (intro yields_refusal yields_prod yields_rules precheck admin reject issue) (simp_all add: defences jobs)

lemma google: "P st \<Longrightarrow> yields P (GoogleLogin cfg io req sec st)"
  unfolding GoogleLogin_def findGoogleUser_def recordSuccessfulLoginAsync_def Let_def
  by (intro yields_refusal yields_rules precheck create_user identity issue)
    (auto simp: defences jobs linkGoogle_def userIdentity_def Let_def)

lemma refresh: "P st \<Longrightarrow> yields P (RefreshToken cfg io token deviceID st)"
  unfolding RefreshToken_def refreshSession_def Let_def IssuePair_refresh
  by (intro yields_rules rotation) (simp_all add: revocations used)

lemma passwords:
  "P st \<Longrightarrow> yields P (VerifyPIN cfg io email code purpose st)"
  "P st \<Longrightarrow> yields P (ForgotPassword cfg io email st)"
  "P st \<Longrightarrow> yields P (ResendPIN cfg io email purpose st)"
  "P st \<Longrightarrow> yields P (ResetPassword cfg io email code newPassword st)"
  "P st \<Longrightarrow> yields P (ChangePassword cfg io userID oldPassword newPassword st)"
  "P st \<Longrightarrow> yields P (Logout cfg io sid st)"
  unfolding VerifyPIN_def ForgotPassword_def ResendPIN_def ResetPassword_def ChangePassword_def Logout_def Let_def
  by (intro yields_rules pins user_updates revocations; simp add: create_pin revocations)+

lemma job: "P st \<Longrightarrow> P (runAuthJob cfg io j st)"
  using user_updates by (cases j) (auto simp: revocations defences yields_def split: option.split)

lemma serve: "P st \<Longrightarrow> P (serveAuth cfg io r st)"
  using register login google admin(2) refresh passwords job jobs by (cases r) (auto simp: yields_def)

end

section \<open>Sessions and users over a run\<close>

lemma sessionStep_trans: "sessionStep H s t \<Longrightarrow> sessionStep H t u \<Longrightarrow> sessionStep H s u"
  by (auto simp: sessionStep_def)

lemma sessionStep_mono: "sessionStep H s t \<Longrightarrow> (\<And>sid. H sid \<subseteq> K sid) \<Longrightarrow> sessionStep K s t"
  by (auto simp: sessionStep_def)

lemma evolves_mono: "evolves H ss ts \<Longrightarrow> (\<And>sid. H sid \<subseteq> K sid) \<Longrightarrow> evolves K ss ts"
  unfolding evolves_def by (elim exE conjE) (rule exI, rule exI, rule conjI, assumption, erule list_all2_mono, erule sessionStep_mono)

lemma evolves_trans:
  assumes "evolves H ss ts" and "evolves H ts us"
  shows "evolves H ss us"
proof -
  obtain a b where ts: "ts = a @ b" and a: "list_all2 (sessionStep H) ss a" using assms(1) by (auto simp: evolves_def)
  obtain c d where us: "us = c @ d" and c: "list_all2 (sessionStep H) ts c" using assms(2) by (auto simp: evolves_def)
  from c ts obtain e f where ef: "c = e @ f" "list_all2 (sessionStep H) a e" by (auto simp: list_all2_append1)
  have "list_all2 (sessionStep H) ss e" by (rule list_all2_trans [OF sessionStep_trans a ef(2)])
  with us ef show ?thesis by (auto simp: evolves_def)
qed

interpretation sessions: auth_invariant cfg io "\<lambda>st. evolves (issuedAt cfg io) ss (as_sessions st)"
  for cfg :: "'r authcfg" and io ss
proof (unfold_locales, goal_cases)
  case (3 st s)
  then show ?case by (auto simp: CreateSession_def intro: evolves_trans)
next
  case (4 st p f)
  then show ?case using evolves_updateSessions [of p "issuedAt cfg io" f st] by (blast intro: evolves_trans)
qed (auto simp: CreateUser_def updateUsers_def CreatePin_def ValidateAndConsumePin_def Let_def split: option.splits)

text \<open>The hashes of the tokens a sequence of requests can issue.\<close>

definition issuedIn :: "'r authcfg \<Rightarrow> (authio \<times> authRequest) list \<Rightarrow> string \<Rightarrow> string set" where
  "issuedIn cfg xs sid = (\<Union>(io, r) \<in> set xs. issuedAt cfg io sid)"

lemma sessions_evolve: "evolves (issuedIn cfg xs) (as_sessions st) (as_sessions (runAuth cfg xs st))"
proof (induction xs arbitrary: st)
  case (Cons x xs)
  obtain io r where x: "x = (io, r)" by (cases x)
  have "evolves (issuedIn cfg (x # xs)) (as_sessions st) (as_sessions (serveAuth cfg io r st))"
    using sessions.serve [of cfg io "as_sessions st" st r] by (rule evolves_mono) (auto simp: issuedIn_def x)
  moreover have "evolves (issuedIn cfg (x # xs)) (as_sessions (serveAuth cfg io r st)) (as_sessions (runAuth cfg (x # xs) st))"
    unfolding x runAuth.simps by (rule evolves_mono [OF Cons.IH]) (auto simp: issuedIn_def)
  ultimately show ?case by (rule evolves_trans)
qed simp

text \<open>A user keeps the identifier and the tenant.\<close>

definition sameUser :: "oid \<Rightarrow> string \<Rightarrow> 'r authState \<Rightarrow> bool" where
  "sameUser uid tn st \<longleftrightarrow> (\<exists>u. FindUserByID uid st = Ret u \<and> au_TenantID u = tn)"

lemma find_map_keep: "(\<And>x. p (f x) = p x) \<Longrightarrow> find p (map f xs) = map_option f (find p xs)"
  by (induction xs) auto

interpretation users: auth_invariant cfg io "sameUser uid tn" for cfg :: "'r authcfg" and io uid tn
proof (unfold_locales, goal_cases)
  case (2 st f p)
  let ?g = "\<lambda>u. if p u then f u else u"
  have "find (\<lambda>u. au_ID u = uid) (map ?g (as_users st)) = map_option ?g (find (\<lambda>u. au_ID u = uid) (as_users st))"
    by (rule find_map_keep) (use 2(2) in \<open>simp add: userIdentity_def\<close>)
  with 2 show ?case by (auto simp: sameUser_def FindUserByID_def updateUsers_def userIdentity_def split: option.splits)
qed (auto simp: sameUser_def FindUserByID_def CreateUser_def CreateSession_def updateSessions_def CreatePin_def
      ValidateAndConsumePin_def Let_def find_append_Some split: option.splits)

lemma users_stay: "sameUser uid tn st \<Longrightarrow> sameUser uid tn (runAuth cfg xs st)"
  by (rule runAuth_invariant) (rule users.serve)

text \<open>The user of an address stays the user of the address.\<close>

definition sameAddress :: "'r authDeps \<Rightarrow> string \<Rightarrow> string \<Rightarrow> oid \<Rightarrow> 'r authState \<Rightarrow> bool" where
  "sameAddress dp email tn i st \<longleftrightarrow> (\<exists>u. FindUserByEmail dp email tn st = Ret u \<and> au_ID u = i)"

interpretation addresses: auth_invariant cfg io "sameAddress dp email tn i" for cfg :: "'r authcfg" and io dp email tn i
proof (unfold_locales, goal_cases)
  case (2 st f p)
  let ?g = "\<lambda>u. if p u then f u else u" let ?k = "userKey (ad_env dp) email tn"
  have "find ?k (map ?g (as_users st)) = map_option ?g (find ?k (as_users st))"
    by (rule find_map_keep) (use 2(2) in \<open>simp add: userIdentity_def userKey_def\<close>)
  with 2 show ?case by (auto simp: sameAddress_def FindUserByEmail_def updateUsers_def userIdentity_def split: option.splits)
qed (auto simp: sameAddress_def FindUserByEmail_def CreateUser_def CreateSession_def updateSessions_def CreatePin_def
      ValidateAndConsumePin_def Let_def find_append_Some split: option.splits)

text \<open>No two sessions of a tenant share an identifier: the unique index of the schema.\<close>

definition sessionsUnique :: "'r authState \<Rightarrow> bool" where
  "sessionsUnique st \<longleftrightarrow> distinct (map (\<lambda>s. (us_SessionID s, us_TenantID s)) (as_sessions st))"

lemma sessionsUnique_find:
  assumes "sessionsUnique st" and "s \<in> set (as_sessions st)" and "sessionKey sid tn s"
  shows "find (sessionKey sid tn) (as_sessions st) = Some s"
proof -
  have "distinct (map (\<lambda>s. (us_SessionID s, us_TenantID s)) ss) \<Longrightarrow> s \<in> set ss \<Longrightarrow> find (sessionKey sid tn) ss = Some s" for ss
    using assms(3) by (induction ss) (force simp: sessionKey_def)+
  with assms(1,2) show ?thesis by (simp add: sessionsUnique_def)
qed

interpretation unique: auth_invariant cfg io sessionsUnique for cfg :: "'r authcfg" and io
proof (unfold_locales, goal_cases)
  case (3 st s)
  then show ?case by (auto simp: sessionsUnique_def CreateSession_def list_ex_iff sessionKey_def)
next
  case (4 st p f)
  let ?key = "\<lambda>s. (us_SessionID s, us_TenantID s)"
  have "map ?key (map (\<lambda>s. if p s then f s else s) (as_sessions st)) = map ?key (as_sessions st)"
    using 4 by (auto simp: sessionStep_def)
  then have "sessionsUnique (updateSessions p f st) = sessionsUnique st"
    unfolding sessionsUnique_def updateSessions_def by (subst authState.select_convs(2) [symmetric]) (simp del: map_map)
  with 4(1) show ?case by simp
qed (auto simp: sessionsUnique_def CreateUser_def updateUsers_def CreatePin_def ValidateAndConsumePin_def Let_def split: option.splits)

lemma sessionsUnique_stays: "sessionsUnique st \<Longrightarrow> sessionsUnique (runAuth cfg xs st)"
  by (rule runAuth_invariant) (rule unique.serve)

end
