(* ===== verification/AuthProps.thy ===== *)
theory AuthProps
  imports AuthSessions
begin

text \<open>
  Properties of authentication over sequences of requests, logins and the goroutines they start: what a
  refresh token and a session are good for, when a PIN can be used, and where the code falls short of its
  comments. The witnesses run the model with a plain token codec and a small deployment.
\<close>

section \<open>What a successful refresh needs and does\<close>

lemma FindSessionByID_Ret: "FindSessionByID sid tn st = Ret s \<longleftrightarrow> find (sessionKey sid tn) (as_sessions st) = Some s"
  by (auto simp: FindSessionByID_def split: option.splits)

lemma Find_marked [simp]:
  "FindUserByID i (MarkRefreshTokenUsed dp now ttl user h st) = FindUserByID i st"
  "FindSessionByID sid tn (MarkRefreshTokenUsed dp now ttl user h st) = FindSessionByID sid tn st"
  "as_sessions (MarkRefreshTokenUsed dp now ttl user h st) = as_sessions st"
  by (simp_all add: FindUserByID_def FindSessionByID_def MarkRefreshTokenUsed_def split: option.splits)

definition sessionOf :: "authio \<Rightarrow> tokenClaims \<Rightarrow> string" where
  "sessionOf io c = (if SessionIDFromClaims c = [] then ai_sessionID io else SessionIDFromClaims c)"

text \<open>A token is exchanged only against the session that stores its hash, which is neither revoked nor expired.\<close>

lemma RefreshToken_needs:
  assumes "is_ret (snd (RefreshToken cfg io token deviceID st))"
  shows "\<exists>c u s. ValidateRefreshToken (ac_provider cfg) (ai_now io) token = Some c
    \<and> FindUserByID (idFromHex (ac_env cfg) (jc_UserID (tc_claims c))) st = Ret u
    \<and> FindSessionByID (sessionOf io c) (au_TenantID u) st = Ret s \<and> \<not> IsRevoked s \<and> us_RefreshToken s = ac_hash cfg token
    \<and> ai_now io \<le> us_ExpiresAt s"
  using assms unfolding RefreshToken_def refreshSession_def Let_def sessionOf_def
  by (auto split: option.splits outcome.splits if_splits prod.splits)

lemma RotateSessionRefreshToken_Ret:
  assumes "sessionsUnique st" and "find (sessionKey sid tn) (as_sessions st) = Some s"
    and "is_ret (snd (RotateSessionRefreshToken now sid tn h h' ends st))"
  shows "\<exists>t. find (sessionKey sid tn) (as_sessions (fst (RotateSessionRefreshToken now sid tn h h' ends st))) = Some t
    \<and> us_RefreshToken t = h'"
proof -
  from assms(3) obtain t where t: "t \<in> set (as_sessions st)" "rotatable now sid tn h t"
    by (auto simp: RotateSessionRefreshToken_def list_ex_iff split: if_splits)
  then have "t = s"
    using sessionsUnique_find [OF assms(1) t(1), of sid tn] assms(2) by (simp add: rotatable_def)
  moreover have "find (sessionKey sid tn) (map (\<lambda>s. if rotatable now sid tn h s then f s else s) (as_sessions st))
      = map_option (\<lambda>s. if rotatable now sid tn h s then f s else s) (find (sessionKey sid tn) (as_sessions st))"
    if "\<And>s. sessionKey sid tn (f s) = sessionKey sid tn s" for f
    using that by (intro find_map_keep) auto
  ultimately show ?thesis
    using t(2) assms(2) by (simp add: RotateSessionRefreshToken_def updateSessions_def sessionKey_def)
qed

lemma sessionsUnique_marked: "sessionsUnique st \<Longrightarrow> sessionsUnique (MarkRefreshTokenUsed dp now ttl user h st)"
  by (simp add: sessionsUnique_def)

text \<open>What the session stores afterwards.\<close>

lemma RefreshToken_rotates:
  assumes "is_ret (snd (RefreshToken cfg io token deviceID st))" and "ValidateRefreshToken (ac_provider cfg) (ai_now io) token = Some c"
    and "sessionsUnique st"
  shows "\<exists>u s user. FindUserByID (idFromHex (ac_env cfg) (jc_UserID (tc_claims c))) st = Ret u
    \<and> find (sessionKey (sessionOf io c) (au_TenantID u)) (as_sessions (fst (RefreshToken cfg io token deviceID st))) = Some s
    \<and> us_RefreshToken s = ac_hash cfg (pv_signRefresh (ac_provider cfg) (refreshClaims (ac_provider cfg) (ai_now io) (sessionOf io c) user))"
proof -
  let ?tn = "\<lambda>u. au_TenantID u" let ?pv = "ac_provider cfg" let ?sid = "sessionOf io c"
  let ?st = "MarkRefreshTokenUsed (ac_deps cfg) (ai_now io) (ac_refreshTTL cfg) (jc_UserID (tc_claims c)) (ac_hash cfg token) st"
  obtain u s where u: "FindUserByID (idFromHex (ac_env cfg) (jc_UserID (tc_claims c))) st = Ret u"
    and s: "FindSessionByID ?sid (?tn u) st = Ret s"
    using RefreshToken_needs [OF assms(1)] assms(2) by auto
  let ?h = "ac_hash cfg (pv_signRefresh ?pv (refreshClaims ?pv (ai_now io) ?sid (ge_hex (ac_env cfg) (au_ID u))))"
  let ?r = "RotateSessionRefreshToken (ai_now io) ?sid (?tn u) (ac_hash cfg token) ?h (ai_now io + ac_refreshTTL cfg) ?st"
  have r: "is_ret (snd ?r)" "fst (RefreshToken cfg io token deviceID st) = fst ?r"
    using assms(1,2) u s unfolding RefreshToken_def refreshSession_def Let_def sessionOf_def [symmetric]
    by (cases ?r; cases "snd ?r"; auto split: if_splits)+
  have "find (sessionKey ?sid (?tn u)) (as_sessions ?st) = Some s" using s by (simp add: FindSessionByID_Ret)
  from RotateSessionRefreshToken_Ret [OF sessionsUnique_marked [OF assms(3)] this r(1)] u r(2) show ?thesis
    by fastforce
qed

section \<open>A small deployment\<close>

text \<open>
  Passwords are stored as they are, a digest is the text behind a hash sign; Redis is a map; five failed
  logins lock; no region is blocked.
\<close>

definition sampleAuth :: "redisMap authcfg" where
  "sampleAuth = \<lparr>ac_deps = \<lparr>ad_env = sampleEnv, ad_roleNames = [''user''], ad_redis = Some mapRedis, ad_upper = (\<lambda>s. s)\<rparr>,
     ac_provider = plainProvider, ac_defaultTenant = [], ac_refreshTTL = 100 * nanos, ac_appEnv = ''production'', ac_maxFailedLogin = 5,
     ac_failedLoginWindow = 0, ac_blockDuration = 0, ac_geoBlockEnabled = False, ac_allowedContinents = [], ac_blockUnknownGeo = False,
     ac_adminEmail = [], ac_adminPassword = [], ac_googleClientID = [], ac_googleClientIDs = [], ac_hash = (\<lambda>s. CHR 0x23 # s),
     ac_hashPassword = (\<lambda>_ s. Some s), ac_verifyPassword = (\<lambda>pw h. (pw = h, False)), ac_rolePermissions = (\<lambda>_. []), ac_overrides = (\<lambda>_. []),
     ac_privateIP = (\<lambda>_. False), ac_ipMatches = (=), ac_marshalBlock = (\<lambda>_. ''true''), ac_idtoken = (\<lambda>_ _. None)\<rparr>"

definition atTime :: "int \<Rightarrow> string \<Rightarrow> string \<Rightarrow> authio" where
  "atTime seconds session pin = \<lparr>ai_now = seconds * nanos, ai_fresh = 9, ai_sessionID = session, ai_pin = pin, ai_salt = 0, ai_password = ''random''\<rparr>"

definition sampleUser :: authUser where
  "sampleUser = (newUser ''an@x'' ''pw'' ''An'' ''default'')\<lparr>au_ID := 7, au_Status := UserStatusActive, au_Roles := [''lms.student'']\<rparr>"

definition noSecurity :: loginSecurityContext where
  "noSecurity = \<lparr>ls_IPAddress = [], ls_UserAgent = [], ls_DeviceID = [], ls_DeviceName = [], ls_DeviceFingerprint = [],
     ls_CountryCode = [], ls_CountryName = [], ls_ContinentCode = []\<rparr>"

definition oneUser :: "redisMap authState" where
  "oneUser = (emptyAuth (\<lambda>_. None))\<lparr>as_users := [sampleUser]\<rparr>"

definition sampleToken :: string where
  "sampleToken = plainSign (refreshClaims plainProvider 0 ''s1'' (hexOf 7))"

definition loggedIn :: "redisMap authState" where
  "loggedIn = oneUser\<lparr>as_sessions := [\<lparr>us_ID = 9, us_UserID = 7, us_SessionID = ''s1'', us_DeviceID = ''s1'', us_DeviceName = [],
     us_IPAddress = [], us_UserAgent = [], us_RefreshToken = CHR 0x23 # sampleToken, us_TenantID = ''default'', us_ExpiresAt = 100 * nanos,
     us_RevokedAt = None, us_RevokedReason = [], us_LastActiveAt = 0, us_CreatedAt = 0\<rparr>]\<rparr>"

lemma sampleAuth_simps [simp]:
  "ac_provider sampleAuth = plainProvider" "ad_env (ac_deps sampleAuth) = sampleEnv" "ac_hash sampleAuth = (\<lambda>s. CHR 0x23 # s)"
  "pv_signRefresh plainProvider = plainSign" "pv_refreshExpiry plainProvider = 100 * nanos" "ac_refreshTTL sampleAuth = 100 * nanos"
  "ad_redis (ac_deps sampleAuth) = Some mapRedis" "ge_hex sampleEnv = hexOf"
  by (simp_all add: sampleAuth_def plainProvider_def sampleEnv_def)

lemma atTime_simps [simp]:
  "ai_now (atTime t sid pin) = t * nanos" "ai_sessionID (atTime t sid pin) = sid" "ai_pin (atTime t sid pin) = pin" "ai_fresh (atTime t sid pin) = 9"
  by (simp_all add: atTime_def)

lemma sessionsUnique_samples [simp]: "sessionsUnique oneUser" "sessionsUnique loggedIn"
  by (simp_all add: loggedIn_def sessionsUnique_def oneUser_def emptyAuth_def)

text \<open>A token is exchanged when its session stores its hash and is live, and the token was not used before.\<close>

lemma RefreshToken_accepts:
  assumes "ValidateRefreshToken (ac_provider cfg) (ai_now io) token = Some c"
    and "\<not> IsRefreshTokenUsed (ac_deps cfg) (ai_now io) (jc_UserID (tc_claims c)) (ac_hash cfg token) st"
    and "FindUserByID (idFromHex (ac_env cfg) (jc_UserID (tc_claims c))) st = Ret u"
    and "find (sessionKey (sessionOf io c) (au_TenantID u)) (as_sessions st) = Some s"
    and "\<not> IsRevoked s" and "ai_now io < us_ExpiresAt s" and "us_RefreshToken s = ac_hash cfg token" and "trim_space deviceID = []"
  shows "is_ret (snd (RefreshToken cfg io token deviceID st))"
proof -
  have "rotatable (ai_now io) (sessionOf io c) (au_TenantID u) (ac_hash cfg token) s" "s \<in> set (as_sessions st)"
    using find_Some_iff2 [OF assms(4)] assms(5-7) by (simp_all add: rotatable_def IsRevoked_def)
  then have "list_ex (rotatable (ai_now io) (sessionOf io c) (au_TenantID u) (ac_hash cfg token)) (as_sessions st)"
    by (auto simp: list_ex_iff)
  moreover have "FindSessionByID (sessionOf io c) (au_TenantID u) st = Ret s" using assms(4) by (simp add: FindSessionByID_Ret)
  ultimately show ?thesis
    using assms unfolding RefreshToken_def refreshSession_def Let_def sessionOf_def [symmetric]
    by (simp add: RotateSessionRefreshToken_def)
qed

lemma first_refresh:
  assumes "t = 0 \<or> t = 2"
  shows "is_ret (snd (RefreshToken sampleAuth (atTime t [] []) sampleToken [] loggedIn))"
proof (rule RefreshToken_accepts)
  let ?c = "the (ValidateRefreshToken plainProvider 0 sampleToken)"
  have "ValidateRefreshToken plainProvider (t * nanos) sampleToken = Some ?c" using assms by (elim disjE) (hypsubst, code_simp)+
  then show "ValidateRefreshToken (ac_provider sampleAuth) (ai_now (atTime t [] [])) sampleToken = Some ?c" by (simp add: atTime_def)
  have "sessionOf (atTime t [] []) ?c = ''s1''" unfolding sessionOf_def by code_simp
  then show "find (sessionKey (sessionOf (atTime t [] []) ?c) (au_TenantID sampleUser)) (as_sessions loggedIn) = Some (hd (as_sessions loggedIn))"
    by (simp add: loggedIn_def sessionKey_def sampleUser_def newUser_def)
  show "FindUserByID (idFromHex (ac_env sampleAuth) (jc_UserID (tc_claims ?c))) loggedIn = Ret sampleUser" by code_simp
  show "\<not> IsRefreshTokenUsed (ac_deps sampleAuth) (ai_now (atTime t [] [])) (jc_UserID (tc_claims ?c)) (ac_hash sampleAuth sampleToken) loggedIn"
    by (simp add: IsRefreshTokenUsed_def mapRedis_def loggedIn_def oneUser_def emptyAuth_def liveValue_def)
  show "trim_space [] = []" by code_simp
qed (use assms in \<open>auto simp: loggedIn_def atTime_def IsRevoked_def\<close>)

section \<open>Refresh tokens and sessions over a run\<close>

lemma ValidateRefreshToken_issued:
  assumes "tokens_ok pv" "sid \<noteq> []" "user \<noteq> []" "ValidateRefreshToken pv now (pv_signRefresh pv (refreshClaims pv t0 sid user)) = Some c"
  shows "jc_UserID (tc_claims c) = user" and "sessionOf io c = sid" and "SessionIDFromClaims c = sid"
  using ValidateRefreshToken_claims [OF assms(1,4)] assms(2,3) by (simp_all add: sessionOf_def SessionIDFromClaims_def)

text \<open>
  C11. A refresh token that was exchanged for a new pair is never accepted again, whatever requests, logins
  and goroutines follow, as long as they come in a later second than the one it was issued in and the hash of
  no other refresh token collides with its own.
\<close>

theorem refresh_rotation:
  assumes "tokens_ok (ac_provider cfg)" and "sid \<noteq> []" and "user \<noteq> []" and "sessionsUnique st"
    and "token = pv_signRefresh (ac_provider cfg) (refreshClaims (ac_provider cfg) t0 sid user)"
    and "\<forall>c. ac_hash cfg (pv_signRefresh (ac_provider cfg) c) = ac_hash cfg token \<longrightarrow> pv_signRefresh (ac_provider cfg) c = token"
    and "is_ret (snd (RefreshToken cfg io token d st))"
    and "t0 div nanos < ai_now io div nanos \<and> (\<forall>(io', r) \<in> set xs. t0 div nanos < ai_now io' div nanos)"
  shows "\<not> is_ret (snd (RefreshToken cfg io' token d' (runAuth cfg xs (fst (RefreshToken cfg io token d st)))))"
proof
  let ?pv = "ac_provider cfg" let ?uid = "idFromHex (ac_env cfg) user"
  let ?st = "fst (RefreshToken cfg io token d st)" let ?final = "runAuth cfg xs ?st"
  assume again: "is_ret (snd (RefreshToken cfg io' token d' ?final))"
  have issued: "jc_UserID (tc_claims c) = user \<and> sessionOf i c = sid" if "ValidateRefreshToken ?pv now token = Some c" for now c i
    using ValidateRefreshToken_issued [OF assms(1-3)] that assms(5) by blast
  obtain c where c: "ValidateRefreshToken ?pv (ai_now io) token = Some c" using RefreshToken_needs [OF assms(7)] by blast
  obtain u s user' where u: "FindUserByID ?uid st = Ret u" and s: "find (sessionKey sid (au_TenantID u)) (as_sessions ?st) = Some s"
    and h: "us_RefreshToken s = ac_hash cfg (pv_signRefresh ?pv (refreshClaims ?pv (ai_now io) sid user'))"
    using RefreshToken_rotates [OF assms(7) c assms(4)] issued [OF c] by auto
  obtain c' u' s' where c': "ValidateRefreshToken ?pv (ai_now io') token = Some c'" and u': "FindUserByID ?uid ?final = Ret u'"
    and s': "find (sessionKey sid (au_TenantID u')) (as_sessions ?final) = Some s'" and h': "us_RefreshToken s' = ac_hash cfg token"
    using RefreshToken_needs [OF again] issued by (auto simp: FindSessionByID_Ret)
  have "sameUser ?uid (au_TenantID u) ?final"
    using users.refresh [of ?uid "au_TenantID u" st cfg io token d] u by (intro users_stay) (simp add: sameUser_def yields_def)
  then have "au_TenantID u' = au_TenantID u" using u' by (simp add: sameUser_def)
  with find_evolves [OF sessions_evolve [of cfg xs ?st] s] s' h' h
  have "ac_hash cfg token \<in> insert (us_RefreshToken s) (issuedIn cfg xs sid)"
    using s find_Some_iff2 [OF s] by (auto simp: sessionStep_def sessionKey_def)
  then obtain t user'' where "ac_hash cfg token = ac_hash cfg (pv_signRefresh ?pv (refreshClaims ?pv t sid user''))" "t0 div nanos < t div nanos"
    using h assms(8) by (auto simp: issuedIn_def issuedAt_def)
  then show False
    using assms(6) tokens_inject [OF assms(1)] unfolding assms(5) by (metis refreshClaims_simps(4) less_irrefl)
qed

theorem refresh_rotation_witness:
  "\<not> is_ret (snd (RefreshToken sampleAuth (atTime 3 [] []) sampleToken []
     (runAuth sampleAuth [(atTime 2 [] [], JobReq 0)] (fst (RefreshToken sampleAuth (atTime 2 [] []) sampleToken [] loggedIn)))))"
proof (rule refresh_rotation [where sid = "''s1''" and user = "hexOf 7" and ?t0.0 = 0, OF _ _ _ _ _ _ first_refresh [OF disjI2]])
  show "hexOf 7 \<noteq> []" by code_simp
qed (simp_all add: plainProvider_ok sampleToken_def atTime_def)

lemma session_stays_revoked:
  assumes "FindUserByID uid st = Ret u" and "FindSessionByID sid (au_TenantID u) st = Ret s" and "IsRevoked s"
    and "FindUserByID uid (runAuth cfg xs st) = Ret u'" and "FindSessionByID sid (au_TenantID u') (runAuth cfg xs st) = Ret s'"
  shows "IsRevoked s'"
proof -
  have "sameUser uid (au_TenantID u) (runAuth cfg xs st)" using assms(1) by (intro users_stay) (simp add: sameUser_def)
  then have "au_TenantID u' = au_TenantID u" using assms(4) by (simp add: sameUser_def)
  then show ?thesis
    using find_evolves [OF sessions_evolve assms(2) [unfolded FindSessionByID_Ret], of cfg xs] assms(3,5)
    by (auto simp: FindSessionByID_Ret sessionStep_def)
qed

text \<open>
  C12. A session that was revoked is dead: after any further requests, logins and goroutines it does not pass
  the check of protected routes, and no refresh token of it is exchanged.
\<close>

theorem revoked_session_dead:
  assumes "FindUserByID (idFromHex (ac_env cfg) user) st = Ret u" and "FindSessionByID sid (au_TenantID u) st = Ret s" and "IsRevoked s"
    and "ValidateRefreshToken (ac_provider cfg) (ai_now io) token = Some c" and "jc_UserID (tc_claims c) = user" and "sessionOf io c = sid"
  shows "\<not> is_ret (ValidateActiveSession cfg now user sid (runAuth cfg xs st))
    \<and> \<not> is_ret (snd (RefreshToken cfg io token d (runAuth cfg xs st)))"
proof (intro conjI notI)
  assume "is_ret (snd (RefreshToken cfg io token d (runAuth cfg xs st)))"
  from RefreshToken_needs [OF this] assms(4-6) obtain u' s' where
    "FindUserByID (idFromHex (ac_env cfg) user) (runAuth cfg xs st) = Ret u'" "FindSessionByID sid (au_TenantID u') (runAuth cfg xs st) = Ret s'"
    "\<not> IsRevoked s'" by auto
  then show False using session_stays_revoked [OF assms(1-3)] by blast
next
  assume "is_ret (ValidateActiveSession cfg now user sid (runAuth cfg xs st))"
  then show False
    using session_stays_revoked [OF assms(1-3), of cfg xs]
    by (auto simp: ValidateActiveSession_def idFromHex_def split: if_splits option.splits outcome.splits)
qed

theorem revoked_session_dead_witness:
  "\<not> is_ret (ValidateActiveSession sampleAuth 0 (hexOf 7) ''s1'' (runAuth sampleAuth [(atTime 2 [] [], JobReq 0)]
       (serveAuth sampleAuth (atTime 1 [] []) (LogoutReq ''s1'') loggedIn)))
   \<and> \<not> is_ret (snd (RefreshToken sampleAuth (atTime 3 [] []) sampleToken [] (runAuth sampleAuth [(atTime 2 [] [], JobReq 0)]
       (serveAuth sampleAuth (atTime 1 [] []) (LogoutReq ''s1'') loggedIn))))"
proof (rule revoked_session_dead)
  let ?st = "serveAuth sampleAuth (atTime 1 [] []) (LogoutReq ''s1'') loggedIn"
  let ?c = "the (ValidateRefreshToken plainProvider (3 * nanos) sampleToken)"
  show "FindUserByID (idFromHex (ac_env sampleAuth) (hexOf 7)) ?st = Ret sampleUser" by code_simp
  show "FindSessionByID ''s1'' (au_TenantID sampleUser) ?st = Ret (hd (as_sessions ?st))" by code_simp
  show "ValidateRefreshToken (ac_provider sampleAuth) (ai_now (atTime 3 [] [])) sampleToken = Some ?c" by code_simp
qed code_simp+

section \<open>Reuse of a refresh token\<close>

text \<open>After a revocation of all sessions of a user no session of the user is live.\<close>

lemma sessions_updated: "as_sessions (updateSessions p f st) = map (\<lambda>s. if p s then f s else s) (as_sessions st)"
  by (simp add: updateSessions_def)

lemma revokeAll_all:
  assumes "s \<in> set (as_sessions (RevokeAllUserSessionsWithReason now i tn reason st))" and "us_UserID s = i" and "tn = [] \<or> us_TenantID s = tn"
  shows "IsRevoked s"
proof -
  obtain t where s: "s = (if ofUser i tn t then revoked now reason t else t)"
    using assms(1) unfolding RevokeAllUserSessionsWithReason_def sessions_updated set_map by blast
  show ?thesis
    using assms(2,3) unfolding s by (cases "ofUser i tn t") (auto simp: ofUser_def revoked_def IsRevoked_def)
qed

text \<open>
  C13. A refresh token whose hash is not the one its live session stores is refused as reused, and then no
  session of the user in the tenant is live.
\<close>

theorem stale_token_ends_sessions:
  assumes "ValidateRefreshToken (ac_provider cfg) (ai_now io) token = Some c"
    and "FindUserByID (idFromHex (ac_env cfg) (jc_UserID (tc_claims c))) st = Ret u"
    and "FindSessionByID (sessionOf io c) (au_TenantID u) st = Ret s" and "\<not> IsRevoked s" and "ai_now io \<le> us_ExpiresAt s"
    and "us_RefreshToken s \<noteq> ac_hash cfg token"
  shows "snd (RefreshToken cfg io token d st) = Fail ErrTokenReuseDetected
    \<and> (\<forall>t \<in> set (as_sessions (fst (RefreshToken cfg io token d st))).
         us_UserID t = au_ID u \<and> us_TenantID t = au_TenantID u \<longrightarrow> IsRevoked t)"
proof (cases "IsRefreshTokenUsed (ac_deps cfg) (ai_now io) (jc_UserID (tc_claims c)) (ac_hash cfg token) st")
  case True
  have "au_ID u = idFromHex (ac_env cfg) (jc_UserID (tc_claims c))"
    using assms(2) by (auto simp: FindUserByID_def find_Some_iff split: option.splits)
  with True assms(1) show ?thesis
    unfolding RefreshToken_def Let_def RevokeAllUserSessions_def by (auto intro: revokeAll_all)
next
  case False
  with assms show ?thesis
    unfolding RefreshToken_def refreshSession_def Let_def sessionOf_def [symmetric] by (auto intro: revokeAll_all)
qed

text \<open>The witness presents a token of the session that is not the one it stores.\<close>

theorem stale_token_ends_sessions_witness:
  "snd (RefreshToken sampleAuth (atTime 3 [] []) (plainSign (refreshClaims plainProvider nanos ''s1'' (hexOf 7))) [] loggedIn)
     = Fail ErrTokenReuseDetected
   \<and> (\<exists>s. FindSessionByID ''s1'' ''default'' (fst (RefreshToken sampleAuth (atTime 3 [] [])
          (plainSign (refreshClaims plainProvider nanos ''s1'' (hexOf 7))) [] loggedIn)) = Ret s \<and> IsRevoked s)"
proof -
  let ?token = "plainSign (refreshClaims plainProvider nanos ''s1'' (hexOf 7))"
  let ?c = "the (ValidateRefreshToken plainProvider (3 * nanos) ?token)"
  let ?r = "RefreshToken sampleAuth (atTime 3 [] []) ?token [] loggedIn"
  have "snd ?r = Fail ErrTokenReuseDetected
    \<and> (\<forall>t \<in> set (as_sessions (fst ?r)). us_UserID t = au_ID sampleUser \<and> us_TenantID t = au_TenantID sampleUser \<longrightarrow> IsRevoked t)"
  proof (rule stale_token_ends_sessions)
    show "ValidateRefreshToken (ac_provider sampleAuth) (ai_now (atTime 3 [] [])) ?token = Some ?c" by code_simp
    show "FindUserByID (idFromHex (ac_env sampleAuth) (jc_UserID (tc_claims ?c))) loggedIn = Ret sampleUser" by code_simp
    show "FindSessionByID (sessionOf (atTime 3 [] []) ?c) (au_TenantID sampleUser) loggedIn = Ret (hd (as_sessions loggedIn))" by code_simp
  qed code_simp+
  moreover have f: "find (sessionKey ''s1'' ''default'') (as_sessions loggedIn) = Some (hd (as_sessions loggedIn))" by code_simp
  obtain s where "find (sessionKey ''s1'' ''default'') (as_sessions (fst ?r)) = Some s"
    "sessionStep (issuedAt sampleAuth (atTime 3 [] [])) (hd (as_sessions loggedIn)) s"
    using find_evolves [OF yields_fst [OF sessions.refresh [OF evolves_same]] f] by blast
  ultimately show ?thesis
    using find_Some_iff2 [of "sessionKey ''s1'' ''default''" "as_sessions (fst ?r)" s]
    by (auto simp: FindSessionByID_Ret sessionStep_def sessionKey_def loggedIn_def sampleUser_def newUser_def)
qed

section \<open>Where refreshing goes wrong\<close>

lemma refresh_returns:
  assumes "RefreshToken cfg io token d st = (st', Ret tokens)" and "ValidateRefreshToken (ac_provider cfg) (ai_now io) token = Some c"
  shows "\<exists>u. FindUserByID (idFromHex (ac_env cfg) (jc_UserID (tc_claims c))) st = Ret u
    \<and> tp_RefreshToken tokens = pv_signRefresh (ac_provider cfg) (refreshClaims (ac_provider cfg) (ai_now io) (sessionOf io c) (ge_hex (ac_env cfg) (au_ID u)))
    \<and> as_redis st' = as_redis (MarkRefreshTokenUsed (ac_deps cfg) (ai_now io) (ac_refreshTTL cfg) (jc_UserID (tc_claims c)) (ac_hash cfg token) st)"
  using assms unfolding RefreshToken_def refreshSession_def Let_def sessionOf_def [symmetric]
  by (auto simp: RotateSessionRefreshToken_def updateSessions_def split: option.splits outcome.splits if_splits)

text \<open>A token marked as used is known as used until its mark expires.\<close>

lemma marked_used:
  assumes "ad_redis dp = Some rd" and "redis_ok rd cell" and "0 < ttl" and "now' < now + ttl"
    and "as_redis st' = as_redis (MarkRefreshTokenUsed dp now ttl user h st)"
  shows "IsRefreshTokenUsed dp now' user h st'"
  using assms redis_store.exists [OF assms(2) [unfolded redis_ok_def]] redis_store.set [OF assms(2) [unfolded redis_ok_def]]
  by (simp add: IsRefreshTokenUsed_def MarkRefreshTokenUsed_def liveValue_def)

text \<open>
  C15. Refresh tokens carry times in seconds and nothing unique: a refresh in the second the token was issued
  in returns the very same token, which is then recorded as used. The next refresh with the token the client
  was given is refused as reuse and ends all sessions of the user.
\<close>

theorem same_second_refresh:
  assumes "tokens_ok (ac_provider cfg)" and "sid \<noteq> []" and "user = ge_hex (ac_env cfg) uid" and "user \<noteq> []" and "env_ok (ac_env cfg)"
    and "token = pv_signRefresh (ac_provider cfg) (refreshClaims (ac_provider cfg) t0 sid user)"
    and "RefreshToken cfg io token d st = (st', Ret tokens)" and "ai_now io div nanos = t0 div nanos" and "nanos dvd pv_refreshExpiry (ac_provider cfg)"
    and "ad_redis (ac_deps cfg) = Some rd" and "redis_ok rd cell" and "0 < ac_refreshTTL cfg"
    and "ai_now io' < (t0 + pv_refreshExpiry (ac_provider cfg)) div nanos * nanos" and "ai_now io' < ai_now io + ac_refreshTTL cfg"
  shows "tp_RefreshToken tokens = token
    \<and> snd (RefreshToken cfg io' (tp_RefreshToken tokens) d' st') = Fail ErrTokenReuseDetected
    \<and> (\<forall>t \<in> set (as_sessions (fst (RefreshToken cfg io' (tp_RefreshToken tokens) d' st'))). us_UserID t = uid \<longrightarrow> IsRevoked t)"
proof -
  let ?pv = "ac_provider cfg"
  have issued: "jc_UserID (tc_claims c) = user \<and> sessionOf i c = sid" if "ValidateRefreshToken ?pv now token = Some c" for now c i
    using ValidateRefreshToken_issued [OF assms(1,2,4)] that assms(6) by blast
  have uid: "idFromHex (ac_env cfg) user = uid" using assms(3,5) by (simp add: idFromHex_def env_ok_hex)
  obtain c where c: "ValidateRefreshToken ?pv (ai_now io) token = Some c"
    using RefreshToken_needs [of cfg io token d st] assms(7) by auto
  obtain u where u: "FindUserByID uid st = Ret u"
    and tokens: "tp_RefreshToken tokens = pv_signRefresh ?pv (refreshClaims ?pv (ai_now io) sid (ge_hex (ac_env cfg) (au_ID u)))"
    and st': "as_redis st' = as_redis (MarkRefreshTokenUsed (ac_deps cfg) (ai_now io) (ac_refreshTTL cfg) user (ac_hash cfg token) st)"
    using refresh_returns [OF assms(7) c] issued [OF c] uid by auto
  have "au_ID u = uid" using u by (auto simp: FindUserByID_def find_Some_iff split: option.splits)
  moreover have "(ai_now io + pv_refreshExpiry ?pv) div nanos = (t0 + pv_refreshExpiry ?pv) div nanos"
    using assms(8,9) by (auto simp: dvd_def)
  ultimately have same: "tp_RefreshToken tokens = token"
    using assms(3,6,8) tokens by (simp add: refreshClaims_def)
  obtain c' where "ValidateRefreshToken ?pv (ai_now io') token = Some c'"
    using ValidateRefreshToken_live [OF assms(1), of "ai_now io'" "refreshClaims ?pv t0 sid user"] assms(6,13) by auto
  moreover have "IsRefreshTokenUsed (ac_deps cfg) (ai_now io') user (ac_hash cfg token) st'"
    by (rule marked_used [OF assms(10-12,14) st'])
  ultimately have "RefreshToken cfg io' token d' st' = (RevokeAllUserSessions (ai_now io') uid [] st', Fail ErrTokenReuseDetected)"
    using issued uid unfolding RefreshToken_def Let_def by simp
  then show ?thesis
    using same by (auto simp: RevokeAllUserSessions_def intro: revokeAll_all)
qed

theorem same_second_refresh_witness:
  "\<exists>st' tokens. RefreshToken sampleAuth (atTime 0 [] []) sampleToken [] loggedIn = (st', Ret tokens) \<and> tp_RefreshToken tokens = sampleToken
    \<and> snd (RefreshToken sampleAuth (atTime 3 [] []) (tp_RefreshToken tokens) [] st') = Fail ErrTokenReuseDetected"
proof -
  obtain st' tokens where r: "RefreshToken sampleAuth (atTime 0 [] []) sampleToken [] loggedIn = (st', Ret tokens)"
    using first_refresh [of 0] by (cases "RefreshToken sampleAuth (atTime 0 [] []) sampleToken [] loggedIn"; cases "snd (RefreshToken sampleAuth (atTime 0 [] []) sampleToken [] loggedIn)") auto
  have "hexOf 7 \<noteq> []" by code_simp
  then show ?thesis
    using same_second_refresh [where sid = "''s1''" and uid = 7 and user = "hexOf 7" and ?t0.0 = 0, OF _ _ _ _ _ _ r _ _ _ mapRedis_ok,
        of "atTime 3 [] []" "[]"] r
    by (auto simp: plainProvider_ok sampleToken_def)
qed

text \<open>What a goroutine of a login leaves live: only the session it keeps.\<close>

lemma revokeOther_all:
  assumes "t \<in> set (as_sessions (RevokeOtherActiveUserSessionsWithReason now i tn keep reason st))" and "us_UserID t = i" and "us_TenantID t = tn"
    and "now < us_ExpiresAt t"
  shows "IsRevoked t \<or> us_SessionID t = trim_space keep"
proof -
  let ?p = "\<lambda>s. ofUser i tn s \<and> now < us_ExpiresAt s \<and> (trim_space keep \<noteq> [] \<longrightarrow> us_SessionID s \<noteq> trim_space keep)"
  obtain s where t: "t = (if ?p s then revoked now reason s else s)"
    using assms(1) unfolding RevokeOtherActiveUserSessionsWithReason_def sessions_updated set_map by blast
  show ?thesis
    using assms(2-4) unfolding t by (cases "?p s") (auto simp: ofUser_def revoked_def IsRevoked_def)
qed

lemma revokeOther_from:
  assumes "t \<in> set (as_sessions (RevokeOtherActiveUserSessionsWithReason now i tn keep reason st))"
  shows "\<exists>s \<in> set (as_sessions st). us_UserID t = us_UserID s \<and> us_TenantID t = us_TenantID s \<and> us_SessionID t = us_SessionID s
    \<and> us_ExpiresAt t = us_ExpiresAt s \<and> (IsRevoked s \<longrightarrow> IsRevoked t)"
  using assms by (auto simp: RevokeOtherActiveUserSessionsWithReason_def sessions_updated revoked_def IsRevoked_def)


section \<open>PINs\<close>

text \<open>At most one unused PIN for an address and a purpose: creating one removes the others.\<close>

definition pinsUnique :: "'r authState \<Rightarrow> bool" where
  "pinsUnique st \<longleftrightarrow> distinct (map (\<lambda>p. (pn_Email p, pn_Purpose p)) (filter (\<lambda>p. pn_UsedAt p = None) (as_pins st)))"

text \<open>No unused PIN of an address and a purpose has a given code.\<close>

definition noPin :: "string \<Rightarrow> string \<Rightarrow> string \<Rightarrow> 'r authState \<Rightarrow> bool" where
  "noPin email code purpose st \<longleftrightarrow>
     (\<forall>p \<in> set (as_pins st). pn_Email p = email \<and> pn_Code p = code \<and> pn_Purpose p = purpose \<longrightarrow> pn_UsedAt p \<noteq> None)"

lemma distinct_key_filter: "distinct (map f (filter P xs)) \<Longrightarrow> (\<And>x. Q x \<Longrightarrow> P x) \<Longrightarrow> distinct (map f (filter Q xs))"
  by (induction xs) (auto split: if_splits)

lemma filter_mark: "filter (\<lambda>p. pn_UsedAt p = None) (map (\<lambda>q. if c q then q\<lparr>pn_UsedAt := Some t\<rparr> else q) ps) = filter (\<lambda>p. pn_UsedAt p = None \<and> \<not> c p) ps"
  by (induction ps) auto

interpretation pins: auth_invariant cfg io pinsUnique for cfg :: "'r authcfg" and io
proof (unfold_locales, goal_cases)
  case (5 st email purpose)
  then show ?case
    by (auto simp: pinsUnique_def CreatePin_def Let_def distinct_key_filter conj_commute)
next
  case (6 st email code purpose)
  then show ?case
    by (auto simp: pinsUnique_def ValidateAndConsumePin_def filter_mark distinct_key_filter split: option.splits)
qed (auto simp: pinsUnique_def CreateUser_def updateUsers_def CreateSession_def updateSessions_def)

interpretation noPin: auth_invariant cfg io "\<lambda>st. ai_pin io = code \<or> noPin email code purpose st"
  for cfg :: "'r authcfg" and io email code purpose
proof (unfold_locales, goal_cases)
  case (6 st e c q)
  then show ?case by (auto simp: noPin_def ValidateAndConsumePin_def split: option.splits)
qed (auto simp: noPin_def CreateUser_def updateUsers_def CreateSession_def updateSessions_def CreatePin_def Let_def)

lemma noPin_stays:
  assumes "noPin email code purpose st" and "\<forall>(io, r) \<in> set xs. ai_pin io \<noteq> code"
  shows "noPin email code purpose (runAuth cfg xs st)"
proof (rule runAuth_invariant)
  fix io r and st :: "'a authState"
  assume "(io, r) \<in> set xs" and "noPin email code purpose st"
  with assms(2) noPin.serve [of io code email purpose st cfg r] show "noPin email code purpose (serveAuth cfg io r st)" by auto
qed (rule assms(1))

lemma ValidateAndConsumePin_needs:
  assumes "noPin (normalizeEmail (ad_env dp) email) code purpose st"
  shows "\<exists>e. ValidateAndConsumePin dp now email code purpose st = (st, Fail e)"
proof -
  have "find (\<lambda>p. pinKey dp email code purpose p \<and> pn_UsedAt p = None \<and> now < pn_ExpiresAt p) (as_pins st) = None"
    using assms by (auto simp: find_None_iff noPin_def pinKey_def)
  then show ?thesis by (simp add: ValidateAndConsumePin_def)
qed

lemma ValidateAndConsumePin_uses:
  assumes "pinsUnique st" and "is_ret (snd (ValidateAndConsumePin dp now email code purpose st))"
  shows "noPin (normalizeEmail (ad_env dp) email) code purpose (fst (ValidateAndConsumePin dp now email code purpose st))"
proof -
  let ?q = "\<lambda>p. pinKey dp email code purpose p \<and> pn_UsedAt p = None \<and> now < pn_ExpiresAt p"
  obtain p where f: "find ?q (as_pins st) = Some p"
    using assms(2) by (auto simp: ValidateAndConsumePin_def split: option.splits)
  have p: "p \<in> set (as_pins st)" "pinKey dp email code purpose p" "pn_UsedAt p = None" using find_Some_iff2 [OF f] by auto
  have "q = p" if "q \<in> set (as_pins st)" "pinKey dp email code purpose q" "pn_UsedAt q = None" for q
    using assms(1) p that inj_onD [of "\<lambda>p. (pn_Email p, pn_Purpose p)" "set (filter (\<lambda>p. pn_UsedAt p = None) (as_pins st))" q p]
    by (simp add: pinsUnique_def distinct_map pinKey_def)
  then show ?thesis
    using f by (auto simp: ValidateAndConsumePin_def noPin_def pinKey_def)
qed

lemma consumePin_eq:
  "is_ret (snd (consumePin cfg io email code purpose st)) = is_ret (snd (ValidateAndConsumePin (ac_deps cfg) (ai_now io) email code purpose st))"
  "fst (consumePin cfg io email code purpose st) = fst (ValidateAndConsumePin (ac_deps cfg) (ai_now io) email code purpose st)"
  by (auto simp: consumePin_def split: prod.splits outcome.splits)

lemma consumePin_noPin:
  assumes "noPin (normalizeEmail (ac_env cfg) email) code purpose st"
  shows "consumePin cfg io email code purpose st = (st, Fail ErrInvalidPIN)"
  using ValidateAndConsumePin_needs [OF assms, of "ai_now io"] by (auto simp: consumePin_def)

lemma then_do_needs: "is_ret (snd (then_do r f)) \<Longrightarrow> is_ret (snd r)"
  by (cases r; cases "snd r") auto

text \<open>The requests that use a PIN: its verification, and the reset of a password.\<close>

definition usePin :: "'r authcfg \<Rightarrow> authio \<Rightarrow> string \<Rightarrow> string \<Rightarrow> string \<Rightarrow> string option \<Rightarrow> 'r authState \<Rightarrow> 'r authState \<times> unit ares" where
  "usePin cfg io email code purpose newPassword st =
     (case newPassword of None \<Rightarrow> VerifyPIN cfg io email code purpose st | Some pw \<Rightarrow> ResetPassword cfg io email code pw st)"

lemma usePin_consumes:
  assumes "newPassword = None \<or> purpose = PinPurposeForgotPassword" and "pinsUnique st"
    and "is_ret (snd (usePin cfg io email code purpose newPassword st))"
  shows "noPin (normalizeEmail (ac_env cfg) email) code purpose (fst (usePin cfg io email code purpose newPassword st))"
proof -
  let ?P = "noPin (normalizeEmail (ac_env cfg) email) code purpose"
  have keep: "?P s \<Longrightarrow> yields ?P (updateUsers p f s)" "?P s \<Longrightarrow> ?P (RevokeAllUserSessions now i tn s)" for p f s now i tn
    by (simp_all add: updateUsers_def noPin_def RevokeAllUserSessions_def RevokeAllUserSessionsWithReason_def updateSessions_def)
  have "is_ret (snd (consumePin cfg io email code purpose st))"
    using assms(1,3) by (auto simp: usePin_def VerifyPIN_def ResetPassword_def split: option.splits dest: then_do_needs)
  then have c: "yields ?P (consumePin cfg io email code purpose st)"
    using ValidateAndConsumePin_uses [OF assms(2)] by (simp add: consumePin_eq yields_def)
  have "yields ?P (VerifyPIN cfg io email code purpose st)"
    unfolding VerifyPIN_def UpdateUserStatus_def by (intro yields_rules c keep) simp_all
  moreover have "yields ?P (ResetPassword cfg io email code pw st)" if "purpose = PinPurposeForgotPassword" for pw
  proof -
    note c = c [unfolded that] and keep = keep [unfolded that]
    show ?thesis unfolding that ResetPassword_def UpdatePasswordHash_def by (intro yields_rules c keep) (simp_all add: keep)
  qed
  ultimately show ?thesis
    using assms(1) by (cases newPassword) (auto simp: usePin_def yields_def)
qed

text \<open>
  C16. A PIN is good for one use: after a verification or a password reset succeeded with it, whatever follows,
  neither a further verification nor a password reset succeeds with it, unless a request drew a new PIN with
  the same code. In particular a code checked first with the purpose of a password reset cannot reset the
  password any more.
\<close>

theorem pin_single_use:
  assumes "pinsUnique st" and "newPassword = None \<or> purpose = PinPurposeForgotPassword"
    and "is_ret (snd (usePin cfg io email code purpose newPassword st))" and "\<forall>(io, r) \<in> set xs. ai_pin io \<noteq> code"
    and "st' = runAuth cfg xs (fst (usePin cfg io email code purpose newPassword st))"
  shows "VerifyPIN cfg io' email code purpose st' = (st', Fail ErrInvalidPIN)
    \<and> (purpose = PinPurposeForgotPassword \<longrightarrow> ResetPassword cfg io' email code pw st' = (st', Fail ErrInvalidPIN))"
proof -
  have "noPin (normalizeEmail (ac_env cfg) email) code purpose st'"
    using noPin_stays [OF usePin_consumes [OF assms(2,1,3)] assms(4)] by (simp add: assms(5))
  from consumePin_noPin [OF this] show ?thesis by (auto simp: VerifyPIN_def ResetPassword_def)
qed

text \<open>The witness: the PIN of a password reset is checked first and then used, and is used twice.\<close>

definition resetRequested :: "redisMap authState" where
  "resetRequested = serveAuth sampleAuth (atTime 1 [] ''42'') (ForgotReq ''an@x'') oneUser"

theorem pin_single_use_witness:
  "snd (ResetPassword sampleAuth (atTime 3 [] []) ''an@x'' ''42'' ''new''
     (runAuth sampleAuth [(atTime 2 [] ''17'', ForgotReq ''bo@x'')]
        (fst (usePin sampleAuth (atTime 2 [] []) ''an@x'' ''42'' PinPurposeForgotPassword None resetRequested)))) = Fail ErrInvalidPIN
   \<and> snd (ResetPassword sampleAuth (atTime 3 [] []) ''an@x'' ''42'' ''new''
     (runAuth sampleAuth [(atTime 2 [] ''17'', ForgotReq ''bo@x'')]
        (fst (usePin sampleAuth (atTime 2 [] []) ''an@x'' ''42'' PinPurposeForgotPassword (Some ''other'') resetRequested)))) = Fail ErrInvalidPIN"
proof -
  have "pinsUnique resetRequested"
    unfolding resetRequested_def by (rule pins.serve) (simp add: pinsUnique_def oneUser_def emptyAuth_def)
  moreover have "is_ret (snd (usePin sampleAuth (atTime 2 [] []) ''an@x'' ''42'' PinPurposeForgotPassword None resetRequested))"
    "is_ret (snd (usePin sampleAuth (atTime 2 [] []) ''an@x'' ''42'' PinPurposeForgotPassword (Some ''other'') resetRequested))" by code_simp+
  ultimately show ?thesis
    using pin_single_use [of resetRequested _ PinPurposeForgotPassword sampleAuth "atTime 2 [] []" "''an@x''" "''42''" "[(atTime 2 [] ''17'', ForgotReq ''bo@x'')]" _ "atTime 3 [] []" "''new''"]
    by simp
qed

text \<open>
  C17. A PIN sent again never activates an account: it is stored for the purpose \<open>verify\<close>, only a PIN for the
  purpose \<open>register\<close> activates, so that the users stay as they are whatever purpose it is verified with.
\<close>

theorem resent_pin_never_activates:
  assumes "purpose \<in> {[], PinPurposeRegister, PinPurposeVerify}" and "\<forall>p \<in> set (as_pins st). pn_Code p \<noteq> ai_pin io"
  shows "as_users (fst (VerifyPIN cfg io' email (ai_pin io) purpose' (fst (ResendPIN cfg io email purpose st)))) = as_users st"
proof -
  let ?st = "fst (ResendPIN cfg io email purpose st)"
  have users: "as_users ?st = as_users st"
    by (auto simp: ResendPIN_def CreatePin_def Let_def split: outcome.splits)
  show ?thesis
  proof (cases "purpose' = PinPurposeRegister")
    case True
    have "noPin (normalizeEmail (ac_env cfg) email) (ai_pin io) PinPurposeRegister ?st"
      using assms by (auto simp: noPin_def ResendPIN_def CreatePin_def Let_def PinPurposeRegister_def PinPurposeVerify_def split: outcome.splits)
    from consumePin_noPin [OF this] True users show ?thesis by (simp add: VerifyPIN_def)
  next
    case False
    have "yields (\<lambda>s. as_users s = as_users ?st) (VerifyPIN cfg io' email (ai_pin io) purpose' ?st)"
      unfolding VerifyPIN_def using False
      by (intro yields_rules) (simp_all add: yields_def consumePin_eq ValidateAndConsumePin_def split: option.splits)
    with users show ?thesis by (simp add: yields_def)
  qed
qed

theorem resent_pin_never_activates_witness:
  "as_users (fst (VerifyPIN sampleAuth (atTime 2 [] []) ''an@x'' ''42'' PinPurposeRegister
     (fst (ResendPIN sampleAuth (atTime 1 [] ''42'') ''an@x'' PinPurposeRegister oneUser)))) = as_users oneUser"
  using resent_pin_never_activates [of PinPurposeRegister oneUser "atTime 1 [] ''42''" sampleAuth "atTime 2 [] []" "''an@x''" PinPurposeRegister]
  by (simp add: oneUser_def emptyAuth_def)

section \<open>Passwords\<close>

lemma UpdatePasswordHash_find:
  assumes "UpdatePasswordHash dp now email tn h st = (st', Ret ())"
  shows "\<exists>u. FindUserByEmail dp email tn st' = Ret u \<and> au_PasswordHash u = h"
proof -
  let ?p = "userKey (ad_env dp) email tn" let ?f = "\<lambda>u. u\<lparr>au_PasswordHash := h, au_UpdatedAt := now\<rparr>"
  have "list_ex ?p (as_users st)" and st': "as_users st' = map (\<lambda>u. if ?p u then ?f u else u) (as_users st)"
    using assms by (auto simp: UpdatePasswordHash_def updateUsers_def split: if_splits)
  then obtain u where u: "find ?p (as_users st) = Some u"
    by (cases "find ?p (as_users st)") (auto simp: list_ex_iff find_None_iff)
  have "find ?p (as_users st') = map_option (\<lambda>u. if ?p u then ?f u else u) (find ?p (as_users st))"
    unfolding st' by (rule find_map_keep) (simp add: userKey_def)
  with u find_Some_iff2 [OF u] show ?thesis by (simp add: FindUserByEmail_def)
qed

text \<open>
  C18. A password reset stores the hash of the new password for the user of the address and ends every session
  of the user in the tenant.
\<close>

theorem reset_ends_sessions:
  assumes "ResetPassword cfg io email code newPassword st = (st', Ret ())"
  shows "\<exists>u. FindUserByEmail (ac_deps cfg) email (defaultTenant cfg) st' = Ret u
    \<and> ac_hashPassword cfg (ai_salt io) newPassword = Some (au_PasswordHash u)
    \<and> (\<forall>s \<in> set (as_sessions st'). us_UserID s = au_ID u \<and> us_TenantID s = defaultTenant cfg \<longrightarrow> IsRevoked s)"
proof -
  obtain h st1 st2 where h: "ac_hashPassword cfg (ai_salt io) newPassword = Some h"
    and upd: "UpdatePasswordHash (ac_deps cfg) (ai_now io) email (defaultTenant cfg) h st1 = (st2, Ret ())"
    and st': "(case FindUserByEmail (ac_deps cfg) email (defaultTenant cfg) st2 of
        Ret u \<Rightarrow> (RevokeAllUserSessions (ai_now io) (au_ID u) (defaultTenant cfg) st2, Ret ()) | _ \<Rightarrow> (st2, Ret ())) = (st', Ret () :: unit ares)"
    using assms unfolding ResetPassword_def
    by (cases "consumePin cfg io email code PinPurposeForgotPassword st"; cases "snd (consumePin cfg io email code PinPurposeForgotPassword st)")
      (auto simp: hashPassword_def split: option.splits prod.splits outcome.splits)
  from UpdatePasswordHash_find [OF upd] obtain u where u: "FindUserByEmail (ac_deps cfg) email (defaultTenant cfg) st2 = Ret u" "au_PasswordHash u = h"
    by blast
  with st' have st': "st' = RevokeAllUserSessions (ai_now io) (au_ID u) (defaultTenant cfg) st2" by simp
  then have "FindUserByEmail (ac_deps cfg) email (defaultTenant cfg) st' = Ret u"
    using u(1) by (simp add: FindUserByEmail_def RevokeAllUserSessions_def RevokeAllUserSessionsWithReason_def updateSessions_def)
  with h u(2) show ?thesis
    unfolding st' RevokeAllUserSessions_def by (auto intro: revokeAll_all)
qed

theorem reset_ends_sessions_witness:
  "\<exists>st' u. ResetPassword sampleAuth (atTime 3 [] []) ''an@x'' ''42'' ''new'' (serveAuth sampleAuth (atTime 1 [] ''42'') (ForgotReq ''an@x'') loggedIn) = (st', Ret ())
    \<and> FindUserByEmail (ac_deps sampleAuth) ''an@x'' ''default'' st' = Ret u \<and> au_PasswordHash u = ''new''"
proof -
  let ?r = "ResetPassword sampleAuth (atTime 3 [] []) ''an@x'' ''42'' ''new'' (serveAuth sampleAuth (atTime 1 [] ''42'') (ForgotReq ''an@x'') loggedIn)"
  have "snd ?r = Ret ()" by code_simp
  then have r: "?r = (fst ?r, Ret ())" by (metis prod.collapse)
  from reset_ends_sessions [OF r] r show ?thesis by (auto simp: defaultTenant_def sampleAuth_def atTime_def)
qed

section \<open>Permissions in tokens\<close>

lemma set_effective: "set (effectiveOf cfg now i) = fst (applyOverrides now (ac_overrides cfg i) (set (ac_rolePermissions cfg i)) [] [])
    \<inter> (set (ac_rolePermissions cfg i) \<union> po_Permission ` set (ac_overrides cfg i))"
  by (auto simp: effectiveOf_def GetEffectivePermissions_def split: prod.splits)

text \<open>
  C19. An override that denies a permission takes it out of the permissions of the token, and changes nothing:
  the denial itself is not written into the token, and the policy adds the grants of the roles again.
\<close>

theorem deny_override_ineffective:
  assumes "ac_overrides cfg i = [\<lparr>po_Permission = p, po_GrantType = ''DENY'', po_ExpiresAt = None\<rparr>]"
    and "list_all printableText (portals @ roles @ effectiveOf cfg now i)" and "printableText p" and "has_prefix p ''lms.''"
    and "r \<in> set roles" and "g \<in> set (roleGrants r)" and "matchesPrintable g p"
  shows "p \<notin> set (effectiveOf cfg now i)
    \<and> RequireAccessPermission env p (tc_claims (accessClaims pv now sid user email roles (effectiveOf cfg now i) portals access))"
proof -
  let ?c = "tc_claims (accessClaims pv now sid user email roles (effectiveOf cfg now i) portals access)"
  have "plainClaims ?c" using assms(2) by (simp add: plainClaims_def accessClaims_def noClaims_def printableText_def)
  moreover have "claimsGrant p ?c"
    using assms(5-7) by (auto simp: claimsGrant_def accessClaims_def noClaims_def list_ex_iff)
  ultimately show ?thesis
    using RequireAccessPermission_plain [OF _ assms(3,4)] assms(1) by (auto simp: set_effective)
qed

theorem deny_override_ineffective_witness:
  "\<exists>cfg :: redisMap authcfg. ''lms.report.read'' \<notin> set (effectiveOf cfg 0 7)
    \<and> RequireAccessPermission sampleEnv ''lms.report.read'' (tc_claims (accessClaims plainProvider 0 ''s1'' (hexOf 7) ''an@x'' [''lms.student'']
        (effectiveOf cfg 0 7) [''lms''] (''student'', ''elearning'')))"
proof -
  let ?cfg = "sampleAuth\<lparr>ac_rolePermissions := (\<lambda>_. [''lms.report.read'']),
      ac_overrides := (\<lambda>_. [\<lparr>po_Permission = ''lms.report.read'', po_GrantType = ''DENY'', po_ExpiresAt = None\<rparr>])\<rparr>"
  have "list_all printableText ([''lms''] @ [''lms.student''] @ effectiveOf ?cfg 0 7)" "printableText ''lms.report.read''"
    "has_prefix ''lms.report.read'' ''lms.''" "matchesPrintable ''lms.report.read'' ''lms.report.read''"
    by code_simp+
  moreover have "''lms.report.read'' \<in> set (roleGrants ''lms.student'')" by (simp add: student_grants)
  ultimately show ?thesis
    using deny_override_ineffective [of ?cfg 7 "''lms.report.read''" "[''lms'']" "[''lms.student'']" 0 "''lms.student''" "''lms.report.read''"]
    by (intro exI [of _ ?cfg]) simp
qed

end
