(* ===== verification/AuthLogin.thy ===== *)
theory AuthLogin
  imports AuthProps
begin

text \<open>
  Properties of logins: the sessions two of them leave, the bounds the counters of failed logins give, and
  what an account that was never verified is good for.
\<close>

section \<open>What a login passes through\<close>

definition loginAddress :: "'r authcfg \<Rightarrow> string \<Rightarrow> string" where
  "loginAddress cfg email = canonicalLoginEmail (ac_env cfg) (trim_space email)"

lemma precheck_admits: "precheckLoginSecurity cfg now tn email sec st = (st', None) \<Longrightarrow> st' = st"
  by (auto simp: precheckLoginSecurity_def Let_def split: if_splits)

text \<open>Repairing an administrator keeps who it is and its password, the sessions, goroutines, counters and rules.\<close>

definition sameTables :: "'r authState \<Rightarrow> 'r authState \<Rightarrow> bool" where
  "sameTables st st' \<longleftrightarrow> as_sessions st' = as_sessions st \<and> as_jobs st' = as_jobs st \<and> as_redis st' = as_redis st
     \<and> as_attempts st' = as_attempts st \<and> as_firewall st' = as_firewall st"

lemma sameTables_same [simp]: "sameTables st st"
  by (simp add: sameTables_def)

lemma sameTables_updateUsers [simp]: "sameTables st st' \<Longrightarrow> sameTables st (fst (updateUsers p f st'))"
  by (simp add: sameTables_def updateUsers_def)

lemma repair_tables: "yields (sameTables st) (repairConfiguredAdmin cfg io u st)"
  unfolding repairConfiguredAdmin_def UpdateUserIdentityFields_def UpdateUserRoles_def Let_def
  by (intro yields_rules) (auto simp: yields_def)

lemma then_do_returns:
  assumes "then_do r f = (s', Ret y)"
  shows "\<exists>s x. r = (s, Ret x) \<and> f s x = (s', Ret y)"
  using assms by (cases r; cases "snd r") auto

lemma adminUpdates_keeps:
  "adminUpdates p u = Some f \<Longrightarrow> userIdentity (f r) = userIdentity r \<and> au_PasswordHash (f r) = au_PasswordHash r"
  by (auto simp: adminUpdates_def Let_def userIdentity_def split: if_splits)

lemma repair_user:
  assumes "repairConfiguredAdmin cfg io u st = (st', Ret u')"
  shows "userIdentity u' = userIdentity u \<and> au_PasswordHash u' = au_PasswordHash u \<and> sameTables st st'"
proof -
  let ?up = "adminUpdates (\<lambda>s. EqualFold s ''active'') u"
  let ?v = "case ?up of None \<Rightarrow> u | Some f \<Rightarrow> f u"
  have v: "userIdentity ?v = userIdentity u \<and> au_PasswordHash ?v = au_PasswordHash u"
    using adminUpdates_keeps by (auto split: option.split)
  have "u' = u \<or> u' = ?v \<or> (\<exists>roles. u' = ?v\<lparr>au_Roles := roles\<rparr>)"
    using assms unfolding repairConfiguredAdmin_def Let_def
    by (auto dest!: then_do_returns split: if_splits)
  moreover have "sameTables st st'" using repair_tables [of st cfg io u] assms by (simp add: yields_def)
  ultimately show ?thesis using v by (auto simp: userIdentity_def)
qed

lemma issueTokens_sessions:
  assumes "is_ret (snd (issueTokensForUser cfg io u sec prov st))"
  shows "\<exists>s. fst (issueTokensForUser cfg io u sec prov st) =
    st\<lparr>as_sessions := as_sessions st @ [s], as_jobs := as_jobs st @ [ReplaceSessions (au_ID u) (au_TenantID u) (ai_sessionID io), TouchLogin (au_ID u) prov]\<rparr>"
  using assms by (auto simp: issueTokensForUser_def CreateSession_def Let_def split: if_splits)

text \<open>A login that returns has passed every check; what it adds are a session and the goroutines.\<close>

lemma loginUser_returns:
  assumes "is_ret (snd (loginUser cfg io e pw sec u st))"
  shows "\<not> isLocked u \<and> \<not> (au_Status u = UserStatusPending \<and> au_Provider u = ''local'') \<and> fst (ac_verifyPassword cfg pw (au_PasswordHash u))
    \<and> (\<exists>s. fst (loginUser cfg io e pw sec u st) = st\<lparr>as_sessions := as_sessions st @ [s], as_jobs := as_jobs st
         @ (if snd (ac_verifyPassword cfg pw (au_PasswordHash u)) then [Rehash (au_Email u) (au_TenantID u) pw] else [])
         @ [ReplaceSessions (au_ID u) (au_TenantID u) (ai_sessionID io), TouchLogin (au_ID u) ''erg'',
            RecordSuccess (defaultTenant cfg) (ge_hex (ac_env cfg) (au_ID u)) e sec]\<rparr>)"
proof -
  obtain ok old where v: "ac_verifyPassword cfg pw (au_PasswordHash u) = (ok, old)" by (cases "ac_verifyPassword cfg pw (au_PasswordHash u)")
  let ?st = "if old then st\<lparr>as_jobs := as_jobs st @ [Rehash (au_Email u) (au_TenantID u) pw]\<rparr> else st"
  let ?i = "issueTokensForUser cfg io u sec ''erg'' ?st"
  have checks: "\<not> isLocked u" "\<not> (au_Status u = UserStatusPending \<and> au_Provider u = ''local'')" ok
    using assms v by (auto simp: loginUser_def rejectLogin_def Let_def split: if_splits prod.splits option.splits)
  then have l: "loginUser cfg io e pw sec u st = then_do ?i (\<lambda>st r. (recordSuccessfulLoginAsync cfg (ge_hex (ac_env cfg) (au_ID u)) e sec st, Ret r))"
    using v by (auto simp: loginUser_def Let_def)
  then have i: "is_ret (snd ?i)" using assms by (metis then_do_needs)
  obtain s where "fst ?i = ?st\<lparr>as_sessions := as_sessions ?st @ [s], as_jobs := as_jobs ?st @ [ReplaceSessions (au_ID u) (au_TenantID u) (ai_sessionID io), TouchLogin (au_ID u) ''erg'']\<rparr>"
    using issueTokens_sessions [OF i] by blast
  with i have "fst (loginUser cfg io e pw sec u st) = recordSuccessfulLoginAsync cfg (ge_hex (ac_env cfg) (au_ID u)) e sec
      (?st\<lparr>as_sessions := as_sessions ?st @ [s], as_jobs := as_jobs ?st @ [ReplaceSessions (au_ID u) (au_TenantID u) (ai_sessionID io), TouchLogin (au_ID u) ''erg'']\<rparr>)"
    unfolding l by (cases ?i; cases "snd ?i") auto
  then have "\<exists>s. fst (loginUser cfg io e pw sec u st) = st\<lparr>as_sessions := as_sessions st @ [s], as_jobs := as_jobs st
         @ (if old then [Rehash (au_Email u) (au_TenantID u) pw] else [])
         @ [ReplaceSessions (au_ID u) (au_TenantID u) (ai_sessionID io), TouchLogin (au_ID u) ''erg'',
            RecordSuccess (defaultTenant cfg) (ge_hex (ac_env cfg) (au_ID u)) e sec]\<rparr>"
    by (intro exI [of _ s]) (simp add: recordSuccessfulLoginAsync_def)
  with checks v show ?thesis by simp
qed

lemma Login_returns:
  assumes "is_ret (snd (Login cfg io email pw sec st))"
  shows "\<exists>u u' st'. FindUserByEmail (ac_deps cfg) (loginAddress cfg email) (defaultTenant cfg) st = Ret u
    \<and> repairConfiguredAdmin cfg io u st = (st', Ret u')
    \<and> Login cfg io email pw sec st = loginUser cfg io (loginAddress cfg email) pw (normalizeSecurityContext cfg sec) u' st'"
proof -
  let ?sec = "normalizeSecurityContext cfg sec"
  obtain st1 refusal where p: "precheckLoginSecurity cfg (ai_now io) (defaultTenant cfg) (loginAddress cfg email) ?sec st = (st1, refusal)"
    by (cases "precheckLoginSecurity cfg (ai_now io) (defaultTenant cfg) (loginAddress cfg email) ?sec st")
  have "refusal = None" using assms p by (cases refusal) (auto simp: Login_def loginAddress_def Let_def)
  with p have p: "precheckLoginSecurity cfg (ai_now io) (defaultTenant cfg) (loginAddress cfg email) ?sec st = (st, None)"
    using precheck_admits by blast
  obtain u where u: "FindUserByEmail (ac_deps cfg) (loginAddress cfg email) (defaultTenant cfg) st = Ret u"
    using assms p by (auto simp: Login_def loginAddress_def [symmetric] rejectLogin_def Let_def split: outcome.splits prod.splits option.splits)
  have l: "Login cfg io email pw sec st = then_do (repairConfiguredAdmin cfg io u st) (\<lambda>st u. loginUser cfg io (loginAddress cfg email) pw ?sec u st)"
    using p u by (simp add: Login_def loginAddress_def [symmetric] Let_def)
  obtain st' u' where "repairConfiguredAdmin cfg io u st = (st', Ret u')"
    using assms unfolding l
    by (cases "repairConfiguredAdmin cfg io u st"; cases "snd (repairConfiguredAdmin cfg io u st)") auto
  with l u show ?thesis by simp
qed

text \<open>What a login with a hash that is not outdated adds, and for whom.\<close>

lemma Login_adds:
  assumes "is_ret (snd (Login cfg io email pw sec st))" and "\<forall>h. \<not> snd (ac_verifyPassword cfg pw h)"
  shows "\<exists>u. FindUserByEmail (ac_deps cfg) (loginAddress cfg email) (defaultTenant cfg) st = Ret u
    \<and> as_jobs (fst (Login cfg io email pw sec st)) = as_jobs st @ [ReplaceSessions (au_ID u) (defaultTenant cfg) (ai_sessionID io),
        TouchLogin (au_ID u) ''erg'',
        RecordSuccess (defaultTenant cfg) (ge_hex (ac_env cfg) (au_ID u)) (loginAddress cfg email) (normalizeSecurityContext cfg sec)]"
proof -
  obtain u u' st' where u: "FindUserByEmail (ac_deps cfg) (loginAddress cfg email) (defaultTenant cfg) st = Ret u"
    and r: "repairConfiguredAdmin cfg io u st = (st', Ret u')"
    and l: "Login cfg io email pw sec st = loginUser cfg io (loginAddress cfg email) pw (normalizeSecurityContext cfg sec) u' st'"
    using Login_returns [OF assms(1)] by blast
  have "as_jobs st' = as_jobs st" "au_ID u' = au_ID u" "au_TenantID u' = au_TenantID u"
    using repair_user [OF r] by (simp_all add: sameTables_def userIdentity_def)
  moreover have "au_TenantID u = defaultTenant cfg"
    using u by (auto simp: FindUserByEmail_def find_Some_iff userKey_def split: option.splits)
  ultimately show ?thesis
    using loginUser_returns [OF assms(1) [unfolded l]] assms(2) u unfolding l by auto
qed

lemma Login_user:
  assumes "FindUserByEmail dp e tn st = Ret u" and "FindUserByEmail dp e tn (fst (Login cfg io email pw sec st)) = Ret u'"
  shows "au_ID u' = au_ID u"
  using addresses.login [of dp e tn "au_ID u" st cfg io email pw sec] assms by (simp add: sameAddress_def yields_def)

text \<open>When a login is accepted.\<close>

lemma issueTokens_accepts:
  assumes "\<not> list_ex (sessionKey (ai_sessionID io) (au_TenantID u)) (as_sessions st)"
  shows "\<exists>s r. snd (issueTokensForUser cfg io u sec prov st) = Ret r \<and> ax_Permissions r = permissionsForToken cfg (ai_now io) u
    \<and> as_sessions (fst (issueTokensForUser cfg io u sec prov st)) = as_sessions st @ [s] \<and> us_SessionID s = ai_sessionID io
    \<and> us_UserID s = au_ID u \<and> us_TenantID s = au_TenantID u \<and> us_ExpiresAt s = ai_now io + ac_refreshTTL cfg
    \<and> ax_AccountType r = fst (classifyAccountAccess (au_Roles u) (portalsForToken (ac_env cfg) (au_Roles u)) (permissionsForToken cfg (ai_now io) u))"
  using assms by (simp add: issueTokensForUser_def CreateSession_def Let_def)

lemma Login_accepts:
  assumes "precheckLoginSecurity cfg (ai_now io) (defaultTenant cfg) (loginAddress cfg email) (normalizeSecurityContext cfg sec) st = (st, None)"
    and "FindUserByEmail (ac_deps cfg) (loginAddress cfg email) (defaultTenant cfg) st = Ret u"
    and "repairConfiguredAdmin cfg io u st = (st', Ret u')" and "\<not> isLocked u'"
    and "\<not> (au_Status u' = UserStatusPending \<and> au_Provider u' = ''local'')" and "fst (ac_verifyPassword cfg pw (au_PasswordHash u'))"
    and "\<not> list_ex (sessionKey (ai_sessionID io) (au_TenantID u)) (as_sessions st)"
  shows "\<exists>s r. snd (Login cfg io email pw sec st) = Ret r \<and> ax_Permissions r = permissionsForToken cfg (ai_now io) u'
    \<and> as_sessions (fst (Login cfg io email pw sec st)) = as_sessions st @ [s] \<and> us_SessionID s = ai_sessionID io
    \<and> us_UserID s = au_ID u \<and> us_TenantID s = au_TenantID u \<and> us_ExpiresAt s = ai_now io + ac_refreshTTL cfg
    \<and> ax_AccountType r = fst (classifyAccountAccess (au_Roles u') (portalsForToken (ac_env cfg) (au_Roles u')) (permissionsForToken cfg (ai_now io) u'))"
proof -
  obtain old where v: "ac_verifyPassword cfg pw (au_PasswordHash u') = (True, old)"
    using assms(6) by (cases "ac_verifyPassword cfg pw (au_PasswordHash u')") auto
  let ?e = "loginAddress cfg email" let ?sec = "normalizeSecurityContext cfg sec"
  let ?st = "if old then st'\<lparr>as_jobs := as_jobs st' @ [Rehash (au_Email u') (au_TenantID u') pw]\<rparr> else st'"
  have id: "au_ID u' = au_ID u" "au_TenantID u' = au_TenantID u" "as_sessions ?st = as_sessions st"
    using repair_user [OF assms(3)] by (simp_all add: sameTables_def userIdentity_def)
  have l: "Login cfg io email pw sec st = then_do (issueTokensForUser cfg io u' ?sec ''erg'' ?st)
      (\<lambda>st r. (recordSuccessfulLoginAsync cfg (ge_hex (ac_env cfg) (au_ID u')) ?e ?sec st, Ret r))"
    using assms(1-5) v unfolding Login_def Let_def loginAddress_def [symmetric] by (auto simp: loginUser_def Let_def)
  show ?thesis
    using issueTokens_accepts [of io u' ?st cfg ?sec "''erg''"] assms(7) id unfolding l
    by (cases "issueTokensForUser cfg io u' ?sec ''erg'' ?st") (auto simp: recordSuccessfulLoginAsync_def)
qed

section \<open>Two logins at the same time\<close>

text \<open>
  C14. Two logins of a user at the same time log both out: when the goroutines they start run after both
  sessions exist, each ends the session of the other, and no live session of the user is left.
\<close>

theorem concurrent_logins_end_both:
  assumes "as_jobs st = []" and "\<forall>h. \<not> snd (ac_verifyPassword cfg pw h)"
    and "is_ret (snd (Login cfg ioA email pw secA st))"
    and "is_ret (snd (Login cfg ioB email pw secB (fst (Login cfg ioA email pw secA st))))"
    and "trim_space (ai_sessionID ioA) \<noteq> trim_space (ai_sessionID ioB)"
    and "FindUserByEmail (ac_deps cfg) (loginAddress cfg email) (defaultTenant cfg) st = Ret u"
    and "t \<in> set (as_sessions (runAuth cfg [(ioA, LoginReq email pw secA), (ioB, LoginReq email pw secB), (ioC, JobReq 0), (ioD, JobReq 2)] st))"
    and "us_UserID t = au_ID u" and "us_TenantID t = defaultTenant cfg" and "ai_now ioC < us_ExpiresAt t" and "ai_now ioD < us_ExpiresAt t"
  shows "IsRevoked t"
proof -
  let ?stA = "fst (Login cfg ioA email pw secA st)" let ?tn = "defaultTenant cfg"
  let ?st = "fst (Login cfg ioB email pw secB ?stA)"
  let ?C = "RevokeOtherActiveUserSessionsWithReason (ai_now ioC) (au_ID u) ?tn (ai_sessionID ioA) ''replaced_by_new_login''"
  let ?D = "RevokeOtherActiveUserSessionsWithReason (ai_now ioD) (au_ID u) ?tn (ai_sessionID ioB) ''replaced_by_new_login''"
  obtain u' where u': "FindUserByEmail (ac_deps cfg) (loginAddress cfg email) ?tn ?stA = Ret u'"
    and jobsB: "as_jobs ?st = as_jobs ?stA @ [ReplaceSessions (au_ID u') ?tn (ai_sessionID ioB), TouchLogin (au_ID u') ''erg'',
        RecordSuccess ?tn (ge_hex (ac_env cfg) (au_ID u')) (loginAddress cfg email) (normalizeSecurityContext cfg secB)]"
    using Login_adds [OF assms(4,2)] by blast
  have "au_ID u' = au_ID u" by (rule Login_user [OF assms(6) u'])
  then have "\<exists>js js'. runAuth cfg [(ioA, LoginReq email pw secA), (ioB, LoginReq email pw secB), (ioC, JobReq 0), (ioD, JobReq 2)] st
      = ?D ((?C (?st\<lparr>as_jobs := js\<rparr>))\<lparr>as_jobs := js'\<rparr>)"
    using Login_adds [OF assms(3,2)] assms(1,6) jobsB
    by (simp add: RevokeOtherActiveUserSessionsWithReason_def updateSessions_def) blast
  then obtain js js' where t: "t \<in> set (as_sessions (?D ((?C (?st\<lparr>as_jobs := js\<rparr>))\<lparr>as_jobs := js'\<rparr>)))"
    using assms(7) by auto
  from revokeOther_from [OF t] obtain s where s: "s \<in> set (as_sessions (?C (?st\<lparr>as_jobs := js\<rparr>)))"
    "us_UserID s = au_ID u" "us_TenantID s = ?tn" "ai_now ioC < us_ExpiresAt s" "us_SessionID t = us_SessionID s"
    "IsRevoked s \<longrightarrow> IsRevoked t"
    using assms(8-10) by auto
  from revokeOther_all [OF s(1-4)] revokeOther_all [OF t assms(8,9,11)] s(5,6) assms(5) show ?thesis by auto
qed

text \<open>The witness: two logins of the sample user, each of which succeeds and adds one session.\<close>

lemma maxCounter_blank: "(\<And>k. get k = Some []) \<Longrightarrow> maxCounter get keys n = Some n"
proof (induction keys)
  case (Cons k ks)
  moreover have "trim_space [] = []" by code_simp
  ultimately show ?case by simp
qed simp

lemma no_failures:
  assumes "ad_redis (ac_deps cfg) = Some mapRedis" and "as_redis st = (\<lambda>_. None)"
  shows "failedLoginCount cfg now tn email ip st = 0"
proof -
  have "cachedFailedLoginCount cfg now tn email ip st = Some 0" for email ip
    using assms maxCounter_blank [of "cacheGet mapRedis now (\<lambda>_. None)"]
    by (simp add: cachedFailedLoginCount_def cacheGet_def mapRedis_def liveValue_def)
  then show ?thesis by (simp add: failedLoginCount_def Let_def)
qed

lemma sample_precheck:
  "ls_IPAddress sec = [] \<Longrightarrow> as_redis st = (\<lambda>_. None) \<Longrightarrow> precheckLoginSecurity sampleAuth now tn email sec st = (st, None)"
  using no_failures [of sampleAuth st] by (simp add: precheckLoginSecurity_def Let_def shouldBlockByGeo_def sampleAuth_def)

lemma sample_login:
  assumes "list_all (\<lambda>s. us_SessionID s \<noteq> sid) (as_sessions st)" and "as_users st = [sampleUser]" and "as_redis st = (\<lambda>_. None)"
  shows "is_ret (snd (Login sampleAuth (atTime t sid []) ''an@x'' ''pw'' noSecurity st))
    \<and> (\<exists>s. as_sessions (fst (Login sampleAuth (atTime t sid []) ''an@x'' ''pw'' noSecurity st)) = as_sessions st @ [s]
         \<and> us_SessionID s = sid \<and> us_UserID s = 7 \<and> us_TenantID s = ''default'' \<and> us_ExpiresAt s = (t + 100) * nanos)
    \<and> as_users (fst (Login sampleAuth (atTime t sid []) ''an@x'' ''pw'' noSecurity st)) = [sampleUser]
    \<and> as_redis (fst (Login sampleAuth (atTime t sid []) ''an@x'' ''pw'' noSecurity st)) = (\<lambda>_. None)"
proof -
  let ?io = "atTime t sid []" let ?r = "Login sampleAuth ?io ''an@x'' ''pw'' noSecurity st"
  have e: "loginAddress sampleAuth ''an@x'' = ''an@x''" unfolding loginAddress_def by code_simp
  have tn: "defaultTenant sampleAuth = ''default''" by code_simp
  have sec: "normalizeSecurityContext sampleAuth noSecurity = noSecurity" by code_simp
  have "find (userKey sampleEnv ''an@x'' ''default'') [sampleUser] = Some sampleUser" by code_simp
  then have u: "FindUserByEmail (ac_deps sampleAuth) ''an@x'' ''default'' st = Ret sampleUser"
    using assms(2) by (simp add: FindUserByEmail_def)
  have "\<not> isConfiguredAdminEmail sampleAuth (au_Email sampleUser)" by code_simp
  then have rep: "repairConfiguredAdmin sampleAuth ?io sampleUser st = (st, Ret sampleUser)" by (simp add: repairConfiguredAdmin_def)
  have ok: "\<not> isLocked sampleUser" "\<not> (au_Status sampleUser = UserStatusPending \<and> au_Provider sampleUser = ''local'')"
    "ac_verifyPassword sampleAuth ''pw'' (au_PasswordHash sampleUser) = (True, False)"
    by code_simp+
  have pre: "precheckLoginSecurity sampleAuth (ai_now ?io) ''default'' ''an@x'' noSecurity st = (st, None)"
    using sample_precheck assms(3) by (simp add: noSecurity_def)
  have clash: "\<not> list_ex (sessionKey (ai_sessionID ?io) (au_TenantID sampleUser)) (as_sessions st)"
    using assms(1) by (auto simp: list_ex_iff list_all_iff sessionKey_def)
  have "au_TenantID sampleUser = ''default''" "au_ID sampleUser = 7" by (simp_all add: sampleUser_def newUser_def)
  then obtain s r where acc: "snd ?r = Ret r" "as_sessions (fst ?r) = as_sessions st @ [s]"
      "us_SessionID s = sid" "us_UserID s = 7" "us_TenantID s = ''default''" "us_ExpiresAt s = t * nanos + 100 * nanos"
    using Login_accepts [of sampleAuth ?io "''an@x''" noSecurity st sampleUser st sampleUser "''pw''", unfolded e tn sec, OF pre u rep ok(1,2) _ clash] ok(3)
    by auto
  have "?r = loginUser sampleAuth ?io ''an@x'' ''pw'' noSecurity sampleUser st"
    using Login_returns [of sampleAuth ?io "''an@x''" "''pw''" noSecurity st, unfolded e tn sec] acc(1) u rep by auto
  then obtain s' where "fst ?r = st\<lparr>as_sessions := as_sessions st @ [s'], as_jobs := as_jobs st @ [] @ [ReplaceSessions (au_ID sampleUser) (au_TenantID sampleUser) sid, TouchLogin (au_ID sampleUser) ''erg'',
            RecordSuccess (defaultTenant sampleAuth) (ge_hex (ac_env sampleAuth) (au_ID sampleUser)) ''an@x'' noSecurity]\<rparr>"
    using loginUser_returns [of sampleAuth ?io "''an@x''" "''pw''" noSecurity sampleUser st] acc(1) ok(3) by auto
  with acc assms(2,3) show ?thesis by (auto simp: algebra_simps)
qed

lemma JobReq_sessions:
  assumes "t \<in> set (as_sessions (serveAuth cfg io (JobReq k) st))"
  shows "\<exists>s \<in> set (as_sessions st). us_UserID t = us_UserID s \<and> us_TenantID t = us_TenantID s \<and> us_ExpiresAt t = us_ExpiresAt s"
proof (cases "k < length (as_jobs st)")
  case True
  let ?st = "st\<lparr>as_jobs := take k (as_jobs st) @ drop (Suc k) (as_jobs st)\<rparr>"
  have t: "t \<in> set (as_sessions (runAuthJob cfg io (as_jobs st ! k) ?st))" using assms True by simp
  have "\<exists>s \<in> set (as_sessions ?st). us_UserID t = us_UserID s \<and> us_TenantID t = us_TenantID s \<and> us_ExpiresAt t = us_ExpiresAt s"
  proof (cases "as_jobs st ! k")
    case (ReplaceSessions i tn keep)
    with t revokeOther_from [of t "ai_now io" i tn keep _ ?st] show ?thesis by auto
  qed (use t in \<open>auto simp: TouchSuccessfulLogin_def UpdatePasswordHash_def updateUsers_def resetFailedLoginCounters_def recordLoginAttempt_def
         CreateLoginAttempt_def split: option.splits\<close>)
  then show ?thesis by simp
qed (use assms in auto)

theorem concurrent_logins_end_both_witness:
  "\<exists>s t. as_sessions (fst (Login sampleAuth (atTime 1 ''b'' []) ''an@x'' ''pw'' noSecurity
        (fst (Login sampleAuth (atTime 1 ''a'' []) ''an@x'' ''pw'' noSecurity oneUser)))) = [s, t]
   \<and> list_all IsRevoked (as_sessions (runAuth sampleAuth
        [(atTime 1 ''a'' [], LoginReq ''an@x'' ''pw'' noSecurity), (atTime 1 ''b'' [], LoginReq ''an@x'' ''pw'' noSecurity),
         (atTime 2 [] [], JobReq 0), (atTime 2 [] [], JobReq 2)] oneUser))"
proof -
  let ?A = "Login sampleAuth (atTime 1 ''a'' []) ''an@x'' ''pw'' noSecurity oneUser"
  let ?B = "Login sampleAuth (atTime 1 ''b'' []) ''an@x'' ''pw'' noSecurity (fst ?A)"
  let ?C = "serveAuth sampleAuth (atTime 2 [] []) (JobReq 0) (fst ?B)"
  let ?run = "[(atTime 1 ''a'' [], LoginReq ''an@x'' ''pw'' noSecurity), (atTime 1 ''b'' [], LoginReq ''an@x'' ''pw'' noSecurity),
         (atTime 2 [] [], JobReq 0), (atTime 2 [] [], JobReq 2)]"
  have run: "runAuth sampleAuth ?run oneUser = serveAuth sampleAuth (atTime 2 [] []) (JobReq 2) ?C" by simp
  have start: "as_sessions oneUser = []" "as_users oneUser = [sampleUser]" "as_redis oneUser = (\<lambda>_. None)" "as_jobs oneUser = []"
    by (simp_all add: oneUser_def emptyAuth_def)
  obtain s where a: "is_ret (snd ?A)" "as_sessions (fst ?A) = [s]" "us_SessionID s = ''a''" "us_UserID s = 7" "us_TenantID s = ''default''"
      "us_ExpiresAt s = 101 * nanos" "as_users (fst ?A) = [sampleUser]" "as_redis (fst ?A) = (\<lambda>_. None)"
    using sample_login [of "''a''" oneUser 1] start by auto
  then obtain t where b: "is_ret (snd ?B)" "as_sessions (fst ?B) = [s, t]" "us_UserID t = 7" "us_TenantID t = ''default''" "us_ExpiresAt t = 101 * nanos"
    using sample_login [of "''b''" "fst ?A" 1] by auto
  have sids: "trim_space ''a'' \<noteq> trim_space ''b''" by code_simp
  have u: "FindUserByEmail (ac_deps sampleAuth) (loginAddress sampleAuth ''an@x'') (defaultTenant sampleAuth) oneUser = Ret sampleUser"
    unfolding loginAddress_def by code_simp
  have tn: "defaultTenant sampleAuth = ''default''" "au_ID sampleUser = 7" by (code_simp, simp add: sampleUser_def)
  have new: "\<forall>h. \<not> snd (ac_verifyPassword sampleAuth ''pw'' h)" by (simp add: sampleAuth_def)
  have "IsRevoked x" if x: "x \<in> set (as_sessions (runAuth sampleAuth ?run oneUser))" for x
  proof -
    obtain y where "y \<in> set (as_sessions ?C)" "us_UserID x = us_UserID y \<and> us_TenantID x = us_TenantID y \<and> us_ExpiresAt x = us_ExpiresAt y"
      using JobReq_sessions [OF x [unfolded run]] by blast
    moreover from this obtain z where "z \<in> set (as_sessions (fst ?B))" "us_UserID y = us_UserID z \<and> us_TenantID y = us_TenantID z \<and> us_ExpiresAt y = us_ExpiresAt z"
      using JobReq_sessions by blast
    ultimately show ?thesis
      using concurrent_logins_end_both [OF start(4) new a(1) b(1) _ u x] a(4-6) b(2-5) sids tn by auto
  qed
  with b(2) show ?thesis by (auto simp: list_all_iff)
qed

end
