(* ===== verification/AuthLockout.thy ===== *)
theory AuthLockout
  imports AuthLogin
begin

text \<open>
  What the counters of failed logins give: with Redis, a bound on the passwords that can be tried for an
  address in a window, over any number of requests and origins, and the lockout that follows; without Redis,
  why the lockout of an address is never reached.
\<close>

section \<open>A counter and the operations on it\<close>

text \<open>The cell of a counter that stands at \<open>n\<close> and does not expire before \<open>ends\<close>.\<close>

definition counterAt :: "gotime \<Rightarrow> int \<Rightarrow> redisCell \<Rightarrow> bool" where
  "counterAt ends n c \<longleftrightarrow> (if n = 0 then c = None else \<exists>t. c = Some (format_int n, Some t) \<and> ends \<le> t)"

lemma counterAt_live: "counterAt ends n c \<Longrightarrow> now < ends \<Longrightarrow> liveValue now c = (if n = 0 then None else Some (format_int n))"
  by (auto simp: counterAt_def liveValue_def split: if_splits)

lemma printable_digit: "is_digit c \<Longrightarrow> printableChar c"
  by (auto simp: is_digit_def printableChar_def byte_def)

lemma trim_format_int: "0 \<le> n \<Longrightarrow> trim_space (format_int n) = format_int n"
  using format_nat_digits [of _ "nat n"] by (auto simp: format_int_def intro!: trim_space_ends printable_digit)

lemma windows_positive: "0 < failedLoginWindow cfg" "0 < blockDuration cfg"
  by (auto simp: failedLoginWindow_def blockDuration_def minutes15_def)

lemma email_key:
  "emailHash cfg email \<noteq> [] \<Longrightarrow> \<exists>rest. failedEmailKey cfg tn email = ''auth_fail:email:'' @ rest"
  by (auto simp: failedEmailKey_def emailHash_def Let_def split: if_splits)

lemma email_key_apart: "emailHash cfg email \<noteq> [] \<Longrightarrow> failedEmailKey cfg tn email \<noteq> failedIPKey ip \<and> failedEmailKey cfg tn email \<noteq> ''ip_blocked:'' @ x"
  using email_key [of cfg email tn] by (auto simp: failedIPKey_def Let_def)

context redis_store
begin

lemma counter_read:
  assumes "ad_redis (ac_deps cfg) = Some rd" and "email \<noteq> []" and "emailHash cfg email \<noteq> []" and "0 \<le> n" and "n \<le> max_int64"
    and "counterAt ends n (cell (as_redis st) (failedEmailKey cfg tn email))" and "now < ends"
  shows "failedLoginCount cfg now tn email [] st = n"
proof -
  have blank: "trim_space [] = []" by code_simp
  have "normalizeEmailForSecurity (ac_env cfg) email \<noteq> []" using assms(3) by (auto simp: emailHash_def Let_def)
  then have "cachedFailedLoginCount cfg now tn email [] st = Some n"
    using assms(1,4,5) counterAt_live [OF assms(6,7)]
    by (simp add: cachedFailedLoginCount_def blank cacheGet_cell trim_format_int parse_int64_format_int)
  then show ?thesis using assms(2,3) by (simp add: failedLoginCount_def blank Let_def)
qed

lemma counter_incremented:
  assumes "ad_redis (ac_deps cfg) = Some rd" and "counterAt ends n (cell (as_redis st) key)" and "key \<noteq> []" and "now < ends" and "ends \<le> now + ttl"
    and "0 < ttl" and "0 \<le> n" and "n < max_int64"
  shows "counterAt ends (n + 1) (cell (as_redis (incrementCounter cfg now key ttl st)) key)"
proof -
  obtain r m where i: "rd_incr rd now key (as_redis st) = (r, m)" by (cases "rd_incr rd now key (as_redis st)")
  have "\<exists>e. m = Some (n + 1) \<and> cell r key = Some (format_int (n + 1), e) \<and> (case e of None \<Rightarrow> n = 0 | Some t \<Rightarrow> ends \<le> t)"
  proof (cases "n = 0")
    case True
    with incr_new [of now "as_redis st" key] assms(2) i show ?thesis by (simp add: counterAt_def liveValue_def)
  next
    case False
    then obtain t where "cell (as_redis st) key = Some (format_int n, Some t)" "ends \<le> t" using assms(2) by (auto simp: counterAt_def)
    with incr_next [of "as_redis st" key n "Some t" now] assms(4,7,8) i show ?thesis by (simp add: liveValue_def)
  qed
  then obtain e where e: "m = Some (n + 1)" "cell r key = Some (format_int (n + 1), e)" "case e of None \<Rightarrow> n = 0 | Some t \<Rightarrow> ends \<le> t"
    by blast
  have live: "liveValue now (cell r key) \<noteq> None"
    using e(2,3) assms(4) by (auto simp: liveValue_def split: option.splits)
  have "counterAt ends (n + 1) (cell (rd_expire rd now key ttl r) key)"
    using expire [OF e(2) live assms(6)] assms(5,7) by (simp add: counterAt_def)
  moreover have "counterAt ends (n + 1) (cell r key)" if "e \<noteq> None"
    using e(2,3) that assms(7) by (auto simp: counterAt_def)
  moreover have "\<exists>d. rd_ttl rd now r key = Some d \<and> d \<le> 0" if "e = None"
    using ttl [of r key "format_int (n + 1)" now] e(2) that by simp
  ultimately show ?thesis
    using assms(1,3) i e(1) by (cases e) (auto simp: incrementCounter_def Let_def)
qed

lemma counter_apart: "ad_redis (ac_deps cfg) = Some rd \<Longrightarrow> k \<noteq> key \<Longrightarrow> cell (as_redis (incrementCounter cfg now key t st)) k = cell (as_redis st) k"
  using incr_other [of k key now "as_redis st"]
  by (cases "rd_incr rd now key (as_redis st)") (simp add: incrementCounter_def expire_other Let_def split: option.split)

lemma counter_blockIP:
  assumes "ad_redis (ac_deps cfg) = Some rd" and "\<And>x. k \<noteq> ''ip_blocked:'' @ x"
  shows "cell (as_redis (blockIP cfg now ip reason st)) k = cell (as_redis st) k"
proof -
  have "cell (rd_set rd now (''ip_blocked:'' @ x) v (blockDuration cfg) r) k = cell r k" for x v r
    unfolding set [OF windows_positive(2)] by (rule fun_upd_other [OF assms(2)])
  then show ?thesis using assms(1) by (simp add: blockIP_def UpsertFirewallRule_def Let_def)
qed

text \<open>A failed login that is counted raises the counter by one, and is answered as wrong only below the maximum.\<close>

lemma recordFailedLogin_counts:
  assumes "ad_redis (ac_deps cfg) = Some rd" and "email \<noteq> []" and "emailHash cfg email \<noteq> []" and "0 \<le> n" and "n < max_int64"
    and "counterAt ends n (cell (as_redis st) (failedEmailKey cfg tn email))" and "now < ends" and "ends \<le> now + failedLoginWindow cfg"
    and "0 < ac_maxFailedLogin cfg" and "recordFailedLogin cfg now tn email sec st = (st', r)"
  shows "counterAt ends (n + 1) (cell (as_redis st') (failedEmailKey cfg tn email))
    \<and> (r = None \<longrightarrow> n + 1 < ac_maxFailedLogin cfg) \<and> (r = None \<or> r = Some ErrTooManyAttempts)"
proof -
  let ?key = "failedEmailKey cfg tn email" let ?ip = "ls_IPAddress sec" let ?w = "failedLoginWindow cfg"
  have named: "normalizeEmailForSecurity (ac_env cfg) email \<noteq> []" using assms(3) by (auto simp: emailHash_def Let_def)
  have count: "failedLoginCount cfg now tn email [] st = n" using counter_read [OF assms(1-4) _ assms(6,7)] assms(5) by simp
  have key: "?key \<noteq> []" "?key \<noteq> failedIPKey ?ip" "\<And>x. ?key \<noteq> ''ip_blocked:'' @ x"
    using email_key [OF assms(3), of tn] email_key_apart [OF assms(3)] by auto
  let ?st1 = "incrementCounter cfg now ?key ?w st"
  let ?st2 = "if trim_space ?ip \<noteq> [] then incrementCounter cfg now (failedIPKey ?ip) ?w ?st1 else ?st1"
  have "counterAt ends (n + 1) (cell (as_redis ?st1) ?key)"
    by (rule counter_incremented [OF assms(1,6) key(1) assms(7,8) windows_positive(1) assms(4,5)])
  then have two: "counterAt ends (n + 1) (cell (as_redis ?st2) ?key)"
    using counter_apart [OF assms(1) key(2)] by simp
  have "(st', r) = (if ac_maxFailedLogin cfg \<le> n + 1 \<or> ac_maxFailedLogin cfg \<le> failedLoginCount cfg now tn [] ?ip st + (if trim_space ?ip \<noteq> [] then 1 else 0)
      then (blockIP cfg now ?ip ''too_many_attempts'' ?st2, Some ErrTooManyAttempts) else (?st2, None))"
    using assms(9) assms(10) [symmetric] named count by (simp add: recordFailedLogin_def Let_def split del: if_split cong: if_cong)
  then show ?thesis using two counter_blockIP [OF assms(1) key(3)] by (auto split: if_splits)
qed

lemma rejectLogin_counts:
  assumes "ad_redis (ac_deps cfg) = Some rd" and "email \<noteq> []" and "emailHash cfg email \<noteq> []" and "0 \<le> n" and "n < max_int64"
    and "counterAt ends n (cell (as_redis st) (failedEmailKey cfg (defaultTenant cfg) email))" and "ai_now io < ends"
    and "ends \<le> ai_now io + failedLoginWindow cfg" and "0 < ac_maxFailedLogin cfg" and "rejectLogin cfg io user email sec st = (st', r)"
  shows "counterAt ends (n + 1) (cell (as_redis st') (failedEmailKey cfg (defaultTenant cfg) email))
    \<and> (r = Fail ErrInvalidCredentials \<longrightarrow> n + 1 < ac_maxFailedLogin cfg) \<and> \<not> is_ret r"
proof -
  obtain st1 e where f: "recordFailedLogin cfg (ai_now io) (defaultTenant cfg) email sec st = (st1, e)"
    by (cases "recordFailedLogin cfg (ai_now io) (defaultTenant cfg) email sec st")
  from recordFailedLogin_counts [OF assms(1-9) f] assms(10) f show ?thesis
    by (auto simp: rejectLogin_def Let_def recordLoginAttempt_def CreateLoginAttempt_def split: option.splits)
qed

end

section \<open>Logins that are not counted\<close>

text \<open>The answers to a wrong password.\<close>

definition rejection :: "authError \<Rightarrow> bool" where
  "rejection e \<longleftrightarrow> e = ErrInvalidCredentials \<or> e = ErrTooManyAttempts"

lemma recordLoginAttempt_redis [simp]: "as_redis (recordLoginAttempt cfg now tn user email result reason sec st) = as_redis st"
  by (simp add: recordLoginAttempt_def CreateLoginAttempt_def)

lemma issueTokens_redis: "yields (\<lambda>s. as_redis s = as_redis st) (issueTokensForUser cfg io u sec prov st)"
  unfolding issueTokensForUser_def Let_def by (intro yields_rules) (auto simp: CreateSession_def)

lemma issueTokens_outcome: "rejection e \<Longrightarrow> snd (issueTokensForUser cfg io u sec prov st) \<noteq> Fail e"
  by (auto simp: rejection_def issueTokensForUser_def CreateSession_def Let_def)

text \<open>The checks on a user either reject the password or leave the counters as they are.\<close>

lemma loginUser_cases:
  "loginUser cfg io email pw sec u st = rejectLogin cfg io (ge_hex (ac_env cfg) (au_ID u)) email sec st
   \<or> as_redis (fst (loginUser cfg io email pw sec u st)) = as_redis st \<and> (\<forall>e. rejection e \<longrightarrow> snd (loginUser cfg io email pw sec u st) \<noteq> Fail e)"
proof (cases "isLocked u \<or> au_Status u = UserStatusPending \<and> au_Provider u = ''local''")
  case True
  then show ?thesis by (auto simp: loginUser_def Let_def rejection_def)
next
  case False
  obtain ok old where v: "ac_verifyPassword cfg pw (au_PasswordHash u) = (ok, old)" by (cases "ac_verifyPassword cfg pw (au_PasswordHash u)")
  let ?st = "if old then st\<lparr>as_jobs := as_jobs st @ [Rehash (au_Email u) (au_TenantID u) pw]\<rparr> else st"
  have "as_redis ?st = as_redis st" by simp
  then show ?thesis
    using False v issueTokens_redis [of ?st cfg io u sec "''erg''"] issueTokens_outcome [of _ cfg io u sec "''erg''" ?st]
    by (cases "issueTokensForUser cfg io u sec ''erg'' ?st"; cases "snd (issueTokensForUser cfg io u sec ''erg'' ?st)")
      (auto simp: loginUser_def Let_def yields_def recordSuccessfulLoginAsync_def)
qed

lemma repair_outcome: "rejection e \<Longrightarrow> snd (repairConfiguredAdmin cfg io u st) \<noteq> Fail e"
  by (cases "adminUpdates (\<lambda>s. EqualFold s ''active'') u")
    (auto simp: rejection_def repairConfiguredAdmin_def UpdateUserIdentityFields_def UpdateUserRoles_def updateUsers_def Let_def split: if_splits)

lemma precheck_error: "precheckLoginSecurity cfg now tn email sec st = (st', Some (reason, e)) \<Longrightarrow> e \<noteq> ErrInvalidCredentials"
  by (auto simp: precheckLoginSecurity_def Let_def split: if_splits)

text \<open>A login is refused before the password, or rejected, or leaves the counters as they are.\<close>

lemma Login_cases:
  fixes cfg io email sec st
  defines "tn \<equiv> defaultTenant cfg" and "e \<equiv> loginAddress cfg email" and "s \<equiv> normalizeSecurityContext cfg sec"
  obtains (refused) reason err where "fst (Login cfg io email pw sec st) = recordLoginAttempt cfg (ai_now io) tn [] e LoginAttemptBlocked reason s
        (fst (precheckLoginSecurity cfg (ai_now io) tn e s st))" "snd (Login cfg io email pw sec st) = Fail err" "err \<noteq> ErrInvalidCredentials"
        "snd (precheckLoginSecurity cfg (ai_now io) tn e s st) = Some (reason, err)"
  | (rejected) user st1 where "precheckLoginSecurity cfg (ai_now io) tn e s st = (st, None)" "sameTables st st1"
        "Login cfg io email pw sec st = rejectLogin cfg io user e s st1"
  | (other) "precheckLoginSecurity cfg (ai_now io) tn e s st = (st, None)" "as_redis (fst (Login cfg io email pw sec st)) = as_redis st"
        "\<forall>e. rejection e \<longrightarrow> snd (Login cfg io email pw sec st) \<noteq> Fail e"
proof (cases "snd (precheckLoginSecurity cfg (ai_now io) tn e s st)")
  case (Some re)
  then obtain reason err st1 where p: "precheckLoginSecurity cfg (ai_now io) tn e s st = (st1, Some (reason, err))"
    by (cases "precheckLoginSecurity cfg (ai_now io) tn e s st"; cases re) auto
  then show ?thesis
    using precheck_error [OF p] refused [of reason err] by (simp add: Login_def Let_def tn_def e_def s_def loginAddress_def)
next
  case None
  then have p: "precheckLoginSecurity cfg (ai_now io) tn e s st = (st, None)"
    by (cases "precheckLoginSecurity cfg (ai_now io) tn e s st") (use precheck_admits in auto)
  show ?thesis
  proof (cases "FindUserByEmail (ac_deps cfg) e tn st")
    case (Ret u)
    with p have l: "Login cfg io email pw sec st = then_do (repairConfiguredAdmin cfg io u st) (\<lambda>st u. loginUser cfg io e pw s u st)"
      by (simp add: Login_def Let_def tn_def e_def s_def loginAddress_def)
    obtain st1 o1 where r: "repairConfiguredAdmin cfg io u st = (st1, o1)" by (cases "repairConfiguredAdmin cfg io u st")
    have same: "sameTables st st1" using repair_tables [of st cfg io u] r by (simp add: yields_def)
    show ?thesis
    proof (cases o1)
      case (Ret u')
      with l r loginUser_cases [of cfg io e pw s u' st1] rejected [OF p same] other [OF p] same
      show ?thesis by (auto simp: sameTables_def)
    qed (use l r other [OF p] same repair_outcome [of _ cfg io u st] in \<open>auto simp: sameTables_def\<close>)
  qed (use p rejected [OF p, of st "[]"] in \<open>auto simp: Login_def Let_def tn_def e_def s_def loginAddress_def\<close>)
qed

context redis_store
begin

lemma precheck_counter:
  assumes "ad_redis (ac_deps cfg) = Some rd" and "emailHash cfg email \<noteq> []"
  shows "cell (as_redis (fst (precheckLoginSecurity cfg now tn email' sec st))) (failedEmailKey cfg tn email) = cell (as_redis st) (failedEmailKey cfg tn email)"
proof -
  have "failedEmailKey cfg tn email \<noteq> ''ip_blocked:'' @ x" for x using email_key_apart [OF assms(2)] by blast
  from counter_blockIP [OF assms(1) this] show ?thesis by (simp add: precheckLoginSecurity_def Let_def)
qed

lemma Login_counts:
  fixes cfg email
  defines "e \<equiv> loginAddress cfg email" and "key \<equiv> failedEmailKey cfg (defaultTenant cfg) (loginAddress cfg email)"
  assumes "ad_redis (ac_deps cfg) = Some rd" and "e \<noteq> []" and "emailHash cfg e \<noteq> []" and "0 \<le> n" and "n \<le> ac_maxFailedLogin cfg"
    and "0 < ac_maxFailedLogin cfg" and "ac_maxFailedLogin cfg \<le> max_int64" and "counterAt ends n (cell (as_redis st) key)"
    and "ai_now io < ends" and "ends \<le> ai_now io + failedLoginWindow cfg" and "Login cfg io email pw sec st = (st', r)"
  shows "\<exists>m \<ge> n. m \<le> ac_maxFailedLogin cfg \<and> counterAt ends m (cell (as_redis st') key)
    \<and> (r = Fail ErrInvalidCredentials \<longrightarrow> n < m \<and> m < ac_maxFailedLogin cfg)"
proof -
  let ?s = "normalizeSecurityContext cfg sec" let ?tn = "defaultTenant cfg" let ?most = "ac_maxFailedLogin cfg"
  have below: "n < ?most" if "precheckLoginSecurity cfg (ai_now io) ?tn e ?s st = (st, None)"
    using that counter_read [OF assms(3-6), of ends st ?tn "ai_now io"] assms(7-11)
    by (auto simp: precheckLoginSecurity_def Let_def key_def e_def split: if_splits)
  show ?thesis
  proof (cases rule: Login_cases [of cfg io email pw sec st])
    case (refused reason err)
    then have "cell (as_redis st') key = cell (as_redis st) key" "r = Fail err"
      using precheck_counter [OF assms(3,5)] assms(13) by (simp_all add: key_def e_def)
    with refused assms(7,10) show ?thesis by (intro exI [of _ n]) simp
  next
    case (rejected user st1)
    then have n: "n < ?most" using below by (simp add: e_def)
    have "counterAt ends n (cell (as_redis st1) key)" using rejected(2) assms(10) by (simp add: sameTables_def)
    then have "counterAt ends (n + 1) (cell (as_redis st') key) \<and> (r = Fail ErrInvalidCredentials \<longrightarrow> n + 1 < ?most) \<and> \<not> is_ret r"
      using rejectLogin_counts [OF assms(3-6) _ _ assms(11,12,8), of st1 user ?s st' r] rejected(3) assms(9,13) n by (simp add: e_def key_def)
    with n show ?thesis by (intro exI [of _ "n + 1"]) auto
  next
    case other
    with assms(7,10,13) show ?thesis by (intro exI [of _ n]) (auto simp: rejection_def)
  qed
qed

end

section \<open>How many passwords can be tried\<close>

text \<open>The answers of a sequence of logins for one address.\<close>

fun loginAnswers :: "'r authcfg \<Rightarrow> string \<Rightarrow> (authio \<times> string \<times> loginSecurityContext) list \<Rightarrow> 'r authState \<Rightarrow> authResponse ares list" where
  "loginAnswers cfg email [] st = []"
| "loginAnswers cfg email ((io, pw, sec) # xs) st =
     (case Login cfg io email pw sec st of (st', r) \<Rightarrow> r # loginAnswers cfg email xs st')"

definition wrongPasswords :: "authResponse ares list \<Rightarrow> int" where
  "wrongPasswords rs = int (length (filter (\<lambda>r. r = Fail ErrInvalidCredentials) rs))"

context redis_store
begin

lemma answers_bounded:
  assumes "ad_redis (ac_deps cfg) = Some rd" and "loginAddress cfg email \<noteq> []" and "emailHash cfg (loginAddress cfg email) \<noteq> []"
    and "0 < ac_maxFailedLogin cfg" and "ac_maxFailedLogin cfg \<le> max_int64"
    and "list_all (\<lambda>(io, _). start \<le> ai_now io \<and> ai_now io < start + failedLoginWindow cfg) xs"
    and "counterAt (start + failedLoginWindow cfg) n (cell (as_redis st) (failedEmailKey cfg (defaultTenant cfg) (loginAddress cfg email)))"
    and "0 \<le> n" and "n \<le> ac_maxFailedLogin cfg"
  shows "wrongPasswords (loginAnswers cfg email xs st) = 0 \<or> n + wrongPasswords (loginAnswers cfg email xs st) < ac_maxFailedLogin cfg"
  using assms(6-9)
proof (induction xs arbitrary: st n)
  case (Cons x xs)
  obtain io pw sec where x: "x = (io, pw, sec)" by (cases x)
  obtain st' r where l: "Login cfg io email pw sec st = (st', r)" by (cases "Login cfg io email pw sec st")
  have time: "ai_now io < start + failedLoginWindow cfg" "start + failedLoginWindow cfg \<le> ai_now io + failedLoginWindow cfg"
    using Cons.prems(1) x by auto
  obtain m where m: "n \<le> m" "m \<le> ac_maxFailedLogin cfg" "r = Fail ErrInvalidCredentials \<longrightarrow> n < m \<and> m < ac_maxFailedLogin cfg"
    and c: "counterAt (start + failedLoginWindow cfg) m (cell (as_redis st') (failedEmailKey cfg (defaultTenant cfg) (loginAddress cfg email)))"
    using Login_counts [OF assms(1-3) Cons.prems(3,4) assms(4,5) Cons.prems(2) time l] by blast
  have "wrongPasswords (loginAnswers cfg email xs st') = 0 \<or> m + wrongPasswords (loginAnswers cfg email xs st') < ac_maxFailedLogin cfg"
    using Cons.IH [OF _ c] Cons.prems(1,3) m(1,2) by simp
  then show ?case
    using m l by (cases "r = Fail ErrInvalidCredentials") (auto simp: x wrongPasswords_def)
qed (simp add: wrongPasswords_def)

end

text \<open>
  C20. With Redis, fewer passwords than the configured maximum are answered as wrong for an address in one
  window, however many logins for it follow one another, from however many origins and with whatever
  passwords. The counter starts empty, and no goroutine of a successful login, which resets it, runs in
  the window.
\<close>

theorem password_guesses_bounded:
  assumes "redis_ok rd cell" and "ad_redis (ac_deps cfg) = Some rd" and "0 < ac_maxFailedLogin cfg" and "ac_maxFailedLogin cfg \<le> max_int64"
    and "loginAddress cfg email \<noteq> []" and "emailHash cfg (loginAddress cfg email) \<noteq> []"
    and "cell (as_redis st) (failedEmailKey cfg (defaultTenant cfg) (loginAddress cfg email)) = None"
    and "list_all (\<lambda>(io, _). start \<le> ai_now io \<and> ai_now io < start + failedLoginWindow cfg) xs"
  shows "wrongPasswords (loginAnswers cfg email xs st) < ac_maxFailedLogin cfg"
  using redis_store.answers_bounded [OF assms(1) [unfolded redis_ok_def] assms(2,5,6,3,4,8), of 0 st] assms(3,7)
  by (auto simp: counterAt_def)

text \<open>The witness: seven wrong passwords for the sample user.\<close>

definition sevenGuesses :: "(authio \<times> string \<times> loginSecurityContext) list" where
  "sevenGuesses = replicate 7 (atTime 1 [] [], ''bad'', noSecurity)"

theorem password_guesses_bounded_witness:
  "wrongPasswords (loginAnswers sampleAuth ''an@x'' sevenGuesses oneUser) < ac_maxFailedLogin sampleAuth"
proof (rule password_guesses_bounded [OF mapRedis_ok, where start = nanos])
  show "loginAddress sampleAuth ''an@x'' \<noteq> []" unfolding loginAddress_def by code_simp
  show "emailHash sampleAuth (loginAddress sampleAuth ''an@x'') \<noteq> []" unfolding loginAddress_def by code_simp
  show "list_all (\<lambda>(io, _). nanos \<le> ai_now io \<and> ai_now io < nanos + failedLoginWindow sampleAuth) sevenGuesses"
    using windows_positive(1) [of sampleAuth] by (simp add: sevenGuesses_def list_all_iff)
qed (simp_all add: sampleAuth_def oneUser_def emptyAuth_def max_int64_def)

section \<open>Lockout\<close>

lemma blockIP_tables [simp]:
  "as_sessions (blockIP cfg now ip reason st) = as_sessions st" "as_users (blockIP cfg now ip reason st) = as_users st"
  by (simp_all add: blockIP_def UpsertFirewallRule_def Let_def split: option.split)

lemma recordLoginAttempt_tables [simp]:
  "as_sessions (recordLoginAttempt cfg now tn user email result reason sec st) = as_sessions st"
  "as_users (recordLoginAttempt cfg now tn user email result reason sec st) = as_users st"
  "as_firewall (recordLoginAttempt cfg now tn user email result reason sec st) = as_firewall st"
  by (simp_all add: recordLoginAttempt_def CreateLoginAttempt_def)

text \<open>An address is blocked once \<open>blockIP\<close> was called with it.\<close>

definition blockable :: "'r authcfg \<Rightarrow> string \<Rightarrow> bool" where
  "blockable cfg ip \<longleftrightarrow> trim_space ip \<noteq> [] \<and> (EqualFold (ac_appEnv cfg) ''production'' \<or> \<not> isPrivateOrLoopbackIP cfg (trim_space ip))"

lemma trim_twice [simp]: "trim_space (trim_space s) = trim_space s"
  by (simp add: trim_space_def trim_with_idem)

lemma blockIP_blocks:
  assumes "blockable cfg ip" and "as_firewall st' = as_firewall (blockIP cfg now ip reason st)"
  shows "isIPBlocked cfg now ip st'"
proof -
  have "trim_space FirewallRuleTypeBlock = FirewallRuleTypeBlock" "FirewallRuleTypeBlock \<noteq> []" by code_simp+
  then show ?thesis
    using assms windows_positive(2) [of cfg]
    by (auto simp: isIPBlocked_def blockable_def IsFirewallRuleActive_def blockIP_def UpsertFirewallRule_def blockRule_def
        activeFirewallRule_def Let_def split: option.splits)
qed

lemma precheck_locked:
  assumes "0 < ac_maxFailedLogin cfg" and "ac_maxFailedLogin cfg \<le> failedLoginCount cfg now tn email [] st"
  shows "\<exists>reason err. snd (precheckLoginSecurity cfg now tn email sec st) = Some (reason, err)
    \<and> (err = ErrTooManyAttempts \<or> err = ErrIPBlocked \<or> err = ErrGeoBlocked)
    \<and> (fst (precheckLoginSecurity cfg now tn email sec st) = st \<and> isIPBlocked cfg now (ls_IPAddress sec) st
       \<or> fst (precheckLoginSecurity cfg now tn email sec st) = blockIP cfg now (ls_IPAddress sec) reason st)"
  using assms
  by (cases "ls_IPAddress sec \<noteq> [] \<and> isIPBlocked cfg now (ls_IPAddress sec) st";
      cases "shouldBlockByGeo cfg sec \<and> \<not> isIPAllowlisted cfg now (ls_IPAddress sec) st")
    (simp_all add: precheckLoginSecurity_def Let_def)

text \<open>
  Once the failed logins of an address have reached the maximum every login for it is refused, with the
  right password too: no session is opened, no user changed, and the address the login came from is blocked.
\<close>

lemma lockout:
  assumes "0 < ac_maxFailedLogin cfg" 
    and "ac_maxFailedLogin cfg \<le> failedLoginCount cfg (ai_now io) (defaultTenant cfg) (loginAddress cfg email) [] st"
    and "Login cfg io email pw sec st = (st', r)"
  shows "(r = Fail ErrTooManyAttempts \<or> r = Fail ErrIPBlocked \<or> r = Fail ErrGeoBlocked)
    \<and> as_sessions st' = as_sessions st \<and> as_users st' = as_users st
    \<and> (blockable cfg (ls_IPAddress (normalizeSecurityContext cfg sec))
        \<longrightarrow> isIPBlocked cfg (ai_now io) (ls_IPAddress (normalizeSecurityContext cfg sec)) st')"
proof -
  let ?s = "normalizeSecurityContext cfg sec" let ?tn = "defaultTenant cfg" let ?e = "loginAddress cfg email"
  let ?p = "precheckLoginSecurity cfg (ai_now io) ?tn ?e ?s st"
  obtain reason err where refused: "snd ?p = Some (reason, err)" and err: "err = ErrTooManyAttempts \<or> err = ErrIPBlocked \<or> err = ErrGeoBlocked"
    and st1: "fst ?p = st \<and> isIPBlocked cfg (ai_now io) (ls_IPAddress ?s) st \<or> fst ?p = blockIP cfg (ai_now io) (ls_IPAddress ?s) reason st"
    using precheck_locked [OF assms(1,2)] by blast
  have st': "st' = recordLoginAttempt cfg (ai_now io) ?tn [] ?e LoginAttemptBlocked reason ?s (fst ?p)" "r = Fail err"
    using assms(3) refused by (cases ?p; auto simp: Login_def Let_def loginAddress_def)+
  have fw: "as_firewall st' = as_firewall (fst ?p)" using st'(1) by simp
  have "isIPBlocked cfg (ai_now io) (ls_IPAddress ?s) st'" if "blockable cfg (ls_IPAddress ?s)"
    using st1
  proof
    assume "fst ?p = st \<and> isIPBlocked cfg (ai_now io) (ls_IPAddress ?s) st"
    with fw show ?thesis by (auto simp: isIPBlocked_def IsFirewallRuleActive_def Let_def split: if_splits)
  next
    assume "fst ?p = blockIP cfg (ai_now io) (ls_IPAddress ?s) reason st"
    with fw blockIP_blocks [OF that] show ?thesis by simp
  qed
  with st' err st1 show ?thesis by auto
qed

section \<open>Without Redis\<close>

text \<open>Attempts that were blocked are not counted.\<close>

lemma failedLoginCount_blocked:
  assumes "ad_redis (ac_deps cfg) = None" and "as_attempts st' = as_attempts st @ [a]" and "la_Result a = LoginAttemptBlocked"
  shows "failedLoginCount cfg now tn email ip st' = failedLoginCount cfg now tn email ip st"
proof -
  have r: "la_Result a \<noteq> LoginAttemptSuccess" "la_Result a \<noteq> LoginAttemptFailed"
    using assms(3) by (simp_all add: LoginAttemptBlocked_def LoginAttemptSuccess_def LoginAttemptFailed_def)
  have "latestSuccessfulLoginAt p st' = latestSuccessfulLoginAt p st" for p
    using assms(2) r by (simp add: latestSuccessfulLoginAt_def)
  then have "CountFailedLoginAttempts p st' = CountFailedLoginAttempts p st" if "\<not> fc_IncludeBlocked p" for p
    using assms(2) r that by (simp add: CountFailedLoginAttempts_def)
  then show ?thesis using assms(1) by (simp add: failedLoginCount_def cachedFailedLoginCount_def Let_def)
qed

lemma rejectLogin_threshold:
  assumes "ad_redis (ac_deps cfg) = None" and "rejectLogin cfg io user email sec st = (st', Fail ErrTooManyAttempts)"
  shows "\<exists>a. as_attempts st' = as_attempts st @ [a] \<and> la_Result a = LoginAttemptBlocked"
    and "as_firewall st' = as_firewall (blockIP cfg (ai_now io) (ls_IPAddress sec) ''too_many_attempts'' st)"
proof -
  have "\<exists>a. st' = (blockIP cfg (ai_now io) (ls_IPAddress sec) ''too_many_attempts'' st)\<lparr>as_attempts := as_attempts st @ [a]\<rparr>
      \<and> la_Result a = LoginAttemptBlocked"
    using assms
    by (auto simp: rejectLogin_def recordFailedLogin_def incrementCounter_def recordLoginAttempt_def CreateLoginAttempt_def blockIP_def
        UpsertFirewallRule_def Let_def split: if_splits)
  then show "\<exists>a. as_attempts st' = as_attempts st @ [a] \<and> la_Result a = LoginAttemptBlocked"
    and "as_firewall st' = as_firewall (blockIP cfg (ai_now io) (ls_IPAddress sec) ''too_many_attempts'' st)"
    by auto
qed

text \<open>Blocking an address changes nothing for another.\<close>

lemma blockIP_others:
  assumes "as_firewall st' = as_firewall (blockIP cfg now ip reason st)" and "trim_space ip' \<noteq> trim_space ip"
  shows "isIPBlocked cfg now ip' st' = isIPBlocked cfg now ip' st" and "isIPAllowlisted cfg now' ip' st' = isIPAllowlisted cfg now' ip' st"
proof -
  let ?f = "\<lambda>r. if ruleKey FirewallRuleTypeBlock (trim_space ip) r then r\<lparr>fr_Active := False, fr_RevokedAt := Some now, fr_UpdatedAt := now\<rparr> else r"
  have ty: "trim_space FirewallRuleTypeBlock = FirewallRuleTypeBlock" "trim_space FirewallRuleTypeAllowlist = FirewallRuleTypeAllowlist"
    "FirewallRuleTypeBlock \<noteq> FirewallRuleTypeAllowlist" "FirewallRuleTypeAllowlist \<noteq> []"
    by code_simp+
  obtain new where fw: "as_firewall st' = as_firewall st \<or> as_firewall st' = map ?f (as_firewall st) @ [new]"
    and new: "fr_Entry new = trim_space ip" "fr_RuleType new = FirewallRuleTypeBlock"
  proof (cases "trim_space ip = [] \<or> FirewallRuleTypeBlock = []")
    case True
    with assms(1) that [of "blockRule cfg now ip reason"] show thesis
      by (simp add: blockIP_def blockRule_def UpsertFirewallRule_def ty Let_def split: option.splits)
  next
    case False
    with assms(1) that [of "(blockRule cfg now ip reason)\<lparr>fr_Active := True, fr_Source := trim_space ''auth'', fr_CreatedBy := trim_space []\<rparr>"] show thesis
      by (simp add: blockIP_def blockRule_def UpsertFirewallRule_def ty Let_def split: option.splits)
  qed
  have "IsFirewallRuleActive now FirewallRuleTypeBlock ip' st' = IsFirewallRuleActive now FirewallRuleTypeBlock ip' st"
    using fw new assms(2) by (auto simp: IsFirewallRuleActive_def list_ex_iff activeFirewallRule_def ruleKey_def)
  then show "isIPBlocked cfg now ip' st' = isIPBlocked cfg now ip' st"
    by (simp add: isIPBlocked_def Let_def) (simp add: IsFirewallRuleActive_def)
  have "filter (activeFirewallRule now' FirewallRuleTypeAllowlist) (map ?f rs) = filter (activeFirewallRule now' FirewallRuleTypeAllowlist) rs" for rs
    using ty by (induction rs) (auto simp: activeFirewallRule_def ruleKey_def)
  moreover have "\<not> activeFirewallRule now' FirewallRuleTypeAllowlist new" using new(2) ty by (simp add: activeFirewallRule_def)
  ultimately have "filter (activeFirewallRule now' FirewallRuleTypeAllowlist) (as_firewall st') = filter (activeFirewallRule now' FirewallRuleTypeAllowlist) (as_firewall st)"
    using fw by auto
  then show "isIPAllowlisted cfg now' ip' st' = isIPAllowlisted cfg now' ip' st"
    by (simp add: isIPAllowlisted_def ListActiveFirewallRules_def ty Let_def)
qed

lemma precheck_passes:
  "precheckLoginSecurity cfg now tn email sec st = (st, None) \<longleftrightarrow>
     (ls_IPAddress sec = [] \<or> \<not> isIPBlocked cfg now (ls_IPAddress sec) st)
     \<and> (shouldBlockByGeo cfg sec \<longrightarrow> isIPAllowlisted cfg now (ls_IPAddress sec) st)
     \<and> (0 < ac_maxFailedLogin cfg \<longrightarrow> failedLoginCount cfg now tn email [] st < ac_maxFailedLogin cfg
          \<and> failedLoginCount cfg now tn [] (ls_IPAddress sec) st < ac_maxFailedLogin cfg)"
  unfolding precheckLoginSecurity_def Let_def by (auto split: if_split_asm)

text \<open>
  C21. Without Redis the wrong password that reaches the maximum is recorded as blocked, which is not counted:
  the count of the address stays below the maximum, and a login for it from another origin that passed before
  passes again. Only the origin is blocked, so that guesses from many origins are never stopped.
\<close>

theorem threshold_attempt_uncounted:
  fixes cfg email secA secB
  defines "tn \<equiv> defaultTenant cfg" and "e \<equiv> loginAddress cfg email" and "a \<equiv> normalizeSecurityContext cfg secA" and "b \<equiv> normalizeSecurityContext cfg secB"
  assumes "ad_redis (ac_deps cfg) = None" and "precheckLoginSecurity cfg (ai_now io) tn e a st = (st, None)"
    and "Login cfg io email pw secA st = (st', Fail ErrTooManyAttempts)" and "trim_space (ls_IPAddress b) \<noteq> trim_space (ls_IPAddress a)"
    and "precheckLoginSecurity cfg (ai_now io) tn e b st = (st, None)"
  shows "failedLoginCount cfg now tn e [] st' = failedLoginCount cfg now tn e [] st
    \<and> precheckLoginSecurity cfg (ai_now io) tn e b st' = (st', None)"
proof -
  have "\<exists>user st1. sameTables st st1 \<and> rejectLogin cfg io user e a st1 = (st', Fail ErrTooManyAttempts :: authResponse ares)"
    using assms(6,7) by (cases rule: Login_cases [of cfg io email pw secA st]) (auto simp: tn_def e_def a_def rejection_def)
  then obtain user st1 where same: "sameTables st st1" and r: "rejectLogin cfg io user e a st1 = (st', Fail ErrTooManyAttempts :: authResponse ares)"
    by blast
  from rejectLogin_threshold(1) [OF assms(5) r] obtain la where la: "as_attempts st' = as_attempts st @ [la]" "la_Result la = LoginAttemptBlocked"
    using same by (auto simp: sameTables_def)
  have fw: "as_firewall st' = as_firewall (blockIP cfg (ai_now io) (ls_IPAddress a) ''too_many_attempts'' st)"
    using rejectLogin_threshold(2) [OF assms(5) r] same by (simp add: blockIP_def UpsertFirewallRule_def sameTables_def assms(5) Let_def)
  note counts = failedLoginCount_blocked [OF assms(5) la]
  show ?thesis
    using assms(9) counts blockIP_others [OF fw assms(8)] by (simp add: precheck_passes)
qed

text \<open>The witness: four failed logins were recorded; the fifth comes from one address, the next from another.\<close>

definition withoutRedis :: "redisMap authcfg" where
  "withoutRedis = sampleAuth\<lparr>ac_deps := (ac_deps sampleAuth)\<lparr>ad_redis := None\<rparr>\<rparr>"

definition failedOnce :: loginAttempt where
  "failedOnce = \<lparr>la_TenantID = ''default'', la_UserID = [], la_AttemptedEmail = ''an@x'', la_AttemptedEmailHash = ''#an@x'', la_IPAddress = ''10.3.3.3'',
     la_CountryCode = [], la_CountryName = [], la_ContinentCode = [], la_UserAgent = [], la_DeviceID = [], la_DeviceName = [],
     la_Result = LoginAttemptFailed, la_Reason = ''invalid_credentials'', la_CreatedAt = 0\<rparr>"

definition failedFour :: "redisMap authState" where
  "failedFour = oneUser\<lparr>as_attempts := replicate 4 failedOnce\<rparr>"

definition fromHome :: loginSecurityContext where
  "fromHome = noSecurity\<lparr>ls_IPAddress := ''10.1.1.1''\<rparr>"

lemma withoutRedis_simps:
  "ad_redis (ac_deps withoutRedis) = None" "ac_failedLoginWindow withoutRedis = 0" "ac_blockDuration withoutRedis = 0"
  "ac_geoBlockEnabled withoutRedis = False" "ac_maxFailedLogin withoutRedis = 5"
  by (simp_all add: withoutRedis_def sampleAuth_def)

lemma failedFour_tables: "as_attempts failedFour = [failedOnce, failedOnce, failedOnce, failedOnce]" "as_firewall failedFour = []"
  by (simp_all add: failedFour_def numeral_eq_Suc oneUser_def emptyAuth_def)

lemma failedFour_counts:
  "failedLoginCount withoutRedis nanos ''default'' ''an@x'' [] failedFour = 4"
  "failedLoginCount withoutRedis nanos ''default'' [] ''10.1.1.1'' failedFour = 0"
  "failedLoginCount withoutRedis nanos ''default'' [] [] failedFour = 0"
proof -
  have hash: "emailHash withoutRedis ''an@x'' = ''#an@x''" by code_simp
  have trims: "trim_space [] = []" "trim_space ''#an@x'' = ''#an@x''" "trim_space ''10.1.1.1'' = ''10.1.1.1''" by code_simp+
  note defs = failedLoginCount_def cachedFailedLoginCount_def CountFailedLoginAttempts_def latestSuccessfulLoginAt_def failedLoginWindow_def
    minutes15_def hash trims withoutRedis_simps failedFour_tables attemptSelected_def failedOnce_def LoginAttemptFailed_def LoginAttemptSuccess_def
  show "failedLoginCount withoutRedis nanos ''default'' ''an@x'' [] failedFour = 4" by (simp add: defs)
  show "failedLoginCount withoutRedis nanos ''default'' [] ''10.1.1.1'' failedFour = 0" by (simp add: defs)
  show "failedLoginCount withoutRedis nanos ''default'' [] [] failedFour = 0" by (simp add: defs)
qed

theorem threshold_attempt_uncounted_witness:
  "failedLoginCount withoutRedis nanos ''default'' ''an@x'' [] (fst (Login withoutRedis (atTime 1 [] []) ''an@x'' ''bad'' fromHome failedFour)) = 4
   \<and> precheckLoginSecurity withoutRedis nanos ''default'' ''an@x'' noSecurity
       (fst (Login withoutRedis (atTime 1 [] []) ''an@x'' ''bad'' fromHome failedFour))
     = (fst (Login withoutRedis (atTime 1 [] []) ''an@x'' ''bad'' fromHome failedFour), None)"
proof -
  let ?io = "atTime 1 [] []"
  let ?r = "Login withoutRedis ?io ''an@x'' ''bad'' fromHome failedFour"
  have e: "canonicalLoginEmail (ac_env withoutRedis) (trim_space ''an@x'') = ''an@x''" by code_simp
  have tn: "defaultTenant withoutRedis = ''default''" by code_simp
  have secs: "normalizeSecurityContext withoutRedis fromHome = fromHome" "normalizeSecurityContext withoutRedis noSecurity = noSecurity" by code_simp+
  have ips: "ls_IPAddress fromHome = ''10.1.1.1''" "ls_IPAddress noSecurity = []" by (simp_all add: fromHome_def noSecurity_def)
  have pre: "precheckLoginSecurity withoutRedis nanos ''default'' ''an@x'' sec failedFour = (failedFour, None)"
    if "sec = noSecurity \<or> sec = fromHome" for sec
    using that failedFour_counts
    by (auto simp: precheck_passes ips withoutRedis_simps shouldBlockByGeo_def isIPBlocked_def IsFirewallRuleActive_def failedFour_tables Let_def)
  have u: "FindUserByEmail (ac_deps withoutRedis) ''an@x'' ''default'' failedFour = Ret sampleUser" by code_simp
  have rep: "repairConfiguredAdmin withoutRedis ?io sampleUser failedFour = (failedFour, Ret sampleUser)"
  proof -
    have "\<not> isConfiguredAdminEmail withoutRedis (au_Email sampleUser)" by code_simp
    then show ?thesis by (simp add: repairConfiguredAdmin_def)
  qed
  have bad: "\<not> isLocked sampleUser" "au_Status sampleUser \<noteq> UserStatusPending" "ac_verifyPassword withoutRedis ''bad'' (au_PasswordHash sampleUser) = (False, False)"
    by code_simp+
  have named: "normalizeEmailForSecurity (ac_env withoutRedis) ''an@x'' \<noteq> []" by code_simp
  have "snd (recordFailedLogin withoutRedis nanos ''default'' ''an@x'' fromHome failedFour) = Some ErrTooManyAttempts"
    using named failedFour_counts(1) by (simp add: recordFailedLogin_def withoutRedis_simps Let_def)
  then have "snd (rejectLogin withoutRedis ?io user ''an@x'' fromHome failedFour) = (Fail ErrTooManyAttempts :: authResponse ares)" for user
    by (auto simp: rejectLogin_def tn Let_def split: prod.splits option.splits)
  then have "snd ?r = Fail ErrTooManyAttempts"
    using pre [of fromHome] u rep bad by (simp add: Login_def loginUser_def e tn secs Let_def)
  then have r: "?r = (fst ?r, Fail ErrTooManyAttempts)" by (metis prod.collapse)
  have "trim_space (ls_IPAddress noSecurity) \<noteq> trim_space (ls_IPAddress fromHome)" unfolding ips by code_simp
  from threshold_attempt_uncounted [where cfg = withoutRedis and email = "''an@x''" and st = failedFour and now = nanos and io = ?io and secA = fromHome and secB = noSecurity, unfolded loginAddress_def e tn secs,
      OF withoutRedis_simps(1) _ r this] pre failedFour_counts(1)
  show ?thesis by simp
qed

end
