(* ===== verification/AuthAdmin.thy ===== *)
theory AuthAdmin
  imports AuthLogin
begin

text \<open>
  The administrator's address: a login repairs the account of the address before the checks on the
  account, so that whoever registers the address first becomes an administrator.
\<close>

section \<open>Repairing an administrator\<close>

lemma set_uniqueNames: "set (uniqueNames xs) = set xs - {[]}"
  by (simp add: uniqueNames_def set_uniqueLoop)

lemma admin_grants: "''admin'' \<in> set roles \<Longrightarrow> grantsAllPermissions roles"
proof -
  have "EqualFold ''admin'' ''admin''" by code_simp
  then show "''admin'' \<in> set roles \<Longrightarrow> grantsAllPermissions roles" by (auto simp: grantsAllPermissions_def list_ex_iff)
qed

lemma ensureAdminRoles_admin: "''admin'' \<in> set (ensureAdminRoles roles)"
  by (simp add: ensureAdminRoles_def set_uniqueNames adminRoleNames_def Let_def)

lemma sameStringSet_mem: "sameStringSet a b \<Longrightarrow> x \<in> set b \<Longrightarrow> x \<noteq> [] \<Longrightarrow> x \<in> set a"
  by (auto simp: sameStringSet_def list_all_iff set_uniqueNames Let_def)

text \<open>The repair succeeds for a user of the table: its account is active then, and has every permission.\<close>

lemma repair_admin:
  assumes "isConfiguredAdminEmail cfg (au_Email u)" and "u \<in> set (as_users st)" and "au_Status u = UserStatusPending"
  shows "\<exists>st' u'. repairConfiguredAdmin cfg io u st = (st', Ret u') \<and> au_Status u' = UserStatusActive
    \<and> grantsAllPermissions (au_Roles u')"
proof -
  let ?up = "adminUpdates (\<lambda>s. EqualFold s ''active'') u" let ?roles = "ensureAdminRoles (au_Roles u)"
  have "\<not> EqualFold UserStatusPending ''active''" by code_simp
  then obtain f where f: "?up = Some f" and act: "au_Status (f u) = UserStatusActive" and roles: "au_Roles (f u) = au_Roles u"
    using assms(3) by (simp add: adminUpdates_def Let_def)
  have ids: "au_ID (f r) = au_ID r" for r using adminUpdates_keeps [OF f] by (simp add: userIdentity_def)
  let ?st = "st\<lparr>as_users := map (\<lambda>r. if au_ID r = au_ID u then (f r)\<lparr>au_UpdatedAt := ai_now io\<rparr> else r) (as_users st)\<rparr>"
  have "list_ex (\<lambda>r. au_ID r = au_ID u) (as_users st)" using assms(2) by (auto simp: list_ex_iff)
  then have one: "UpdateUserIdentityFields (ai_now io) (au_ID u) ?up st = (?st, Ret ())"
    by (simp add: UpdateUserIdentityFields_def updateUsers_def f)
  have "(f u)\<lparr>au_UpdatedAt := ai_now io\<rparr> \<in> set (as_users ?st)" using assms(2) by (auto intro!: image_eqI [where x = u])
  then have "list_ex (\<lambda>r. au_ID r = au_ID u) (as_users ?st)" unfolding list_ex_iff by (rule bexI [rotated]) (simp add: ids)
  then obtain st' where two: "UpdateUserRoles (ac_deps cfg) (au_ID u) ?roles ?st = (st', Ret ())"
    by (simp add: UpdateUserRoles_def updateUsers_def)
  have same: "grantsAllPermissions (au_Roles u)" if "sameStringSet (au_Roles u) ?roles"
    by (rule admin_grants) (use sameStringSet_mem [OF that ensureAdminRoles_admin] in simp)
  show ?thesis
  proof (cases "sameStringSet (au_Roles u) ?roles")
    case True
    with assms(1) one f act roles same show ?thesis by (simp add: repairConfiguredAdmin_def Let_def)
  next
    case False
    with assms(1) one two f act show ?thesis
      by (simp add: repairConfiguredAdmin_def Let_def admin_grants ensureAdminRoles_admin)
  qed
qed

section \<open>Who registers the address\<close>

lemma Register_user:
  assumes "Register cfg io email pw fullName st = (st', Ret ())"
  shows "\<exists>u h. FindUserByEmail (ac_deps cfg) email (defaultTenant cfg) st' = Ret u \<and> ac_hashPassword cfg (ai_salt io) pw = Some h
    \<and> au_PasswordHash u = h \<and> au_Status u = UserStatusPending \<and> au_Provider u = ''local'' \<and> u \<in> set (as_users st')
    \<and> au_Email u = normalizeEmail (ac_env cfg) email \<and> au_TenantID u = defaultTenant cfg \<and> as_sessions st' = as_sessions st"
proof -
  let ?k = "userKey (ac_env cfg) email (defaultTenant cfg)"
  obtain h where h: "ac_hashPassword cfg (ai_salt io) pw = Some h" and new: "\<not> is_ret (FindUserByEmail (ac_deps cfg) email (defaultTenant cfg) st)"
    using assms by (auto simp: Register_def hashPassword_def Let_def split: if_splits option.splits)
  let ?u = "newAuthUserRecord (ac_deps cfg) (ai_fresh io) (ai_now io) (newUser email h fullName (defaultTenant cfg))"
  have st': "as_users st' = as_users st @ [?u]" "as_sessions st' = as_sessions st"
    using assms h new by (auto simp: Register_def hashPassword_def CreateUser_def CreatePin_def Let_def split: if_splits)
  have u: "?k ?u" "au_PasswordHash ?u = h" "au_Status ?u = UserStatusPending" "au_Provider ?u = ''local''"
    "au_Email ?u = normalizeEmail (ac_env cfg) email" "au_TenantID ?u = defaultTenant cfg"
    by (simp_all add: newAuthUserRecord_def newUser_def userKey_def)
  have "find ?k (as_users st) = None"
    using new by (auto simp: FindUserByEmail_def split: option.splits)
  moreover have "find p xs = None \<Longrightarrow> p y \<Longrightarrow> find p (xs @ [y]) = Some y" for p and xs :: "authUser list" and y
    by (induction xs) (auto split: if_splits)
  ultimately have "FindUserByEmail (ac_deps cfg) email (defaultTenant cfg) st' = Ret ?u"
    using u(1) by (simp add: FindUserByEmail_def st'(1))
  with h u st' show ?thesis by auto
qed

lemma root_address:
  assumes "lower (ac_env cfg) defaultRootAdminEmail = defaultRootAdminEmail"
  shows "loginAddress cfg defaultRootAdminEmail = defaultRootAdminEmail"
    and "normalizeEmail (ac_env cfg) defaultRootAdminEmail = defaultRootAdminEmail"
    and "isConfiguredAdminEmail cfg defaultRootAdminEmail"
proof -
  have t: "trim_space defaultRootAdminEmail = defaultRootAdminEmail" "CHR 0x40 \<in> set defaultRootAdminEmail"
    "EqualFold defaultRootAdminEmail defaultRootAdminEmail" "defaultRootAdminEmail \<noteq> []"
    by code_simp+
  show "loginAddress cfg defaultRootAdminEmail = defaultRootAdminEmail"
    using assms t by (simp add: loginAddress_def canonicalLoginEmail_def)
  show "normalizeEmail (ac_env cfg) defaultRootAdminEmail = defaultRootAdminEmail"
    using assms t by (simp add: normalizeEmail_def)
  show "isConfiguredAdminEmail cfg defaultRootAdminEmail"
    using t by (simp add: isConfiguredAdminEmail_def)
qed

text \<open>
  C22. Whoever registers the default address of the administrator becomes one. When no account has the address,
  as in a deployment with another administrator's address or without a password for it, the registration
  leaves a pending account, and the login that follows, with the password of the registration and without
  any verification of the address, succeeds with all permissions and the account type of an administrator.
\<close>

theorem register_becomes_admin:
  assumes "lower (ac_env cfg) defaultRootAdminEmail = defaultRootAdminEmail"
    and "Register cfg io defaultRootAdminEmail pw fullName st = (st', Ret ())"
    and "\<forall>h. ac_hashPassword cfg (ai_salt io) pw = Some h \<longrightarrow> fst (ac_verifyPassword cfg pw h)"
    and "precheckLoginSecurity cfg (ai_now io') (defaultTenant cfg) defaultRootAdminEmail (normalizeSecurityContext cfg sec) st' = (st', None)"
    and "\<not> list_ex (sessionKey (ai_sessionID io') (defaultTenant cfg)) (as_sessions st)"
  shows "\<exists>u r. FindUserByEmail (ac_deps cfg) defaultRootAdminEmail (defaultTenant cfg) st' = Ret u \<and> au_Status u = UserStatusPending
    \<and> snd (Login cfg io' defaultRootAdminEmail pw sec st') = Ret r \<and> ax_Permissions r = [''*''] \<and> ax_AccountType r = ''admin''"
proof -
  note root = root_address [OF assms(1)]
  obtain u h where u: "FindUserByEmail (ac_deps cfg) defaultRootAdminEmail (defaultTenant cfg) st' = Ret u"
    and h: "ac_hashPassword cfg (ai_salt io) pw = Some h" "au_PasswordHash u = h" and pending: "au_Status u = UserStatusPending"
    and mem: "u \<in> set (as_users st')" "au_Email u = defaultRootAdminEmail" "au_TenantID u = defaultTenant cfg"
    and sessions: "as_sessions st' = as_sessions st"
    using Register_user [OF assms(2)] root(2) by auto
  obtain st1 u' where rep: "repairConfiguredAdmin cfg io' u st' = (st1, Ret u')" and act: "au_Status u' = UserStatusActive"
    and all: "grantsAllPermissions (au_Roles u')"
    using repair_admin [OF _ mem(1) pending] root(3) mem(2) by metis
  have "au_PasswordHash u' = h" using repair_user [OF rep] h(2) by simp
  moreover have "\<not> isLocked u'" "au_Status u' \<noteq> UserStatusPending"
    using act by (simp_all add: isLocked_def UserStatusActive_def UserStatusPending_def UserStatusBlocked_def UserStatusBanned_def)
  ultimately show ?thesis
    using Login_accepts [of cfg io' defaultRootAdminEmail sec st' u st1 u' pw] assms(3-5) h(1) mem(3) u rep all pending sessions root(1)
    by (auto simp: permissionsForToken_def classifyAccountAccess_def)
qed

text \<open>The witness: the sample deployment, which configures no administrator.\<close>

theorem register_becomes_admin_witness:
  "\<exists>r. snd (Login sampleAuth (atTime 2 ''s'' []) defaultRootAdminEmail ''mine'' noSecurity
      (fst (Register sampleAuth (atTime 1 [] ''42'') defaultRootAdminEmail ''mine'' ''Eve'' oneUser))) = Ret r
    \<and> ax_Permissions r = [''*''] \<and> ax_AccountType r = ''admin''"
proof -
  let ?st = "fst (Register sampleAuth (atTime 1 [] ''42'') defaultRootAdminEmail ''mine'' ''Eve'' oneUser)"
  have "snd (Register sampleAuth (atTime 1 [] ''42'') defaultRootAdminEmail ''mine'' ''Eve'' oneUser) = Ret ()" by code_simp
  then have reg: "Register sampleAuth (atTime 1 [] ''42'') defaultRootAdminEmail ''mine'' ''Eve'' oneUser = (?st, Ret ())"
    by (metis prod.collapse)
  have low: "lower (ac_env sampleAuth) defaultRootAdminEmail = defaultRootAdminEmail" by code_simp
  have sec: "ls_IPAddress (normalizeSecurityContext sampleAuth noSecurity) = []" by code_simp
  have "as_redis ?st = (\<lambda>_. None)"
    by (simp add: Register_def hashPassword_def CreateUser_def CreatePin_def sampleAuth_def oneUser_def emptyAuth_def Let_def split: outcome.split)
  from sample_precheck [OF sec this] show ?thesis
    using register_becomes_admin [OF low reg, of "atTime 2 ''s'' []" noSecurity]
    by (auto simp: sampleAuth_def oneUser_def emptyAuth_def)
qed

end
