(* ===== verification/LmsAttempts.thy ===== *)
theory LmsAttempts
  imports LmsStore TenantDocs
begin

text \<open>
  The in-memory repository, runtime part: assignments and attempts (\<open>repository_memory.go\<close>), with
  the repository methods of \<open>repository.go\<close> that wrap them, \<open>SaveAttemptAnswer\<close>,
  \<open>UpdateAttemptScore\<close> and \<open>answerField\<close>.
\<close>

section \<open>Assignments\<close>

definition createAssignment :: "gotime \<Rightarrow> oid \<Rightarrow> assignment \<Rightarrow> memoryStore \<Rightarrow> memoryStore \<times> assignment" where
  "createAssignment now fresh a m =
     (let a = (if a_ID a = 0 then a\<lparr>a_ID := fresh\<rparr> else a);
          a = (if a_Status a = [] then a\<lparr>a_Status := ''open''\<rparr> else a);
          a = a\<lparr>a_CreatedAt := now, a_UpdatedAt := now\<rparr>
      in (m\<lparr>m_assignments := m_assignments m @ [a]\<rparr>, a))"

definition getAssignment :: "goenv \<Rightarrow> memoryStore \<Rightarrow> string \<Rightarrow> string \<Rightarrow> assignment option lres" where
  "getAssignment env m tenantID i =
     map_out (\<lambda>v. find (\<lambda>a. a_TenantID a = tenantID \<and> a_ID a = v) (m_assignments m)) (objectID env i)"

text \<open>One key of a filter document; an unknown key or a value of another type is ignored.\<close>

definition assignmentKeyMatches :: "assignment \<Rightarrow> string \<times> bval \<Rightarrow> bool" where
  "assignmentKeyMatches a kv = (case kv of (key, value) \<Rightarrow>
     if key = ''class_id'' then (case as_oid (Some value) of Some v \<Rightarrow> a_ClassID a = v | None \<Rightarrow> True)
     else if key = ''quiz_id'' then (case as_oid (Some value) of Some v \<Rightarrow> a_QuizID a = v | None \<Rightarrow> True)
     else if key = ''subject_id'' then (case as_oid (Some value) of Some v \<Rightarrow> a_SubjectID a = v | None \<Rightarrow> True)
     else if key = ''student_ids'' then
       (case as_oid (Some value) of Some v \<Rightarrow> objectIDIn v (a_StudentIDs a) | None \<Rightarrow> True)
     else if key = ''status'' then (case as_str (Some value) of Some v \<Rightarrow> a_Status a = v | None \<Rightarrow> True)
     else True)"

definition memoryAssignmentMatches :: "assignment \<Rightarrow> bsonM \<Rightarrow> bool" where
  "memoryAssignmentMatches a flt = list_all (assignmentKeyMatches a) flt"

definition assignmentCreatedAfter :: "assignment \<Rightarrow> assignment \<Rightarrow> bool" where
  "assignmentCreatedAfter a b \<longleftrightarrow> a_CreatedAt b < a_CreatedAt a"

definition listAssignments :: "memoryStore \<Rightarrow> string \<Rightarrow> bsonM \<Rightarrow> assignment list" where
  "listAssignments m tenantID flt =
     sort_slice assignmentCreatedAfter
       (filter (\<lambda>a. a_TenantID a = tenantID \<and> memoryAssignmentMatches a flt) (m_assignments m))"

section \<open>Attempts\<close>

definition createAttempt :: "gotime \<Rightarrow> oid \<Rightarrow> attempt \<Rightarrow> memoryStore \<Rightarrow> memoryStore \<times> attempt" where
  "createAttempt now fresh a m =
     (let a = (if at_ID a = 0 then a\<lparr>at_ID := fresh\<rparr> else a);
          a = (if at_Status a = [] then a\<lparr>at_Status := ''in_progress''\<rparr> else a);
          a = (if at_StartedAt a = 0 then a\<lparr>at_StartedAt := now\<rparr> else a);
          a = a\<lparr>at_UpdatedAt := now\<rparr>
      in (m\<lparr>m_attempts := m_attempts m @ [a]\<rparr>, a))"

definition attemptKey :: "string \<Rightarrow> oid \<Rightarrow> attempt \<Rightarrow> bool" where
  "attemptKey tenantID v a \<longleftrightarrow> at_TenantID a = tenantID \<and> at_ID a = v"

definition getAttempt :: "goenv \<Rightarrow> memoryStore \<Rightarrow> string \<Rightarrow> string \<Rightarrow> attempt option lres" where
  "getAttempt env m tenantID i =
     map_out (\<lambda>v. find (attemptKey tenantID v) (m_attempts m)) (objectID env i)"

definition isActiveAttempt :: "string \<Rightarrow> oid \<Rightarrow> oid \<Rightarrow> oid \<Rightarrow> attempt \<Rightarrow> bool" where
  "isActiveAttempt tenantID assignmentID quizID studentID a \<longleftrightarrow>
     at_TenantID a = tenantID \<and> at_AssignmentID a = assignmentID \<and> at_QuizID a = quizID
   \<and> at_StudentID a = studentID \<and> at_Status a = ''in_progress''"

definition findActiveAttempt :: "memoryStore \<Rightarrow> string \<Rightarrow> oid \<Rightarrow> oid \<Rightarrow> oid \<Rightarrow> attempt option" where
  "findActiveAttempt m tenantID assignmentID quizID studentID =
     find (isActiveAttempt tenantID assignmentID quizID studentID) (m_attempts m)"

text \<open>An update of the first attempt with the given key: what the three mutators below share.\<close>

definition withAttempt ::
  "goenv \<Rightarrow> string \<Rightarrow> string \<Rightarrow> (attempt \<Rightarrow> attempt) \<Rightarrow> memoryStore \<Rightarrow> memoryStore \<times> attempt option lres" where
  "withAttempt env tenantID i f m =
     (case objectID env i of
        Ret v \<Rightarrow> (m\<lparr>m_attempts := update_first (attemptKey tenantID v) f (m_attempts m)\<rparr>,
                   Ret (map_option f (find (attemptKey tenantID v) (m_attempts m))))
      | Fail e \<Rightarrow> (m, Fail e)
      | Panic \<Rightarrow> (m, Panic))"

definition putAnswer :: "gotime \<Rightarrow> string \<Rightarrow> attempt_answer \<Rightarrow> attempt \<Rightarrow> attempt" where
  "putAnswer now questionID answer a =
     (if at_Status a = ''submitted'' then a
      else a\<lparr>at_Answers := AList.update questionID answer (at_Answers a), at_UpdatedAt := now\<rparr>)"

definition saveAttemptAnswer ::
  "goenv \<Rightarrow> gotime \<Rightarrow> string \<Rightarrow> string \<Rightarrow> string \<Rightarrow> attempt_answer \<Rightarrow> memoryStore \<Rightarrow> memoryStore \<times> attempt option lres" where
  "saveAttemptAnswer env now tenantID i questionID answer m =
     withAttempt env tenantID i (putAnswer now questionID answer) m"

definition closeAttempt :: "gotime \<Rightarrow> answers \<Rightarrow> gotime \<Rightarrow> attempt \<Rightarrow> attempt" where
  "closeAttempt now ans submittedAt a =
     (if at_Status a = ''submitted'' then a
      else a\<lparr>at_Answers := fold (\<lambda>(q, v). AList.update q v) ans (at_Answers a), at_Status := ''submitted'',
             at_SubmittedAt := Some submittedAt, at_UpdatedAt := now\<rparr>)"

definition submitAttempt ::
  "goenv \<Rightarrow> gotime \<Rightarrow> string \<Rightarrow> string \<Rightarrow> answers \<Rightarrow> gotime \<Rightarrow> memoryStore \<Rightarrow> memoryStore \<times> (attempt option \<times> bool) lres" where
  "submitAttempt env now tenantID i ans submittedAt m =
     (case objectID env i of
        Ret v \<Rightarrow>
          (case find (attemptKey tenantID v) (m_attempts m) of
             None \<Rightarrow> (m, Ret (None, False))
           | Some a \<Rightarrow>
               (m\<lparr>m_attempts := update_first (attemptKey tenantID v) (closeAttempt now ans submittedAt) (m_attempts m)\<rparr>,
                Ret (Some (closeAttempt now ans submittedAt a), at_Status a \<noteq> ''submitted'')))
      | Fail e \<Rightarrow> (m, Fail e)
      | Panic \<Rightarrow> (m, Panic))"

definition applyMemoryAttemptUpdate :: "gotime \<Rightarrow> bsonM \<Rightarrow> attempt \<Rightarrow> attempt" where
  "applyMemoryAttemptUpdate now u a =
     (let a = set_if (as_str (map_of u ''status'')) (\<lambda>v a. a\<lparr>at_Status := v\<rparr>) a;
          a = set_if (as_str (map_of u ''quiz_version'')) (\<lambda>v a. a\<lparr>at_QuizVersion := v\<rparr>) a;
          a = set_if (as_maps (map_of u ''events'')) (\<lambda>v a. a\<lparr>at_Events := v\<rparr>) a;
          a = set_if (as_map (map_of u ''client'')) (\<lambda>v a. a\<lparr>at_Client := v\<rparr>) a;
          a = set_if (as_float (map_of u ''score'')) (\<lambda>v a. a\<lparr>at_Score := v\<rparr>) a;
          a = set_if (as_float (map_of u ''max_score'')) (\<lambda>v a. a\<lparr>at_MaxScore := v\<rparr>) a;
          a = set_if (as_float (map_of u ''percent'')) (\<lambda>v a. a\<lparr>at_Percent := v\<rparr>) a;
          a = set_if (as_bool (map_of u ''passed'')) (\<lambda>v a. a\<lparr>at_Passed := v\<rparr>) a;
          a = set_if (as_time (map_of u ''submitted_at'')) (\<lambda>v a. a\<lparr>at_SubmittedAt := Some v\<rparr>) a;
          a = fold (\<lambda>(key, value) a.
                 if has_prefix key ''answers.'' then
                   set_if (as_answer (Some value))
                     (\<lambda>v a. a\<lparr>at_Answers := AList.update (drop 8 key) v (at_Answers a)\<rparr>) a
                 else a) u a
      in a\<lparr>at_UpdatedAt := now\<rparr>)"

definition updateAttempt ::
  "goenv \<Rightarrow> gotime \<Rightarrow> string \<Rightarrow> string \<Rightarrow> bsonM \<Rightarrow> memoryStore \<Rightarrow> memoryStore \<times> attempt option lres" where
  "updateAttempt env now tenantID i u m = withAttempt env tenantID i (applyMemoryAttemptUpdate now u) m"

definition attemptKeyMatches :: "attempt \<Rightarrow> string \<times> bval \<Rightarrow> bool" where
  "attemptKeyMatches a kv = (case kv of (key, value) \<Rightarrow>
     if key = ''assignment_id'' then (case as_oid (Some value) of Some v \<Rightarrow> at_AssignmentID a = v | None \<Rightarrow> True)
     else if key = ''quiz_id'' then (case as_oid (Some value) of Some v \<Rightarrow> at_QuizID a = v | None \<Rightarrow> True)
     else if key = ''student_id'' then (case as_oid (Some value) of Some v \<Rightarrow> at_StudentID a = v | None \<Rightarrow> True)
     else if key = ''status'' then (case as_str (Some value) of Some v \<Rightarrow> at_Status a = v | None \<Rightarrow> True)
     else True)"

definition memoryAttemptMatches :: "attempt \<Rightarrow> bsonM \<Rightarrow> bool" where
  "memoryAttemptMatches a flt = list_all (attemptKeyMatches a) flt"

definition attemptUpdatedAfter :: "attempt \<Rightarrow> attempt \<Rightarrow> bool" where
  "attemptUpdatedAfter a b \<longleftrightarrow> at_UpdatedAt b < at_UpdatedAt a"

definition listAttempts :: "memoryStore \<Rightarrow> string \<Rightarrow> bsonM \<Rightarrow> attempt list" where
  "listAttempts m tenantID flt =
     sort_slice attemptUpdatedAfter
       (filter (\<lambda>a. at_TenantID a = tenantID \<and> memoryAttemptMatches a flt) (m_attempts m))"

section \<open>Repository methods over the store\<close>

definition answerField :: "string \<Rightarrow> string lres" where
  "answerField questionID =
     (let q = trim_space questionID
      in if q = [] \<or> contains q ''.'' \<or> has_prefix q ''$'' then Fail ErrInvalidFieldKey
         else Ret (''answers.'' @ q))"

definition SaveAttemptAnswer ::
  "goenv \<Rightarrow> gotime \<Rightarrow> string \<Rightarrow> string \<Rightarrow> string \<Rightarrow> attempt_answer \<Rightarrow> memoryStore \<Rightarrow> memoryStore \<times> attempt option lres" where
  "SaveAttemptAnswer env now tenantID i questionID answer m =
     (case answerField questionID of
        Ret _ \<Rightarrow> saveAttemptAnswer env now tenantID i questionID answer m
      | Fail e \<Rightarrow> (m, Fail e)
      | Panic \<Rightarrow> (m, Panic))"

definition UpdateAttemptScore ::
  "goenv \<Rightarrow> gotime \<Rightarrow> string \<Rightarrow> string \<Rightarrow> float64 \<Rightarrow> float64 \<Rightarrow> float64 \<Rightarrow> bool \<Rightarrow> memoryStore \<Rightarrow> memoryStore \<times> attempt option lres" where
  "UpdateAttemptScore env now tenantID i score maxScore percent passed m =
     updateAttempt env now tenantID i
       [(''score'', BFloat score), (''max_score'', BFloat maxScore), (''percent'', BFloat percent), (''passed'', BBool passed)] m"

section \<open>What the mutators keep\<close>

text \<open>The fields that identify an attempt and say whose it is.\<close>

definition attemptIdentity :: "attempt \<Rightarrow> string \<times> oid \<times> oid \<times> oid \<times> oid" where
  "attemptIdentity a = (at_TenantID a, at_ID a, at_AssignmentID a, at_QuizID a, at_StudentID a)"

lemma putAnswer_identity [simp]: "attemptIdentity (putAnswer now q v a) = attemptIdentity a"
  by (simp add: putAnswer_def attemptIdentity_def)

lemma closeAttempt_identity [simp]: "attemptIdentity (closeAttempt now ans sub a) = attemptIdentity a"
  by (simp add: closeAttempt_def attemptIdentity_def)

lemma fold_answers_field:
  assumes "\<And>v (b :: attempt). g (b\<lparr>at_Answers := v\<rparr>) = g b"
  shows "g (fold (\<lambda>(key, value) a. if has_prefix key ''answers.'' then
           set_if (as_answer (Some value))
             (\<lambda>v a. a\<lparr>at_Answers := AList.update (drop 8 key) v (at_Answers a)\<rparr>) a
         else a) u a) = g a"
  using assms by (induction u arbitrary: a) (auto simp: set_if_def split: option.splits)

lemma applyMemoryAttemptUpdate_identity [simp]:
  "attemptIdentity (applyMemoryAttemptUpdate now u a) = attemptIdentity a"
proof -
  have upd: "attemptIdentity (b\<lparr>at_UpdatedAt := now\<rparr>) = attemptIdentity b" for b
    by (simp add: attemptIdentity_def)
  show ?thesis
    unfolding applyMemoryAttemptUpdate_def Let_def upd
    by (subst fold_answers_field, simp add: attemptIdentity_def)
       (simp add: set_if_field attemptIdentity_def)
qed

lemma attemptKey_identity: "attemptIdentity a = attemptIdentity b \<Longrightarrow> attemptKey t v a = attemptKey t v b"
  by (simp add: attemptIdentity_def attemptKey_def)

interpretation answer_docs: tenant_docs at_TenantID at_ID "\<lambda>(now, q, v). putAnswer now q v"
  by unfold_locales (auto simp: putAnswer_def)

interpretation close_docs: tenant_docs at_TenantID at_ID "\<lambda>(now, ans, sub). closeAttempt now ans sub"
  by unfold_locales (auto simp: closeAttempt_def)

interpretation attempt_docs: tenant_docs at_TenantID at_ID "\<lambda>(now, u). applyMemoryAttemptUpdate now u"
proof unfold_locales
  fix u :: "gotime \<times> bsonM" and d
  have "attemptIdentity (case u of (now, u) \<Rightarrow> applyMemoryAttemptUpdate now u d) = attemptIdentity d"
    by (cases u) simp
  then show "at_TenantID ((case u of (now, u) \<Rightarrow> applyMemoryAttemptUpdate now u) d) = at_TenantID d"
    and "at_ID ((case u of (now, u) \<Rightarrow> applyMemoryAttemptUpdate now u) d) = at_ID d"
    by (auto simp: attemptIdentity_def split: prod.splits)
qed

section \<open>Orders of the listings\<close>

interpretation assignment_order: slice_order assignmentCreatedAfter
  unfolding assignmentCreatedAfter_def by (rule slice_order_key_desc)

interpretation attempt_order: slice_order attemptUpdatedAfter
  unfolding attemptUpdatedAfter_def by (rule slice_order_key_desc)

end
