(* ===== verification/LmsValidation.thy ===== *)
theory LmsValidation
  imports LmsStore
begin

text \<open>
  Payload validation of the LMS service (\<open>content_payload_validation.go\<close>): the attempt payloads.
\<close>

definition maxAttemptAnswers :: int where "maxAttemptAnswers = 500"
definition maxAttemptEvents :: int where "maxAttemptEvents = 1000"
definition maxAttemptJSONBytes :: int where "maxAttemptJSONBytes = 256 * 1024"

definition jsonSize :: "goenv \<Rightarrow> jval option \<Rightarrow> int" where
  "jsonSize env value =
     (case value of
        None \<Rightarrow> 0
      | Some v \<Rightarrow> (case ge_marshal env v of None \<Rightarrow> maxAttemptJSONBytes + 1 | Some n \<Rightarrow> int n))"

text \<open>
  The arguments are maps and slices, so the interface value \<open>jsonSize\<close> receives is never nil.
\<close>

definition validateAttemptPayload :: "goenv \<Rightarrow> jobj \<Rightarrow> jobj list \<Rightarrow> jobj \<Rightarrow> unit lres" where
  "validateAttemptPayload env ans events client =
     (if maxAttemptAnswers < int (length ans) \<or> maxAttemptEvents < int (length events) then Fail ErrInvalidContentPayload
      else if maxAttemptJSONBytes < jsonSize env (Some (JObj ans))
           \<or> maxAttemptJSONBytes < jsonSize env (Some (JArr (map JObj events)))
           \<or> maxAttemptJSONBytes < jsonSize env (Some (JObj client)) then Fail ErrInvalidContentPayload
      else if list_all (\<lambda>(questionID, _). is_ret (objectID env questionID)) ans then Ret ()
      else Fail ErrInvalidContentPayload)"

definition validateSingleAnswerPayload :: "goenv \<Rightarrow> jval \<Rightarrow> jobj \<Rightarrow> unit lres" where
  "validateSingleAnswerPayload env answer clientResult =
     (if maxAttemptJSONBytes < jsonSize env (if answer = JNull then None else Some answer)
         \<or> maxAttemptJSONBytes < jsonSize env (Some (JObj clientResult)) then Fail ErrInvalidContentPayload
      else Ret ())"

end
