(* ===== verification/LmsContentStore.thy ===== *)
theory LmsContentStore
  imports LmsStore TenantDocs
begin

text \<open>
  The in-memory repository, content part (\<open>repository_memory.go\<close>): subjects, levels, topics, the
  question bank and quizzes.
\<close>

section \<open>Catalogue\<close>

definition subjectNameLess :: "subject \<Rightarrow> subject \<Rightarrow> bool" where
  "subjectNameLess a b \<longleftrightarrow> sb_Name a < sb_Name b"

definition listSubjects :: "memoryStore \<Rightarrow> string \<Rightarrow> string \<Rightarrow> string \<Rightarrow> subject list" where
  "listSubjects m tenantID scopeType centerID =
     sort_slice subjectNameLess
       (filter (\<lambda>s. sb_TenantID s = tenantID \<and> sb_Status s \<noteq> statusArchived
                  \<and> (scopeType \<noteq> [] \<longrightarrow> sc_Type (sb_Scope s) = scopeType)
                  \<and> (centerID \<noteq> [] \<longrightarrow> sc_CenterID (sb_Scope s) = centerID)) (m_subjects m))"

definition levelOrderLess :: "level \<Rightarrow> level \<Rightarrow> bool" where
  "levelOrderLess a b \<longleftrightarrow> l_Order a < l_Order b"

definition listLevels :: "goenv \<Rightarrow> memoryStore \<Rightarrow> string \<Rightarrow> string \<Rightarrow> level list lres" where
  "listLevels env m tenantID subjectID =
     map_out (\<lambda>v. sort_slice levelOrderLess
         (filter (\<lambda>l. l_TenantID l = tenantID \<and> l_SubjectID l = v \<and> l_Status l \<noteq> statusArchived) (m_levels m)))
       (objectID env subjectID)"

definition topicOrderLess :: "topic \<Rightarrow> topic \<Rightarrow> bool" where
  "topicOrderLess a b \<longleftrightarrow> t_Order a < t_Order b"

definition listTopics :: "goenv \<Rightarrow> memoryStore \<Rightarrow> string \<Rightarrow> string \<Rightarrow> topic list lres" where
  "listTopics env m tenantID levelID =
     map_out (\<lambda>v. sort_slice topicOrderLess
         (filter (\<lambda>t. t_TenantID t = tenantID \<and> t_LevelID t = v \<and> t_Status t \<noteq> statusArchived) (m_topics m)))
       (objectID env levelID)"

section \<open>Questions\<close>

definition createQuestion :: "gotime \<Rightarrow> oid \<Rightarrow> question \<Rightarrow> memoryStore \<Rightarrow> memoryStore \<times> question" where
  "createQuestion now fresh q m =
     (let q = (if q_ID q = 0 then q\<lparr>q_ID := fresh\<rparr> else q);
          q = (if q_Status q = [] then q\<lparr>q_Status := statusActive\<rparr> else q);
          q = q\<lparr>q_CreatedAt := now, q_UpdatedAt := now\<rparr>
      in (m\<lparr>m_questions := m_questions m @ [q]\<rparr>, q))"

definition getQuestion :: "goenv \<Rightarrow> memoryStore \<Rightarrow> string \<Rightarrow> string \<Rightarrow> question option lres" where
  "getQuestion env m tenantID i =
     map_out (\<lambda>v. find (\<lambda>q. q_TenantID q = tenantID \<and> q_ID q = v) (m_questions m)) (objectID env i)"

text \<open>\<open>if v, ok := update[key]; ok\<close> for a field of type \<open>any\<close>.\<close>

fun as_any :: "bval option \<Rightarrow> jval option" where
  "as_any (Some (BAny v)) = Some v"
| "as_any (Some BNil) = Some JNull"
| "as_any _ = None"

definition questionKeyMatches :: "goenv \<Rightarrow> question \<Rightarrow> string \<times> bval \<Rightarrow> bool" where
  "questionKeyMatches env q kv = (case kv of (key, value) \<Rightarrow>
     if key = ''subject_id'' then (case as_oid (Some value) of Some v \<Rightarrow> q_SubjectID q = v | None \<Rightarrow> True)
     else if key = ''level_id'' then (case as_oid (Some value) of Some v \<Rightarrow> q_LevelID q = v | None \<Rightarrow> True)
     else if key = ''topic_id'' then
       (case value of
          BOid v \<Rightarrow> q_TopicID q = v
        | BM v \<Rightarrow> (case as_oids (map_of v ''$in'') of Some ids \<Rightarrow> objectIDIn (q_TopicID q) ids | None \<Rightarrow> True)
        | _ \<Rightarrow> True)
     else if key = ''_id'' then
       (case as_bsonM (Some value) of
          Some v \<Rightarrow> (case as_oids (map_of v ''$nin'') of Some ids \<Rightarrow> \<not> objectIDIn (q_ID q) ids | None \<Rightarrow> True)
        | None \<Rightarrow> True)
     else if key = ''type'' then (case as_str (Some value) of Some v \<Rightarrow> q_Type q = v | None \<Rightarrow> True)
     else if key = ''stem'' then
       (case as_bsonM (Some value) of
          Some v \<Rightarrow> (case as_str (map_of v ''$regex'') of Some k \<Rightarrow> containsFold env (q_Stem q) k | None \<Rightarrow> True)
        | None \<Rightarrow> True)
     else if key = ''scope.type'' then (case as_str (Some value) of Some v \<Rightarrow> sc_Type (q_Scope q) = v | None \<Rightarrow> True)
     else if key = ''scope.center_id'' then
       (case as_str (Some value) of Some v \<Rightarrow> sc_CenterID (q_Scope q) = v | None \<Rightarrow> True)
     else True)"

definition memoryQuestionMatches :: "goenv \<Rightarrow> question \<Rightarrow> bsonM \<Rightarrow> bool" where
  "memoryQuestionMatches env q flt = list_all (questionKeyMatches env q) flt"

definition questionCreatedAfter :: "question \<Rightarrow> question \<Rightarrow> bool" where
  "questionCreatedAfter a b \<longleftrightarrow> q_CreatedAt b < q_CreatedAt a"

definition listQuestions ::
  "goenv \<Rightarrow> memoryStore \<Rightarrow> string \<Rightarrow> bsonM \<Rightarrow> string \<Rightarrow> int \<Rightarrow> (question list \<times> int \<times> string) lres" where
  "listQuestions env m tenantID flt cursor limit =
     pageCursor
       (sort_slice questionCreatedAfter
         (filter (\<lambda>q. q_TenantID q = tenantID \<and> q_Status q \<noteq> statusArchived \<and> memoryQuestionMatches env q flt)
           (m_questions m)))
       cursor limit"

definition applyMemoryQuestionUpdate :: "gotime \<Rightarrow> bsonM \<Rightarrow> question \<Rightarrow> question" where
  "applyMemoryQuestionUpdate now u q =
     (let q = set_if (as_scope (map_of u ''scope'')) (\<lambda>v q. q\<lparr>q_Scope := v\<rparr>) q;
          q = set_if (as_oid (map_of u ''topic_id'')) (\<lambda>v q. q\<lparr>q_TopicID := v\<rparr>) q;
          q = set_if (as_str (map_of u ''type'')) (\<lambda>v q. q\<lparr>q_Type := v\<rparr>) q;
          q = set_if (as_str (map_of u ''stem'')) (\<lambda>v q. q\<lparr>q_Stem := v\<rparr>) q;
          q = set_if (as_choices (map_of u ''choices'')) (\<lambda>v q. q\<lparr>q_Choices := v\<rparr>) q;
          q = set_if (as_any (map_of u ''answer'')) (\<lambda>v q. q\<lparr>q_Answer := v\<rparr>) q;
          q = set_if (as_map (map_of u ''metadata'')) (\<lambda>v q. q\<lparr>q_Metadata := v\<rparr>) q;
          q = set_if (as_str (map_of u ''status'')) (\<lambda>v q. q\<lparr>q_Status := v\<rparr>) q;
          q = set_if (as_time (map_of u ''archived_at'')) (\<lambda>v q. q\<lparr>q_ArchivedAt := Some v\<rparr>) q
      in q\<lparr>q_UpdatedAt := now\<rparr>)"

definition updateQuestion ::
  "goenv \<Rightarrow> gotime \<Rightarrow> string \<Rightarrow> string \<Rightarrow> bsonM \<Rightarrow> memoryStore \<Rightarrow> memoryStore \<times> question option lres" where
  "updateQuestion env now tenantID i u m =
     (case objectID env i of
        Ret v \<Rightarrow>
          (let p = (\<lambda>q. q_TenantID q = tenantID \<and> q_ID q = v)
           in (m\<lparr>m_questions := update_first p (applyMemoryQuestionUpdate now u) (m_questions m)\<rparr>,
               Ret (map_option (applyMemoryQuestionUpdate now u) (find p (m_questions m)))))
      | Fail e \<Rightarrow> (m, Fail e)
      | Panic \<Rightarrow> (m, Panic))"

definition randomQuestions :: "goenv \<Rightarrow> memoryStore \<Rightarrow> string \<Rightarrow> bsonM \<Rightarrow> int \<Rightarrow> question list lres" where
  "randomQuestions env m tenantID flt limit =
     map_out (\<lambda>(items, n, nxt). items) (listQuestions env m tenantID flt [] limit)"

section \<open>Quizzes\<close>

definition createQuiz :: "gotime \<Rightarrow> oid \<Rightarrow> quiz \<Rightarrow> memoryStore \<Rightarrow> memoryStore \<times> quiz" where
  "createQuiz now fresh q m =
     (let q = (if z_ID q = 0 then q\<lparr>z_ID := fresh\<rparr> else q);
          q = (if z_Status q = [] then q\<lparr>z_Status := ''draft''\<rparr> else q);
          q = q\<lparr>z_CreatedAt := now, z_UpdatedAt := now\<rparr>
      in (m\<lparr>m_quizzes := m_quizzes m @ [q]\<rparr>, q))"

definition getQuiz :: "goenv \<Rightarrow> memoryStore \<Rightarrow> string \<Rightarrow> string \<Rightarrow> quiz option lres" where
  "getQuiz env m tenantID i =
     map_out (\<lambda>v. find (\<lambda>q. z_TenantID q = tenantID \<and> z_ID q = v) (m_quizzes m)) (objectID env i)"

definition quizKeyMatches :: "goenv \<Rightarrow> quiz \<Rightarrow> string \<times> bval \<Rightarrow> bool" where
  "quizKeyMatches env q kv = (case kv of (key, value) \<Rightarrow>
     if key = ''subject_id'' then (case as_oid (Some value) of Some v \<Rightarrow> z_SubjectID q = v | None \<Rightarrow> True)
     else if key = ''level_id'' then (case as_oid (Some value) of Some v \<Rightarrow> z_LevelID q = v | None \<Rightarrow> True)
     else if key = ''kind'' then (case as_str (Some value) of Some v \<Rightarrow> z_Kind q = v | None \<Rightarrow> True)
     else if key = ''title'' then
       (case as_bsonM (Some value) of
          Some v \<Rightarrow> (case as_str (map_of v ''$regex'') of Some k \<Rightarrow> containsFold env (z_Title q) k | None \<Rightarrow> True)
        | None \<Rightarrow> True)
     else if key = ''scope.type'' then (case as_str (Some value) of Some v \<Rightarrow> sc_Type (z_Scope q) = v | None \<Rightarrow> True)
     else if key = ''scope.center_id'' then
       (case as_str (Some value) of Some v \<Rightarrow> sc_CenterID (z_Scope q) = v | None \<Rightarrow> True)
     else True)"

definition memoryQuizMatches :: "goenv \<Rightarrow> quiz \<Rightarrow> bsonM \<Rightarrow> bool" where
  "memoryQuizMatches env q flt = list_all (quizKeyMatches env q) flt"

definition quizCreatedAfter :: "quiz \<Rightarrow> quiz \<Rightarrow> bool" where
  "quizCreatedAfter a b \<longleftrightarrow> z_CreatedAt b < z_CreatedAt a"

definition listQuizzes ::
  "goenv \<Rightarrow> memoryStore \<Rightarrow> string \<Rightarrow> bsonM \<Rightarrow> string \<Rightarrow> int \<Rightarrow> (quiz list \<times> int \<times> string) lres" where
  "listQuizzes env m tenantID flt cursor limit =
     pageCursor
       (sort_slice quizCreatedAfter
         (filter (\<lambda>q. z_TenantID q = tenantID \<and> memoryQuizMatches env q flt) (m_quizzes m)))
       cursor limit"

definition applyMemoryQuizUpdate :: "gotime \<Rightarrow> bsonM \<Rightarrow> quiz \<Rightarrow> quiz" where
  "applyMemoryQuizUpdate now u q =
     (let q = set_if (as_anys (map_of u ''slides'')) (\<lambda>v q. q\<lparr>z_Slides := v\<rparr>) q;
          q = set_if (as_map (map_of u ''settings'')) (\<lambda>v q. q\<lparr>z_Settings := v\<rparr>) q;
          q = set_if (as_map (map_of u ''result'')) (\<lambda>v q. q\<lparr>z_Result := v\<rparr>) q;
          q = set_if (as_map (map_of u ''theme'')) (\<lambda>v q. q\<lparr>z_Theme := v\<rparr>) q;
          q = set_if (as_str (map_of u ''status'')) (\<lambda>v q. q\<lparr>z_Status := v\<rparr>) q;
          q = set_if (as_int (map_of u ''version'')) (\<lambda>v q. q\<lparr>z_Version := v\<rparr>) q;
          q = set_if (as_str (map_of u ''package_hash'')) (\<lambda>v q. q\<lparr>z_PackageHash := v\<rparr>) q;
          q = set_if (as_time (map_of u ''published_at'')) (\<lambda>v q. q\<lparr>z_PublishedAt := Some v\<rparr>) q
      in q\<lparr>z_UpdatedAt := now\<rparr>)"

definition updateQuiz ::
  "goenv \<Rightarrow> gotime \<Rightarrow> string \<Rightarrow> string \<Rightarrow> bsonM \<Rightarrow> memoryStore \<Rightarrow> memoryStore \<times> quiz option lres" where
  "updateQuiz env now tenantID i u m =
     (case objectID env i of
        Ret v \<Rightarrow>
          (let p = (\<lambda>q. z_TenantID q = tenantID \<and> z_ID q = v)
           in (m\<lparr>m_quizzes := update_first p (applyMemoryQuizUpdate now u) (m_quizzes m)\<rparr>,
               Ret (map_option (applyMemoryQuizUpdate now u) (find p (m_quizzes m)))))
      | Fail e \<Rightarrow> (m, Fail e)
      | Panic \<Rightarrow> (m, Panic))"

section \<open>What the updates keep\<close>

lemma applyMemoryQuestionUpdate_key [simp]:
  "q_TenantID (applyMemoryQuestionUpdate now u q) = q_TenantID q"
  "q_ID (applyMemoryQuestionUpdate now u q) = q_ID q"
  by (simp_all add: applyMemoryQuestionUpdate_def Let_def set_if_field)

lemma applyMemoryQuizUpdate_key [simp]:
  "z_TenantID (applyMemoryQuizUpdate now u q) = z_TenantID q"
  "z_ID (applyMemoryQuizUpdate now u q) = z_ID q"
  by (simp_all add: applyMemoryQuizUpdate_def Let_def set_if_field)

interpretation question_docs: tenant_docs q_TenantID q_ID "\<lambda>(now, u). applyMemoryQuestionUpdate now u"
  by unfold_locales (auto split: prod.splits)

interpretation quiz_docs: tenant_docs z_TenantID z_ID "\<lambda>(now, u). applyMemoryQuizUpdate now u"
  by unfold_locales (auto split: prod.splits)

section \<open>Orders of the listings\<close>

interpretation subject_order: slice_order subjectNameLess
  unfolding subjectNameLess_def by (rule slice_order_key)

interpretation level_order: slice_order levelOrderLess
  unfolding levelOrderLess_def by (rule slice_order_key)

interpretation topic_order: slice_order topicOrderLess
  unfolding topicOrderLess_def by (rule slice_order_key)

interpretation question_order: slice_order questionCreatedAfter
  unfolding questionCreatedAfter_def by (rule slice_order_key_desc)

interpretation quiz_order: slice_order quizCreatedAfter
  unfolding quizCreatedAfter_def by (rule slice_order_key_desc)

end
