(* ===== verification/AuditEvent.thy ===== *)
theory AuditEvent
  imports LmsTypes
begin

text \<open>
  The audit contract other modules publish through
  (\<open>src/internal/modules/audit/application/service/audit_event.go\<close>): the event and its builders.
  Metadata is a Go map of dynamically typed values; \<open>time.Now()\<close> is the argument \<open>now\<close>.
\<close>

definition ActionAuthzDenied :: string where "ActionAuthzDenied = ''authz.denied''"
definition ActionRoleChanged :: string where "ActionRoleChanged = ''identity.role.changed''"
definition ActionPermissionChanged :: string where "ActionPermissionChanged = ''identity.permission.changed''"
definition ActionAssetLaunched :: string where "ActionAssetLaunched = ''hoclieu.asset.launched''"
definition ActionQuizPublished :: string where "ActionQuizPublished = ''lms.quiz.published''"
definition ActionQuizSubmitted :: string where "ActionQuizSubmitted = ''lms.quiz.submitted''"
definition OutcomeDenied :: string where "OutcomeDenied = ''denied''"
definition OutcomeSuccess :: string where "OutcomeSuccess = ''success''"

lemmas audit_constants = ActionAuthzDenied_def ActionRoleChanged_def ActionPermissionChanged_def
  ActionAssetLaunched_def ActionQuizPublished_def ActionQuizSubmitted_def OutcomeDenied_def OutcomeSuccess_def

record contextFields =
  cf_RequestID :: string
  cf_TraceID :: string
  cf_SpanID :: string
  cf_Route :: string
  cf_Method :: string
  cf_Path :: string
  cf_IPAddress :: string
  cf_UserAgent :: string

definition noContext :: contextFields where
  "noContext = \<lparr>cf_RequestID = [], cf_TraceID = [], cf_SpanID = [], cf_Route = [], cf_Method = [],
     cf_Path = [], cf_IPAddress = [], cf_UserAgent = []\<rparr>"

record actorFields =
  af_UserID :: string
  af_UserEmail :: string
  af_Roles :: "string list"
  af_Permissions :: "string list"

text \<open>The dynamic types the builders store in metadata.\<close>

datatype meta_val =
    MStr string
  | MInt int
  | MFloat float64
  | MBool bool
  | MStrs "string list"
  | MContext contextFields

type_synonym metadata = "(string \<times> meta_val) list"

record event =
  ev_Action :: string
  ev_ResourceType :: string
  ev_ResourceID :: string
  ev_TenantID :: string
  ev_Actor :: actorFields
  ev_Outcome :: string
  ev_ReasonCode :: string
  ev_Context :: contextFields
  ev_Changes :: metadata
  ev_Metadata :: metadata
  ev_CreatedAt :: gotime

section \<open>Helpers\<close>

definition putString :: "string \<Rightarrow> string \<Rightarrow> metadata \<Rightarrow> metadata" where
  "putString key value metadata =
     (if trim_space value \<noteq> [] then AList.update key (MStr value) metadata else metadata)"

fun firstNonEmpty :: "string list \<Rightarrow> string" where
  "firstNonEmpty [] = []"
| "firstNonEmpty (v # vs) = (if trim_space v \<noteq> [] then v else firstNonEmpty vs)"

text \<open>A copy of a map: in the model, values are never shared.\<close>

definition cloneMetadata :: "metadata \<Rightarrow> metadata" where
  "cloneMetadata input = fold (\<lambda>(k, v). AList.update k v) input []"

definition contextFieldsEmpty :: "contextFields \<Rightarrow> bool" where
  "contextFieldsEmpty cf \<longleftrightarrow> cf = noContext"

text \<open>
  \<open>ContextFieldsFromContext\<close>: the stored fields, their identifiers defaulting to the context values
  of the same name (\<open>ctx\<close> maps a key to its string value).
\<close>

definition ContextFieldsFromContext :: "contextFields option \<Rightarrow> (string \<Rightarrow> string option) \<Rightarrow> contextFields" where
  "ContextFieldsFromContext stored ctx =
     (let cf = (case stored of None \<Rightarrow> noContext | Some f \<Rightarrow> f);
          str = (\<lambda>key. case ctx key of None \<Rightarrow> [] | Some v \<Rightarrow> v)
      in cf\<lparr>cf_RequestID := firstNonEmpty [cf_RequestID cf, str ''request_id''],
                cf_TraceID := firstNonEmpty [cf_TraceID cf, str ''trace_id''],
                cf_SpanID := firstNonEmpty [cf_SpanID cf, str ''span_id'']\<rparr>)"

section \<open>Builders\<close>

record authzDeniedEventInput =
  ad_TenantID :: string
  ad_UserID :: string
  ad_UserEmail :: string
  ad_Roles :: "string list"
  ad_Permissions :: "string list"
  ad_Action :: string
  ad_ResourceType :: string
  ad_ResourceID :: string
  ad_ReasonCode :: string
  ad_Required :: string
  ad_Context :: contextFields
  ad_Metadata :: metadata

definition BuildAuthzDeniedEvent :: "gotime \<Rightarrow> authzDeniedEventInput \<Rightarrow> event" where
  "BuildAuthzDeniedEvent now input =
     (let reasonCode = firstNonEmpty [ad_ReasonCode input, ''AUTHZ_DENIED'']
      in \<lparr>ev_Action = firstNonEmpty [ad_Action input, ActionAuthzDenied],
          ev_ResourceType = firstNonEmpty [ad_ResourceType input, ''authorization''],
          ev_ResourceID = ad_ResourceID input,
          ev_TenantID = ad_TenantID input,
          ev_Actor = \<lparr>af_UserID = ad_UserID input, af_UserEmail = ad_UserEmail input,
                      af_Roles = ad_Roles input, af_Permissions = ad_Permissions input\<rparr>,
          ev_Outcome = OutcomeDenied,
          ev_ReasonCode = reasonCode,
          ev_Context = ad_Context input,
          ev_Changes = [],
          ev_Metadata = putString ''required'' (ad_Required input)
            (putString ''reason_code'' reasonCode (cloneMetadata (ad_Metadata input))),
          ev_CreatedAt = now\<rparr>)"

record accessChangeEventInput =
  ac_TenantID :: string
  ac_Actor :: actorFields
  ac_TargetUserID :: string
  ac_ChangeType :: string
  ac_Granted :: "string list"
  ac_Revoked :: "string list"
  ac_Context :: contextFields
  ac_Metadata :: metadata

definition BuildAccessChangeEvent :: "goenv \<Rightarrow> gotime \<Rightarrow> accessChangeEventInput \<Rightarrow> event" where
  "BuildAccessChangeEvent env now input =
     (let changeType = to_lower (ge_lower env) (trim_space (ac_ChangeType input));
          isRole = (changeType = ''role'' \<or> changeType = ''roles'');
          metadata = AList.update ''change_type'' (MStr (if isRole then ''role'' else ''permission''))
            (cloneMetadata (ac_Metadata input));
          metadata = (if ac_Granted input \<noteq> [] then AList.update ''granted'' (MStrs (ac_Granted input)) metadata else metadata);
          metadata = (if ac_Revoked input \<noteq> [] then AList.update ''revoked'' (MStrs (ac_Revoked input)) metadata else metadata)
      in \<lparr>ev_Action = (if isRole then ActionRoleChanged else ActionPermissionChanged),
          ev_ResourceType = ''identity_access'',
          ev_ResourceID = ac_TargetUserID input,
          ev_TenantID = ac_TenantID input,
          ev_Actor = ac_Actor input,
          ev_Outcome = OutcomeSuccess,
          ev_ReasonCode = [],
          ev_Context = ac_Context input,
          ev_Changes = [],
          ev_Metadata = metadata,
          ev_CreatedAt = now\<rparr>)"

record assetEventInput =
  ae_Action :: string
  ae_TenantID :: string
  ae_UserID :: string
  ae_UserEmail :: string
  ae_AssetID :: string
  ae_ResourceID :: string
  ae_FileType :: string
  ae_LaunchMode :: string
  ae_CanDownload :: bool
  ae_Context :: contextFields
  ae_Metadata :: metadata

definition BuildAssetEvent :: "gotime \<Rightarrow> assetEventInput \<Rightarrow> event" where
  "BuildAssetEvent now input =
     \<lparr>ev_Action = firstNonEmpty [ae_Action input, ActionAssetLaunched],
      ev_ResourceType = ''hoclieu_asset'',
      ev_ResourceID = ae_AssetID input,
      ev_TenantID = ae_TenantID input,
      ev_Actor = \<lparr>af_UserID = ae_UserID input, af_UserEmail = ae_UserEmail input, af_Roles = [], af_Permissions = []\<rparr>,
      ev_Outcome = OutcomeSuccess,
      ev_ReasonCode = [],
      ev_Context = ae_Context input,
      ev_Changes = [],
      ev_Metadata = AList.update ''can_download'' (MBool (ae_CanDownload input))
        (putString ''launch_mode'' (ae_LaunchMode input)
          (putString ''file_type'' (ae_FileType input)
            (putString ''resource_id'' (ae_ResourceID input) (cloneMetadata (ae_Metadata input))))),
      ev_CreatedAt = now\<rparr>"

record quizEventInput =
  qe_Action :: string
  qe_TenantID :: string
  qe_UserID :: string
  qe_UserEmail :: string
  qe_QuizID :: string
  qe_AttemptID :: string
  qe_AssignmentID :: string
  qe_QuizVersion :: int
  qe_PackageHash :: string
  qe_AnswerCount :: int
  qe_Score :: float64
  qe_MaxScore :: float64
  qe_Percent :: float64
  qe_Passed :: bool
  qe_Context :: contextFields
  qe_Metadata :: metadata

definition quizMetadata :: "quizEventInput \<Rightarrow> metadata" where
  "quizMetadata input =
     (let metadata = putString ''package_hash'' (qe_PackageHash input)
            (putString ''assignment_id'' (qe_AssignmentID input)
              (putString ''quiz_id'' (qe_QuizID input) (cloneMetadata (qe_Metadata input))));
          metadata = (if qe_AttemptID input \<noteq> [] then AList.update ''attempt_id'' (MStr (qe_AttemptID input)) metadata else metadata);
          metadata = (if 0 < qe_QuizVersion input then AList.update ''quiz_version'' (MInt (qe_QuizVersion input)) metadata else metadata);
          metadata = (if 0 \<le> qe_AnswerCount input then AList.update ''answer_count'' (MInt (qe_AnswerCount input)) metadata else metadata)
      in if 0 < qe_MaxScore input then
           AList.update ''passed'' (MBool (qe_Passed input))
             (AList.update ''percent'' (MFloat (qe_Percent input))
               (AList.update ''max_score'' (MFloat (qe_MaxScore input))
                 (AList.update ''score'' (MFloat (qe_Score input)) metadata)))
         else metadata)"

definition BuildQuizEvent :: "gotime \<Rightarrow> quizEventInput \<Rightarrow> event" where
  "BuildQuizEvent now input =
     (let action = firstNonEmpty [qe_Action input, ActionQuizSubmitted];
          onAttempt = (action = ActionQuizSubmitted \<and> qe_AttemptID input \<noteq> [])
      in \<lparr>ev_Action = action,
          ev_ResourceType = (if onAttempt then ''lms_attempt'' else ''lms_quiz''),
          ev_ResourceID = (if onAttempt then qe_AttemptID input else qe_QuizID input),
          ev_TenantID = qe_TenantID input,
          ev_Actor = \<lparr>af_UserID = qe_UserID input, af_UserEmail = qe_UserEmail input, af_Roles = [], af_Permissions = []\<rparr>,
          ev_Outcome = OutcomeSuccess,
          ev_ReasonCode = [],
          ev_Context = qe_Context input,
          ev_Changes = [],
          ev_Metadata = quizMetadata input,
          ev_CreatedAt = now\<rparr>)"

definition StorageMetadata :: "event \<Rightarrow> metadata" where
  "StorageMetadata e =
     (let metadata = putString ''reason_code'' (ev_ReasonCode e)
            (putString ''outcome'' (ev_Outcome e) (cloneMetadata (ev_Metadata e)))
      in if contextFieldsEmpty (ev_Context e) then metadata
         else putString ''span_id'' (cf_SpanID (ev_Context e))
           (putString ''trace_id'' (cf_TraceID (ev_Context e))
             (putString ''request_id'' (cf_RequestID (ev_Context e))
               (AList.update ''context'' (MContext (ev_Context e)) metadata))))"

section \<open>Facts\<close>

lemma map_of_cloneMetadata: "distinct (map fst input) \<Longrightarrow> map_of (cloneMetadata input) = map_of input"
  by (simp add: cloneMetadata_def map_of_fold_update)

lemma map_of_putString:
  "map_of (putString key value md) = (if trim_space value \<noteq> [] then (map_of md)(key \<mapsto> MStr value) else map_of md)"
  by (simp add: putString_def update_conv')

end
