(* ===== verification/LmsRuntime.thy ===== *)
theory LmsRuntime
  imports LmsAttempts LmsAccess LmsValidation LmsContentStore AuditEvent
begin

text \<open>
  The exam runtime of the LMS service (\<open>runtime_service.go\<close>, \<open>attempt_runtime_contract.go\<close>,
  \<open>audit.go\<close>): assignments, attempts, answers, submission and scoring, synchronisation, progress.

  The state of the service is its repository and the audit events published so far. A handler takes
  what it reads of its surroundings (\<open>time.Now()\<close>, \<open>bson.NewObjectID()\<close>, the audit fields of the
  request context) as \<open>reqio\<close> and returns the new state with its result.
\<close>

record service =
  sv_repo :: memoryStore
  sv_audit :: "event list"

record reqio =
  io_now :: gotime
  io_fresh :: "nat \<Rightarrow> oid"
  io_ctx :: contextFields

definition newService :: service where
  "newService = \<lparr>sv_repo = newMemoryRepository, sv_audit = []\<rparr>"

text \<open>A repository call of a handler.\<close>

definition on_repo :: "(memoryStore \<Rightarrow> memoryStore \<times> 'a) \<Rightarrow> service \<Rightarrow> service \<times> 'a" where
  "on_repo f sv = (case f (sv_repo sv) of (m, r) \<Rightarrow> (sv\<lparr>sv_repo := m\<rparr>, r))"

section \<open>Responses\<close>

record attemptDTO =
  ad_ID :: string
  ad_AssignmentID :: string
  ad_QuizID :: string
  ad_StudentID :: string
  ad_PackageID :: string
  ad_PackageHash :: string
  ad_Status :: string
  ad_Answers :: answers
  ad_Score :: float64
  ad_MaxScore :: float64
  ad_Percent :: float64
  ad_Passed :: bool
  ad_StartedAt :: gotime
  ad_SubmittedAt :: "gotime option"
  ad_UpdatedAt :: gotime

definition attemptToDTO :: "goenv \<Rightarrow> attempt \<Rightarrow> attemptDTO" where
  "attemptToDTO env a =
     \<lparr>ad_ID = ge_hex env (at_ID a), ad_AssignmentID = ge_hex env (at_AssignmentID a),
      ad_QuizID = ge_hex env (at_QuizID a), ad_StudentID = ge_hex env (at_StudentID a),
      ad_PackageID = at_PackageID a, ad_PackageHash = at_PackageHash a, ad_Status = at_Status a,
      ad_Answers = at_Answers a, ad_Score = at_Score a, ad_MaxScore = at_MaxScore a,
      ad_Percent = at_Percent a, ad_Passed = at_Passed a, ad_StartedAt = at_StartedAt a,
      ad_SubmittedAt = at_SubmittedAt a, ad_UpdatedAt = at_UpdatedAt a\<rparr>"

definition attemptsToDTO :: "goenv \<Rightarrow> attempt list \<Rightarrow> attemptDTO list" where
  "attemptsToDTO env items = map (attemptToDTO env) items"

record assignmentDTO =
  sd_ID :: string
  sd_ClassID :: string
  sd_QuizID :: string
  sd_SubjectID :: string
  sd_StudentIDs :: "string list"
  sd_DueAt :: "gotime option"
  sd_TeacherNote :: string
  sd_Status :: string
  sd_RecipientMode :: string
  sd_CreatedAt :: gotime
  sd_UpdatedAt :: gotime

definition objectIDsToHex :: "goenv \<Rightarrow> oid list \<Rightarrow> string list" where
  "objectIDsToHex env ids = map (ge_hex env) ids"

definition assignmentToDTO :: "goenv \<Rightarrow> assignment \<Rightarrow> assignmentDTO" where
  "assignmentToDTO env a =
     \<lparr>sd_ID = ge_hex env (a_ID a), sd_ClassID = ge_hex env (a_ClassID a), sd_QuizID = ge_hex env (a_QuizID a),
      sd_SubjectID = (if a_SubjectID a \<noteq> 0 then ge_hex env (a_SubjectID a) else []),
      sd_StudentIDs = objectIDsToHex env (a_StudentIDs a), sd_DueAt = a_DueAt a,
      sd_TeacherNote = a_TeacherNote a, sd_Status = a_Status a, sd_RecipientMode = a_RecipientMode a,
      sd_CreatedAt = a_CreatedAt a, sd_UpdatedAt = a_UpdatedAt a\<rparr>"

definition assignmentsToDTO :: "goenv \<Rightarrow> assignment list \<Rightarrow> assignmentDTO list" where
  "assignmentsToDTO env items = map (assignmentToDTO env) items"

section \<open>Audit\<close>

text \<open>The error of the publisher is dropped; what reaches the publisher is the log.\<close>

definition publishAuditEvent :: "event \<Rightarrow> service \<Rightarrow> service" where
  "publishAuditEvent e sv = sv\<lparr>sv_audit := sv_audit sv @ [e]\<rparr>"

definition submittedEvent :: "goenv \<Rightarrow> reqio \<Rightarrow> string \<Rightarrow> attempt \<Rightarrow> event" where
  "submittedEvent env io tenantID a =
     BuildQuizEvent (io_now io)
       \<lparr>qe_Action = ActionQuizSubmitted, qe_TenantID = tenantID, qe_UserID = ge_hex env (at_StudentID a),
        qe_UserEmail = [], qe_QuizID = ge_hex env (at_QuizID a), qe_AttemptID = ge_hex env (at_ID a),
        qe_AssignmentID = ge_hex env (at_AssignmentID a), qe_QuizVersion = 0, qe_PackageHash = at_PackageHash a,
        qe_AnswerCount = int (length (at_Answers a)), qe_Score = at_Score a, qe_MaxScore = at_MaxScore a,
        qe_Percent = at_Percent a, qe_Passed = at_Passed a, qe_Context = io_ctx io, qe_Metadata = []\<rparr>"

definition publishQuizSubmittedAudit :: "goenv \<Rightarrow> reqio \<Rightarrow> string \<Rightarrow> attempt \<Rightarrow> service \<Rightarrow> service" where
  "publishQuizSubmittedAudit env io tenantID a sv = publishAuditEvent (submittedEvent env io tenantID a) sv"

section \<open>Assignments\<close>

record createAssignmentReq =
  ca_ClassID :: string
  ca_QuizIDs :: "string list"
  ca_RecipientMode :: string
  ca_StudentIDs :: "string list"
  ca_DueAt :: "gotime option"
  ca_TeacherNote :: string

fun objectIDsOrNil :: "goenv \<Rightarrow> string list \<Rightarrow> oid list" where
  "objectIDsOrNil env [] = []"
| "objectIDsOrNil env (i # ids) =
     (case objectID env i of Ret v \<Rightarrow> v # objectIDsOrNil env ids | _ \<Rightarrow> objectIDsOrNil env ids)"

definition assignmentRecipients ::
  "goenv \<Rightarrow> memoryStore \<Rightarrow> string \<Rightarrow> createAssignmentReq \<Rightarrow> oid list lres" where
  "assignmentRecipients env m tenantID req =
     (if ca_RecipientMode req = ''all'' then
        map_out (\<lambda>(students, n, nxt). map s_ID students)
          (listStudents env m tenantID
             \<lparr>sl_CenterID = [], sl_ClassID = ca_ClassID req, sl_Keyword = [], sl_Status = [], sl_Progress = [],
              sl_SubjectID = [], sl_Cursor = [], sl_Limit = 100\<rparr> [] [])
      else Ret (objectIDsOrNil env (ca_StudentIDs req)))"

text \<open>The loop over the quizzes of the request; \<open>n\<close> counts the assignments created so far.\<close>

fun createAssignments ::
  "goenv \<Rightarrow> reqio \<Rightarrow> string \<Rightarrow> actor \<Rightarrow> createAssignmentReq \<Rightarrow> class_rec \<Rightarrow> oid list \<Rightarrow> nat \<Rightarrow> string list
     \<Rightarrow> service \<Rightarrow> service \<times> string list lres" where
  "createAssignments env io tenantID a req k recipients n [] sv = (sv, Ret [])"
| "createAssignments env io tenantID a req k recipients n (quizID # rest) sv =
     and_then (getQuiz env (sv_repo sv) tenantID quizID) sv (\<lambda>found.
       case found of
         None \<Rightarrow> (sv, Fail ErrNotFound)
       | Some quiz \<Rightarrow>
           (let quizOID = (case objectID env quizID of Ret v \<Rightarrow> v | _ \<Rightarrow> 0);
                doc = \<lparr>a_ID = 0, a_TenantID = tenantID, a_ClassID = k_ID k, a_QuizID = quizOID,
                       a_SubjectID = z_SubjectID quiz, a_StudentIDs = recipients, a_DueAt = ca_DueAt req,
                       a_TeacherNote = ca_TeacherNote req, a_Status = [], a_AssignedBy = UserID a,
                       a_RecipientMode = ca_RecipientMode req, a_CreatedAt = 0, a_UpdatedAt = 0\<rparr>
            in case on_repo (createAssignment (io_now io) (io_fresh io n) doc) sv of (sv, created) \<Rightarrow>
                 then_do (createAssignments env io tenantID a req k recipients (Suc n) rest sv)
                   (\<lambda>sv ids. (sv, Ret (ge_hex env (a_ID created) # ids)))))"

definition CreateAssignment ::
  "goenv \<Rightarrow> reqio \<Rightarrow> string \<Rightarrow> actor \<Rightarrow> createAssignmentReq \<Rightarrow> service \<Rightarrow> service \<times> (string list \<times> nat) lres" where
  "CreateAssignment env io tenantID a req sv =
     and_then (getClass env (sv_repo sv) tenantID (ca_ClassID req)) sv (\<lambda>found.
       case found of
         None \<Rightarrow> (sv, Fail ErrNotFound)
       | Some k \<Rightarrow>
           if \<not> canAccessGlobal env a \<and> k_HomeroomTeacherID k \<noteq> UserID a
              \<and> \<not> canAccessCenter env (sv_repo sv) tenantID a (ge_hex env (k_CenterID k))
           then (sv, Fail ErrScopeForbidden)
           else and_then (assignmentRecipients env (sv_repo sv) tenantID req) sv (\<lambda>recipients.
             if recipients = [] then (sv, Fail ErrEmptyRecipient)
             else then_do (createAssignments env io tenantID a req k recipients 0 (ca_QuizIDs req) sv)
                    (\<lambda>sv ids. (sv, Ret (ids, length recipients)))))"

definition ClassAssignments ::
  "goenv \<Rightarrow> service \<Rightarrow> string \<Rightarrow> string \<Rightarrow> string \<Rightarrow> string \<Rightarrow> assignmentDTO list lres" where
  "ClassAssignments env sv tenantID classID status subjectID =
     bind_out (objectID env classID) (\<lambda>classOID.
       let flt = [(''class_id'', BOid classOID)];
           flt = (if status \<noteq> [] then (''status'', BStr status) # flt else flt)
       in bind_out (if subjectID \<noteq> [] then map_out (\<lambda>v. (''subject_id'', BOid v) # flt) (objectID env subjectID) else Ret flt)
            (\<lambda>flt. Ret (assignmentsToDTO env (listAssignments (sv_repo sv) tenantID flt))))"

record progressDTO =
  pg_Submitted :: int
  pg_InProgress :: int
  pg_NotStarted :: int
  pg_NeedsReview :: int

text \<open>The loop over the attempts, with the students already counted.\<close>

fun countProgress :: "goenv \<Rightarrow> string list \<Rightarrow> attempt list \<Rightarrow> progressDTO \<Rightarrow> progressDTO" where
  "countProgress env seen [] p = p"
| "countProgress env seen (a # rest) p =
     (let studentKey = ge_hex env (at_StudentID a)
      in if studentKey \<in> set seen then countProgress env seen rest p
         else
           let p = p\<lparr>pg_NotStarted := pg_NotStarted p - 1\<rparr>;
               p = (if at_Status a = ''submitted'' then p\<lparr>pg_Submitted := pg_Submitted p + 1\<rparr>
                    else p\<lparr>pg_InProgress := pg_InProgress p + 1\<rparr>)
           in countProgress env (studentKey # seen) rest p)"

definition AssignmentProgress :: "goenv \<Rightarrow> service \<Rightarrow> string \<Rightarrow> string \<Rightarrow> progressDTO lres" where
  "AssignmentProgress env sv tenantID assignmentID =
     bind_out (getAssignment env (sv_repo sv) tenantID assignmentID) (\<lambda>found.
       case found of
         None \<Rightarrow> Fail ErrNotFound
       | Some asg \<Rightarrow>
           Ret (countProgress env [] (listAttempts (sv_repo sv) tenantID [(''assignment_id'', BOid (a_ID asg))])
                  \<lparr>pg_Submitted = 0, pg_InProgress = 0, pg_NotStarted = int (length (a_StudentIDs asg)),
                   pg_NeedsReview = 0\<rparr>))"

definition StudentAssignments ::
  "goenv \<Rightarrow> service \<Rightarrow> string \<Rightarrow> actor \<Rightarrow> string \<Rightarrow> assignmentDTO list lres" where
  "StudentAssignments env sv tenantID a status =
     (case objectID env (UserID a) of
        Ret studentID \<Rightarrow>
          (let flt = [(''student_ids'', BOid studentID)];
               flt = (if status \<noteq> [] then (''status'', BStr status) # flt else flt)
           in Ret (assignmentsToDTO env (listAssignments (sv_repo sv) tenantID flt)))
      | Fail _ \<Rightarrow> Ret []
      | Panic \<Rightarrow> Panic)"

record scoreItem =
  si_Assignment :: assignmentDTO
  si_BestScore :: float64
  si_RecentAttemptsTop3 :: "attemptDTO list"

text \<open>\<open>best := attempts[0].Score; for _, a := range attempts { if a.Score > best { best = a.Score } }\<close>\<close>

definition bestScore :: "float64 \<Rightarrow> attempt list \<Rightarrow> float64" where
  "bestScore first attempts = fold (\<lambda>a best. if best < at_Score a then at_Score a else best) attempts first"

definition scoreItemOf :: "goenv \<Rightarrow> service \<Rightarrow> string \<Rightarrow> oid \<Rightarrow> string \<Rightarrow> assignment \<Rightarrow> scoreItem option" where
  "scoreItemOf env sv tenantID studentID subjectID asg =
     (if subjectID \<noteq> [] \<and> ge_hex env (a_SubjectID asg) \<noteq> subjectID then None
      else
        let attempts = listAttempts (sv_repo sv) tenantID
              [(''assignment_id'', BOid (a_ID asg)), (''student_id'', BOid studentID), (''status'', BStr ''submitted'')]
        in case attempts of
             [] \<Rightarrow> None
           | _ # _ \<Rightarrow>
               let attempts = sort_slice attemptUpdatedAfter attempts
               in Some \<lparr>si_Assignment = assignmentToDTO env asg,
                        si_BestScore = bestScore (at_Score (hd attempts)) attempts,
                        si_RecentAttemptsTop3 = attemptsToDTO env (take 3 attempts)\<rparr>)"

definition StudentScores :: "goenv \<Rightarrow> service \<Rightarrow> string \<Rightarrow> actor \<Rightarrow> string \<Rightarrow> scoreItem list lres" where
  "StudentScores env sv tenantID a subjectID =
     (case objectID env (UserID a) of
        Ret studentID \<Rightarrow>
          Ret (List.map_filter (scoreItemOf env sv tenantID studentID subjectID)
                 (listAssignments (sv_repo sv) tenantID [(''student_ids'', BOid studentID)]))
      | Fail _ \<Rightarrow> Ret []
      | Panic \<Rightarrow> Panic)"

section \<open>Attempts\<close>

record startAttemptReq =
  st_AssignmentID :: string
  st_QuizID :: string
  st_PackageID :: string
  st_PackageHash :: string

record saveAnswerReq =
  sa_Answer :: jval
  sa_ClientResult :: jobj
  sa_AnsweredAt :: "gotime option"

record submitAttemptReq =
  su_Answers :: jobj
  su_SubmittedAt :: "gotime option"

record attemptSyncReq =
  sy_PackageHash :: string
  sy_QuizVersion :: string
  sy_Attempt :: jobj
  sy_Events :: "jobj list"
  sy_Client :: jobj

record answerResult =
  ar_AttemptID :: string
  ar_QuestionID :: string
  ar_Saved :: bool

record submitResult =
  sr_Score :: float64
  sr_MaxScore :: float64
  sr_Percent :: float64
  sr_Passed :: bool

record syncResult =
  sn_Status :: string
  sn_ServerAttempt :: attemptDTO
  sn_Conflicts :: "string list"

fun assignmentIncludesStudent_loop :: "oid \<Rightarrow> oid list \<Rightarrow> bool" where
  "assignmentIncludesStudent_loop studentID [] = False"
| "assignmentIncludesStudent_loop studentID (i # ids) =
     (if i = studentID then True else assignmentIncludesStudent_loop studentID ids)"

definition assignmentIncludesStudent :: "assignment \<Rightarrow> oid \<Rightarrow> bool" where
  "assignmentIncludesStudent asg studentID = assignmentIncludesStudent_loop studentID (a_StudentIDs asg)"

definition actorOwnsAttempt :: "goenv \<Rightarrow> actor \<Rightarrow> attempt \<Rightarrow> bool" where
  "actorOwnsAttempt env a att \<longleftrightarrow> UserID a \<noteq> [] \<and> UserID a = ge_hex env (at_StudentID att)"

definition ensureActorCanAccessAttempt :: "goenv \<Rightarrow> actor \<Rightarrow> attempt \<Rightarrow> unit lres" where
  "ensureActorCanAccessAttempt env a att = (if actorOwnsAttempt env a att then Ret () else Fail ErrScopeForbidden)"

definition newAttempt :: "string \<Rightarrow> oid \<Rightarrow> oid \<Rightarrow> oid \<Rightarrow> startAttemptReq \<Rightarrow> attempt" where
  "newAttempt tenantID assignmentID quizID studentID req =
     \<lparr>at_ID = 0, at_TenantID = tenantID, at_AssignmentID = assignmentID, at_QuizID = quizID, at_StudentID = studentID,
      at_PackageID = st_PackageID req, at_PackageHash = st_PackageHash req, at_QuizVersion = [], at_Status = [],
      at_Answers = [], at_Events = [], at_Client = [], at_Score = 0, at_MaxScore = 100, at_Percent = 0,
      at_Passed = False, at_StartedAt = 0, at_SubmittedAt = None, at_UpdatedAt = 0\<rparr>"

text \<open>
  Creating an attempt in the in-memory repository returns no error, so the retry that
  \<open>StartAttempt\<close> has for a duplicate key of the database is not reached.
\<close>

definition StartAttempt ::
  "goenv \<Rightarrow> reqio \<Rightarrow> string \<Rightarrow> actor \<Rightarrow> startAttemptReq \<Rightarrow> service \<Rightarrow> service \<times> attemptDTO lres" where
  "StartAttempt env io tenantID a req sv =
     and_then (getAssignment env (sv_repo sv) tenantID (st_AssignmentID req)) sv (\<lambda>found.
       case found of
         None \<Rightarrow> (sv, Fail ErrNotFound)
       | Some asg \<Rightarrow>
           (case objectID env (UserID a) of
              Fail _ \<Rightarrow> (sv, Fail ErrScopeForbidden)
            | Panic \<Rightarrow> (sv, Panic)
            | Ret studentID \<Rightarrow>
                if \<not> assignmentIncludesStudent asg studentID then (sv, Fail ErrScopeForbidden)
                else and_then (objectID env (st_AssignmentID req)) sv (\<lambda>assignmentID.
                  and_then (objectID env (st_QuizID req)) sv (\<lambda>quizID.
                    case findActiveAttempt (sv_repo sv) tenantID assignmentID quizID studentID of
                      Some active \<Rightarrow> (sv, Ret (attemptToDTO env active))
                    | None \<Rightarrow>
                        (case on_repo (createAttempt (io_now io) (io_fresh io 0)
                                 (newAttempt tenantID assignmentID quizID studentID req)) sv of
                           (sv, att) \<Rightarrow> (sv, Ret (attemptToDTO env att)))))))"

definition SaveAnswer ::
  "goenv \<Rightarrow> reqio \<Rightarrow> string \<Rightarrow> string \<Rightarrow> string \<Rightarrow> saveAnswerReq \<Rightarrow> service \<Rightarrow> service \<times> answerResult lres" where
  "SaveAnswer env io tenantID attemptID questionID req sv =
     and_then (validateSingleAnswerPayload env (sa_Answer req) (sa_ClientResult req)) sv (\<lambda>_.
     and_then (getAttempt env (sv_repo sv) tenantID attemptID) sv (\<lambda>found.
       case found of
         None \<Rightarrow> (sv, Fail ErrNotFound)
       | Some att \<Rightarrow>
           if at_Status att = ''submitted'' then (sv, Fail ErrAttemptDone)
           else then_do
             (on_repo (SaveAttemptAnswer env (io_now io) tenantID attemptID questionID
                \<lparr>aa_QuestionID = questionID, aa_Answer = sa_Answer req, aa_ClientResult = sa_ClientResult req,
                 aa_AnsweredAt = sa_AnsweredAt req\<rparr>) sv)
             (\<lambda>sv updated. case updated of
                None \<Rightarrow> (sv, Fail ErrNotFound)
              | Some att \<Rightarrow>
                  if at_Status att = ''submitted'' then (sv, Fail ErrAttemptDone)
                  else (sv, Ret \<lparr>ar_AttemptID = attemptID, ar_QuestionID = questionID, ar_Saved = True\<rparr>))))"

definition submitScore :: "attempt \<Rightarrow> float64" where
  "submitScore att =
     (let score = float_of_int (int (length (at_Answers att))) in if 100 < score then 100 else score)"

definition submitPercent :: "float64 \<Rightarrow> float64" where
  "submitPercent score = fmul (fdiv score 100) 100"

definition scoreSubmittedAttempt ::
  "goenv \<Rightarrow> reqio \<Rightarrow> string \<Rightarrow> string \<Rightarrow> attempt \<Rightarrow> service \<Rightarrow> service \<times> attempt option lres" where
  "scoreSubmittedAttempt env io tenantID attemptID att sv =
     (let score = submitScore att; percent = submitPercent score
      in on_repo (UpdateAttemptScore env (io_now io) tenantID attemptID score 100 percent (50 \<le> percent)) sv)"

definition attemptSubmitResult :: "attempt \<Rightarrow> submitResult" where
  "attemptSubmitResult att =
     (if 0 < at_MaxScore att \<and> (0 < at_Score att \<or> at_Answers att = []) then
        \<lparr>sr_Score = at_Score att, sr_MaxScore = at_MaxScore att, sr_Percent = at_Percent att, sr_Passed = at_Passed att\<rparr>
      else
        let score = submitScore att; percent = submitPercent score
        in \<lparr>sr_Score = score, sr_MaxScore = 100, sr_Percent = percent, sr_Passed = 50 \<le> percent\<rparr>)"

definition answersFromReq :: "jobj \<Rightarrow> answers" where
  "answersFromReq ans =
     map (\<lambda>(qid, v). (qid, \<lparr>aa_QuestionID = qid, aa_Answer = v, aa_ClientResult = [], aa_AnsweredAt = None\<rparr>)) ans"

definition SubmitAttempt ::
  "goenv \<Rightarrow> reqio \<Rightarrow> string \<Rightarrow> string \<Rightarrow> submitAttemptReq \<Rightarrow> service \<Rightarrow> service \<times> submitResult lres" where
  "SubmitAttempt env io tenantID attemptID req sv =
     and_then (validateAttemptPayload env (su_Answers req) [] []) sv (\<lambda>_.
     and_then (getAttempt env (sv_repo sv) tenantID attemptID) sv (\<lambda>found.
       case found of
         None \<Rightarrow> (sv, Fail ErrNotFound)
       | Some att \<Rightarrow>
           if at_Status att = ''submitted'' then (sv, Ret (attemptSubmitResult att))
           else
             let submittedAt = (case su_SubmittedAt req of None \<Rightarrow> io_now io | Some t \<Rightarrow> t)
             in then_do
               (on_repo (submitAttempt env (io_now io) tenantID attemptID (answersFromReq (su_Answers req)) submittedAt) sv)
               (\<lambda>sv (updated, didSubmit). case updated of
                  None \<Rightarrow> (sv, Fail ErrNotFound)
                | Some att \<Rightarrow>
                    if \<not> didSubmit \<and> at_Status att = ''submitted'' then (sv, Ret (attemptSubmitResult att))
                    else then_do (scoreSubmittedAttempt env io tenantID attemptID att sv)
                      (\<lambda>sv scored. case scored of
                         None \<Rightarrow> (sv, Panic)
                       | Some att \<Rightarrow>
                           (publishQuizSubmittedAudit env io tenantID att sv, Ret (attemptSubmitResult att))))))"

definition syncUpdate :: "attempt \<Rightarrow> attemptSyncReq \<Rightarrow> bsonM" where
  "syncUpdate att req =
     (let update = [(''quiz_version'', BStr (sy_QuizVersion req)), (''events'', BMaps (sy_Events req)),
                    (''client'', BMap (sy_Client req))]
      in case map_of (sy_Attempt req) ''status'' of
           Some (JStr status) \<Rightarrow>
             if status \<noteq> [] \<and> at_Status att \<noteq> ''submitted'' then (''status'', BStr status) # update else update
         | _ \<Rightarrow> update)"

definition SyncAttempt ::
  "goenv \<Rightarrow> reqio \<Rightarrow> string \<Rightarrow> string \<Rightarrow> attemptSyncReq \<Rightarrow> service \<Rightarrow> service \<times> syncResult lres" where
  "SyncAttempt env io tenantID attemptID req sv =
     and_then (validateAttemptPayload env [] (sy_Events req) (sy_Client req)) sv (\<lambda>_.
     and_then (getAttempt env (sv_repo sv) tenantID attemptID) sv (\<lambda>found.
       case found of
         None \<Rightarrow> (sv, Fail ErrNotFound)
       | Some att \<Rightarrow>
           if at_PackageHash att \<noteq> sy_PackageHash req then (sv, Fail ErrHashMismatch)
           else then_do
             (on_repo (updateAttempt env (io_now io) tenantID attemptID (syncUpdate att req)) sv)
             (\<lambda>sv updated. case updated of
                None \<Rightarrow> (sv, Panic)
              | Some att \<Rightarrow>
                  (sv, Ret \<lparr>sn_Status = ''synced'', sn_ServerAttempt = attemptToDTO env att, sn_Conflicts = []\<rparr>))))"

section \<open>The attempt operations of an actor\<close>

text \<open>What the \<open>\<dots>ForActor\<close> methods share: the attempt must exist and belong to the actor.\<close>

definition ownedAttempt ::
  "goenv \<Rightarrow> string \<Rightarrow> actor \<Rightarrow> string \<Rightarrow> service \<Rightarrow> attempt lres" where
  "ownedAttempt env tenantID a attemptID sv =
     bind_out (getAttempt env (sv_repo sv) tenantID attemptID) (\<lambda>found.
       case found of
         None \<Rightarrow> Fail ErrNotFound
       | Some att \<Rightarrow> map_out (\<lambda>_. att) (ensureActorCanAccessAttempt env a att))"

definition SaveAnswerForActor ::
  "goenv \<Rightarrow> reqio \<Rightarrow> string \<Rightarrow> actor \<Rightarrow> string \<Rightarrow> string \<Rightarrow> saveAnswerReq \<Rightarrow> service \<Rightarrow> service \<times> answerResult lres" where
  "SaveAnswerForActor env io tenantID a attemptID questionID req sv =
     and_then (ownedAttempt env tenantID a attemptID sv) sv (\<lambda>_.
       SaveAnswer env io tenantID attemptID questionID req sv)"

definition SubmitAttemptForActor ::
  "goenv \<Rightarrow> reqio \<Rightarrow> string \<Rightarrow> actor \<Rightarrow> string \<Rightarrow> submitAttemptReq \<Rightarrow> service \<Rightarrow> service \<times> submitResult lres" where
  "SubmitAttemptForActor env io tenantID a attemptID req sv =
     and_then (ownedAttempt env tenantID a attemptID sv) sv (\<lambda>att.
       if at_Status att = ''submitted'' then (sv, Ret (attemptSubmitResult att))
       else SubmitAttempt env io tenantID attemptID req sv)"

definition SyncAttemptForActor ::
  "goenv \<Rightarrow> reqio \<Rightarrow> string \<Rightarrow> actor \<Rightarrow> string \<Rightarrow> attemptSyncReq \<Rightarrow> service \<Rightarrow> service \<times> syncResult lres" where
  "SyncAttemptForActor env io tenantID a attemptID req sv =
     and_then (ownedAttempt env tenantID a attemptID sv) sv (\<lambda>_.
       SyncAttempt env io tenantID attemptID req sv)"

section \<open>Progress of a quiz\<close>

record quizProgressItem =
  qp_StudentID :: string
  qp_AssignmentID :: string
  qp_Status :: string
  qp_BestScore :: float64
  qp_AttemptCount :: int

definition addAttempt :: "attempt \<Rightarrow> quizProgressItem \<Rightarrow> quizProgressItem" where
  "addAttempt att item =
     (let item = item\<lparr>qp_AttemptCount := qp_AttemptCount item + 1\<rparr>
      in if at_Status att = ''submitted'' then
           let item = item\<lparr>qp_Status := ''submitted''\<rparr>
           in if qp_BestScore item < at_Score att then item\<lparr>qp_BestScore := at_Score att\<rparr> else item
         else if qp_Status item = ''not_started'' then item\<lparr>qp_Status := ''in_progress''\<rparr>
         else item)"

definition progressItem :: "goenv \<Rightarrow> service \<Rightarrow> string \<Rightarrow> assignment \<Rightarrow> oid \<Rightarrow> quizProgressItem" where
  "progressItem env sv tenantID asg studentID =
     fold addAttempt
       (listAttempts (sv_repo sv) tenantID [(''assignment_id'', BOid (a_ID asg)), (''student_id'', BOid studentID)])
       \<lparr>qp_StudentID = ge_hex env studentID, qp_AssignmentID = ge_hex env (a_ID asg), qp_Status = ''not_started'',
        qp_BestScore = 0, qp_AttemptCount = 0\<rparr>"

definition QuizStudentProgress ::
  "goenv \<Rightarrow> service \<Rightarrow> string \<Rightarrow> string \<Rightarrow> string \<Rightarrow> string \<Rightarrow> quizProgressItem list lres" where
  "QuizStudentProgress env sv tenantID quizID classID status =
     bind_out (objectID env quizID) (\<lambda>quizOID.
       let flt = [(''quiz_id'', BOid quizOID)]
       in bind_out (if classID \<noteq> [] then map_out (\<lambda>v. (''class_id'', BOid v) # flt) (objectID env classID) else Ret flt)
            (\<lambda>flt. Ret (filter (\<lambda>item. status = [] \<or> qp_Status item = status)
                (concat (map (\<lambda>asg. map (progressItem env sv tenantID asg) (a_StudentIDs asg))
                   (listAssignments (sv_repo sv) tenantID flt))))))"

end
