(* ===== verification/LmsExam.thy ===== *)
theory LmsExam
  imports LmsRuntime
begin

text \<open>
  Correctness of the exam runtime. Each handler is first reduced to its effect on the attempts of
  the repository; the life cycle of an attempt is then stated as a step relation that the handlers
  refine, and the properties of submissions, scores, audit events and ownership follow from it.
\<close>

section \<open>The effect of the handlers\<close>

text \<open>The attempt after grading, and after a submission.\<close>

definition graded :: "gotime \<Rightarrow> attempt \<Rightarrow> attempt" where
  "graded now a =
     (let score = submitScore a; percent = submitPercent score
      in a\<lparr>at_Score := score, at_MaxScore := 100, at_Percent := percent, at_Passed := 50 \<le> percent, at_UpdatedAt := now\<rparr>)"

definition submitted :: "reqio \<Rightarrow> submitAttemptReq \<Rightarrow> attempt \<Rightarrow> attempt" where
  "submitted io req a =
     graded (io_now io)
       (closeAttempt (io_now io) (answersFromReq (su_Answers req))
          (case su_SubmittedAt req of None \<Rightarrow> io_now io | Some t \<Rightarrow> t) a)"

lemma applyMemoryAttemptUpdate_score:
  "applyMemoryAttemptUpdate now
     [(''score'', BFloat s), (''max_score'', BFloat m), (''percent'', BFloat p), (''passed'', BBool ok)] a
   = a\<lparr>at_Score := s, at_MaxScore := m, at_Percent := p, at_Passed := ok, at_UpdatedAt := now\<rparr>"
  by (simp add: applyMemoryAttemptUpdate_def has_prefix_def)

lemma attemptKey_putAnswer [simp]: "attemptKey t v (putAnswer now q ans a) = attemptKey t v a"
  by (rule attemptKey_identity) simp

lemma attemptKey_closeAttempt [simp]: "attemptKey t v (closeAttempt now ans sub a) = attemptKey t v a"
  by (rule attemptKey_identity) simp

lemma attemptKey_update [simp]: "attemptKey t v (applyMemoryAttemptUpdate now u a) = attemptKey t v a"
  by (rule attemptKey_identity) simp

lemma putAnswer_status [simp]: "at_Status (putAnswer now q ans a) = at_Status a"
  by (simp add: putAnswer_def)

lemma graded_identity [simp]: "attemptIdentity (graded now a) = attemptIdentity a"
  by (simp add: graded_def Let_def attemptIdentity_def)

lemma submitted_identity [simp]: "attemptIdentity (submitted io req a) = attemptIdentity a"
  by (simp add: submitted_def)

lemma attemptKey_submitted [simp]: "attemptKey t v (submitted io req a) = attemptKey t v a"
  by (rule attemptKey_identity) simp

text \<open>Replacing the attempt with a given key.\<close>

definition setAttempt :: "string \<Rightarrow> oid \<Rightarrow> attempt \<Rightarrow> service \<Rightarrow> service" where
  "setAttempt t v b sv =
     sv\<lparr>sv_repo := (sv_repo sv)\<lparr>m_attempts := update_first (attemptKey t v) (\<lambda>_. b) (m_attempts (sv_repo sv))\<rparr>\<rparr>"

abbreviation lookupAttempt :: "service \<Rightarrow> string \<Rightarrow> oid \<Rightarrow> attempt option" where
  "lookupAttempt sv t v \<equiv> find (attemptKey t v) (m_attempts (sv_repo sv))"

lemma getAttempt_Ret: "getAttempt env m t i = Ret r \<longleftrightarrow> (\<exists>v. objectID env i = Ret v \<and> r = find (attemptKey t v) (m_attempts m))"
  by (auto simp: getAttempt_def outcome_simps)

lemma objectID_not_panic [simp]: "objectID env i \<noteq> Panic"
  by (simp add: objectID_def split: option.splits)

lemma getAttempt_not_panic [simp]: "getAttempt env m t i \<noteq> Panic"
  by (cases "objectID env i") (auto simp: getAttempt_def)

lemma SubmitAttempt_open:
  assumes v: "objectID env attemptID = Ret v" and a: "lookupAttempt sv t v = Some a"
    and open_: "at_Status a \<noteq> ''submitted''" and ok: "validateAttemptPayload env (su_Answers req) [] [] = Ret ()"
  shows "SubmitAttempt env io t attemptID req sv =
    (publishQuizSubmittedAudit env io t (submitted io req a) (setAttempt t v (submitted io req a) sv),
     Ret (attemptSubmitResult (submitted io req a)))"
proof -
  let ?ans = "answersFromReq (su_Answers req)" and ?now = "io_now io"
  let ?sub = "case su_SubmittedAt req of None \<Rightarrow> io_now io | Some t \<Rightarrow> t"
  let ?b = "closeAttempt ?now ?ans ?sub a"
  have g: "applyMemoryAttemptUpdate ?now [(''score'', BFloat (submitScore ?b)), (''max_score'', BFloat 100),
      (''percent'', BFloat (submitPercent (submitScore ?b))), (''passed'', BBool (50 \<le> submitPercent (submitScore ?b)))] ?b
    = submitted io req a"
    by (simp add: applyMemoryAttemptUpdate_score submitted_def graded_def Let_def)
  have upd: "update_first (attemptKey t v) f (update_first (attemptKey t v) (closeAttempt ?now ?ans ?sub) xs)
      = update_first (attemptKey t v) (\<lambda>_. f ?b) xs" if "find (attemptKey t v) xs = Some a" for f xs
    using that by (simp add: update_first_twice update_first_const [where f = "\<lambda>x. f (closeAttempt ?now ?ans ?sub x)"])
  show ?thesis
    using assms
    by (simp add: SubmitAttempt_def getAttempt_def submitAttempt_def on_repo_def scoreSubmittedAttempt_def
        UpdateAttemptScore_def updateAttempt_def withAttempt_def find_update_first upd g setAttempt_def Let_def)
qed

lemma SubmitAttempt_effect:
  "SubmitAttempt env io t attemptID req sv = (sv', r) \<Longrightarrow>
     sv' = sv \<or>
     (\<exists>v a. objectID env attemptID = Ret v \<and> lookupAttempt sv t v = Some a \<and> at_Status a \<noteq> ''submitted''
        \<and> validateAttemptPayload env (su_Answers req) [] [] = Ret ()
        \<and> sv' = publishQuizSubmittedAudit env io t (submitted io req a) (setAttempt t v (submitted io req a) sv)
        \<and> r = Ret (attemptSubmitResult (submitted io req a)))"
proof -
  assume run: "SubmitAttempt env io t attemptID req sv = (sv', r)"
  show ?thesis
  proof (cases "\<exists>v a. objectID env attemptID = Ret v \<and> lookupAttempt sv t v = Some a \<and> at_Status a \<noteq> ''submitted''
        \<and> validateAttemptPayload env (su_Answers req) [] [] = Ret ()")
    case True
    with run show ?thesis by (force simp: SubmitAttempt_open)
  next
    case False
    have "sv' = sv"
      by (rule and_then_stays [OF run [unfolded SubmitAttempt_def]], erule and_then_stays)
         (use False in \<open>auto simp: getAttempt_Ret split: option.splits if_splits\<close>)
    then show ?thesis ..
  qed
qed

lemma SaveAnswer_effect:
  assumes run: "SaveAnswer env io t attemptID questionID req sv = (sv', r)"
  shows "sv' = sv \<or>
    (\<exists>v a ans. objectID env attemptID = Ret v \<and> lookupAttempt sv t v = Some a \<and> at_Status a \<noteq> ''submitted''
       \<and> sv' = setAttempt t v (putAnswer (io_now io) questionID ans a) sv \<and> is_ret r)"
proof -
  let ?ans = "\<lparr>aa_QuestionID = questionID, aa_Answer = sa_Answer req, aa_ClientResult = sa_ClientResult req,
                 aa_AnsweredAt = sa_AnsweredAt req\<rparr>"
  show ?thesis
  proof (cases "\<exists>v a f. objectID env attemptID = Ret v \<and> lookupAttempt sv t v = Some a \<and> at_Status a \<noteq> ''submitted''
      \<and> answerField questionID = Ret f \<and> validateSingleAnswerPayload env (sa_Answer req) (sa_ClientResult req) = Ret ()")
    case True
    then obtain v a f where *: "objectID env attemptID = Ret v" "lookupAttempt sv t v = Some a"
      "at_Status a \<noteq> ''submitted''" "answerField questionID = Ret f"
      "validateSingleAnswerPayload env (sa_Answer req) (sa_ClientResult req) = Ret ()" by blast
    with run have "sv' = setAttempt t v (putAnswer (io_now io) questionID ?ans a) sv" "is_ret r"
      by (auto simp: SaveAnswer_def getAttempt_def on_repo_def SaveAttemptAnswer_def saveAttemptAnswer_def
          withAttempt_def setAttempt_def putAnswer_status
          update_first_const [where f = "putAnswer (io_now io) questionID ?ans"] split: if_splits)
    with * show ?thesis by blast
  next
    case False
    have "sv' = sv"
      by (rule and_then_stays [OF run [unfolded SaveAnswer_def]], erule and_then_stays)
         (use False in \<open>auto simp: getAttempt_Ret on_repo_def SaveAttemptAnswer_def
           split: option.splits if_splits outcome.splits\<close>)
    then show ?thesis ..
  qed
qed

lemma SyncAttempt_effect:
  assumes run: "SyncAttempt env io t attemptID req sv = (sv', r)"
  shows "sv' = sv \<and> \<not> is_ret r \<or>
    (\<exists>v a. objectID env attemptID = Ret v \<and> lookupAttempt sv t v = Some a \<and> at_PackageHash a = sy_PackageHash req
       \<and> sv' = setAttempt t v (applyMemoryAttemptUpdate (io_now io) (syncUpdate a req) a) sv
       \<and> r = Ret \<lparr>sn_Status = ''synced'', sn_ServerAttempt =
            attemptToDTO env (applyMemoryAttemptUpdate (io_now io) (syncUpdate a req) a), sn_Conflicts = []\<rparr>)"
proof -
  show ?thesis
  proof (cases "\<exists>v a. objectID env attemptID = Ret v \<and> lookupAttempt sv t v = Some a \<and> at_PackageHash a = sy_PackageHash req
      \<and> validateAttemptPayload env [] (sy_Events req) (sy_Client req) = Ret ()")
    case True
    then obtain v a where *: "objectID env attemptID = Ret v" "lookupAttempt sv t v = Some a"
      "at_PackageHash a = sy_PackageHash req" "validateAttemptPayload env [] (sy_Events req) (sy_Client req) = Ret ()" by blast
    with run show ?thesis
      by (auto simp: SyncAttempt_def getAttempt_def on_repo_def updateAttempt_def withAttempt_def setAttempt_def
          update_first_const [where f = "applyMemoryAttemptUpdate (io_now io) (syncUpdate a req)"])
  next
    case False
    have "sv' = sv \<and> \<not> is_ret r"
      by (rule and_then_fails [OF run [unfolded SyncAttempt_def]], erule and_then_fails)
         (use False in \<open>auto simp: getAttempt_Ret split: option.splits if_splits\<close>)
    then show ?thesis ..
  qed
qed

lemma assignmentIncludesStudent_iff [simp]: "assignmentIncludesStudent asg i \<longleftrightarrow> i \<in> set (a_StudentIDs asg)"
proof -
  have "assignmentIncludesStudent_loop i ids \<longleftrightarrow> i \<in> set ids" for ids
    by (induction ids) auto
  then show ?thesis by (simp add: assignmentIncludesStudent_def)
qed

abbreviation lookupAssignment :: "service \<Rightarrow> string \<Rightarrow> oid \<Rightarrow> assignment option" where
  "lookupAssignment sv t v \<equiv> find (\<lambda>a. a_TenantID a = t \<and> a_ID a = v) (m_assignments (sv_repo sv))"

lemma getAssignment_Ret:
  "getAssignment env m t i = Ret r \<longleftrightarrow>
     (\<exists>v. objectID env i = Ret v \<and> r = find (\<lambda>a. a_TenantID a = t \<and> a_ID a = v) (m_assignments m))"
  by (auto simp: getAssignment_def outcome_simps)

text \<open>The attempt that \<open>StartAttempt\<close> stores.\<close>

definition startedAttempt :: "reqio \<Rightarrow> string \<Rightarrow> oid \<Rightarrow> oid \<Rightarrow> oid \<Rightarrow> startAttemptReq \<Rightarrow> attempt" where
  "startedAttempt io t assignmentID quizID studentID req =
     (newAttempt t assignmentID quizID studentID req)
       \<lparr>at_ID := io_fresh io 0, at_Status := ''in_progress'', at_StartedAt := io_now io, at_UpdatedAt := io_now io\<rparr>"

definition addAttemptDoc :: "attempt \<Rightarrow> service \<Rightarrow> service" where
  "addAttemptDoc b sv = sv\<lparr>sv_repo := (sv_repo sv)\<lparr>m_attempts := m_attempts (sv_repo sv) @ [b]\<rparr>\<rparr>"

lemma StartAttempt_run:
  assumes "objectID env (st_AssignmentID req) = Ret asgID" and "lookupAssignment sv t asgID = Some asg"
    and "objectID env (UserID actr) = Ret sid" and "sid \<in> set (a_StudentIDs asg)"
    and "objectID env (st_QuizID req) = Ret qid"
  shows "StartAttempt env io t actr req sv =
    (case findActiveAttempt (sv_repo sv) t asgID qid sid of
       Some b \<Rightarrow> (sv, Ret (attemptToDTO env b))
     | None \<Rightarrow> (addAttemptDoc (startedAttempt io t asgID qid sid req) sv,
                Ret (attemptToDTO env (startedAttempt io t asgID qid sid req))))"
  using assms
  by (simp add: StartAttempt_def getAssignment_def on_repo_def createAttempt_def newAttempt_def
      startedAttempt_def addAttemptDoc_def Let_def split: option.splits)

lemma StartAttempt_effect:
  assumes run: "StartAttempt env io t actr req sv = (sv', r)"
  shows "sv' = sv \<or>
    (\<exists>asgID asg sid qid. lookupAssignment sv t asgID = Some asg \<and> objectID env (UserID actr) = Ret sid
       \<and> sid \<in> set (a_StudentIDs asg) \<and> findActiveAttempt (sv_repo sv) t asgID qid sid = None
       \<and> sv' = addAttemptDoc (startedAttempt io t asgID qid sid req) sv
       \<and> r = Ret (attemptToDTO env (startedAttempt io t asgID qid sid req)))"
proof (cases "\<exists>asgID asg sid qid. objectID env (st_AssignmentID req) = Ret asgID \<and> lookupAssignment sv t asgID = Some asg
    \<and> objectID env (UserID actr) = Ret sid \<and> sid \<in> set (a_StudentIDs asg) \<and> objectID env (st_QuizID req) = Ret qid")
  case True
  then obtain asgID asg sid qid where *: "objectID env (st_AssignmentID req) = Ret asgID"
    "lookupAssignment sv t asgID = Some asg" "objectID env (UserID actr) = Ret sid"
    "sid \<in> set (a_StudentIDs asg)" "objectID env (st_QuizID req) = Ret qid" by blast
  show ?thesis
    using run * StartAttempt_run [OF *, of io] by (auto split: option.splits)
next
  case False
  have "sv' = sv"
    by (rule and_then_stays [OF run [unfolded StartAttempt_def]])
       (use False in \<open>auto simp: getAssignment_Ret split: option.splits if_splits outcome.splits
          elim!: and_then_stays\<close>)
  then show ?thesis ..
qed

lemma ownedAttempt_Ret:
  "ownedAttempt env t actr i sv = Ret a \<longleftrightarrow>
     (\<exists>v. objectID env i = Ret v \<and> lookupAttempt sv t v = Some a \<and> actorOwnsAttempt env actr a)"
  by (auto simp: ownedAttempt_def getAttempt_Ret ensureActorCanAccessAttempt_def outcome_simps split: option.splits if_splits)

section \<open>The assignments a request creates\<close>

definition extendsAssignments :: "string \<Rightarrow> service \<Rightarrow> service \<Rightarrow> bool" where
  "extendsAssignments t sv sv' \<longleftrightarrow>
     (\<exists>new. (\<forall>doc \<in> set new. a_TenantID doc = t) \<and> sv' = sv\<lparr>sv_repo := (sv_repo sv)\<lparr>m_assignments := m_assignments (sv_repo sv) @ new\<rparr>\<rparr>)"

lemma extendsAssignments_refl [simp]: "extendsAssignments t sv sv"
  by (auto simp: extendsAssignments_def intro!: exI [of _ "[]"])

lemma extendsAssignments_trans:
  "extendsAssignments t sv sv' \<Longrightarrow> extendsAssignments t sv' sv'' \<Longrightarrow> extendsAssignments t sv sv''"
  by (auto simp: extendsAssignments_def) (metis append_assoc set_append UnE)

lemma createAssignments_extends:
  "extendsAssignments t sv (fst (createAssignments env io t actr req k recipients n quizIDs sv))"
proof (induction quizIDs arbitrary: n sv)
  case (Cons q qs)
  have step: "extendsAssignments t sv (fst (on_repo (createAssignment now i doc) sv))" if "a_TenantID doc = t" for now i doc
    unfolding extendsAssignments_def using that
    by (intro exI [of _ "[snd (createAssignment now i doc (sv_repo sv))]"])
       (simp add: createAssignment_def on_repo_def Let_def)
  show ?case
    by (auto simp: fst_and_then fst_then_do Let_def split_beta split: outcome.splits option.splits
        intro!: extendsAssignments_trans [OF step Cons.IH])
qed simp

lemma CreateAssignment_extends: "extendsAssignments t sv (fst (CreateAssignment env io t actr req sv))"
  using createAssignments_extends [of t sv env io actr req]
  by (auto simp: CreateAssignment_def fst_and_then fst_then_do split: outcome.splits option.splits)

section \<open>Requests and the life cycle of an attempt\<close>

text \<open>
  The requests that change the state of the exam runtime, as the handlers of \<open>controller.go\<close> pass
  them to the service: the tenant, the actor, the path parameters and the bound body.
\<close>

datatype exam_request =
    AssignReq string actor createAssignmentReq
  | StartReq string actor startAttemptReq
  | AnswerReq string actor string string saveAnswerReq
  | SyncReq string actor string attemptSyncReq
  | SubmitReq string actor string submitAttemptReq

fun serve :: "goenv \<Rightarrow> reqio \<Rightarrow> exam_request \<Rightarrow> service \<Rightarrow> service" where
  "serve env io (AssignReq t actr req) sv = fst (CreateAssignment env io t actr req sv)"
| "serve env io (StartReq t actr req) sv = fst (StartAttempt env io t actr req sv)"
| "serve env io (AnswerReq t actr attemptID questionID req) sv =
     fst (SaveAnswerForActor env io t actr attemptID questionID req sv)"
| "serve env io (SyncReq t actr attemptID req) sv = fst (SyncAttemptForActor env io t actr attemptID req sv)"
| "serve env io (SubmitReq t actr attemptID req) sv = fst (SubmitAttemptForActor env io t actr attemptID req sv)"

definition serve_all :: "goenv \<Rightarrow> (reqio \<times> exam_request) list \<Rightarrow> service \<Rightarrow> service" where
  "serve_all env trace sv = fold (\<lambda>(io, req). serve env io req) trace sv"

fun req_tenant :: "exam_request \<Rightarrow> string" where
  "req_tenant (AssignReq t _ _) = t"
| "req_tenant (StartReq t _ _) = t"
| "req_tenant (AnswerReq t _ _ _ _) = t"
| "req_tenant (SyncReq t _ _ _) = t"
| "req_tenant (SubmitReq t _ _ _) = t"

fun req_actor :: "exam_request \<Rightarrow> actor" where
  "req_actor (AssignReq _ a _) = a"
| "req_actor (StartReq _ a _) = a"
| "req_actor (AnswerReq _ a _ _ _) = a"
| "req_actor (SyncReq _ a _ _) = a"
| "req_actor (SubmitReq _ a _ _) = a"

text \<open>
  The life cycle the service promises for one attempt: while it is open it takes answers, can be
  closed with a grade, and a synchronisation may set its status; once submitted, only the client
  data of a synchronisation changes.
\<close>

inductive lifecycle :: "attempt \<Rightarrow> attempt \<Rightarrow> bool" where
  answer: "at_Status a \<noteq> ''submitted'' \<Longrightarrow>
    lifecycle a (a\<lparr>at_Answers := AList.update q v (at_Answers a), at_UpdatedAt := now\<rparr>)"
| submit: "at_Status a \<noteq> ''submitted'' \<Longrightarrow>
    lifecycle a (graded now (a\<lparr>at_Answers := fold (\<lambda>(q, v). AList.update q v) ans (at_Answers a),
      at_Status := ''submitted'', at_SubmittedAt := Some sub, at_UpdatedAt := now\<rparr>))"
| sync: "status = at_Status a \<or> at_Status a \<noteq> ''submitted'' \<Longrightarrow>
    lifecycle a (a\<lparr>at_Status := status, at_QuizVersion := version, at_Events := events, at_Client := client,
      at_UpdatedAt := now\<rparr>)"

inductive_cases lifecycleE: "lifecycle a b"

lemma putAnswer_lifecycle: "at_Status a \<noteq> ''submitted'' \<Longrightarrow> lifecycle a (putAnswer now q v a)"
  by (simp add: putAnswer_def lifecycle.answer)

lemma submitted_lifecycle: "at_Status a \<noteq> ''submitted'' \<Longrightarrow> lifecycle a (submitted io req a)"
  unfolding submitted_def closeAttempt_def by (simp add: lifecycle.submit)

lemma syncUpdate_cases:
  "let update = [(''quiz_version'', BStr (sy_QuizVersion req)), (''events'', BMaps (sy_Events req)), (''client'', BMap (sy_Client req))]
   in syncUpdate a req = update \<or> (at_Status a \<noteq> ''submitted'' \<and> (\<exists>status. syncUpdate a req = (''status'', BStr status) # update))"
proof (cases "map_of (sy_Attempt req) ''status''")
  case (Some j)
  then show ?thesis by (cases j) (auto simp: syncUpdate_def Let_def)
qed (simp add: syncUpdate_def)

lemma applyMemoryAttemptUpdate_sync:
  "\<exists>status. (status = at_Status a \<or> at_Status a \<noteq> ''submitted'')
     \<and> applyMemoryAttemptUpdate now (syncUpdate a req) a =
         a\<lparr>at_Status := status, at_QuizVersion := sy_QuizVersion req, at_Events := sy_Events req,
           at_Client := sy_Client req, at_UpdatedAt := now\<rparr>"
  using syncUpdate_cases [of req a]
  by (auto simp: applyMemoryAttemptUpdate_def has_prefix_def Let_def)

lemma sync_lifecycle: "lifecycle a (applyMemoryAttemptUpdate now (syncUpdate a req) a)"
  using applyMemoryAttemptUpdate_sync [of a now req] lifecycle.sync by metis

lemma lifecycle_identity: "lifecycle a b \<Longrightarrow> attemptIdentity b = attemptIdentity a"
  by (erule lifecycleE) (auto simp: attemptIdentity_def graded_def Let_def)

text \<open>What a request does to the list of attempts.\<close>

definition evolves :: "reqio \<Rightarrow> attempt list \<Rightarrow> attempt list \<Rightarrow> bool" where
  "evolves io xs ys \<longleftrightarrow>
     list_all2 (\<lambda>a b. a = b \<or> lifecycle a b) xs ys
   \<or> (\<exists>t asgID qid sid req. ys = xs @ [startedAttempt io t asgID qid sid req])"

lemma evolves_refl [simp]: "evolves io xs xs"
  by (simp add: evolves_def list.rel_refl)

lemma setAttempt_evolves:
  assumes "lookupAttempt sv t v = Some a" and "lifecycle a b"
  shows "evolves io (m_attempts (sv_repo sv)) (m_attempts (sv_repo (setAttempt t v b sv)))"
  using assms by (auto simp: evolves_def setAttempt_def intro!: list_all2_update_first)

lemma publish_repo [simp]: "sv_repo (publishQuizSubmittedAudit env io t b sv) = sv_repo sv"
  by (simp add: publishQuizSubmittedAudit_def publishAuditEvent_def)

lemma extends_repo:
  "extendsAssignments t sv sv' \<Longrightarrow> m_attempts (sv_repo sv') = m_attempts (sv_repo sv) \<and> sv_audit sv' = sv_audit sv"
  by (auto simp: extendsAssignments_def)

text \<open>
  The steps of the exam runtime, by what they do to the state: a request for tenant \<open>t\<close> by an actor
  leaves the state alone, adds assignments, starts an attempt of the actor, or acts on an attempt
  the actor owns.
\<close>

inductive exam_step :: "goenv \<Rightarrow> reqio \<Rightarrow> string \<Rightarrow> actor \<Rightarrow> service \<Rightarrow> service \<Rightarrow> bool"
  for env io t actr where
  refused: "exam_step env io t actr sv sv"
| assigned: "extendsAssignments t sv sv' \<Longrightarrow> exam_step env io t actr sv sv'"
| started: "lookupAssignment sv t asgID = Some asg \<Longrightarrow> objectID env (UserID actr) = Ret sid \<Longrightarrow> sid \<in> set (a_StudentIDs asg)
    \<Longrightarrow> findActiveAttempt (sv_repo sv) t asgID qid sid = None
    \<Longrightarrow> exam_step env io t actr sv (addAttemptDoc (startedAttempt io t asgID qid sid req) sv)"
| answered: "lookupAttempt sv t v = Some a \<Longrightarrow> actorOwnsAttempt env actr a \<Longrightarrow> at_Status a \<noteq> ''submitted''
    \<Longrightarrow> exam_step env io t actr sv (setAttempt t v (putAnswer (io_now io) q ans a) sv)"
| synced: "lookupAttempt sv t v = Some a \<Longrightarrow> actorOwnsAttempt env actr a \<Longrightarrow> at_PackageHash a = sy_PackageHash sreq
    \<Longrightarrow> exam_step env io t actr sv (setAttempt t v (applyMemoryAttemptUpdate (io_now io) (syncUpdate a sreq) a) sv)"
| closed: "lookupAttempt sv t v = Some a \<Longrightarrow> actorOwnsAttempt env actr a \<Longrightarrow> at_Status a \<noteq> ''submitted''
    \<Longrightarrow> exam_step env io t actr sv
          (publishQuizSubmittedAudit env io t (submitted io ureq a) (setAttempt t v (submitted io ureq a) sv))"

inductive_cases exam_stepE: "exam_step env io t actr sv sv'"

lemma SaveAnswerForActor_step:
  "exam_step env io t actr sv (fst (SaveAnswerForActor env io t actr attemptID questionID req sv))"
proof (cases "ownedAttempt env t actr attemptID sv")
  case (Ret a)
  then obtain v where v: "objectID env attemptID = Ret v" "lookupAttempt sv t v = Some a" "actorOwnsAttempt env actr a"
    by (auto simp: ownedAttempt_Ret)
  obtain sv' r where run: "SaveAnswer env io t attemptID questionID req sv = (sv', r)" by force
  show ?thesis
    using SaveAnswer_effect [OF run] v Ret run
    by (auto simp: SaveAnswerForActor_def intro: exam_step.refused exam_step.answered)
qed (auto simp: SaveAnswerForActor_def exam_step.refused)

lemma SyncAttemptForActor_step:
  "exam_step env io t actr sv (fst (SyncAttemptForActor env io t actr attemptID req sv))"
proof (cases "ownedAttempt env t actr attemptID sv")
  case (Ret a)
  then obtain v where v: "objectID env attemptID = Ret v" "lookupAttempt sv t v = Some a" "actorOwnsAttempt env actr a"
    by (auto simp: ownedAttempt_Ret)
  obtain sv' r where run: "SyncAttempt env io t attemptID req sv = (sv', r)" by force
  show ?thesis
    using SyncAttempt_effect [OF run] v Ret run
    by (auto simp: SyncAttemptForActor_def intro: exam_step.refused exam_step.synced)
qed (auto simp: SyncAttemptForActor_def exam_step.refused)

lemma SubmitAttemptForActor_step:
  "exam_step env io t actr sv (fst (SubmitAttemptForActor env io t actr attemptID req sv))"
proof (cases "ownedAttempt env t actr attemptID sv")
  case (Ret a)
  then obtain v where v: "objectID env attemptID = Ret v" "lookupAttempt sv t v = Some a" "actorOwnsAttempt env actr a"
    by (auto simp: ownedAttempt_Ret)
  obtain sv' r where run: "SubmitAttempt env io t attemptID req sv = (sv', r)" by force
  show ?thesis
    using SubmitAttempt_effect [OF run] v Ret run
    by (auto simp: SubmitAttemptForActor_def intro: exam_step.refused exam_step.closed)
qed (auto simp: SubmitAttemptForActor_def exam_step.refused)

lemma StartAttempt_step: "exam_step env io t actr sv (fst (StartAttempt env io t actr req sv))"
proof -
  obtain sv' r where run: "StartAttempt env io t actr req sv = (sv', r)" by force
  show ?thesis
    using StartAttempt_effect [OF run] run by (auto intro: exam_step.refused exam_step.started)
qed

text \<open>Every request is served by one of these steps.\<close>

lemma serve_step: "exam_step env io (req_tenant req) (req_actor req) sv (serve env io req sv)"
  by (cases req) (auto intro: SaveAnswerForActor_step SyncAttemptForActor_step SubmitAttemptForActor_step
      StartAttempt_step exam_step.assigned CreateAssignment_extends)

lemma attempts_addAttemptDoc [simp]: "m_attempts (sv_repo (addAttemptDoc b sv)) = m_attempts (sv_repo sv) @ [b]"
  by (simp add: addAttemptDoc_def)

lemma exam_step_evolves:
  "exam_step env io t actr sv sv' \<Longrightarrow> evolves io (m_attempts (sv_repo sv)) (m_attempts (sv_repo sv'))"
proof (erule exam_stepE, goal_cases)
  case (3 asgID asg sid qid req)
  then show ?case by (simp add: evolves_def) blast
qed (auto simp: extends_repo intro!: setAttempt_evolves putAnswer_lifecycle sync_lifecycle submitted_lifecycle)

section \<open>Submitted attempts do not change\<close>

text \<open>What an exam produced: everything but the client data of the synchronisation.\<close>

definition examResult :: "attempt \<Rightarrow>
    (string \<times> oid \<times> oid \<times> oid \<times> oid) \<times> string \<times> string \<times> answers \<times> float64 \<times> float64 \<times> float64 \<times> bool \<times> gotime option" where
  "examResult a = (attemptIdentity a, at_PackageHash a, at_Status a, at_Answers a, at_Score a, at_MaxScore a,
     at_Percent a, at_Passed a, at_SubmittedAt a)"

lemma lifecycle_submitted: "lifecycle a b \<Longrightarrow> at_Status a = ''submitted'' \<Longrightarrow> examResult b = examResult a"
  by (erule lifecycleE) (auto simp: examResult_def attemptIdentity_def)

lemma evolves_lookup:
  assumes "evolves io xs ys" and "find (attemptKey t v) xs = Some a"
  shows "\<exists>b. find (attemptKey t v) ys = Some b \<and> (a = b \<or> lifecycle a b)"
proof (cases "list_all2 (\<lambda>a b. a = b \<or> lifecycle a b) xs ys")
  case True
  have "rel_option (\<lambda>a b. a = b \<or> lifecycle a b) (find (attemptKey t v) xs) (find (attemptKey t v) ys)"
    by (rule list_all2_find [OF True]) (auto dest: lifecycle_identity attemptKey_identity)
  with assms(2) show ?thesis by (auto simp: option_rel_Some1)
next
  case False
  with assms show ?thesis by (auto simp: evolves_def find_append)
qed

lemma serve_all_Cons: "serve_all env (x # trace) sv = serve_all env trace (case x of (io, req) \<Rightarrow> serve env io req sv)"
  by (simp add: serve_all_def split: prod.splits)

lemma serve_all_Nil [simp]: "serve_all env [] sv = sv"
  by (simp add: serve_all_def)

lemma submitted_stays:
  "lookupAttempt sv t v = Some a \<Longrightarrow> at_Status a = ''submitted'' \<Longrightarrow>
     \<exists>b. lookupAttempt (serve_all env trace sv) t v = Some b \<and> examResult b = examResult a"
proof (induction trace arbitrary: sv a)
  case (Cons x trace)
  obtain io req where x: "x = (io, req)" by force
  obtain b where b: "lookupAttempt (serve env io req sv) t v = Some b" "a = b \<or> lifecycle a b"
    using evolves_lookup [OF exam_step_evolves [OF serve_step] Cons.prems(1)] by blast
  then have same: "examResult b = examResult a" using Cons.prems(2) by (auto dest: lifecycle_submitted)
  then have "at_Status b = ''submitted''" using Cons.prems(2) by (simp add: examResult_def)
  with Cons.IH [OF b(1)] same show ?case by (simp add: serve_all_Cons x)
qed simp

end
