(* ===== verification/LmsExamProps.thy ===== *)
theory LmsExamProps
  imports LmsExam HexCodec
begin

text \<open>
  The properties of the exam runtime: submitted attempts are final, submissions are scored as the
  code says and at most once, audit events match the attempts, requests touch only what their actor
  and tenant own, and the progress counters add up. The examples at the end of each part evaluate
  the model on a small school.
\<close>

section \<open>A small state for the examples\<close>

definition sampleAssignment :: assignment where
  "sampleAssignment = \<lparr>a_ID = 11, a_TenantID = ''t'', a_ClassID = 3, a_QuizID = 21, a_SubjectID = 5, a_StudentIDs = [7, 8, 9],
     a_DueAt = None, a_TeacherNote = [], a_Status = ''open'', a_AssignedBy = ''u'', a_RecipientMode = ''all'',
     a_CreatedAt = 1, a_UpdatedAt = 1\<rparr>"

definition sampleService :: service where
  "sampleService = \<lparr>sv_repo = newMemoryRepository\<lparr>m_assignments := [sampleAssignment]\<rparr>, sv_audit = []\<rparr>"

definition sampleIO :: "oid \<Rightarrow> reqio" where
  "sampleIO i = \<lparr>io_now = 100, io_fresh = (\<lambda>n. i), io_ctx = noContext\<rparr>"

definition sampleStudent :: "oid \<Rightarrow> actor" where
  "sampleStudent i = \<lparr>UserID = ge_hex sampleEnv i, Roles = [''student'']\<rparr>"

definition sampleStart :: startAttemptReq where
  "sampleStart = \<lparr>st_AssignmentID = ge_hex sampleEnv 11, st_QuizID = ge_hex sampleEnv 21, st_PackageID = ''p'', st_PackageHash = ''h''\<rparr>"

definition sampleSubmit :: submitAttemptReq where
  "sampleSubmit = \<lparr>su_Answers = [(ge_hex sampleEnv 31, JStr ''a'')], su_SubmittedAt = None\<rparr>"

text \<open>Student 7 has started attempt 50; then submitted it.\<close>

definition openAttempt :: attempt where
  "openAttempt = startedAttempt (sampleIO 50) ''t'' 11 21 7 sampleStart"

definition openService :: service where
  "openService = addAttemptDoc openAttempt sampleService"

definition doneService :: service where
  "doneService = setAttempt ''t'' 50 (submitted (sampleIO 0) sampleSubmit openAttempt) openService"

lemmas sample_defs = sampleAssignment_def sampleService_def sampleIO_def sampleStudent_def sampleStart_def
  sampleSubmit_def openAttempt_def openService_def doneService_def newMemoryRepository_def

lemma sample_objectID [simp]: "objectID sampleEnv (ge_hex sampleEnv i) = Ret i"
  by (simp add: objectID_hex)

lemma sample_open [simp]: "getAttempt sampleEnv (sv_repo openService) ''t'' (ge_hex sampleEnv 50) = Ret (Some openAttempt)"
  by (simp add: getAttempt_def openService_def sampleService_def openAttempt_def startedAttempt_def newAttempt_def
      attemptKey_def newMemoryRepository_def sampleIO_def)

lemma sample_open_audit [simp]: "sv_audit openService = []"
  by (simp add: openService_def addAttemptDoc_def sampleService_def)

lemma sample_open_status [simp]: "at_Status openAttempt = ''in_progress''" "at_Answers openAttempt = []"
  "at_StudentID openAttempt = 7" "at_PackageHash openAttempt = ''h''"
  by (simp_all add: openAttempt_def startedAttempt_def newAttempt_def sampleStart_def)

lemma sample_owns [simp]: "actorOwnsAttempt sampleEnv (sampleStudent 7) openAttempt"
  by (simp add: actorOwnsAttempt_def sampleStudent_def env_ok_hex_nonempty)

lemma sample_submit_valid [simp]: "validateAttemptPayload sampleEnv (su_Answers sampleSubmit) [] [] = Ret ()"
  by (simp add: validateAttemptPayload_def sampleSubmit_def maxAttemptAnswers_def maxAttemptEvents_def
      maxAttemptJSONBytes_def jsonSize_def) (simp add: sampleEnv_def)

lemma find_setAttempt:
  "lookupAttempt sv t v = Some a \<Longrightarrow> attemptIdentity b = attemptIdentity a \<Longrightarrow> lookupAttempt (setAttempt t v b sv) t v = Some b"
  using find_Some_iff2 [of "attemptKey t v" _ a] attemptKey_identity [of a b t v]
  by (simp add: setAttempt_def find_update_first)

lemma sample_done [simp]:
  "getAttempt sampleEnv (sv_repo doneService) ''t'' (ge_hex sampleEnv 50) = Ret (Some (submitted (sampleIO 0) sampleSubmit openAttempt))"
proof -
  have "lookupAttempt openService ''t'' 50 = Some openAttempt"
    using sample_open by (simp add: getAttempt_def)
  then show ?thesis by (simp add: getAttempt_def doneService_def find_setAttempt)
qed

lemma audit_setAttempt [simp]: "sv_audit (setAttempt t v b sv) = sv_audit sv"
  by (simp add: setAttempt_def)

section \<open>Submissions are final\<close>

lemma submitted_status [simp]: "at_Status a \<noteq> ''submitted'' \<Longrightarrow> at_Status (submitted io req a) = ''submitted''"
  by (simp add: submitted_def graded_def closeAttempt_def Let_def)

text \<open>
  C1. Once an attempt is submitted, no sequence of requests by anyone (new assignments, new starts,
  answers, synchronisations, further submissions) changes its answers, its status, its score, its
  grade or its submission time; it can always still be read.
\<close>

theorem submission_is_final:
  assumes "getAttempt env (sv_repo sv) t attemptID = Ret (Some a)" and "at_Status a = ''submitted''"
  shows "\<exists>b. getAttempt env (sv_repo (serve_all env trace sv)) t attemptID = Ret (Some b) \<and> examResult b = examResult a"
proof -
  obtain v where v: "objectID env attemptID = Ret v" "lookupAttempt sv t v = Some a"
    using assms(1) by (auto simp: getAttempt_Ret)
  with submitted_stays [OF v(2) assms(2)] show ?thesis by (auto simp: getAttempt_def)
qed

theorem submission_is_final_witness:
  "\<exists>b. getAttempt sampleEnv (sv_repo (serve_all sampleEnv
         [(sampleIO 51, StartReq ''t'' (sampleStudent 7) sampleStart),
          (sampleIO 52, AnswerReq ''t'' (sampleStudent 7) (ge_hex sampleEnv 50) ''q''
             \<lparr>sa_Answer = JNull, sa_ClientResult = [], sa_AnsweredAt = None\<rparr>)] doneService))
       ''t'' (ge_hex sampleEnv 50) = Ret (Some b)
     \<and> examResult b = examResult (submitted (sampleIO 0) sampleSubmit openAttempt)"
  by (rule submission_is_final) simp_all

lemma sample_lookup [simp]: "lookupAttempt openService ''t'' 50 = Some openAttempt"
  using sample_open by (simp add: getAttempt_def)

lemma sample_submit_run:
  "SubmitAttemptForActor sampleEnv io ''t'' (sampleStudent 7) (ge_hex sampleEnv 50) sampleSubmit openService =
     (publishQuizSubmittedAudit sampleEnv io ''t'' (submitted io sampleSubmit openAttempt)
        (setAttempt ''t'' 50 (submitted io sampleSubmit openAttempt) openService),
      Ret (attemptSubmitResult (submitted io sampleSubmit openAttempt)))"
proof -
  have own: "ownedAttempt sampleEnv ''t'' (sampleStudent 7) (ge_hex sampleEnv 50) openService = Ret openAttempt"
    by (auto simp: ownedAttempt_Ret)
  show ?thesis
    using SubmitAttempt_open [of sampleEnv "ge_hex sampleEnv 50" 50 "''t''" openService openAttempt sampleSubmit io] own
    by (simp add: SubmitAttemptForActor_def)
qed

section \<open>Scoring\<close>

lemma submitScore_eq: "submitScore a = of_nat (min 100 (length (at_Answers a)))"
proof -
  let ?n = "int (length (at_Answers a))"
  show ?thesis
  proof (cases "?n \<le> 100")
    case True
    then show ?thesis by (simp add: submitScore_def float_of_int_small Let_def min_def)
  next
    case False
    have "rnd64 (of_int 101) \<le> rnd64 (of_int ?n)"
      by (rule rnd64_mono) (use False in \<open>simp_all\<close>)
    moreover have "rnd64 (of_int 101) = 101" using rnd64_of_int [of 101] by simp
    ultimately have "100 < float_of_int ?n" by (simp add: float_of_int_def)
    with False show ?thesis by (simp add: submitScore_def Let_def min_def)
  qed
qed

lemma submitPercent_mono: "0 \<le> x \<Longrightarrow> x \<le> y \<Longrightarrow> submitPercent x \<le> submitPercent y"
  unfolding submitPercent_def fmul_def fdiv_def
  by (intro rnd64_mono) (auto intro!: rnd64_mono rnd64_nonneg mult_right_mono divide_right_mono)

lemma submitPercent_49: "submitPercent 49 < 50" by code_simp

lemma submitPercent_50: "submitPercent 50 = 50" by code_simp

text \<open>The pass mark, in floating-point arithmetic, is exactly fifty answers.\<close>

lemma pass_mark: "50 \<le> submitPercent (of_nat n) \<longleftrightarrow> 50 \<le> n"
proof (cases "50 \<le> n")
  case True
  then have "submitPercent 50 \<le> submitPercent (of_nat n)" by (intro submitPercent_mono) simp_all
  with True show ?thesis by (simp add: submitPercent_50)
next
  case False
  then have "submitPercent (of_nat n) \<le> submitPercent 49" by (intro submitPercent_mono) simp_all
  with False submitPercent_49 show ?thesis by simp
qed

lemma graded_result:
  "attemptSubmitResult (graded now a) =
     (let n = length (at_Answers a); percent = submitPercent (of_nat (min 100 n))
      in \<lparr>sr_Score = of_nat (min 100 n), sr_MaxScore = 100, sr_Percent = percent, sr_Passed = 50 \<le> n\<rparr>)"
  using pass_mark [of "min 100 (length (at_Answers a))"]
  by (auto simp: attemptSubmitResult_def graded_def submitScore_eq Let_def)

lemma submitPercent_bounds: "0 \<le> submitPercent (of_nat (min 100 n)) \<and> submitPercent (of_nat (min 100 n)) \<le> 100"
proof -
  have "(of_nat (min 100 n) :: rat) \<le> of_nat 100" by (simp only: of_nat_le_iff min.cobounded1)
  then show ?thesis unfolding submitPercent_def by (intro percent_bounds) simp_all
qed

lemma distinct_fold_update:
  "distinct (map fst ys) \<Longrightarrow> distinct (map fst (fold (\<lambda>(k, v). AList.update k v) xs ys))"
  by (induction xs arbitrary: ys) (auto simp: distinct_update)

lemma keys_fold_update:
  fixes xs ys :: "('a \<times> 'b) list"
  shows "fst ` set (fold (\<lambda>(k, v). AList.update k v) xs ys) = fst ` set xs \<union> fst ` set ys"
proof -
  have upd: "fst ` set (AList.update k v ys) = insert k (fst ` set ys)" for k v and ys :: "('a \<times> 'b) list"
    using dom_update [of k v ys] by simp
  show ?thesis by (induction xs arbitrary: ys) (simp_all add: upd split_beta)
qed

lemma answersFromReq_keys: "map fst (answersFromReq ans) = map fst ans"
  by (induction ans) (auto simp: answersFromReq_def)

lemma submitted_answers:
  assumes "at_Status a \<noteq> ''submitted''" "distinct (map fst (at_Answers a))" "distinct (map fst (su_Answers req))"
  shows "length (at_Answers (submitted io req a)) = card (fst ` set (at_Answers a) \<union> fst ` set (su_Answers req))"
    and "map_of (at_Answers (submitted io req a)) = map_of (at_Answers a) ++ map_of (answersFromReq (su_Answers req))"
proof -
  let ?ans = "fold (\<lambda>(q, v). AList.update q v) (answersFromReq (su_Answers req)) (at_Answers a)"
  have ans: "at_Answers (submitted io req a) = ?ans"
    using assms(1) by (simp add: submitted_def graded_def closeAttempt_def Let_def)
  have keys: "fst ` set (answersFromReq (su_Answers req)) = fst ` set (su_Answers req)"
    using answersFromReq_keys [of "su_Answers req"] by (metis set_map)
  have "length ?ans = card (fst ` set ?ans)"
    using distinct_card [OF distinct_fold_update [OF assms(2)]] by simp
  then show "length (at_Answers (submitted io req a)) = card (fst ` set (at_Answers a) \<union> fst ` set (su_Answers req))"
    by (simp add: ans keys_fold_update keys Un_commute)
  show "map_of (at_Answers (submitted io req a)) = map_of (at_Answers a) ++ map_of (answersFromReq (su_Answers req))"
    using assms(3) by (simp add: ans map_of_fold_update answersFromReq_keys)
qed

lemma submitted_grade:
  assumes "at_Status a \<noteq> ''submitted''"
  shows "attemptSubmitResult (submitted io req a) =
     (let n = length (at_Answers (submitted io req a)); percent = submitPercent (of_nat (min 100 n))
      in \<lparr>sr_Score = of_nat (min 100 n), sr_MaxScore = 100, sr_Percent = percent, sr_Passed = 50 \<le> n\<rparr>)"
proof -
  have "at_Answers (graded now b) = at_Answers b" for now b by (simp add: graded_def Let_def)
  then show ?thesis unfolding submitted_def by (simp add: graded_result)
qed

text \<open>
  C2. Submitting an open attempt that the actor owns, with a valid payload, closes it: the stored
  answers are the saved ones overridden by the submitted ones, the score is the number of answered
  questions capped at 100, the percentage lies between 0 and 100, the attempt passes exactly when at
  least 50 questions are answered (the floating-point comparison has no rounding error at the mark),
  the response shows what is stored, and one audit event is published.
\<close>

theorem submit_scores:
  assumes "getAttempt env (sv_repo sv) t attemptID = Ret (Some a)" and "actorOwnsAttempt env actr a"
    and "at_Status a \<noteq> ''submitted''" and "validateAttemptPayload env (su_Answers req) [] [] = Ret ()"
    and "distinct (map fst (at_Answers a))" and "distinct (map fst (su_Answers req))"
  shows "let n = card (fst ` set (at_Answers a) \<union> fst ` set (su_Answers req)) in
    \<exists>sv' res b. SubmitAttemptForActor env io t actr attemptID req sv = (sv', Ret res)
      \<and> getAttempt env (sv_repo sv') t attemptID = Ret (Some b) \<and> at_Status b = ''submitted''
      \<and> map_of (at_Answers b) = map_of (at_Answers a) ++ map_of (answersFromReq (su_Answers req))
      \<and> attemptSubmitResult b = res \<and> sr_Score res = of_nat (min 100 n) \<and> sr_MaxScore res = 100
      \<and> 0 \<le> sr_Percent res \<and> sr_Percent res \<le> 100 \<and> (sr_Passed res \<longleftrightarrow> 50 \<le> n)
      \<and> sv_audit sv' = sv_audit sv @ [submittedEvent env io t b]"
proof -
  obtain v where v: "objectID env attemptID = Ret v" "lookupAttempt sv t v = Some a"
    using assms(1) by (auto simp: getAttempt_Ret)
  let ?b = "submitted io req a"
  have own: "ownedAttempt env t actr attemptID sv = Ret a" using v assms(2) by (auto simp: ownedAttempt_Ret)
  have run: "SubmitAttemptForActor env io t actr attemptID req sv =
      (publishQuizSubmittedAudit env io t ?b (setAttempt t v ?b sv), Ret (attemptSubmitResult ?b))"
    using SubmitAttempt_open [OF v assms(3,4)] assms(3) own by (simp add: SubmitAttemptForActor_def)
  have stored: "getAttempt env (sv_repo (setAttempt t v ?b sv)) t attemptID = Ret (Some ?b)"
    using v by (simp add: getAttempt_def find_setAttempt)
  show ?thesis
    unfolding Let_def
    by (rule exI, rule exI [of _ "attemptSubmitResult ?b"], rule exI [of _ ?b], intro conjI, rule run)
       (simp_all add: stored assms(3) submitted_answers [OF assms(3,5,6)] submitted_grade [OF assms(3)] Let_def
          submitPercent_bounds publishQuizSubmittedAudit_def publishAuditEvent_def)
qed

theorem submit_scores_witness:
  "let n = card (fst ` set (at_Answers openAttempt) \<union> fst ` set (su_Answers sampleSubmit)) in
    \<exists>sv' res b. SubmitAttemptForActor sampleEnv (sampleIO 0) ''t'' (sampleStudent 7) (ge_hex sampleEnv 50) sampleSubmit openService = (sv', Ret res)
      \<and> getAttempt sampleEnv (sv_repo sv') ''t'' (ge_hex sampleEnv 50) = Ret (Some b) \<and> at_Status b = ''submitted''
      \<and> map_of (at_Answers b) = map_of (at_Answers openAttempt) ++ map_of (answersFromReq (su_Answers sampleSubmit))
      \<and> attemptSubmitResult b = res \<and> sr_Score res = of_nat (min 100 n) \<and> sr_MaxScore res = 100
      \<and> 0 \<le> sr_Percent res \<and> sr_Percent res \<le> 100 \<and> (sr_Passed res \<longleftrightarrow> 50 \<le> n)
      \<and> sv_audit sv' = sv_audit openService @ [submittedEvent sampleEnv (sampleIO 0) ''t'' b]"
  by (rule submit_scores) (simp_all, simp add: sampleSubmit_def)

text \<open>
  C6. Submitting is idempotent: after a submission that succeeded, submitting again, with any answers
  and at any time, returns the same result and changes nothing; no second audit event is published.
\<close>

theorem submit_twice:
  assumes "SubmitAttemptForActor env io t actr attemptID req sv = (sv1, Ret res)"
  shows "SubmitAttemptForActor env io' t actr attemptID req' sv1 = (sv1, Ret res)"
proof -
  obtain a where own: "ownedAttempt env t actr attemptID sv = Ret a"
    using assms by (cases "ownedAttempt env t actr attemptID sv") (auto simp: SubmitAttemptForActor_def)
  then obtain v where v: "objectID env attemptID = Ret v" "lookupAttempt sv t v = Some a" "actorOwnsAttempt env actr a"
    by (auto simp: ownedAttempt_Ret)
  show ?thesis
  proof (cases "at_Status a = ''submitted''")
    case True
    with assms own show ?thesis by (simp add: SubmitAttemptForActor_def)
  next
    case False
    let ?b = "submitted io req a"
    have run: "SubmitAttempt env io t attemptID req sv = (sv1, Ret res)"
      using assms own False by (simp add: SubmitAttemptForActor_def)
    then have "validateAttemptPayload env (su_Answers req) [] [] = Ret ()"
      by (cases "validateAttemptPayload env (su_Answers req) [] []") (auto simp: SubmitAttempt_def)
    from SubmitAttempt_open [OF v(1,2) False this, of io] run
    have sv1: "sv1 = publishQuizSubmittedAudit env io t ?b (setAttempt t v ?b sv)" "res = attemptSubmitResult ?b"
      by simp_all
    have "actorOwnsAttempt env actr ?b"
      using v(3) submitted_identity [of io req a] by (auto simp: actorOwnsAttempt_def attemptIdentity_def)
    moreover have "lookupAttempt sv1 t v = Some ?b" by (simp add: sv1 find_setAttempt v(2))
    ultimately have "ownedAttempt env t actr attemptID sv1 = Ret ?b" by (auto simp: ownedAttempt_Ret v(1))
    with False sv1(2) show ?thesis by (simp add: SubmitAttemptForActor_def)
  qed
qed

theorem submit_twice_witness:
  "\<exists>sv1 res.
     SubmitAttemptForActor sampleEnv (sampleIO 0) ''t'' (sampleStudent 7) (ge_hex sampleEnv 50) sampleSubmit openService = (sv1, Ret res)
   \<and> SubmitAttemptForActor sampleEnv (sampleIO 1) ''t'' (sampleStudent 7) (ge_hex sampleEnv 50)
       \<lparr>su_Answers = [], su_SubmittedAt = Some 5\<rparr> sv1 = (sv1, Ret res)"
  using submit_twice [OF sample_submit_run] sample_submit_run by blast

section \<open>Reachable states\<close>

text \<open>
  The exam runtime starts with any organisation, content and assignments, but no attempts and no
  events, and serves requests one after the other; \<open>bson.NewObjectID()\<close> returns an identifier that no
  attempt has.
\<close>

inductive reachable :: "goenv \<Rightarrow> service \<Rightarrow> bool" for env where
  init: "m_attempts (sv_repo sv) = [] \<Longrightarrow> sv_audit sv = [] \<Longrightarrow> reachable env sv"
| step: "reachable env sv \<Longrightarrow> io_fresh io 0 \<notin> at_ID ` set (m_attempts (sv_repo sv)) \<Longrightarrow>
    reachable env (serve env io req sv)"

lemma reachable_inv [consumes 1, case_names init step]:
  assumes "reachable env sv"
    and "\<And>sv. m_attempts (sv_repo sv) = [] \<Longrightarrow> sv_audit sv = [] \<Longrightarrow> P sv"
    and "\<And>io t actr sv sv'. P sv \<Longrightarrow> io_fresh io 0 \<notin> at_ID ` set (m_attempts (sv_repo sv)) \<Longrightarrow>
           exam_step env io t actr sv sv' \<Longrightarrow> P sv'"
  shows "P sv"
  using assms(1) by induction (auto intro: assms(2,3) serve_step)

lemma sample_start_run:
  "StartAttempt sampleEnv (sampleIO i) ''t'' (sampleStudent 7) sampleStart sampleService =
     (addAttemptDoc (startedAttempt (sampleIO i) ''t'' 11 21 7 sampleStart) sampleService,
      Ret (attemptToDTO sampleEnv (startedAttempt (sampleIO i) ''t'' 11 21 7 sampleStart)))"
proof -
  have "lookupAssignment sampleService ''t'' 11 = Some sampleAssignment"
    by (simp add: sampleService_def sampleAssignment_def)
  moreover have "findActiveAttempt (sv_repo sampleService) ''t'' 11 21 7 = None"
    by (simp add: sampleService_def newMemoryRepository_def findActiveAttempt_def)
  moreover have "7 \<in> set (a_StudentIDs sampleAssignment)" by (simp add: sampleAssignment_def)
  ultimately show ?thesis
    using StartAttempt_run [of sampleEnv sampleStart 11 "''t''" sampleService sampleAssignment "sampleStudent 7" 7 21 "sampleIO i"]
    by (simp add: sampleStart_def sampleStudent_def)
qed

lemma openService_reachable: "reachable sampleEnv openService"
proof -
  have "reachable sampleEnv sampleService"
    by (rule reachable.init) (simp_all add: sampleService_def newMemoryRepository_def)
  then have "reachable sampleEnv (serve sampleEnv (sampleIO 50) (StartReq ''t'' (sampleStudent 7) sampleStart) sampleService)"
    by (rule reachable.step) (simp add: sampleService_def newMemoryRepository_def)
  also have "serve sampleEnv (sampleIO 50) (StartReq ''t'' (sampleStudent 7) sampleStart) sampleService = openService"
    by (simp add: sample_start_run openService_def openAttempt_def)
  finally show ?thesis .
qed

subsection \<open>Attempts of students of the assignment\<close>

definition attemptAssigned :: "service \<Rightarrow> attempt \<Rightarrow> bool" where
  "attemptAssigned sv a \<longleftrightarrow>
     (case lookupAssignment sv (at_TenantID a) (at_AssignmentID a) of
        None \<Rightarrow> False | Some asg \<Rightarrow> at_StudentID a \<in> set (a_StudentIDs asg))"

lemma attemptAssigned_identity:
  "attemptIdentity a = attemptIdentity b \<Longrightarrow> attemptAssigned sv a = attemptAssigned sv b"
  by (auto simp: attemptAssigned_def attemptIdentity_def split: option.splits)

lemma attemptAssigned_cong:
  "m_assignments (sv_repo sv) = m_assignments (sv_repo sv') \<Longrightarrow> attemptAssigned sv a = attemptAssigned sv' a"
  by (simp add: attemptAssigned_def)

lemma attemptAssigned_extends: "extendsAssignments t sv sv' \<Longrightarrow> attemptAssigned sv a \<Longrightarrow> attemptAssigned sv' a"
  by (auto simp: attemptAssigned_def extendsAssignments_def find_append split: option.splits)

lemma setAttempt_set:
  "lookupAttempt sv t v = Some a \<Longrightarrow> b \<in> set (m_attempts (sv_repo (setAttempt t v c sv))) \<Longrightarrow>
     b \<in> set (m_attempts (sv_repo sv)) \<or> b = c"
  by (auto simp: setAttempt_def dest: set_update_first)

lemma setAttempt_assigned:
  assumes "\<forall>a \<in> set (m_attempts (sv_repo sv)). attemptAssigned sv a" and look: "lookupAttempt sv t v = Some a"
    and "attemptIdentity c = attemptIdentity a"
  shows "\<forall>b \<in> set (m_attempts (sv_repo (setAttempt t v c sv))). attemptAssigned (setAttempt t v c sv) b"
proof
  fix b
  assume "b \<in> set (m_attempts (sv_repo (setAttempt t v c sv)))"
  then have "b \<in> set (m_attempts (sv_repo sv)) \<or> b = c" using setAttempt_set [OF look] by blast
  then have "attemptAssigned sv b"
    using assms find_Some_iff2 [OF look] attemptAssigned_identity [of c a sv] by auto
  then show "attemptAssigned (setAttempt t v c sv) b"
    by (simp add: attemptAssigned_def setAttempt_def)
qed

lemma reachable_assigned: "reachable env sv \<Longrightarrow> \<forall>a \<in> set (m_attempts (sv_repo sv)). attemptAssigned sv a"
proof (induction rule: reachable_inv)
  case (step io t actr sv sv')
  from step(3) show ?case
  proof cases
    case (assigned)
    with step(1) show ?thesis by (auto simp: extends_repo intro: attemptAssigned_extends)
  next
    case (started asgID asg sid qid req)
    with step(1) show ?thesis
      by (auto simp: attemptAssigned_def addAttemptDoc_def startedAttempt_def newAttempt_def split: option.splits)
  next
    case (answered v a q ans)
    show ?thesis unfolding answered(1) by (rule setAttempt_assigned [OF step(1) answered(2)]) simp
  next
    case (synced v a sreq)
    show ?thesis unfolding synced(1) by (rule setAttempt_assigned [OF step(1) synced(2)]) simp
  next
    case (closed v a ureq)
    then show ?thesis
      using setAttempt_assigned [OF step(1) closed(2), of "submitted io ureq a"] by (simp add: attemptAssigned_def)
  qed (use step in auto)
qed simp

subsection \<open>Progress counters\<close>

lemma countProgress_counts:
  "let keys = (\<lambda>a. ge_hex env (at_StudentID a)) ` set attempts - set seen; q = countProgress env seen attempts p in
     pg_NotStarted q = pg_NotStarted p - int (card keys)
   \<and> pg_Submitted q + pg_InProgress q = pg_Submitted p + pg_InProgress p + int (card keys)
   \<and> pg_Submitted p \<le> pg_Submitted q \<and> pg_InProgress p \<le> pg_InProgress q \<and> pg_NeedsReview q = pg_NeedsReview p"
proof (induction env seen attempts p rule: countProgress.induct)
  case (2 env seen a rest p)
  let ?k = "ge_hex env (at_StudentID a)" and ?K = "(\<lambda>a. ge_hex env (at_StudentID a)) ` set rest"
  show ?case
  proof (cases "?k \<in> set seen")
    case True
    then have "insert ?k ?K - set seen = ?K - set seen" by auto
    with True 2(1) show ?thesis by (simp add: Let_def)
  next
    case False
    then have "insert ?k ?K - set seen = insert ?k (?K - set (?k # seen))" by auto
    then have "card (insert ?k ?K - set seen) = Suc (card (?K - set (?k # seen)))" by simp
    with False 2(2) [OF refl False refl refl] show ?thesis
      by (auto simp: Let_def)
  qed
qed simp

lemma listAttempts_set:
  "set (listAttempts m t flt) = {a \<in> set (m_attempts m). at_TenantID a = t \<and> memoryAttemptMatches a flt}"
  by (auto simp: listAttempts_def)

text \<open>
  C5. In every reachable state the progress of an assignment adds up: students who submitted, who are
  in progress and who have not started sum to the recipients of the assignment, no counter is
  negative, and the first two count exactly the students with an attempt.
\<close>

theorem progress_adds_up:
  assumes "reachable env sv" and "env_ok env" and "getAssignment env (sv_repo sv) t assignmentID = Ret (Some asg)"
  shows "\<exists>p. AssignmentProgress env sv t assignmentID = Ret p
    \<and> pg_Submitted p + pg_InProgress p + pg_NotStarted p = int (length (a_StudentIDs asg))
    \<and> 0 \<le> pg_Submitted p \<and> 0 \<le> pg_InProgress p \<and> 0 \<le> pg_NotStarted p
    \<and> pg_Submitted p + pg_InProgress p =
        int (card {at_StudentID a | a. a \<in> set (m_attempts (sv_repo sv)) \<and> at_TenantID a = t \<and> at_AssignmentID a = a_ID asg})"
proof -
  let ?L = "listAttempts (sv_repo sv) t [(''assignment_id'', BOid (a_ID asg))]"
  let ?S = "{at_StudentID a | a. a \<in> set (m_attempts (sv_repo sv)) \<and> at_TenantID a = t \<and> at_AssignmentID a = a_ID asg}"
  let ?K = "(\<lambda>a. ge_hex env (at_StudentID a)) ` set ?L"
  let ?p = "\<lparr>pg_Submitted = 0, pg_InProgress = 0, pg_NotStarted = int (length (a_StudentIDs asg)), pg_NeedsReview = 0\<rparr>"
  obtain v where look: "lookupAssignment sv t v = Some asg"
    using assms(3) by (auto simp: getAssignment_Ret)
  have L: "set ?L = {a \<in> set (m_attempts (sv_repo sv)). at_TenantID a = t \<and> at_AssignmentID a = a_ID asg}"
    by (auto simp: listAttempts_set memoryAttemptMatches_def attemptKeyMatches_def)
  then have K: "?K = ge_hex env ` ?S" by auto
  have "card ?K = card ?S"
    unfolding K by (rule card_image) (auto simp: inj_on_def env_ok_hex_inject [OF assms(2)])
  moreover have "?S \<subseteq> set (a_StudentIDs asg)"
  proof
    fix x
    assume "x \<in> ?S"
    then obtain a where a: "a \<in> set (m_attempts (sv_repo sv))" "at_TenantID a = t" "at_AssignmentID a = a_ID asg" "x = at_StudentID a"
      by auto
    have "a_ID asg = v" using find_Some_iff2 [OF look] by simp
    with a reachable_assigned [OF assms(1)] look show "x \<in> set (a_StudentIDs asg)"
      by (auto simp: attemptAssigned_def)
  qed
  then have "card ?S \<le> card (set (a_StudentIDs asg))" by (rule card_mono [OF finite_set])
  then have "card ?S \<le> length (a_StudentIDs asg)" using card_length [of "a_StudentIDs asg"] by (rule le_trans)
  ultimately have "card ?K = card ?S" "card ?K \<le> length (a_StudentIDs asg)" by simp_all
  moreover have "AssignmentProgress env sv t assignmentID = Ret (countProgress env [] ?L ?p)"
    by (simp add: AssignmentProgress_def assms(3))
  ultimately show ?thesis
    using countProgress_counts [of env ?L "[]" ?p] unfolding Let_def by auto
qed

theorem progress_adds_up_witness:
  "\<exists>p. AssignmentProgress sampleEnv openService ''t'' (ge_hex sampleEnv 11) = Ret p
    \<and> pg_Submitted p + pg_InProgress p + pg_NotStarted p = int (length (a_StudentIDs sampleAssignment))
    \<and> 0 \<le> pg_Submitted p \<and> 0 \<le> pg_InProgress p \<and> 0 \<le> pg_NotStarted p
    \<and> pg_Submitted p + pg_InProgress p =
        int (card {at_StudentID a | a. a \<in> set (m_attempts (sv_repo openService)) \<and> at_TenantID a = ''t''
               \<and> at_AssignmentID a = a_ID sampleAssignment})"
  by (rule progress_adds_up [OF openService_reachable sampleEnv_ok])
     (simp add: getAssignment_def openService_def addAttemptDoc_def sampleService_def sampleAssignment_def)

section \<open>Audit\<close>

definition eventOf :: "goenv \<Rightarrow> attempt \<Rightarrow> event \<Rightarrow> bool" where
  "eventOf env a e \<longleftrightarrow>
     ev_Action e = ActionQuizSubmitted \<and> ev_Outcome e = OutcomeSuccess \<and> ev_ResourceType e = ''lms_attempt''
   \<and> ev_ResourceID e = ge_hex env (at_ID a) \<and> ev_TenantID e = at_TenantID a
   \<and> af_UserID (ev_Actor e) = ge_hex env (at_StudentID a)
   \<and> map_of (ev_Metadata e) ''score'' = Some (MFloat (at_Score a))
   \<and> map_of (ev_Metadata e) ''passed'' = Some (MBool (at_Passed a))
   \<and> map_of (ev_Metadata e) ''answer_count'' = Some (MInt (int (length (at_Answers a))))"

lemma trim_ActionQuizSubmitted: "trim_space ActionQuizSubmitted \<noteq> []"
  unfolding ActionQuizSubmitted_def by code_simp

lemma eventOf_submitted:
  assumes "env_ok env" "0 < at_MaxScore a" "at_TenantID a = t"
  shows "eventOf env a (submittedEvent env io t a)"
  using assms
  by (simp add: eventOf_def submittedEvent_def BuildQuizEvent_def trim_ActionQuizSubmitted env_ok_hex_nonempty
      quizMetadata_def Let_def update_conv')

lemma eventOf_result: "examResult a = examResult b \<Longrightarrow> eventOf env a e = eventOf env b e"
  by (simp add: eventOf_def examResult_def attemptIdentity_def)

definition auditInv :: "goenv \<Rightarrow> service \<Rightarrow> bool" where
  "auditInv env sv \<longleftrightarrow>
     distinct (map at_ID (m_attempts (sv_repo sv)))
   \<and> (\<forall>e \<in> set (sv_audit sv). \<exists>a \<in> set (m_attempts (sv_repo sv)). at_Status a = ''submitted'' \<and> at_SubmittedAt a \<noteq> None \<and> eventOf env a e)
   \<and> distinct (map ev_ResourceID (sv_audit sv))
   \<and> (\<forall>a \<in> set (m_attempts (sv_repo sv)). at_SubmittedAt a \<noteq> None \<longrightarrow> at_Status a = ''submitted'' \<and> (\<exists>e \<in> set (sv_audit sv). eventOf env a e))"

lemma setAttempt_ids:
  "lookupAttempt sv t v = Some a \<Longrightarrow> at_ID b = at_ID a \<Longrightarrow>
     map at_ID (m_attempts (sv_repo (setAttempt t v b sv))) = map at_ID (m_attempts (sv_repo sv))"
  by (auto simp: setAttempt_def attemptKey_def dest: find_Some_iff2 intro!: map_update_first)

lemma setAttempt_other:
  assumes "lookupAttempt sv t v = Some a" "a' \<in> set (m_attempts (sv_repo sv))" "a' \<noteq> a"
  shows "a' \<in> set (m_attempts (sv_repo (setAttempt t v b sv)))"
proof -
  have "find p xs = Some a \<Longrightarrow> a' \<in> set xs \<Longrightarrow> a' \<noteq> a \<Longrightarrow> a' \<in> set (update_first p (\<lambda>_. b) xs)" for p xs
    by (induction xs) (auto split: if_splits)
  then show ?thesis using assms by (simp add: setAttempt_def)
qed

lemma setAttempt_new:
  assumes "lookupAttempt sv t v = Some a"
  shows "b \<in> set (m_attempts (sv_repo (setAttempt t v b sv)))"
proof -
  have "find p xs = Some a \<Longrightarrow> b \<in> set (update_first p (\<lambda>_. b) xs)" for p xs
    by (induction xs) (auto split: if_splits)
  then show ?thesis using assms by (simp add: setAttempt_def)
qed

lemma identity_ID: "attemptIdentity b = attemptIdentity a \<Longrightarrow> at_ID b = at_ID a"
  by (simp add: attemptIdentity_def)

lemma setAttempt_members:
  "c \<in> set (m_attempts (sv_repo (setAttempt t v b sv))) \<Longrightarrow> c = b \<or> c \<in> set (m_attempts (sv_repo sv))"
proof -
  have "c \<in> set (update_first p (\<lambda>_. b) xs) \<Longrightarrow> c = b \<or> c \<in> set xs" for p xs
    by (induction xs) (auto split: if_splits)
  then show "c \<in> set (m_attempts (sv_repo (setAttempt t v b sv))) \<Longrightarrow> c = b \<or> c \<in> set (m_attempts (sv_repo sv))"
    by (simp add: setAttempt_def)
qed

text \<open>Replacing an attempt keeps the audit invariant when a submitted attempt keeps its result.\<close>

lemma auditInv_setAttempt:
  assumes inv: "auditInv env sv" and look: "lookupAttempt sv t v = Some a" and id: "attemptIdentity b = attemptIdentity a"
    and keep: "at_Status a = ''submitted'' \<Longrightarrow> examResult b = examResult a" and same: "at_SubmittedAt b = at_SubmittedAt a"
  shows "auditInv env (setAttempt t v b sv)"
proof -
  let ?sv = "setAttempt t v b sv"
  have a: "a \<in> set (m_attempts (sv_repo sv))" using find_Some_iff2 [OF look] by blast
  have events: "\<exists>c \<in> set (m_attempts (sv_repo ?sv)). at_Status c = ''submitted'' \<and> at_SubmittedAt c \<noteq> None \<and> eventOf env c e"
    if "a' \<in> set (m_attempts (sv_repo sv))" "at_Status a' = ''submitted''" "at_SubmittedAt a' \<noteq> None" "eventOf env a' e" for a' e
  proof (cases "a' = a")
    case True
    with that keep have r: "examResult b = examResult a" by simp
    then have "at_Status b = at_Status a" "at_SubmittedAt b = at_SubmittedAt a" by (simp_all add: examResult_def)
    then have "at_Status b = ''submitted'' \<and> at_SubmittedAt b \<noteq> None \<and> eventOf env b e"
      using that True eventOf_result [OF r, of env e] by simp
    then show ?thesis using setAttempt_new [OF look] by blast
  qed (use that setAttempt_other [OF look] in blast)
  have "at_Status c = ''submitted'' \<and> (\<exists>e \<in> set (sv_audit sv). eventOf env c e)"
    if "c \<in> set (m_attempts (sv_repo ?sv))" "at_SubmittedAt c \<noteq> None" for c
  proof (cases "c = b")
    case True
    then have ok: "at_Status a = ''submitted''" "\<exists>e \<in> set (sv_audit sv). eventOf env a e"
      using inv a that(2) same by (auto simp: auditInv_def)
    from keep [OF ok(1)] have "at_Status b = at_Status a" by (simp add: examResult_def)
    with True ok eventOf_result [OF keep [OF ok(1)]] show ?thesis by simp
  qed (use setAttempt_members [OF that(1)] that(2) inv in \<open>auto simp: auditInv_def\<close>)
  with inv events show ?thesis
    unfolding auditInv_def by (simp add: setAttempt_ids [OF look identity_ID [OF id]]) blast
qed

text \<open>A submission hands in the attempt and publishes its event.\<close>

lemma auditInv_submit:
  assumes "auditInv env sv" and "lookupAttempt sv t v = Some a" and "at_Status a \<noteq> ''submitted''" and "env_ok env"
  shows "auditInv env (publishQuizSubmittedAudit env io t (submitted io ureq a) (setAttempt t v (submitted io ureq a) sv))"
proof -
  let ?b = "submitted io ureq a" and ?sv = "setAttempt t v (submitted io ureq a) sv"
  let ?pub = "publishQuizSubmittedAudit env io t (submitted io ureq a) ?sv"
  let ?e = "submittedEvent env io t ?b"
  have a: "a \<in> set (m_attempts (sv_repo sv))" "at_TenantID a = t"
    using find_Some_iff2 [OF assms(2)] by (simp_all add: attemptKey_def)
  note id = submitted_identity [of io ureq a]
  have b: "at_Status ?b = ''submitted''" "at_SubmittedAt ?b \<noteq> None" "0 < at_MaxScore ?b"
    using assms(3) by (simp_all add: submitted_def graded_def closeAttempt_def Let_def)
  have "at_TenantID ?b = t" using a(2) id by (simp add: attemptIdentity_def)
  then have ev: "eventOf env ?b ?e" using b(3) assms(4) by (simp add: eventOf_submitted)
  have ids: "at_ID a' = at_ID a \<longleftrightarrow> a' = a" if "a' \<in> set (m_attempts (sv_repo sv))" for a'
    using assms(1) that a(1) by (auto simp: auditInv_def distinct_map inj_on_def)
  have old: "c \<in> set (m_attempts (sv_repo ?sv))" if "c \<in> set (m_attempts (sv_repo sv))" "at_Status c = ''submitted''" for c
    using setAttempt_other [OF assms(2) that(1)] that(2) assms(3) by auto
  have audit: "sv_audit ?pub = sv_audit sv @ [?e]" "m_attempts (sv_repo ?pub) = m_attempts (sv_repo ?sv)"
    by (simp_all add: publishQuizSubmittedAudit_def publishAuditEvent_def b(1))
  have new: "?b \<in> set (m_attempts (sv_repo ?sv))" by (rule setAttempt_new [OF assms(2)])
  have "ev_ResourceID ?e \<notin> ev_ResourceID ` set (sv_audit sv)"
    using assms(1) assms(3) ev ids identity_ID [OF id] env_ok_hex_inject [OF assms(4)]
    by (fastforce simp: auditInv_def eventOf_def)
  moreover have "\<exists>c \<in> set (m_attempts (sv_repo ?sv)). at_Status c = ''submitted'' \<and> at_SubmittedAt c \<noteq> None \<and> eventOf env c e"
    if "e \<in> set (sv_audit sv @ [?e])" for e
  proof (cases "e = ?e")
    case False
    then have "e \<in> set (sv_audit sv)" using that by simp
    then show ?thesis using assms(1) old unfolding auditInv_def by blast
  qed (use b(1,2) ev new in blast)
  moreover have "at_Status c = ''submitted'' \<and> (\<exists>e \<in> set (sv_audit sv @ [?e]). eventOf env c e)"
    if "c \<in> set (m_attempts (sv_repo ?sv))" "at_SubmittedAt c \<noteq> None" for c
    using setAttempt_members [OF that(1)] that(2) b(1) ev assms(1) by (auto simp: auditInv_def)
  ultimately show ?thesis
    using assms(1) setAttempt_ids [OF assms(2) identity_ID [OF id]] unfolding auditInv_def audit by simp
qed

lemma reachable_auditInv: "reachable env sv \<Longrightarrow> env_ok env \<Longrightarrow> auditInv env sv"
proof (induction rule: reachable_inv)
  case (init sv)
  then show ?case by (simp add: auditInv_def)
next
  case (step io t actr sv sv')
  then have inv: "auditInv env sv" by blast
  from step(3) show ?case
  proof cases
    case refused
    with inv show ?thesis by simp
  next
    case assigned
    with inv show ?thesis by (simp add: auditInv_def extends_repo)
  next
    case (started asgID asg sid qid req)
    have "at_SubmittedAt (startedAttempt io t asgID qid sid req) = None" by (simp add: startedAttempt_def newAttempt_def)
    with started inv step(2) show ?thesis
      by (auto simp: auditInv_def addAttemptDoc_def) (auto simp: startedAttempt_def)
  next
    case (answered v a q ans)
    have same: "at_SubmittedAt (putAnswer (io_now io) q ans a) = at_SubmittedAt a" by (simp add: putAnswer_def)
    show ?thesis unfolding answered(1)
      by (rule auditInv_setAttempt [OF inv answered(2) putAnswer_identity _ same]) (use answered(4) in simp)
  next
    case (synced v a sreq)
    have "at_SubmittedAt (applyMemoryAttemptUpdate (io_now io) (syncUpdate a sreq) a) = at_SubmittedAt a"
      using applyMemoryAttemptUpdate_sync [of a "io_now io" sreq] by auto
    then show ?thesis unfolding synced(1)
      by (intro auditInv_setAttempt [OF inv synced(2)]) (simp_all add: lifecycle_submitted [OF sync_lifecycle])
  next
    case (closed v a ureq)
    show ?thesis unfolding closed(1) by (rule auditInv_submit [OF inv closed(2,4) step.prems])
  qed
qed

text \<open>The attempts that were handed in: a submission set their time, a synchronisation never does.\<close>

definition handedIn :: "service \<Rightarrow> attempt list" where
  "handedIn sv = filter (\<lambda>a. at_SubmittedAt a \<noteq> None) (m_attempts (sv_repo sv))"

lemma handedIn_event:
  assumes "auditInv env sv" and "e \<in> set (sv_audit sv)"
  shows "\<exists>a \<in> set (handedIn sv). at_Status a = ''submitted'' \<and> eventOf env a e"
proof -
  obtain a where "a \<in> set (m_attempts (sv_repo sv))" "at_Status a = ''submitted''" "at_SubmittedAt a \<noteq> None" "eventOf env a e"
    using assms unfolding auditInv_def by blast
  then show ?thesis by (intro bexI [of _ a]) (simp_all add: handedIn_def)
qed

lemma handedIn_submitted:
  assumes "auditInv env sv" and "a \<in> set (handedIn sv)"
  shows "at_Status a = ''submitted'' \<and> (\<exists>e \<in> set (sv_audit sv). eventOf env a e)"
proof -
  have "a \<in> set (m_attempts (sv_repo sv))" "at_SubmittedAt a \<noteq> None" using assms(2) by (simp_all add: handedIn_def)
  then show ?thesis using assms(1) unfolding auditInv_def by blast
qed

lemma handedIn_events:
  assumes "auditInv env sv" and "env_ok env"
  shows "length (sv_audit sv) = length (handedIn sv)"
proof -
  have id: "eventOf env a e \<Longrightarrow> ge_hex env (at_ID a) = ev_ResourceID e" for a e by (simp add: eventOf_def)
  have "ev_ResourceID ` set (sv_audit sv) = (\<lambda>a. ge_hex env (at_ID a)) ` set (handedIn sv)"
  proof (intro subset_antisym image_subsetI)
    fix e assume "e \<in> set (sv_audit sv)"
    from handedIn_event [OF assms(1) this] obtain a where "a \<in> set (handedIn sv)" "ev_ResourceID e = ge_hex env (at_ID a)"
      using id by metis
    then show "ev_ResourceID e \<in> (\<lambda>a. ge_hex env (at_ID a)) ` set (handedIn sv)" by (rule rev_image_eqI)
  next
    fix a assume "a \<in> set (handedIn sv)"
    from handedIn_submitted [OF assms(1) this] obtain e where "e \<in> set (sv_audit sv)" "ge_hex env (at_ID a) = ev_ResourceID e"
      using id by metis
    then show "ge_hex env (at_ID a) \<in> ev_ResourceID ` set (sv_audit sv)" by (rule rev_image_eqI)
  qed
  moreover have "card (ev_ResourceID ` set (sv_audit sv)) = length (sv_audit sv)"
    using assms(1) distinct_card [of "map ev_ResourceID (sv_audit sv)"] by (simp add: auditInv_def)
  moreover have "card ((\<lambda>a. ge_hex env (at_ID a)) ` set (handedIn sv)) = length (handedIn sv)"
  proof -
    have "distinct (map at_ID (handedIn sv))" using assms(1) by (simp add: auditInv_def handedIn_def distinct_map_filter)
    then have "distinct (map (\<lambda>a. ge_hex env (at_ID a)) (handedIn sv))"
      using env_ok_hex_inject [OF assms(2)] by (auto simp: distinct_map inj_on_def)
    from distinct_card [OF this] show ?thesis by simp
  qed
  ultimately show ?thesis by metis
qed

text \<open>
  C3. The audit log of the exam runtime is exact: in every reachable state the published events and the
  attempts that were handed in match one to one. Each event is the submission event of an attempt that was
  handed in and is submitted, with the score, the verdict and the number of answers the repository shows for
  it; each attempt that was handed in is submitted and has such an event; no attempt has two. An attempt that
  only a synchronisation closed was not handed in, and has none.
\<close>

theorem audit_matches_attempts:
  assumes "reachable env sv" and "env_ok env"
  shows "distinct (map ev_ResourceID (sv_audit sv)) \<and> length (sv_audit sv) = length (handedIn sv)
    \<and> list_all (\<lambda>e. list_ex (\<lambda>a. at_Status a = ''submitted'' \<and> eventOf env a e) (handedIn sv)) (sv_audit sv)
    \<and> list_all (\<lambda>a. at_Status a = ''submitted'' \<and> list_ex (eventOf env a) (sv_audit sv)) (handedIn sv)"
proof -
  have inv: "auditInv env sv" by (rule reachable_auditInv [OF assms])
  have "distinct (map ev_ResourceID (sv_audit sv))" using inv by (simp add: auditInv_def)
  then show ?thesis
    using handedIn_events [OF inv assms(2)] handedIn_event [OF inv] handedIn_submitted [OF inv]
    unfolding list_all_iff list_ex_iff by blast
qed

theorem audit_matches_attempts_witness:
  "let sv = serve sampleEnv (sampleIO 51) (SubmitReq ''t'' (sampleStudent 7) (ge_hex sampleEnv 50) sampleSubmit) openService
   in length (sv_audit sv) = 1 \<and> length (handedIn sv) = 1
    \<and> list_all (\<lambda>e. list_ex (\<lambda>a. at_Status a = ''submitted'' \<and> eventOf sampleEnv a e) (handedIn sv)) (sv_audit sv)
    \<and> list_all (\<lambda>a. at_Status a = ''submitted'' \<and> list_ex (eventOf sampleEnv a) (sv_audit sv)) (handedIn sv)"
proof -
  let ?sv = "serve sampleEnv (sampleIO 51) (SubmitReq ''t'' (sampleStudent 7) (ge_hex sampleEnv 50) sampleSubmit) openService"
  have "reachable sampleEnv ?sv"
    by (rule reachable.step [OF openService_reachable])
       (simp add: openService_def openAttempt_def startedAttempt_def sampleService_def newMemoryRepository_def sampleIO_def)
  note exact = audit_matches_attempts [OF this sampleEnv_ok]
  have one: "length (sv_audit ?sv) = 1" by (simp add: sample_submit_run publishQuizSubmittedAudit_def publishAuditEvent_def)
  with exact have "length (handedIn ?sv) = 1" by presburger
  with exact one show ?thesis by (simp only: Let_def simp_thms)
qed

section \<open>Isolation\<close>

lemma owner_student: "env_ok env \<Longrightarrow> actorOwnsAttempt env actr a \<Longrightarrow> objectID env (UserID actr) = Ret (at_StudentID a)"
  by (simp add: actorOwnsAttempt_def objectID_hex)

lemma filter_setAttempt:
  "lookupAttempt sv t v = Some a \<Longrightarrow> \<not> P a \<Longrightarrow> \<not> P b \<Longrightarrow>
     filter P (m_attempts (sv_repo (setAttempt t v b sv))) = filter P (m_attempts (sv_repo sv))"
  by (simp add: setAttempt_def filter_update_first_found)

lemma exam_step_filter:
  assumes "exam_step env io t actr sv sv'"
    and "\<And>a. at_TenantID a = t \<Longrightarrow> actorOwnsAttempt env actr a \<Longrightarrow> \<not> P a"
    and "\<And>asgID qid sid req. objectID env (UserID actr) = Ret sid \<Longrightarrow> \<not> P (startedAttempt io t asgID qid sid req)"
    and "\<And>a b. attemptIdentity a = attemptIdentity b \<Longrightarrow> P a = P b"
  shows "filter P (m_attempts (sv_repo sv')) = filter P (m_attempts (sv_repo sv))"
  using assms(1)
proof cases
  case (answered v a q ans)
  then have "\<not> P a" using assms(2) find_Some_iff2 [OF answered(2)] by (simp add: attemptKey_def)
  with answered assms(4) [of a "putAnswer (io_now io) q ans a"] show ?thesis by (simp add: filter_setAttempt)
next
  case (synced v a sreq)
  then have "\<not> P a" using assms(2) find_Some_iff2 [OF synced(2)] by (simp add: attemptKey_def)
  with synced assms(4) [of a "applyMemoryAttemptUpdate (io_now io) (syncUpdate a sreq) a"] show ?thesis
    by (simp add: filter_setAttempt)
next
  case (closed v a ureq)
  then have "\<not> P a" using assms(2) find_Some_iff2 [OF closed(2)] by (simp add: attemptKey_def)
  with closed assms(4) [of a "submitted io ureq a"] show ?thesis by (simp add: filter_setAttempt)
qed (use assms(3) in \<open>auto simp: extends_repo\<close>)

text \<open>
  C4. A request never changes another student's work: the attempts whose student is not the actor of
  the request are the same before and after it, in the same order, whatever identifiers the request
  names.
\<close>

theorem other_students_untouched:
  assumes "env_ok env"
  shows "filter (\<lambda>a. objectID env (UserID (req_actor req)) \<noteq> Ret (at_StudentID a)) (m_attempts (sv_repo (serve env io req sv)))
       = filter (\<lambda>a. objectID env (UserID (req_actor req)) \<noteq> Ret (at_StudentID a)) (m_attempts (sv_repo sv))"
  by (rule exam_step_filter [OF serve_step])
     (auto simp: owner_student [OF assms] startedAttempt_def newAttempt_def attemptIdentity_def)

theorem other_students_untouched_witness:
  "filter (\<lambda>a. objectID sampleEnv (UserID (sampleStudent 8)) \<noteq> Ret (at_StudentID a))
     (m_attempts (sv_repo (serve sampleEnv (sampleIO 51) (SubmitReq ''t'' (sampleStudent 8) (ge_hex sampleEnv 50) sampleSubmit) openService)))
   = filter (\<lambda>a. objectID sampleEnv (UserID (sampleStudent 8)) \<noteq> Ret (at_StudentID a)) (m_attempts (sv_repo openService))"
  using other_students_untouched [OF sampleEnv_ok, of "SubmitReq ''t'' (sampleStudent 8) (ge_hex sampleEnv 50) sampleSubmit"] by simp

text \<open>
  C7. Tenants are isolated: a request for one tenant leaves the attempts and the assignments of every
  other tenant as they were.
\<close>

theorem tenants_isolated:
  assumes "t \<noteq> req_tenant req"
  shows "filter (\<lambda>a. at_TenantID a = t) (m_attempts (sv_repo (serve env io req sv)))
       = filter (\<lambda>a. at_TenantID a = t) (m_attempts (sv_repo sv))
     \<and> filter (\<lambda>a. a_TenantID a = t) (m_assignments (sv_repo (serve env io req sv)))
       = filter (\<lambda>a. a_TenantID a = t) (m_assignments (sv_repo sv))"
proof
  show "filter (\<lambda>a. at_TenantID a = t) (m_attempts (sv_repo (serve env io req sv)))
      = filter (\<lambda>a. at_TenantID a = t) (m_attempts (sv_repo sv))"
    by (rule exam_step_filter [OF serve_step])
       (use assms in \<open>auto simp: startedAttempt_def newAttempt_def attemptIdentity_def\<close>)
  show "filter (\<lambda>a. a_TenantID a = t) (m_assignments (sv_repo (serve env io req sv)))
      = filter (\<lambda>a. a_TenantID a = t) (m_assignments (sv_repo sv))"
    using serve_step [of env io req sv]
    by (rule exam_stepE)
       (use assms in \<open>auto simp: extendsAssignments_def addAttemptDoc_def setAttempt_def filter_empty_conv\<close>)
qed

theorem tenants_isolated_witness:
  "''u'' \<noteq> req_tenant (StartReq ''t'' (sampleStudent 8) sampleStart)
   \<and> filter (\<lambda>a. at_TenantID a = ''u'') (m_attempts (sv_repo (serve sampleEnv (sampleIO 51) (StartReq ''t'' (sampleStudent 8) sampleStart) openService)))
       = filter (\<lambda>a. at_TenantID a = ''u'') (m_attempts (sv_repo openService))"
  using tenants_isolated [of "''u''" "StartReq ''t'' (sampleStudent 8) sampleStart"] by simp

end
