(* ===== verification/LmsExamResponses.thy ===== *)
theory LmsExamResponses
  imports LmsExamProps
begin

text \<open>
  What the exam runtime answers: resuming an attempt, refusals, reading back an answer, scores and
  progress of students; and where the service accepts more than its life cycle suggests: a
  synchronisation that closes an attempt without grading it, a second active attempt, and assignments
  that stay after an error.
\<close>

section \<open>Starting\<close>

lemma StartAttempt_Ret:
  assumes "StartAttempt env io t actr req sv = (sv', Ret d)"
  obtains asgID asg sid qid where "objectID env (st_AssignmentID req) = Ret asgID" "lookupAssignment sv t asgID = Some asg"
    "objectID env (UserID actr) = Ret sid" "sid \<in> set (a_StudentIDs asg)" "objectID env (st_QuizID req) = Ret qid"
proof -
  obtain asgID where asgID: "objectID env (st_AssignmentID req) = Ret asgID"
    using assms by (cases "objectID env (st_AssignmentID req)") (auto simp: StartAttempt_def getAssignment_def)
  obtain asg where asg: "lookupAssignment sv t asgID = Some asg"
    using assms asgID by (cases "lookupAssignment sv t asgID") (auto simp: StartAttempt_def getAssignment_def)
  obtain sid where sid: "objectID env (UserID actr) = Ret sid"
    using assms asgID asg by (cases "objectID env (UserID actr)") (auto simp: StartAttempt_def getAssignment_def)
  have mem: "sid \<in> set (a_StudentIDs asg)"
    using assms asgID asg sid by (auto simp: StartAttempt_def getAssignment_def split: if_splits)
  obtain qid where "objectID env (st_QuizID req) = Ret qid"
    using assms asgID asg sid mem by (cases "objectID env (st_QuizID req)") (auto simp: StartAttempt_def getAssignment_def)
  with asgID asg sid mem show ?thesis by (rule that)
qed

lemma isActiveAttempt_started: "isActiveAttempt t asgID qid sid (startedAttempt io t asgID qid sid req)"
  by (simp add: isActiveAttempt_def startedAttempt_def newAttempt_def)

text \<open>
  Starting is idempotent: a start that succeeded, repeated by the same student, returns the same
  attempt and stores nothing, at whatever time and with whatever fresh identifier it runs.
\<close>

lemma start_resumes:
  assumes "StartAttempt env io t actr req sv = (sv1, Ret d)"
  shows "StartAttempt env io' t actr req sv1 = (sv1, Ret d)"
proof -
  obtain asgID asg sid qid where pre: "objectID env (st_AssignmentID req) = Ret asgID" "lookupAssignment sv t asgID = Some asg"
    "objectID env (UserID actr) = Ret sid" "sid \<in> set (a_StudentIDs asg)" "objectID env (st_QuizID req) = Ret qid"
    by (rule StartAttempt_Ret [OF assms])
  show ?thesis
  proof (cases "findActiveAttempt (sv_repo sv) t asgID qid sid")
    case (Some b)
    then show ?thesis using assms StartAttempt_run [OF pre, of io] StartAttempt_run [OF pre, of io'] by simp
  next
    case None
    let ?b = "startedAttempt io t asgID qid sid req"
    have sv1: "sv1 = addAttemptDoc ?b sv" "d = attemptToDTO env ?b"
      using assms StartAttempt_run [OF pre, of io] None by simp_all
    have asg1: "lookupAssignment sv1 t asgID = Some asg" using pre(2) by (simp add: sv1 addAttemptDoc_def)
    have "findActiveAttempt (sv_repo sv1) t asgID qid sid = Some ?b"
      using None isActiveAttempt_started [of t asgID qid sid io req]
      by (simp add: sv1 findActiveAttempt_def find_append)
    then show ?thesis
      using StartAttempt_run [OF pre(1) asg1 pre(3-5), of io'] by (simp add: sv1(2))
  qed
qed

section \<open>Refusals\<close>

text \<open>
  C38. An attempt answers only to its student: for any other actor, saving an answer, synchronising and
  submitting all fail with "scope forbidden" and change nothing, whatever the payload.
\<close>

theorem non_owner_refused:
  assumes "getAttempt env (sv_repo sv) t attemptID = Ret (Some a)" and "\<not> actorOwnsAttempt env actr a"
  shows "SaveAnswerForActor env io t actr attemptID questionID areq sv = (sv, Fail ErrScopeForbidden)
       \<and> SyncAttemptForActor env io t actr attemptID sreq sv = (sv, Fail ErrScopeForbidden)
       \<and> SubmitAttemptForActor env io t actr attemptID ureq sv = (sv, Fail ErrScopeForbidden)"
proof -
  have "ownedAttempt env t actr attemptID sv = Fail ErrScopeForbidden"
    using assms by (simp add: ownedAttempt_def ensureActorCanAccessAttempt_def)
  then show ?thesis
    by (simp add: SaveAnswerForActor_def SyncAttemptForActor_def SubmitAttemptForActor_def)
qed

theorem non_owner_refused_witness:
  "SubmitAttemptForActor sampleEnv (sampleIO 0) ''t'' (sampleStudent 8) (ge_hex sampleEnv 50) sampleSubmit openService
   = (openService, Fail ErrScopeForbidden)"
proof -
  have "\<not> actorOwnsAttempt sampleEnv (sampleStudent 8) openAttempt"
    by (simp add: actorOwnsAttempt_def sampleStudent_def env_ok_hex_inject)
  from non_owner_refused [OF sample_open this] show ?thesis by blast
qed

text \<open>
  After the submission no answer is accepted: for a valid answer the owner gets "attempt already
  submitted", and nothing changes.
\<close>

lemma no_answer_after_submission:
  assumes "getAttempt env (sv_repo sv) t attemptID = Ret (Some a)" and "actorOwnsAttempt env actr a"
    and "at_Status a = ''submitted''" and "validateSingleAnswerPayload env (sa_Answer req) (sa_ClientResult req) = Ret ()"
  shows "SaveAnswerForActor env io t actr attemptID questionID req sv = (sv, Fail ErrAttemptDone)"
proof -
  have "ownedAttempt env t actr attemptID sv = Ret a"
    using assms(1,2) by (simp add: ownedAttempt_def ensureActorCanAccessAttempt_def)
  then show ?thesis using assms by (simp add: SaveAnswerForActor_def SaveAnswer_def)
qed

definition sampleAnswer :: saveAnswerReq where
  "sampleAnswer = \<lparr>sa_Answer = JStr ''a'', sa_ClientResult = [], sa_AnsweredAt = None\<rparr>"

lemma sampleAnswer_valid: "validateSingleAnswerPayload sampleEnv (sa_Answer sampleAnswer) (sa_ClientResult sampleAnswer) = Ret ()"
  by (simp add: validateSingleAnswerPayload_def sampleAnswer_def jsonSize_def sampleEnv_def maxAttemptJSONBytes_def)

lemma actorOwnsAttempt_identity: "attemptIdentity a = attemptIdentity b \<Longrightarrow> actorOwnsAttempt env actr a = actorOwnsAttempt env actr b"
  by (simp add: actorOwnsAttempt_def attemptIdentity_def)

section \<open>Reading back an answer\<close>

lemma SaveAnswer_open:
  assumes "objectID env attemptID = Ret v" "lookupAttempt sv t v = Some a" "at_Status a \<noteq> ''submitted''"
    "answerField questionID = Ret f" "validateSingleAnswerPayload env (sa_Answer req) (sa_ClientResult req) = Ret ()"
  shows "SaveAnswer env io t attemptID questionID req sv =
    (setAttempt t v (putAnswer (io_now io) questionID
        \<lparr>aa_QuestionID = questionID, aa_Answer = sa_Answer req, aa_ClientResult = sa_ClientResult req,
         aa_AnsweredAt = sa_AnsweredAt req\<rparr> a) sv,
     Ret \<lparr>ar_AttemptID = attemptID, ar_QuestionID = questionID, ar_Saved = True\<rparr>)"
proof -
  let ?ans = "\<lparr>aa_QuestionID = questionID, aa_Answer = sa_Answer req, aa_ClientResult = sa_ClientResult req,
                 aa_AnsweredAt = sa_AnsweredAt req\<rparr>"
  show ?thesis
    using assms
    by (auto simp: SaveAnswer_def getAttempt_def on_repo_def SaveAttemptAnswer_def saveAttemptAnswer_def
          withAttempt_def setAttempt_def update_first_const [where f = "putAnswer (io_now io) questionID ?ans"])
qed

text \<open>
  A saved answer is there: saving an answer to an open attempt of the actor, for a question key
  that is not empty, has no dot and does not start with a dollar, succeeds; the attempt read
  afterwards has exactly this answer for the question, every other answer as before, and is still
  open.
\<close>

lemma saved_answer_reads_back:
  assumes "getAttempt env (sv_repo sv) t attemptID = Ret (Some a)" and "actorOwnsAttempt env actr a"
    and "at_Status a \<noteq> ''submitted''" and "validateSingleAnswerPayload env (sa_Answer req) (sa_ClientResult req) = Ret ()"
    and "trim_space questionID \<noteq> []" and "\<not> contains (trim_space questionID) ''.''"
    and "\<not> has_prefix (trim_space questionID) ''$''"
  shows "\<exists>sv' b. SaveAnswerForActor env io t actr attemptID questionID req sv
        = (sv', Ret \<lparr>ar_AttemptID = attemptID, ar_QuestionID = questionID, ar_Saved = True\<rparr>)
    \<and> getAttempt env (sv_repo sv') t attemptID = Ret (Some b) \<and> at_Status b = at_Status a
    \<and> map_of (at_Answers b) = (map_of (at_Answers a))(questionID \<mapsto>
        \<lparr>aa_QuestionID = questionID, aa_Answer = sa_Answer req, aa_ClientResult = sa_ClientResult req,
         aa_AnsweredAt = sa_AnsweredAt req\<rparr>)"
proof -
  let ?ans = "\<lparr>aa_QuestionID = questionID, aa_Answer = sa_Answer req, aa_ClientResult = sa_ClientResult req,
                 aa_AnsweredAt = sa_AnsweredAt req\<rparr>"
  let ?b = "putAnswer (io_now io) questionID ?ans a"
  obtain v where v: "objectID env attemptID = Ret v" "lookupAttempt sv t v = Some a"
    using assms(1) by (auto simp: getAttempt_Ret)
  have own: "ownedAttempt env t actr attemptID sv = Ret a" using v assms(2) by (auto simp: ownedAttempt_Ret)
  have f: "answerField questionID = Ret (''answers.'' @ trim_space questionID)"
    using assms(5-7) by (simp add: answerField_def Let_def)
  have run: "SaveAnswerForActor env io t actr attemptID questionID req sv =
      (setAttempt t v ?b sv, Ret \<lparr>ar_AttemptID = attemptID, ar_QuestionID = questionID, ar_Saved = True\<rparr>)"
    using own SaveAnswer_open [OF v assms(3) f assms(4)] by (simp add: SaveAnswerForActor_def)
  moreover have "getAttempt env (sv_repo (setAttempt t v ?b sv)) t attemptID = Ret (Some ?b)"
    using v by (simp add: getAttempt_def find_setAttempt)
  moreover have "map_of (at_Answers ?b) = (map_of (at_Answers a))(questionID \<mapsto> ?ans)"
    using assms(3) by (simp add: putAnswer_def update_conv')
  ultimately show ?thesis by auto
qed

section \<open>What a synchronisation can do\<close>

lemma syncUpdate_status:
  "map_of (sy_Attempt req) ''status'' = Some (JStr status) \<Longrightarrow> status \<noteq> [] \<Longrightarrow> at_Status a \<noteq> ''submitted'' \<Longrightarrow>
     applyMemoryAttemptUpdate now (syncUpdate a req) a =
       a\<lparr>at_Status := status, at_QuizVersion := sy_QuizVersion req, at_Events := sy_Events req, at_Client := sy_Client req,
         at_UpdatedAt := now\<rparr>"
  by (simp add: syncUpdate_def applyMemoryAttemptUpdate_def has_prefix_def Let_def)

lemma SyncAttempt_open:
  assumes "objectID env attemptID = Ret v" "lookupAttempt sv t v = Some a" "at_PackageHash a = sy_PackageHash req"
    "validateAttemptPayload env [] (sy_Events req) (sy_Client req) = Ret ()"
  shows "SyncAttempt env io t attemptID req sv =
    (setAttempt t v (applyMemoryAttemptUpdate (io_now io) (syncUpdate a req) a) sv,
     Ret \<lparr>sn_Status = ''synced'', sn_ServerAttempt = attemptToDTO env (applyMemoryAttemptUpdate (io_now io) (syncUpdate a req) a),
          sn_Conflicts = []\<rparr>)"
  using assms
  by (simp add: SyncAttempt_def getAttempt_def on_repo_def updateAttempt_def withAttempt_def setAttempt_def
      update_first_const [where f = "applyMemoryAttemptUpdate (io_now io) (syncUpdate a req)"])

text \<open>
  C40. A synchronisation can close an attempt without grading it: the status a client sends is written
  as it is, so the owner of an open attempt can set it to "submitted". The attempt keeps its old score
  and submission time, no audit event is published, and from then on it is final.
\<close>

theorem sync_closes_ungraded:
  assumes "getAttempt env (sv_repo sv) t attemptID = Ret (Some a)" and "actorOwnsAttempt env actr a"
    and "at_Status a \<noteq> ''submitted''" and "at_PackageHash a = sy_PackageHash req"
    and "validateAttemptPayload env [] (sy_Events req) (sy_Client req) = Ret ()"
    and "map_of (sy_Attempt req) ''status'' = Some (JStr ''submitted'')"
  shows "\<exists>sv' res b. SyncAttemptForActor env io t actr attemptID req sv = (sv', Ret res)
    \<and> getAttempt env (sv_repo sv') t attemptID = Ret (Some b) \<and> at_Status b = ''submitted''
    \<and> at_Score b = at_Score a \<and> at_SubmittedAt b = at_SubmittedAt a \<and> sv_audit sv' = sv_audit sv"
proof -
  obtain v where v: "objectID env attemptID = Ret v" "lookupAttempt sv t v = Some a"
    using assms(1) by (auto simp: getAttempt_Ret)
  let ?b = "a\<lparr>at_Status := ''submitted'', at_QuizVersion := sy_QuizVersion req, at_Events := sy_Events req,
      at_Client := sy_Client req, at_UpdatedAt := io_now io\<rparr>"
  have b: "applyMemoryAttemptUpdate (io_now io) (syncUpdate a req) a = ?b"
    using syncUpdate_status [OF assms(6) _ assms(3)] by simp
  have "ownedAttempt env t actr attemptID sv = Ret a" using v assms(2) by (auto simp: ownedAttempt_Ret)
  then have "\<exists>res. SyncAttemptForActor env io t actr attemptID req sv = (setAttempt t v ?b sv, Ret res)"
    using SyncAttempt_open [OF v assms(4,5), of io] by (simp add: SyncAttemptForActor_def b)
  moreover have "getAttempt env (sv_repo (setAttempt t v ?b sv)) t attemptID = Ret (Some ?b)"
    using v by (simp add: getAttempt_def find_setAttempt attemptIdentity_def)
  ultimately show ?thesis by force
qed

definition sampleSync :: "string \<Rightarrow> attemptSyncReq" where
  "sampleSync status = \<lparr>sy_PackageHash = ''h'', sy_QuizVersion = ''1'', sy_Attempt = [(''status'', JStr status)],
     sy_Events = [], sy_Client = []\<rparr>"

lemma sampleSync_valid: "validateAttemptPayload sampleEnv [] (sy_Events (sampleSync s)) (sy_Client (sampleSync s)) = Ret ()"
  by (simp add: validateAttemptPayload_def sampleSync_def jsonSize_def sampleEnv_def maxAttemptAnswers_def
      maxAttemptEvents_def maxAttemptJSONBytes_def)

theorem sync_closes_ungraded_witness:
  "\<exists>sv' res b. SyncAttemptForActor sampleEnv (sampleIO 0) ''t'' (sampleStudent 7) (ge_hex sampleEnv 50) (sampleSync ''submitted'') openService
       = (sv', Ret res)
    \<and> getAttempt sampleEnv (sv_repo sv') ''t'' (ge_hex sampleEnv 50) = Ret (Some b) \<and> at_Status b = ''submitted''
    \<and> at_Score b = at_Score openAttempt \<and> at_SubmittedAt b = at_SubmittedAt openAttempt \<and> sv_audit sv' = sv_audit openService"
  by (rule sync_closes_ungraded [OF sample_open sample_owns _ _ sampleSync_valid]) (simp_all add: sampleSync_def)

section \<open>One active attempt\<close>

text \<open>The key under which an attempt is resumed.\<close>

definition activeKey :: "attempt \<Rightarrow> string \<times> oid \<times> oid \<times> oid" where
  "activeKey a = (at_TenantID a, at_AssignmentID a, at_QuizID a, at_StudentID a)"

definition activeKeys :: "service \<Rightarrow> (string \<times> oid \<times> oid \<times> oid) list" where
  "activeKeys sv = map activeKey (filter (\<lambda>a. at_Status a = ''in_progress'') (m_attempts (sv_repo sv)))"

text \<open>A client that does not set a status of its own, as the load client: it sends none or "in_progress".\<close>

fun keepsStatus :: "exam_request \<Rightarrow> bool" where
  "keepsStatus (SyncReq t actr attemptID req) =
     (case map_of (sy_Attempt req) ''status'' of Some (JStr s) \<Rightarrow> s = [] \<or> s = ''in_progress'' | _ \<Rightarrow> True)"
| "keepsStatus _ = True"

definition oneActive :: "service \<Rightarrow> bool" where
  "oneActive sv \<longleftrightarrow> distinct (activeKeys sv)
     \<and> list_all (\<lambda>a. at_Status a = ''in_progress'' \<or> at_Status a = ''submitted'') (m_attempts (sv_repo sv))"

lemma filter_update_first_sub:
  assumes "find p xs = Some a" "g b = g a" "q b \<Longrightarrow> q a"
  shows "distinct (map g (filter q xs)) \<Longrightarrow> distinct (map g (filter q (update_first p (\<lambda>_. b) xs)))"
proof -
  have "set (map g (filter q (update_first p (\<lambda>_. b) xs))) \<subseteq> set (map g (filter q xs))" if "find p xs = Some a" for xs
    using that assms(2,3) by (induction xs) (auto split: if_splits)
  then show "distinct (map g (filter q xs)) \<Longrightarrow> distinct (map g (filter q (update_first p (\<lambda>_. b) xs)))"
    using assms
  proof (induction xs)
    case (Cons x xs)
    then show ?case by (auto split: if_splits)
  qed simp
qed

lemma setAttempt_oneActive:
  assumes "oneActive sv" "lookupAttempt sv t v = Some a" "attemptIdentity b = attemptIdentity a"
    "at_Status b = at_Status a \<or> at_Status b = ''submitted''"
  shows "oneActive (setAttempt t v b sv)"
proof -
  have a: "a \<in> set (m_attempts (sv_repo sv))" using find_Some_iff2 [OF assms(2)] by simp
  have "activeKey b = activeKey a" using assms(3) by (simp add: activeKey_def attemptIdentity_def)
  then have "distinct (activeKeys (setAttempt t v b sv))"
    using assms(1,4) filter_update_first_sub [OF assms(2), of activeKey b "\<lambda>a. at_Status a = ''in_progress''"]
    by (auto simp: oneActive_def activeKeys_def setAttempt_def)
  moreover have "list_all (\<lambda>a. at_Status a = ''in_progress'' \<or> at_Status a = ''submitted'') (m_attempts (sv_repo (setAttempt t v b sv)))"
    using assms(1,4) a by (auto simp: oneActive_def list_all_iff dest!: setAttempt_set [OF assms(2)])
  ultimately show ?thesis by (simp add: oneActive_def)
qed

lemma sync_keepsStatus:
  assumes "keepsStatus (SyncReq t actr attemptID req)" "at_Status a = ''in_progress'' \<or> at_Status a = ''submitted''"
  shows "at_Status (applyMemoryAttemptUpdate now (syncUpdate a req) a) = at_Status a"
proof (cases "\<exists>s. map_of (sy_Attempt req) ''status'' = Some (JStr s) \<and> s \<noteq> [] \<and> at_Status a \<noteq> ''submitted''")
  case True
  then show ?thesis using assms by (auto simp: syncUpdate_status)
next
  case False
  then have "syncUpdate a req = [(''quiz_version'', BStr (sy_QuizVersion req)), (''events'', BMaps (sy_Events req)), (''client'', BMap (sy_Client req))]"
    by (auto simp: syncUpdate_def Let_def split: option.splits jval.splits)
  then show ?thesis by (simp add: applyMemoryAttemptUpdate_def has_prefix_def)
qed

lemma findActiveAttempt_None_keys:
  "findActiveAttempt (sv_repo sv) t asgID qid sid = None \<Longrightarrow> (t, asgID, qid, sid) \<notin> set (activeKeys sv)"
  by (auto simp: findActiveAttempt_def find_None_iff activeKeys_def activeKey_def isActiveAttempt_def)

lemma oneActive_cong: "m_attempts (sv_repo sv') = m_attempts (sv_repo sv) \<Longrightarrow> oneActive sv' = oneActive sv"
  by (simp add: oneActive_def activeKeys_def)

lemma StartAttempt_oneActive:
  assumes "oneActive sv"
  shows "oneActive (fst (StartAttempt env io t actr req sv))"
proof -
  obtain sv' r where run: "StartAttempt env io t actr req sv = (sv', r)" by force
  from StartAttempt_effect [OF run] show ?thesis
  proof
    assume "\<exists>asgID asg sid qid. lookupAssignment sv t asgID = Some asg \<and> objectID env (UserID actr) = Ret sid
       \<and> sid \<in> set (a_StudentIDs asg) \<and> findActiveAttempt (sv_repo sv) t asgID qid sid = None
       \<and> sv' = addAttemptDoc (startedAttempt io t asgID qid sid req) sv
       \<and> r = Ret (attemptToDTO env (startedAttempt io t asgID qid sid req))"
    then obtain asgID qid sid where none: "findActiveAttempt (sv_repo sv) t asgID qid sid = None"
      and sv': "sv' = addAttemptDoc (startedAttempt io t asgID qid sid req) sv" by blast
    show ?thesis
      using assms findActiveAttempt_None_keys [OF none]
      by (simp add: run sv' oneActive_def activeKeys_def startedAttempt_def newAttempt_def activeKey_def)
  qed (simp add: run assms)
qed

lemma owned_oneActive:
  assumes one: "oneActive sv"
    and eff: "\<And>v a. objectID env attemptID = Ret v \<Longrightarrow> lookupAttempt sv t v = Some a \<Longrightarrow>
      fst (f a) = sv \<or> (\<exists>b. attemptIdentity b = attemptIdentity a \<and> (at_Status b = at_Status a \<or> at_Status b = ''submitted'')
        \<and> m_attempts (sv_repo (fst (f a))) = m_attempts (sv_repo (setAttempt t v b sv)))"
  shows "oneActive (fst (and_then (ownedAttempt env t actr attemptID sv) sv f))"
proof (cases "ownedAttempt env t actr attemptID sv")
  case (Ret a)
  then obtain v where v: "objectID env attemptID = Ret v" "lookupAttempt sv t v = Some a"
    by (auto simp: ownedAttempt_Ret)
  from eff [OF v] have "oneActive (fst (f a))"
  proof
    assume "\<exists>b. attemptIdentity b = attemptIdentity a \<and> (at_Status b = at_Status a \<or> at_Status b = ''submitted'')
        \<and> m_attempts (sv_repo (fst (f a))) = m_attempts (sv_repo (setAttempt t v b sv))"
    then obtain b where b: "attemptIdentity b = attemptIdentity a" "at_Status b = at_Status a \<or> at_Status b = ''submitted''"
      "m_attempts (sv_repo (fst (f a))) = m_attempts (sv_repo (setAttempt t v b sv))" by blast
    show ?thesis using oneActive_cong [OF b(3)] setAttempt_oneActive [OF one v(2) b(1,2)] by simp
  qed (simp add: one)
  then show ?thesis by (simp add: Ret)
qed (simp_all add: one)

lemma SaveAnswerForActor_oneActive:
  assumes "oneActive sv"
  shows "oneActive (fst (SaveAnswerForActor env io t actr attemptID questionID req sv))"
  unfolding SaveAnswerForActor_def
proof (rule owned_oneActive [OF assms])
  fix v a
  assume v: "objectID env attemptID = Ret v" "lookupAttempt sv t v = Some a"
  obtain sv' r where run: "SaveAnswer env io t attemptID questionID req sv = (sv', r)" by force
  have "sv' = sv \<or> (\<exists>ans. sv' = setAttempt t v (putAnswer (io_now io) questionID ans a) sv)"
    using SaveAnswer_effect [OF run] v by auto
  then show "fst (SaveAnswer env io t attemptID questionID req sv) = sv
      \<or> (\<exists>b. attemptIdentity b = attemptIdentity a \<and> (at_Status b = at_Status a \<or> at_Status b = ''submitted'')
        \<and> m_attempts (sv_repo (fst (SaveAnswer env io t attemptID questionID req sv))) = m_attempts (sv_repo (setAttempt t v b sv)))"
    by (metis fst_conv run putAnswer_identity putAnswer_status)
qed

lemma SyncAttemptForActor_oneActive:
  assumes "oneActive sv" "keepsStatus (SyncReq t actr attemptID req)"
  shows "oneActive (fst (SyncAttemptForActor env io t actr attemptID req sv))"
  unfolding SyncAttemptForActor_def
proof (rule owned_oneActive [OF assms(1)])
  fix v a
  assume v: "objectID env attemptID = Ret v" "lookupAttempt sv t v = Some a"
  let ?b = "applyMemoryAttemptUpdate (io_now io) (syncUpdate a req) a"
  obtain sv' r where run: "SyncAttempt env io t attemptID req sv = (sv', r)" by force
  have "sv' = sv \<or> sv' = setAttempt t v ?b sv" using SyncAttempt_effect [OF run] v by auto
  moreover have "at_Status ?b = at_Status a"
    using find_Some_iff2 [OF v(2)] assms by (intro sync_keepsStatus) (auto simp: oneActive_def list_all_iff)
  ultimately show "fst (SyncAttempt env io t attemptID req sv) = sv
      \<or> (\<exists>b. attemptIdentity b = attemptIdentity a \<and> (at_Status b = at_Status a \<or> at_Status b = ''submitted'')
        \<and> m_attempts (sv_repo (fst (SyncAttempt env io t attemptID req sv))) = m_attempts (sv_repo (setAttempt t v b sv)))"
    by (metis fst_conv run applyMemoryAttemptUpdate_identity)
qed

lemma SubmitAttemptForActor_oneActive:
  assumes "oneActive sv"
  shows "oneActive (fst (SubmitAttemptForActor env io t actr attemptID req sv))"
  unfolding SubmitAttemptForActor_def
proof (rule owned_oneActive [OF assms])
  fix v a
  assume v: "objectID env attemptID = Ret v" "lookupAttempt sv t v = Some a"
  obtain sv' r where run: "SubmitAttempt env io t attemptID req sv = (sv', r)" by force
  have "sv' = sv \<or> at_Status a \<noteq> ''submitted'' \<and> sv_repo sv' = sv_repo (setAttempt t v (submitted io req a) sv)"
    using SubmitAttempt_effect [OF run] v by auto
  then show "fst (if at_Status a = ''submitted'' then (sv, Ret (attemptSubmitResult a)) else SubmitAttempt env io t attemptID req sv) = sv
      \<or> (\<exists>b. attemptIdentity b = attemptIdentity a \<and> (at_Status b = at_Status a \<or> at_Status b = ''submitted'')
        \<and> m_attempts (sv_repo (fst (if at_Status a = ''submitted'' then (sv, Ret (attemptSubmitResult a))
             else SubmitAttempt env io t attemptID req sv))) = m_attempts (sv_repo (setAttempt t v b sv)))"
    using run submitted_identity [of io req a] submitted_status [of a io req] by (auto intro!: exI [of _ "submitted io req a"])
qed

lemma serve_oneActive: "oneActive sv \<Longrightarrow> keepsStatus req \<Longrightarrow> oneActive (serve env io req sv)"
proof (cases req)
  case (AssignReq t actr r)
  assume "oneActive sv"
  then show ?thesis
    using oneActive_cong [OF conjunct1 [OF extends_repo [OF CreateAssignment_extends]]] by (simp add: AssignReq)
qed (simp_all del: keepsStatus.simps(1) add: StartAttempt_oneActive SaveAnswerForActor_oneActive
    SyncAttemptForActor_oneActive SubmitAttemptForActor_oneActive)

text \<open>
  C39. As long as clients send no status of their own in a synchronisation (or "in_progress", as the
  load client does), a student has at most one attempt in progress for a quiz of an assignment, at
  any time of any sequence of requests that starts without attempts.
\<close>

theorem one_active_attempt:
  assumes "m_attempts (sv_repo sv) = []" and "list_all (\<lambda>(io, req). keepsStatus req) trace"
  shows "distinct (activeKeys (serve_all env trace sv))"
proof -
  have "oneActive sv \<Longrightarrow> list_all (\<lambda>(io, req). keepsStatus req) trace \<Longrightarrow> oneActive (serve_all env trace sv)" for sv
    by (induction trace arbitrary: sv) (auto simp: serve_all_Cons serve_oneActive)
  moreover have "oneActive sv" using assms(1) by (simp add: oneActive_def activeKeys_def)
  ultimately show ?thesis using assms(2) by (simp add: oneActive_def)
qed

theorem one_active_attempt_witness:
  "distinct (activeKeys (serve_all sampleEnv
     [(sampleIO 50, StartReq ''t'' (sampleStudent 7) sampleStart), (sampleIO 51, StartReq ''t'' (sampleStudent 7) sampleStart),
      (sampleIO 52, SyncReq ''t'' (sampleStudent 7) (ge_hex sampleEnv 50) (sampleSync ''in_progress''))] sampleService))"
  by (rule one_active_attempt) (simp_all add: sampleService_def newMemoryRepository_def sampleSync_def)

lemma sample_sync:
  assumes "lookupAttempt sv ''t'' 50 = Some a" "at_StudentID a = 7" "at_PackageHash a = ''h''" "at_Status a \<noteq> ''submitted''" "s \<noteq> []"
  shows "serve sampleEnv io (SyncReq ''t'' (sampleStudent 7) (ge_hex sampleEnv 50) (sampleSync s)) sv =
    setAttempt ''t'' 50 (a\<lparr>at_Status := s, at_QuizVersion := ''1'', at_Events := [], at_Client := [], at_UpdatedAt := io_now io\<rparr>) sv"
proof -
  have "actorOwnsAttempt sampleEnv (sampleStudent 7) a"
    using assms(2) by (simp add: actorOwnsAttempt_def sampleStudent_def env_ok_hex_nonempty)
  then have "ownedAttempt sampleEnv ''t'' (sampleStudent 7) (ge_hex sampleEnv 50) sv = Ret a"
    using assms(1) by (auto simp: ownedAttempt_Ret)
  moreover have "applyMemoryAttemptUpdate (io_now io) (syncUpdate a (sampleSync s)) a =
      a\<lparr>at_Status := s, at_QuizVersion := ''1'', at_Events := [], at_Client := [], at_UpdatedAt := io_now io\<rparr>"
    using assms(4,5) syncUpdate_status [of "sampleSync s" s a "io_now io"] by (simp add: sampleSync_def)
  ultimately show ?thesis
    using SyncAttempt_open [of sampleEnv "ge_hex sampleEnv 50" 50 "''t''" sv a "sampleSync s" io] assms(1,3) sampleSync_valid [of s]
    by (simp add: SyncAttemptForActor_def sampleSync_def)
qed

text \<open>
  Without that restriction it fails for the in-memory repository: a student who synchronises the attempt
  to another status, starts again and synchronises the first one back has two attempts in progress for the
  same quiz of the same assignment. The MongoDB repository has a unique partial index on the attempts in
  progress (\<open>EnsureIndexes\<close> in repository.go), against which the last write fails.
\<close>

lemma two_active_attempts:
  "\<not> distinct (activeKeys (serve_all sampleEnv
     [(sampleIO 50, StartReq ''t'' (sampleStudent 7) sampleStart),
      (sampleIO 51, SyncReq ''t'' (sampleStudent 7) (ge_hex sampleEnv 50) (sampleSync ''paused'')),
      (sampleIO 52, StartReq ''t'' (sampleStudent 7) sampleStart),
      (sampleIO 53, SyncReq ''t'' (sampleStudent 7) (ge_hex sampleEnv 50) (sampleSync ''in_progress''))] sampleService))"
proof -
  let ?sync = "\<lambda>s a. a\<lparr>at_Status := s, at_QuizVersion := ''1'', at_Events := [], at_Client := [], at_UpdatedAt := 100\<rparr>"
  let ?paused = "?sync ''paused'' openAttempt"
  let ?new = "startedAttempt (sampleIO 52) ''t'' 11 21 7 sampleStart"
  define sv2 where "sv2 = setAttempt ''t'' 50 ?paused openService"
  have attempts2: "m_attempts (sv_repo sv2) = [?paused]"
    by (simp add: sv2_def setAttempt_def openService_def sampleService_def newMemoryRepository_def openAttempt_def
        startedAttempt_def newAttempt_def attemptKey_def sampleIO_def)
  have asg2: "m_assignments (sv_repo sv2) = [sampleAssignment]"
    by (simp add: sv2_def setAttempt_def openService_def addAttemptDoc_def sampleService_def)
  have start1: "serve sampleEnv (sampleIO 50) (StartReq ''t'' (sampleStudent 7) sampleStart) sampleService = openService"
    by (simp add: sample_start_run openService_def openAttempt_def)
  have sync1: "serve sampleEnv (sampleIO 51) (SyncReq ''t'' (sampleStudent 7) (ge_hex sampleEnv 50) (sampleSync ''paused'')) openService = sv2"
    by (subst sample_sync [OF sample_lookup]) (simp_all add: sv2_def sampleIO_def)
  have "findActiveAttempt (sv_repo sv2) ''t'' 11 21 7 = None"
    by (simp add: findActiveAttempt_def attempts2 isActiveAttempt_def)
  then have start2: "serve sampleEnv (sampleIO 52) (StartReq ''t'' (sampleStudent 7) sampleStart) sv2 = addAttemptDoc ?new sv2"
    using StartAttempt_run [of sampleEnv sampleStart 11 "''t''" sv2 sampleAssignment "sampleStudent 7" 7 21 "sampleIO 52"]
    by (simp add: asg2) (simp add: sampleStart_def sampleStudent_def sampleAssignment_def)
  have look3: "lookupAttempt (addAttemptDoc ?new sv2) ''t'' 50 = Some ?paused"
    by (simp add: attempts2) (simp add: openAttempt_def startedAttempt_def newAttempt_def attemptKey_def sampleIO_def)
  have sync2: "serve sampleEnv (sampleIO 53) (SyncReq ''t'' (sampleStudent 7) (ge_hex sampleEnv 50) (sampleSync ''in_progress'')) (addAttemptDoc ?new sv2)
      = setAttempt ''t'' 50 (?sync ''in_progress'' ?paused) (addAttemptDoc ?new sv2)"
    by (subst sample_sync [OF look3]) (simp_all add: sampleIO_def)
  have "activeKeys (setAttempt ''t'' 50 (?sync ''in_progress'' ?paused) (addAttemptDoc ?new sv2)) = [(''t'', 11, 21, 7), (''t'', 11, 21, 7)]"
    by (simp add: activeKeys_def setAttempt_def attempts2)
       (simp add: activeKey_def openAttempt_def startedAttempt_def newAttempt_def attemptKey_def sampleIO_def)
  then show ?thesis by (simp only: serve_all_Cons serve_all_Nil prod.case start1 sync1 start2 sync2) simp
qed

section \<open>Creating assignments\<close>

definition hasQuiz :: "goenv \<Rightarrow> memoryStore \<Rightarrow> string \<Rightarrow> string \<Rightarrow> bool" where
  "hasQuiz env m t quizID = (case getQuiz env m t quizID of Ret (Some _) \<Rightarrow> True | _ \<Rightarrow> False)"

lemma getQuiz_extends: "extendsAssignments t' sv sv' \<Longrightarrow> getQuiz env (sv_repo sv') t q = getQuiz env (sv_repo sv) t q"
  by (auto simp: extendsAssignments_def getQuiz_def)

lemma on_repo_create_extends:
  "a_TenantID doc = t \<Longrightarrow> extendsAssignments t sv (fst (on_repo (createAssignment now i doc) sv))"
  unfolding extendsAssignments_def
  by (intro exI [of _ "[snd (createAssignment now i doc (sv_repo sv))]"])
     (simp add: createAssignment_def on_repo_def Let_def)

lemma on_repo_create_length:
  "length (m_assignments (sv_repo (fst (on_repo (createAssignment now i doc) sv)))) = Suc (length (m_assignments (sv_repo sv)))"
  by (simp add: on_repo_def createAssignment_def Let_def)

text \<open>The loop stops at the first quiz that is not there, after creating one assignment for each before it.\<close>

lemma createAssignments_stops:
  assumes "list_all (hasQuiz env (sv_repo sv) t) good" and "getQuiz env (sv_repo sv) t bad = Ret None"
  shows "\<exists>sv'. createAssignments env io t actr req k recipients n (good @ bad # rest) sv = (sv', Fail ErrNotFound)
    \<and> extendsAssignments t sv sv'
    \<and> length (m_assignments (sv_repo sv')) = length (m_assignments (sv_repo sv)) + length good"
  using assms
proof (induction good arbitrary: n sv)
  case (Cons q good)
  obtain quiz where quiz: "getQuiz env (sv_repo sv) t q = Ret (Some quiz)"
    using Cons.prems(1) by (auto simp: hasQuiz_def split: outcome.splits option.splits)
  define doc where "doc = \<lparr>a_ID = 0, a_TenantID = t, a_ClassID = k_ID k,
      a_QuizID = (case objectID env q of Ret v \<Rightarrow> v | _ \<Rightarrow> 0), a_SubjectID = z_SubjectID quiz, a_StudentIDs = recipients,
      a_DueAt = ca_DueAt req, a_TeacherNote = ca_TeacherNote req, a_Status = [], a_AssignedBy = UserID actr,
      a_RecipientMode = ca_RecipientMode req, a_CreatedAt = 0, a_UpdatedAt = 0\<rparr>"
  obtain sv1 c where step: "on_repo (createAssignment (io_now io) (io_fresh io n) doc) sv = (sv1, c)" by force
  have ext: "extendsAssignments t sv sv1"
    using on_repo_create_extends [of doc t sv "io_now io" "io_fresh io n"] step by (simp add: doc_def)
  have len: "length (m_assignments (sv_repo sv1)) = Suc (length (m_assignments (sv_repo sv)))"
    using on_repo_create_length [of "io_now io" "io_fresh io n" doc sv] step by simp
  have "list_all (hasQuiz env (sv_repo sv1) t) good" "getQuiz env (sv_repo sv1) t bad = Ret None"
    using Cons.prems by (simp_all add: hasQuiz_def getQuiz_extends [OF ext] list_all_iff)
  from Cons.IH [OF this] obtain sv2 where sv2:
    "createAssignments env io t actr req k recipients (Suc n) (good @ bad # rest) sv1 = (sv2, Fail ErrNotFound)"
    "extendsAssignments t sv1 sv2"
    "length (m_assignments (sv_repo sv2)) = length (m_assignments (sv_repo sv1)) + length good" by blast
  have "createAssignments env io t actr req k recipients n ((q # good) @ bad # rest) sv = (sv2, Fail ErrNotFound)"
    using quiz sv2(1) step by (simp add: doc_def Let_def)
  with sv2(2,3) len extendsAssignments_trans [OF ext] show ?case by auto
qed simp

text \<open>
  Creating assignments is not all-or-nothing: when one of the requested quizzes does not exist the
  request fails with "not found", but the assignments of the quizzes before it have been created and
  stay.
\<close>

lemma assignments_stay_after_error:
  assumes "getClass env (sv_repo sv) t (ca_ClassID req) = Ret (Some k)" and "canAccessGlobal env actr"
    and "assignmentRecipients env (sv_repo sv) t req = Ret recipients" and "recipients \<noteq> []"
    and "ca_QuizIDs req = good @ bad # rest" and "list_all (hasQuiz env (sv_repo sv) t) good"
    and "getQuiz env (sv_repo sv) t bad = Ret None"
  shows "\<exists>sv'. CreateAssignment env io t actr req sv = (sv', Fail ErrNotFound)
    \<and> length (m_assignments (sv_repo sv')) = length (m_assignments (sv_repo sv)) + length good"
  using createAssignments_stops [OF assms(6,7), of io actr req k recipients 0 rest] assms(1-5)
  by (auto simp: CreateAssignment_def)

definition sampleSchool :: service where
  "sampleSchool = \<lparr>sv_repo = newMemoryRepository
     \<lparr>m_classes := [\<lparr>k_ID = 3, k_TenantID = ''t'', k_CenterID = 2, k_Name = ''7A'', k_Grade = ''7'', k_AcademicYear = ''2025'',
         k_Status = ''active'', k_HomeroomTeacherID = ''u'', k_CreatedAt = 1, k_UpdatedAt = 1\<rparr>],
      m_quizzes := [\<lparr>z_ID = 21, z_TenantID = ''t'', z_Scope = \<lparr>sc_Type = ''global'', sc_CenterID = []\<rparr>, z_Title = ''Q'', z_Kind = ''quiz'',
         z_SubjectID = 5, z_LevelID = 6, z_TopicIDs = [], z_QuestionIDs = [31], z_Slides = [], z_Settings = [], z_Result = [],
         z_Theme = [], z_ThemeID = [], z_Status = ''published'', z_Version = 1, z_PackageHash = ''h'', z_PublishedAt = None,
         z_CreatedAt = 1, z_UpdatedAt = 1\<rparr>]\<rparr>, sv_audit = []\<rparr>"

definition sampleAssign :: createAssignmentReq where
  "sampleAssign = \<lparr>ca_ClassID = ge_hex sampleEnv 3, ca_QuizIDs = [ge_hex sampleEnv 21, ge_hex sampleEnv 22], ca_RecipientMode = ''selected'',
     ca_StudentIDs = [ge_hex sampleEnv 7], ca_DueAt = None, ca_TeacherNote = []\<rparr>"

section \<open>Scores\<close>

lemma bestScore_Max: "bestScore first xs = Max (insert first (at_Score ` set xs))"
proof (induction xs arbitrary: first)
  case (Cons a xs)
  have "bestScore first (a # xs) = bestScore (max first (at_Score a)) xs"
    by (simp add: bestScore_def max_def)
  also have "\<dots> = Max (insert first (at_Score ` set (a # xs)))"
    unfolding Cons.IH by (cases "xs = []") (simp_all add: max.assoc)
  finally show ?case .
qed (simp add: bestScore_def)

text \<open>The score sheet item of one assignment.\<close>

definition doneAttempts :: "service \<Rightarrow> string \<Rightarrow> oid \<Rightarrow> assignment \<Rightarrow> attempt list" where
  "doneAttempts sv t sid asg =
     filter (\<lambda>a. at_TenantID a = t \<and> at_AssignmentID a = a_ID asg \<and> at_StudentID a = sid \<and> at_Status a = ''submitted'')
       (m_attempts (sv_repo sv))"

lemma submitted_list:
  fixes sv t sid asg
  defines "L \<equiv> listAttempts (sv_repo sv) t
    [(''assignment_id'', BOid (a_ID asg)), (''student_id'', BOid sid), (''status'', BStr ''submitted'')]"
  shows "mset L = mset (doneAttempts sv t sid asg)"
proof -
  have "filter (\<lambda>a. at_TenantID a = t \<and> memoryAttemptMatches a
          [(''assignment_id'', BOid (a_ID asg)), (''student_id'', BOid sid), (''status'', BStr ''submitted'')])
      (m_attempts (sv_repo sv)) = doneAttempts sv t sid asg"
    unfolding doneAttempts_def by (rule filter_cong) (auto simp: memoryAttemptMatches_def attemptKeyMatches_def)
  then show "mset L = mset (doneAttempts sv t sid asg)"
    unfolding listAttempts_def L_def by simp
qed

lemma scoreItemOf_Some:
  assumes "scoreItemOf env sv t sid subjectID asg = Some item"
  obtains S where "S \<noteq> []" "mset S = mset (doneAttempts sv t sid asg)"
    "sorted_wrt (\<lambda>a b. at_UpdatedAt b \<le> at_UpdatedAt a) S"
    "item = \<lparr>si_Assignment = assignmentToDTO env asg, si_BestScore = bestScore (at_Score (hd S)) S,
             si_RecentAttemptsTop3 = attemptsToDTO env (take 3 S)\<rparr>"
    "subjectID = [] \<or> ge_hex env (a_SubjectID asg) = subjectID"
proof -
  define L where "L = listAttempts (sv_repo sv) t
    [(''assignment_id'', BOid (a_ID asg)), (''student_id'', BOid sid), (''status'', BStr ''submitted'')]"
  define S where "S = sort_slice attemptUpdatedAfter L"
  have subj: "subjectID = [] \<or> ge_hex env (a_SubjectID asg) = subjectID"
    using assms by (auto simp only: scoreItemOf_def option.distinct split: if_split_asm)
  then have run: "(case L of [] \<Rightarrow> None
      | _ # _ \<Rightarrow> Some \<lparr>si_Assignment = assignmentToDTO env asg, si_BestScore = bestScore (at_Score (hd S)) S,
             si_RecentAttemptsTop3 = attemptsToDTO env (take 3 S)\<rparr>) = Some item"
    using assms unfolding scoreItemOf_def Let_def L_def [symmetric] S_def [symmetric] by (simp split: if_split_asm)
  then have item: "L \<noteq> []" "item = \<lparr>si_Assignment = assignmentToDTO env asg, si_BestScore = bestScore (at_Score (hd S)) S,
             si_RecentAttemptsTop3 = attemptsToDTO env (take 3 S)\<rparr>"
    by (cases L; simp)+
  have "mset S = mset L" by (simp add: S_def)
  moreover have "sorted_wrt (\<lambda>a b. at_UpdatedAt b \<le> at_UpdatedAt a) S"
    using attempt_order.sort_slice_sorted [of L] by (simp add: S_def attemptUpdatedAfter_def not_less)
  ultimately show ?thesis
    using that [of S] item subj submitted_list [of sv t asg sid] unfolding L_def [symmetric] by (metis mset_zero_iff)
qed

text \<open>
  The score sheet of a student: every item belongs to an assignment of the tenant that lists the student,
  at which the student has a submitted attempt; its best score is the maximum over all those attempts, and
  it shows the three most recently updated of them: the first three of all of them, the latest first.
\<close>

lemma student_scores_best:
  assumes "StudentScores env sv t actr subjectID = Ret items" and "objectID env (UserID actr) = Ret sid" and "item \<in> set items"
  shows "\<exists>asg latest. asg \<in> set (m_assignments (sv_repo sv)) \<and> a_TenantID asg = t \<and> sid \<in> set (a_StudentIDs asg)
    \<and> latest \<noteq> [] \<and> mset latest = mset (doneAttempts sv t sid asg)
    \<and> sorted_wrt (\<lambda>a b. at_UpdatedAt b \<le> at_UpdatedAt a) latest
    \<and> si_BestScore item = Max (at_Score ` set latest)
    \<and> si_RecentAttemptsTop3 item = map (attemptToDTO env) (take 3 latest)"
proof -
  obtain asg where asg: "asg \<in> set (listAssignments (sv_repo sv) t [(''student_ids'', BOid sid)])"
    and item: "scoreItemOf env sv t sid subjectID asg = Some item"
    using assms by (auto simp: StudentScores_def map_filter_def)
  have mem: "asg \<in> set (m_assignments (sv_repo sv))" "a_TenantID asg = t" "sid \<in> set (a_StudentIDs asg)"
    using asg by (auto simp: listAssignments_def memoryAssignmentMatches_def assignmentKeyMatches_def)
  obtain S where S: "S \<noteq> []" "mset S = mset (doneAttempts sv t sid asg)" "sorted_wrt (\<lambda>a b. at_UpdatedAt b \<le> at_UpdatedAt a) S"
    and i: "item = \<lparr>si_Assignment = assignmentToDTO env asg, si_BestScore = bestScore (at_Score (hd S)) S,
             si_RecentAttemptsTop3 = attemptsToDTO env (take 3 S)\<rparr>"
    by (rule scoreItemOf_Some [OF item])
  have "insert (at_Score (hd S)) (at_Score ` set S) = at_Score ` set S" using S(1) by (auto simp: insert_absorb)
  then have "si_BestScore item = Max (at_Score ` set S)" by (simp add: i bestScore_Max)
  moreover have "si_RecentAttemptsTop3 item = map (attemptToDTO env) (take 3 S)" by (simp add: i attemptsToDTO_def)
  ultimately show ?thesis using mem S by blast
qed

end
