(* ===== verification/LmsContentRules.thy ===== *)
theory LmsContentRules
  imports LmsValidation GoText HexCodec
begin

text \<open>
  The rules for questions and quizzes: kinds of questions and their aliases
  (\<open>question_bank_contract.go\<close>), payload validation (\<open>content_payload_validation.go\<close>) and the test
  for control characters (\<open>student_profile_validation.go\<close>).
\<close>

section \<open>Kinds of questions\<close>

definition QuestionKindSingleChoice :: string where "QuestionKindSingleChoice = ''single_choice''"
definition QuestionKindMultipleChoice :: string where "QuestionKindMultipleChoice = ''multiple_choice''"
definition QuestionKindTrueFalse :: string where "QuestionKindTrueFalse = ''true_false''"
definition QuestionKindShortAnswer :: string where "QuestionKindShortAnswer = ''short_answer''"
definition QuestionKindEssay :: string where "QuestionKindEssay = ''essay''"
definition QuestionKindOrdering :: string where "QuestionKindOrdering = ''ordering''"
definition QuestionKindMatching :: string where "QuestionKindMatching = ''matching''"

lemmas kind_defs =
  QuestionKindSingleChoice_def QuestionKindMultipleChoice_def QuestionKindTrueFalse_def
  QuestionKindShortAnswer_def QuestionKindEssay_def QuestionKindOrdering_def QuestionKindMatching_def

definition questionKindAliases :: "(string \<times> string) list" where
  "questionKindAliases =
     [(''single'', QuestionKindSingleChoice), (''single_choice'', QuestionKindSingleChoice),
      (''single-choice'', QuestionKindSingleChoice), (''choice'', QuestionKindSingleChoice),
      (''multiple'', QuestionKindMultipleChoice), (''multiple_choice'', QuestionKindMultipleChoice),
      (''multiple-choice'', QuestionKindMultipleChoice), (''mcq'', QuestionKindMultipleChoice),
      (''true_false'', QuestionKindTrueFalse), (''true-false'', QuestionKindTrueFalse),
      (''boolean'', QuestionKindTrueFalse), (''short'', QuestionKindShortAnswer),
      (''short_answer'', QuestionKindShortAnswer), (''short-answer'', QuestionKindShortAnswer),
      (''text'', QuestionKindShortAnswer), (''essay'', QuestionKindEssay),
      (''ordering'', QuestionKindOrdering), (''matching'', QuestionKindMatching)]"

definition normalizeQuestionKind :: "goenv \<Rightarrow> string \<Rightarrow> string lres" where
  "normalizeQuestionKind env kind =
     (let key = lower env (trim_space kind);
          key = replace_byte (CHR '' '') (CHR ''_'') key
      in case map_of questionKindAliases key of
           Some normalized \<Rightarrow> Ret normalized
         | None \<Rightarrow> Fail ErrInvalidQuestionKind)"

definition questionKindFromDTO :: "goenv \<Rightarrow> string \<Rightarrow> string \<Rightarrow> string lres" where
  "questionKindFromDTO env kind typ =
     (if trim_space kind \<noteq> [] then normalizeQuestionKind env kind else normalizeQuestionKind env typ)"

section \<open>Payloads\<close>

definition maxQuestionStemLength :: int where "maxQuestionStemLength = 4000"
definition maxChoiceCount :: int where "maxChoiceCount = 20"
definition maxChoiceLabelLength :: int where "maxChoiceLabelLength = 1000"
definition maxQuizTitleLength :: int where "maxQuizTitleLength = 240"
definition maxQuizJSONBytes :: int where "maxQuizJSONBytes = 128 * 1024"

record choiceDTO =
  cd_ID :: string
  cd_Label :: string
  cd_Correct :: bool

definition hasControlChars :: "string \<Rightarrow> bool" where
  "hasControlChars value = list_ex (\<lambda>r. IsControl r \<and> r \<noteq> 10 \<and> r \<noteq> 13 \<and> r \<noteq> 9) (runes value)"

text \<open>The loop over the choices, with the identifiers seen so far.\<close>

fun choiceLabelsLoop :: "string list \<Rightarrow> choiceDTO list \<Rightarrow> unit lres" where
  "choiceLabelsLoop seen [] = Ret ()"
| "choiceLabelsLoop seen (choice # choices) =
     (let i = trim_space (cd_ID choice); label = trim_space (cd_Label choice)
      in if i = [] \<or> label = [] \<or> i \<in> set seen \<or> maxChoiceLabelLength < RuneCountInString label \<or> hasControlChars label
         then Fail ErrInvalidContentPayload
         else choiceLabelsLoop (i # seen) choices)"

definition validateChoiceLabels :: "choiceDTO list \<Rightarrow> unit lres" where
  "validateChoiceLabels choices = choiceLabelsLoop [] choices"

definition countCorrect :: "choiceDTO list \<Rightarrow> int" where
  "countCorrect choices = fold (\<lambda>choice correct. if cd_Correct choice then correct + 1 else correct) choices 0"

definition validateChoiceQuestion :: "goenv \<Rightarrow> choiceDTO list \<Rightarrow> jval \<Rightarrow> int \<Rightarrow> unit lres" where
  "validateChoiceQuestion env choices answer exactCorrect =
     (if int (length choices) < 2 \<or> maxChoiceCount < int (length choices) then Fail ErrInvalidContentPayload
      else bind_out (validateChoiceLabels choices) (\<lambda>_.
        let correct = countCorrect choices
        in if 0 < exactCorrect \<and> correct \<noteq> exactCorrect then Fail ErrInvalidContentPayload
           else if exactCorrect = 0 \<and> correct = 0 then Fail ErrInvalidContentPayload
           else if answer = JNull then Ret ()
           else if maxChoiceLabelLength * maxChoiceCount < jsonSize env (Some answer) then Fail ErrInvalidContentPayload
           else Ret ()))"

text \<open>
  A nil metadata map is the empty list; the code tests it for nil to skip the size, which is two
  bytes for an empty map and so within the limit.
\<close>

definition validateQuestionPayload ::
  "goenv \<Rightarrow> string \<Rightarrow> string \<Rightarrow> choiceDTO list \<Rightarrow> jval \<Rightarrow> jobj \<Rightarrow> unit lres" where
  "validateQuestionPayload env kind stem choices answer metadata =
     (let stem = trim_space stem
      in if stem = [] \<or> maxQuestionStemLength < RuneCountInString stem \<or> hasControlChars stem
         then Fail ErrInvalidContentPayload
         else if metadata \<noteq> [] \<and> maxQuizJSONBytes < jsonSize env (Some (JObj metadata)) then Fail ErrInvalidContentPayload
         else if kind = QuestionKindSingleChoice then validateChoiceQuestion env choices answer 1
         else if kind = QuestionKindMultipleChoice then validateChoiceQuestion env choices answer 0
         else if kind = QuestionKindTrueFalse then
           (case answer of
              JNull \<Rightarrow> Ret ()
            | JBool _ \<Rightarrow> Ret ()
            | JStr value \<Rightarrow> if EqualFold value ''true'' \<or> EqualFold value ''false'' then Ret () else Fail ErrInvalidContentPayload
            | _ \<Rightarrow> Fail ErrInvalidContentPayload)
         else if kind = QuestionKindShortAnswer \<or> kind = QuestionKindEssay then
           (case answer of
              JNull \<Rightarrow> Ret ()
            | JStr value \<Rightarrow> if RuneCountInString value \<le> maxChoiceLabelLength \<and> \<not> hasControlChars value then Ret ()
                            else Fail ErrInvalidContentPayload
            | _ \<Rightarrow> Fail ErrInvalidContentPayload)
         else if kind = QuestionKindOrdering \<or> kind = QuestionKindMatching then
           (if choices = [] \<or> maxChoiceCount < int (length choices) then Fail ErrInvalidContentPayload
            else validateChoiceLabels choices)
         else Fail ErrInvalidContentPayload)"

definition validateQuizPayload :: "goenv \<Rightarrow> string \<Rightarrow> jval list \<Rightarrow> jobj \<Rightarrow> jobj \<Rightarrow> jobj \<Rightarrow> unit lres" where
  "validateQuizPayload env title slides settings result theme =
     (let title = trim_space title
      in if title = [] \<or> maxQuizTitleLength < RuneCountInString title \<or> hasControlChars title
         then Fail ErrInvalidContentPayload
         else if 200 < int (length slides) \<or> maxQuizJSONBytes < jsonSize env (Some (JArr slides))
              \<or> maxQuizJSONBytes < jsonSize env (Some (JObj settings)) \<or> maxQuizJSONBytes < jsonSize env (Some (JObj result))
              \<or> maxQuizJSONBytes < jsonSize env (Some (JObj theme))
         then Fail ErrInvalidContentPayload
         else Ret ())"

section \<open>What the kinds and rules are\<close>

definition questionKinds :: "string list" where
  "questionKinds = [QuestionKindSingleChoice, QuestionKindMultipleChoice, QuestionKindTrueFalse, QuestionKindShortAnswer,
     QuestionKindEssay, QuestionKindOrdering, QuestionKindMatching]"

lemma aliases_are_kinds: "map_of questionKindAliases key = Some k \<Longrightarrow> k \<in> set questionKinds"
  by (drule map_of_SomeD) (auto simp: questionKindAliases_def questionKinds_def)

lemma kinds_normalize:
  assumes "k \<in> set questionKinds"
  shows "normalizeQuestionKind env k = Ret k"
proof -
  have "list_all (\<lambda>k. trim_space k = k \<and> list_all (\<lambda>c. byte c < 0x80) k \<and> map lower_ascii k = k
      \<and> replace_byte (CHR '' '') (CHR ''_'') k = k \<and> map_of questionKindAliases k = Some k) questionKinds"
    by code_simp
  then have "trim_space k = k" "list_all (\<lambda>c. byte c < 0x80) k" "map lower_ascii k = k"
    "replace_byte (CHR '' '') (CHR ''_'') k = k" "map_of questionKindAliases k = Some k"
    using assms by (auto simp: list_all_iff)
  then show ?thesis
    by (simp add: normalizeQuestionKind_def lower_def to_lower_def)
qed

text \<open>The labels are valid exactly when each is and the trimmed identifiers are distinct.\<close>

definition labelOk :: "choiceDTO \<Rightarrow> bool" where
  "labelOk choice \<longleftrightarrow> trim_space (cd_ID choice) \<noteq> [] \<and> trim_space (cd_Label choice) \<noteq> []
     \<and> RuneCountInString (trim_space (cd_Label choice)) \<le> maxChoiceLabelLength
     \<and> \<not> hasControlChars (trim_space (cd_Label choice))"

lemma choiceLabelsLoop_iff:
  "choiceLabelsLoop seen choices = Ret () \<longleftrightarrow> list_all labelOk choices
     \<and> distinct (map (trim_space \<circ> cd_ID) choices) \<and> set (map (trim_space \<circ> cd_ID) choices) \<inter> set seen = {}"
  by (induction seen choices rule: choiceLabelsLoop.induct) (auto simp: labelOk_def Let_def not_less)

lemma validateChoiceLabels_iff:
  "validateChoiceLabels choices = Ret () \<longleftrightarrow> list_all labelOk choices \<and> distinct (map (trim_space \<circ> cd_ID) choices)"
  by (simp add: validateChoiceLabels_def choiceLabelsLoop_iff)

lemma countCorrect_filter: "countCorrect choices = int (length (filter cd_Correct choices))"
proof -
  have "fold (\<lambda>choice correct. if cd_Correct choice then correct + 1 else correct) choices n
      = n + int (length (filter cd_Correct choices))" for n
    by (induction choices arbitrary: n) auto
  then show ?thesis by (simp add: countCorrect_def)
qed

lemma validateChoiceQuestion_iff:
  "validateChoiceQuestion env choices answer n = Ret () \<longleftrightarrow>
     2 \<le> length choices \<and> length choices \<le> 20 \<and> list_all labelOk choices \<and> distinct (map (trim_space \<circ> cd_ID) choices)
     \<and> (0 < n \<longrightarrow> int (length (filter cd_Correct choices)) = n) \<and> (n = 0 \<longrightarrow> filter cd_Correct choices \<noteq> [])
     \<and> (answer = JNull \<or> jsonSize env (Some answer) \<le> 20000)"
  using validateChoiceLabels_iff [of choices]
  by (cases "validateChoiceLabels choices")
     (auto simp: validateChoiceQuestion_def Let_def countCorrect_filter maxChoiceCount_def maxChoiceLabelLength_def)

lemma validateQuestionPayload_kind: "validateQuestionPayload env kind stem choices answer metadata = Ret () \<Longrightarrow> kind \<in> set questionKinds"
  by (auto simp: validateQuestionPayload_def questionKinds_def Let_def split: if_splits)

text \<open>
  C36. What a stored question satisfies is decided by its choices as a reference says: a single-choice
  question with a valid stem and no metadata is accepted exactly when it has 2 to 20 choices, each
  with an identifier and a printable label of at most 1000 runes, the trimmed identifiers all
  different, exactly one choice marked correct, and an answer that is absent or at most 20000 bytes
  of JSON.
\<close>

theorem single_choice_valid_iff:
  assumes "trim_space stem \<noteq> []" and "RuneCountInString (trim_space stem) \<le> 4000" and "\<not> hasControlChars (trim_space stem)"
  shows "validateQuestionPayload env QuestionKindSingleChoice stem choices answer [] = Ret () \<longleftrightarrow>
     2 \<le> length choices \<and> length choices \<le> 20 \<and> list_all labelOk choices
     \<and> distinct (map (trim_space \<circ> cd_ID) choices) \<and> length (filter cd_Correct choices) = 1
     \<and> (answer = JNull \<or> jsonSize env (Some answer) \<le> 20000)"
  using assms validateChoiceQuestion_iff [of env choices answer 1]
  by (auto simp: validateQuestionPayload_def Let_def maxQuestionStemLength_def)

definition sampleChoices :: "choiceDTO list" where
  "sampleChoices = [\<lparr>cd_ID = ''a'', cd_Label = ''4'', cd_Correct = True\<rparr>, \<lparr>cd_ID = ''b'', cd_Label = ''5'', cd_Correct = False\<rparr>]"

theorem single_choice_valid_iff_witness:
  "validateQuestionPayload sampleEnv QuestionKindSingleChoice ''2+2'' sampleChoices JNull [] = Ret ()"
proof -
  have "trim_space ''2+2'' \<noteq> []" "RuneCountInString (trim_space ''2+2'') \<le> 4000" "\<not> hasControlChars (trim_space ''2+2'')"
    by code_simp+
  note iff = single_choice_valid_iff [OF this]
  have "list_all labelOk sampleChoices" "distinct (map (trim_space \<circ> cd_ID) sampleChoices)" by code_simp+
  then show ?thesis by (subst iff) (simp add: sampleChoices_def)
qed

text \<open>
  Kinds of questions have one canonical form: whatever alias a client sends, the kind stored is one
  of the seven kinds, and normalising it again gives the same kind.
\<close>

lemma question_kind_canonical:
  assumes "questionKindFromDTO env kind typ = Ret k"
  shows "k \<in> set questionKinds \<and> questionKindFromDTO env k typ' = Ret k"
proof -
  have k: "k \<in> set questionKinds"
    using assms by (auto simp: questionKindFromDTO_def normalizeQuestionKind_def Let_def aliases_are_kinds
        split: if_splits option.splits)
  moreover have "trim_space k \<noteq> []"
  proof -
    have "list_all (\<lambda>k. trim_space k \<noteq> []) questionKinds" by code_simp
    with k show ?thesis by (auto simp: list_all_iff)
  qed
  ultimately show ?thesis by (simp add: questionKindFromDTO_def kinds_normalize)
qed

end
