(* ===== verification/LmsContent.thy ===== *)
theory LmsContent
  imports LmsRuntime LmsContentRules
begin

text \<open>
  The content part of the LMS service (\<open>content_service.go\<close>, \<open>question_bank_contract.go\<close>,
  \<open>quiz_bank_contract.go\<close>): the catalogue of subjects, levels and topics, the question bank and the
  quiz bank, with publication and packages. Handlers are as in the exam runtime: they take the time and
  fresh identifiers as \<open>reqio\<close> and return the new state with the response.

  In the JSON a package hash is taken of, an empty slice or map of the model stands for nil.
\<close>

section \<open>Scopes\<close>

record scopeDTO =
  so_Type :: string
  so_CenterID :: string

definition dtoToScope :: "scopeDTO \<Rightarrow> content_scope" where
  "dtoToScope scope = \<lparr>sc_Type = so_Type scope, sc_CenterID = so_CenterID scope\<rparr>"

definition scopeToDTO :: "content_scope \<Rightarrow> scopeDTO" where
  "scopeToDTO scope = \<lparr>so_Type = sc_Type scope, so_CenterID = sc_CenterID scope\<rparr>"

definition validateContentScope :: "goenv \<Rightarrow> memoryStore \<Rightarrow> string \<Rightarrow> actor \<Rightarrow> scopeDTO \<Rightarrow> unit lres" where
  "validateContentScope env m tenantID a scope =
     (if so_Type scope = ''global'' then (if canAccessGlobal env a then Ret () else Fail ErrScopeForbidden)
      else if so_Type scope = ''center'' \<and> so_CenterID scope \<noteq> [] \<and> canAccessCenter env m tenantID a (so_CenterID scope) then Ret ()
      else if canAccessGlobal env a then Ret ()
      else Fail ErrScopeForbidden)"

definition applyScopeFilter :: "goenv \<Rightarrow> memoryStore \<Rightarrow> string \<Rightarrow> actor \<Rightarrow> scopeDTO \<Rightarrow> bsonM \<Rightarrow> bsonM lres" where
  "applyScopeFilter env m tenantID a scope flt =
     (if so_Type scope \<noteq> [] then
        map_out (\<lambda>_. let flt = AList.update ''scope.type'' (BStr (so_Type scope)) flt
                     in if so_CenterID scope \<noteq> [] then AList.update ''scope.center_id'' (BStr (so_CenterID scope)) flt else flt)
          (validateContentScope env m tenantID a scope)
      else if \<not> canAccessGlobal env a then Ret (AList.update ''scope.type'' (BStr ''center'') flt)
      else Ret flt)"

section \<open>Catalogue\<close>

record subjectDTO =
  sbd_ID :: string
  sbd_Scope :: scopeDTO
  sbd_Name :: string
  sbd_Code :: string
  sbd_Status :: string
  sbd_CreatedAt :: gotime
  sbd_UpdatedAt :: gotime

record levelDTO =
  ld_ID :: string
  ld_SubjectID :: string
  ld_Name :: string
  ld_Code :: string
  ld_Order :: int
  ld_Status :: string
  ld_CreatedAt :: gotime
  ld_UpdatedAt :: gotime

record topicDTO =
  td_ID :: string
  td_LevelID :: string
  td_Name :: string
  td_Code :: string
  td_Order :: int
  td_Status :: string
  td_CreatedAt :: gotime
  td_UpdatedAt :: gotime

definition subjectsToDTO :: "goenv \<Rightarrow> subject list \<Rightarrow> subjectDTO list" where
  "subjectsToDTO env items =
     map (\<lambda>i. \<lparr>sbd_ID = ge_hex env (sb_ID i), sbd_Scope = scopeToDTO (sb_Scope i), sbd_Name = sb_Name i, sbd_Code = sb_Code i,
                sbd_Status = sb_Status i, sbd_CreatedAt = sb_CreatedAt i, sbd_UpdatedAt = sb_UpdatedAt i\<rparr>) items"

definition levelsToDTO :: "goenv \<Rightarrow> level list \<Rightarrow> levelDTO list" where
  "levelsToDTO env items =
     map (\<lambda>i. \<lparr>ld_ID = ge_hex env (l_ID i), ld_SubjectID = ge_hex env (l_SubjectID i), ld_Name = l_Name i, ld_Code = l_Code i,
                ld_Order = l_Order i, ld_Status = l_Status i, ld_CreatedAt = l_CreatedAt i, ld_UpdatedAt = l_UpdatedAt i\<rparr>) items"

definition topicsToDTO :: "goenv \<Rightarrow> topic list \<Rightarrow> topicDTO list" where
  "topicsToDTO env items =
     map (\<lambda>i. \<lparr>td_ID = ge_hex env (t_ID i), td_LevelID = ge_hex env (t_LevelID i), td_Name = t_Name i, td_Code = t_Code i,
                td_Order = t_Order i, td_Status = t_Status i, td_CreatedAt = t_CreatedAt i, td_UpdatedAt = t_UpdatedAt i\<rparr>) items"

definition ListSubjects :: "goenv \<Rightarrow> service \<Rightarrow> string \<Rightarrow> actor \<Rightarrow> string \<Rightarrow> string \<Rightarrow> subjectDTO list lres" where
  "ListSubjects env sv tenantID a scopeType centerID =
     (if scopeType = ''global'' \<and> \<not> canAccessGlobal env a then Fail ErrScopeForbidden
      else if centerID \<noteq> [] \<and> \<not> canAccessGlobal env a \<and> \<not> canAccessCenter env (sv_repo sv) tenantID a centerID
      then Fail ErrScopeForbidden
      else Ret (subjectsToDTO env (listSubjects (sv_repo sv) tenantID scopeType centerID)))"

definition ListLevels :: "goenv \<Rightarrow> service \<Rightarrow> string \<Rightarrow> string \<Rightarrow> levelDTO list lres" where
  "ListLevels env sv tenantID subjectID = map_out (levelsToDTO env) (listLevels env (sv_repo sv) tenantID subjectID)"

text \<open>The name is the Vietnamese word for "other", in UTF-8.\<close>

definition otherTopic :: "reqio \<Rightarrow> string \<Rightarrow> oid \<Rightarrow> topic" where
  "otherTopic io tenantID levelID =
     \<lparr>t_ID = io_fresh io 0, t_TenantID = tenantID, t_LevelID = levelID,
      t_Name = ''Kh'' @ [char_of (0xC3 :: nat), char_of (0xA1 :: nat)] @ ''c'', t_Code = ''other'', t_Order = 999,
      t_Status = statusActive, t_CreatedAt = 0, t_UpdatedAt = 0\<rparr>"

definition ListTopics :: "goenv \<Rightarrow> reqio \<Rightarrow> service \<Rightarrow> string \<Rightarrow> string \<Rightarrow> bool \<Rightarrow> topicDTO list lres" where
  "ListTopics env io sv tenantID levelID includeOther =
     map_out (\<lambda>items. topicsToDTO env
         (if includeOther \<and> items = [] then
            items @ [otherTopic io tenantID (case objectID env levelID of Ret v \<Rightarrow> v | _ \<Rightarrow> 0)]
          else items))
       (listTopics env (sv_repo sv) tenantID levelID)"

record categoryDTO =
  cg_ID :: string
  cg_Type :: string
  cg_SubjectID :: string
  cg_LevelID :: string
  cg_ParentID :: string
  cg_Name :: string
  cg_Code :: string
  cg_Order :: int
  cg_Status :: string

definition ListQuestionBankCategories ::
  "goenv \<Rightarrow> reqio \<Rightarrow> service \<Rightarrow> string \<Rightarrow> string \<Rightarrow> string \<Rightarrow> categoryDTO list lres" where
  "ListQuestionBankCategories env io sv tenantID subjectID levelID =
     (if trim_space levelID \<noteq> [] then
        map_out (map (\<lambda>t. \<lparr>cg_ID = td_ID t, cg_Type = ''topic'', cg_SubjectID = [], cg_LevelID = td_LevelID t,
            cg_ParentID = td_LevelID t, cg_Name = td_Name t, cg_Code = td_Code t, cg_Order = td_Order t, cg_Status = td_Status t\<rparr>))
          (ListTopics env io sv tenantID levelID True)
      else if trim_space subjectID = [] then Ret []
      else
        map_out (map (\<lambda>l. \<lparr>cg_ID = ld_ID l, cg_Type = ''level'', cg_SubjectID = ld_SubjectID l, cg_LevelID = [],
            cg_ParentID = ld_SubjectID l, cg_Name = ld_Name l, cg_Code = ld_Code l, cg_Order = ld_Order l, cg_Status = ld_Status l\<rparr>))
          (ListLevels env sv tenantID subjectID))"

section \<open>Questions\<close>

record questionDTO =
  qd_ID :: string
  qd_Scope :: scopeDTO
  qd_SubjectID :: string
  qd_LevelID :: string
  qd_TopicID :: string
  qd_Kind :: string
  qd_Type :: string
  qd_Stem :: string
  qd_Choices :: "choiceDTO list"
  qd_Answer :: jval
  qd_Metadata :: jobj
  qd_Status :: string
  qd_CreatedAt :: gotime
  qd_UpdatedAt :: gotime

definition choicesFromDTO :: "choiceDTO list \<Rightarrow> question_choice list" where
  "choicesFromDTO items = map (\<lambda>i. \<lparr>qc_ID = cd_ID i, qc_Label = cd_Label i, qc_Correct = cd_Correct i\<rparr>) items"

definition choicesToDTO :: "question_choice list \<Rightarrow> choiceDTO list" where
  "choicesToDTO items = map (\<lambda>i. \<lparr>cd_ID = qc_ID i, cd_Label = qc_Label i, cd_Correct = qc_Correct i\<rparr>) items"

definition questionToDTO :: "goenv \<Rightarrow> question \<Rightarrow> questionDTO" where
  "questionToDTO env q =
     \<lparr>qd_ID = ge_hex env (q_ID q), qd_Scope = scopeToDTO (q_Scope q), qd_SubjectID = ge_hex env (q_SubjectID q),
      qd_LevelID = ge_hex env (q_LevelID q), qd_TopicID = (if q_TopicID q \<noteq> 0 then ge_hex env (q_TopicID q) else []),
      qd_Kind = q_Type q, qd_Type = q_Type q, qd_Stem = q_Stem q, qd_Choices = choicesToDTO (q_Choices q),
      qd_Answer = q_Answer q, qd_Metadata = q_Metadata q, qd_Status = q_Status q, qd_CreatedAt = q_CreatedAt q,
      qd_UpdatedAt = q_UpdatedAt q\<rparr>"

definition questionsToDTO :: "goenv \<Rightarrow> question list \<Rightarrow> questionDTO list" where
  "questionsToDTO env items = map (questionToDTO env) items"

record questionListReq =
  ql_Scope :: scopeDTO
  ql_SubjectID :: string
  ql_LevelID :: string
  ql_TopicID :: string
  ql_Keyword :: string
  ql_Type :: string
  ql_Cursor :: string
  ql_Limit :: int

text \<open>\<open>if id != "" { oid, err := objectID(id); ...; filter[key] = oid }\<close>\<close>

definition idFilter :: "goenv \<Rightarrow> string \<Rightarrow> string \<Rightarrow> bsonM \<Rightarrow> bsonM lres" where
  "idFilter env key i flt =
     (if i \<noteq> [] then map_out (\<lambda>v. AList.update key (BOid v) flt) (objectID env i) else Ret flt)"

definition keywordFilter :: "string \<Rightarrow> string \<Rightarrow> bsonM \<Rightarrow> bsonM" where
  "keywordFilter key keyword flt =
     (if keyword \<noteq> [] then AList.update key (BM [(''$regex'', BStr keyword), (''$options'', BStr ''i'')]) flt else flt)"

definition questionFilter :: "goenv \<Rightarrow> questionListReq \<Rightarrow> bsonM lres" where
  "questionFilter env req =
     bind_out (idFilter env ''subject_id'' (ql_SubjectID req) []) (\<lambda>flt.
     bind_out (idFilter env ''level_id'' (ql_LevelID req) flt) (\<lambda>flt.
     bind_out (idFilter env ''topic_id'' (ql_TopicID req) flt) (\<lambda>flt.
     bind_out (if ql_Type req \<noteq> [] then map_out (\<lambda>kind. AList.update ''type'' (BStr kind) flt) (normalizeQuestionKind env (ql_Type req))
               else Ret flt) (\<lambda>flt.
     Ret (keywordFilter ''stem'' (ql_Keyword req) flt)))))"

definition ListQuestions ::
  "goenv \<Rightarrow> service \<Rightarrow> string \<Rightarrow> actor \<Rightarrow> questionListReq \<Rightarrow> (questionDTO list \<times> int \<times> string) lres" where
  "ListQuestions env sv tenantID a req =
     bind_out (questionFilter env req) (\<lambda>flt.
     bind_out (applyScopeFilter env (sv_repo sv) tenantID a (ql_Scope req) flt) (\<lambda>flt.
     map_out (\<lambda>(items, n, nxt). (questionsToDTO env items, n, nxt))
       (listQuestions env (sv_repo sv) tenantID flt (ql_Cursor req) (ql_Limit req))))"

record createQuestionReq =
  cq_Scope :: scopeDTO
  cq_SubjectID :: string
  cq_LevelID :: string
  cq_TopicID :: string
  cq_Kind :: string
  cq_Type :: string
  cq_Stem :: string
  cq_Choices :: "choiceDTO list"
  cq_Answer :: jval
  cq_Metadata :: jobj

definition CreateQuestion ::
  "goenv \<Rightarrow> reqio \<Rightarrow> string \<Rightarrow> actor \<Rightarrow> createQuestionReq \<Rightarrow> service \<Rightarrow> service \<times> questionDTO lres" where
  "CreateQuestion env io tenantID a req sv =
     and_then (validateContentScope env (sv_repo sv) tenantID a (cq_Scope req)) sv (\<lambda>_.
     and_then (questionKindFromDTO env (cq_Kind req) (cq_Type req)) sv (\<lambda>kind.
     and_then (validateQuestionPayload env kind (cq_Stem req) (cq_Choices req) (cq_Answer req) (cq_Metadata req)) sv (\<lambda>_.
     and_then (objectID env (cq_SubjectID req)) sv (\<lambda>subjectID.
     and_then (objectID env (cq_LevelID req)) sv (\<lambda>levelID.
     and_then (if cq_TopicID req \<noteq> [] then objectID env (cq_TopicID req) else Ret 0) sv (\<lambda>topicID.
       let q = \<lparr>q_ID = 0, q_TenantID = tenantID, q_Scope = dtoToScope (cq_Scope req), q_SubjectID = subjectID,
                q_LevelID = levelID, q_TopicID = topicID, q_Type = kind, q_Stem = cq_Stem req,
                q_Choices = choicesFromDTO (cq_Choices req), q_Answer = cq_Answer req, q_Metadata = cq_Metadata req,
                q_Status = [], q_ArchivedAt = None, q_CreatedAt = 0, q_UpdatedAt = 0\<rparr>
       in case on_repo (createQuestion (io_now io) (io_fresh io 0) q) sv of (sv, q) \<Rightarrow> (sv, Ret (questionToDTO env q))))))))"

record updateQuestionReq =
  uq_Scope :: "scopeDTO option"
  uq_TopicID :: "string option"
  uq_Kind :: "string option"
  uq_Type :: "string option"
  uq_Stem :: "string option"
  uq_Choices :: "choiceDTO list option"
  uq_Answer :: jval
  uq_Metadata :: "jobj option"

definition put_if :: "string \<Rightarrow> bval option \<Rightarrow> bsonM \<Rightarrow> bsonM" where
  "put_if key v u = (case v of None \<Rightarrow> u | Some b \<Rightarrow> AList.update key b u)"

text \<open>The update document, in the order the fields are checked.\<close>

definition questionUpdate :: "goenv \<Rightarrow> memoryStore \<Rightarrow> string \<Rightarrow> actor \<Rightarrow> updateQuestionReq \<Rightarrow> bsonM lres" where
  "questionUpdate env m tenantID a req =
     bind_out (case uq_Scope req of
         None \<Rightarrow> Ret []
       | Some scope \<Rightarrow> map_out (\<lambda>_. AList.update ''scope'' (BScope (dtoToScope scope)) []) (validateContentScope env m tenantID a scope)) (\<lambda>u.
     bind_out (case uq_TopicID req of
         None \<Rightarrow> Ret u
       | Some i \<Rightarrow> map_out (\<lambda>v. AList.update ''topic_id'' (BOid v) u) (if i \<noteq> [] then objectID env i else Ret 0)) (\<lambda>u.
     bind_out (case (case uq_Kind req of Some k \<Rightarrow> Some k | None \<Rightarrow> uq_Type req) of
         None \<Rightarrow> Ret u
       | Some kindValue \<Rightarrow> map_out (\<lambda>kind. AList.update ''type'' (BStr kind) u) (normalizeQuestionKind env kindValue)) (\<lambda>u.
     Ret (put_if ''metadata'' (map_option BMap (uq_Metadata req))
           (put_if ''answer'' (if uq_Answer req \<noteq> JNull then Some (BAny (uq_Answer req)) else None)
             (put_if ''choices'' (map_option (BChoices \<circ> choicesFromDTO) (uq_Choices req))
               (put_if ''stem'' (map_option BStr (uq_Stem req)) u)))))))"

text \<open>The payload the question would have, checked before the update.\<close>

definition nextPayload :: "goenv \<Rightarrow> question \<Rightarrow> bsonM \<Rightarrow> unit lres" where
  "nextPayload env existing u =
     validateQuestionPayload env
       (case as_str (map_of u ''type'') of Some v \<Rightarrow> v | None \<Rightarrow> q_Type existing)
       (case as_str (map_of u ''stem'') of Some v \<Rightarrow> v | None \<Rightarrow> q_Stem existing)
       (case as_choices (map_of u ''choices'') of Some v \<Rightarrow> choicesToDTO v | None \<Rightarrow> choicesToDTO (q_Choices existing))
       (case as_any (map_of u ''answer'') of Some v \<Rightarrow> v | None \<Rightarrow> q_Answer existing)
       (case as_map (map_of u ''metadata'') of Some v \<Rightarrow> v | None \<Rightarrow> q_Metadata existing)"

definition UpdateQuestion ::
  "goenv \<Rightarrow> reqio \<Rightarrow> string \<Rightarrow> actor \<Rightarrow> string \<Rightarrow> updateQuestionReq \<Rightarrow> service \<Rightarrow> service \<times> questionDTO lres" where
  "UpdateQuestion env io tenantID a i req sv =
     and_then (getQuestion env (sv_repo sv) tenantID i) sv (\<lambda>found.
       case found of
         None \<Rightarrow> (sv, Fail ErrNotFound)
       | Some existing \<Rightarrow>
           and_then (validateContentScope env (sv_repo sv) tenantID a (scopeToDTO (q_Scope existing))) sv (\<lambda>_.
           and_then (questionUpdate env (sv_repo sv) tenantID a req) sv (\<lambda>u.
           and_then (nextPayload env existing u) sv (\<lambda>_.
           then_do (on_repo (updateQuestion env (io_now io) tenantID i u) sv) (\<lambda>sv updated.
             case updated of None \<Rightarrow> (sv, Panic) | Some q \<Rightarrow> (sv, Ret (questionToDTO env q)))))))"

definition ArchiveQuestion ::
  "goenv \<Rightarrow> reqio \<Rightarrow> string \<Rightarrow> actor \<Rightarrow> string \<Rightarrow> service \<Rightarrow> service \<times> gotime lres" where
  "ArchiveQuestion env io tenantID a i sv =
     and_then (getQuestion env (sv_repo sv) tenantID i) sv (\<lambda>found.
       case found of
         None \<Rightarrow> (sv, Fail ErrNotFound)
       | Some existing \<Rightarrow>
           and_then (validateContentScope env (sv_repo sv) tenantID a (scopeToDTO (q_Scope existing))) sv (\<lambda>_.
           then_do (on_repo (updateQuestion env (io_now io) tenantID i
                       [(''status'', BStr statusArchived), (''archived_at'', BTime (io_now io))]) sv)
             (\<lambda>sv _. (sv, Ret (io_now io)))))"

record randomPickReq =
  rp_SubjectID :: string
  rp_LevelID :: string
  rp_TopicIDs :: "string list"
  rp_Count :: int
  rp_ExcludeQuestionIDs :: "string list"

definition randomQuestionFilter :: "goenv \<Rightarrow> randomPickReq \<Rightarrow> bsonM lres" where
  "randomQuestionFilter env req =
     map_out (\<lambda>flt.
       let flt = (if rp_TopicIDs req \<noteq> [] then
                    AList.update ''topic_id'' (BM [(''$in'', BOids (objectIDsOrNil env (rp_TopicIDs req)))]) flt else flt)
       in if rp_ExcludeQuestionIDs req \<noteq> [] then
            AList.update ''_id'' (BM [(''$nin'', BOids (objectIDsOrNil env (rp_ExcludeQuestionIDs req)))]) flt
          else flt)
     (questionFilter env \<lparr>ql_Scope = \<lparr>so_Type = [], so_CenterID = []\<rparr>, ql_SubjectID = rp_SubjectID req, ql_LevelID = rp_LevelID req,
        ql_TopicID = [], ql_Keyword = [], ql_Type = [], ql_Cursor = [], ql_Limit = 0\<rparr>)"

text \<open>\<open>UnixNano\<close> counts from 1970, model times from the zero time.\<close>

definition unixNano :: "gotime \<Rightarrow> int" where
  "unixNano t = wrap64 (t - 62135596800 * 1000000000)"

definition RandomPickQuestions :: "goenv \<Rightarrow> reqio \<Rightarrow> service \<Rightarrow> string \<Rightarrow> randomPickReq \<Rightarrow> (questionDTO list \<times> int) lres" where
  "RandomPickQuestions env io sv tenantID req =
     bind_out (randomQuestionFilter env req) (\<lambda>flt.
       map_out (\<lambda>items. (questionsToDTO env items, unixNano (io_now io)))
         (randomQuestions env (sv_repo sv) tenantID flt (rp_Count req)))"

section \<open>Quizzes\<close>

record quizDTO =
  zd_ID :: string
  zd_Scope :: scopeDTO
  zd_Title :: string
  zd_Kind :: string
  zd_SubjectID :: string
  zd_LevelID :: string
  zd_TopicIDs :: "string list"
  zd_QuestionIDs :: "string list"
  zd_Status :: string
  zd_Version :: int
  zd_PackageHash :: string
  zd_CreatedAt :: gotime
  zd_UpdatedAt :: gotime

record quizDetailDTO =
  zt_Quiz :: quizDTO
  zt_Slides :: "jval list"
  zt_Settings :: jobj
  zt_Result :: jobj
  zt_Theme :: jobj

record quizPackageDTO =
  zp_Version :: int
  zp_PackageHash :: string
  zp_ContentHash :: string
  zp_Signature :: string
  zp_GradingMode :: string
  zp_Quiz :: quizDetailDTO

definition quizToDTO :: "goenv \<Rightarrow> quiz \<Rightarrow> quizDTO" where
  "quizToDTO env q =
     \<lparr>zd_ID = ge_hex env (z_ID q), zd_Scope = scopeToDTO (z_Scope q), zd_Title = z_Title q, zd_Kind = z_Kind q,
      zd_SubjectID = ge_hex env (z_SubjectID q), zd_LevelID = ge_hex env (z_LevelID q),
      zd_TopicIDs = objectIDsToHex env (z_TopicIDs q), zd_QuestionIDs = objectIDsToHex env (z_QuestionIDs q),
      zd_Status = z_Status q, zd_Version = z_Version q, zd_PackageHash = z_PackageHash q, zd_CreatedAt = z_CreatedAt q,
      zd_UpdatedAt = z_UpdatedAt q\<rparr>"

definition quizzesToDTO :: "goenv \<Rightarrow> quiz list \<Rightarrow> quizDTO list" where
  "quizzesToDTO env items = map (quizToDTO env) items"

definition quizDetailToDTO :: "goenv \<Rightarrow> quiz \<Rightarrow> quizDetailDTO" where
  "quizDetailToDTO env q =
     \<lparr>zt_Quiz = quizToDTO env q, zt_Slides = z_Slides q, zt_Settings = z_Settings q, zt_Result = z_Result q, zt_Theme = z_Theme q\<rparr>"

record quizListReq =
  zl_Scope :: scopeDTO
  zl_SubjectID :: string
  zl_LevelID :: string
  zl_Kind :: string
  zl_Keyword :: string
  zl_Cursor :: string
  zl_Limit :: int

definition quizFilter :: "goenv \<Rightarrow> quizListReq \<Rightarrow> bsonM lres" where
  "quizFilter env req =
     bind_out (idFilter env ''subject_id'' (zl_SubjectID req) []) (\<lambda>flt.
     bind_out (idFilter env ''level_id'' (zl_LevelID req) flt) (\<lambda>flt.
     let flt = (if zl_Kind req \<noteq> [] then AList.update ''kind'' (BStr (zl_Kind req)) flt else flt)
     in Ret (keywordFilter ''title'' (zl_Keyword req) flt)))"

definition ListQuizzes :: "goenv \<Rightarrow> service \<Rightarrow> string \<Rightarrow> actor \<Rightarrow> quizListReq \<Rightarrow> (quizDTO list \<times> int \<times> string) lres" where
  "ListQuizzes env sv tenantID a req =
     bind_out (quizFilter env req) (\<lambda>flt.
     bind_out (applyScopeFilter env (sv_repo sv) tenantID a (zl_Scope req) flt) (\<lambda>flt.
     map_out (\<lambda>(items, n, nxt). (quizzesToDTO env items, n, nxt))
       (listQuizzes env (sv_repo sv) tenantID flt (zl_Cursor req) (zl_Limit req))))"

record createQuizReq =
  cz_Scope :: scopeDTO
  cz_Title :: string
  cz_Kind :: string
  cz_SubjectID :: string
  cz_LevelID :: string
  cz_TopicIDs :: "string list"
  cz_QuestionIDs :: "string list"
  cz_Settings :: jobj
  cz_ThemeID :: string

definition emptyQuiz :: quiz where
  "emptyQuiz = \<lparr>z_ID = 0, z_TenantID = [], z_Scope = \<lparr>sc_Type = [], sc_CenterID = []\<rparr>, z_Title = [], z_Kind = [], z_SubjectID = 0,
     z_LevelID = 0, z_TopicIDs = [], z_QuestionIDs = [], z_Slides = [], z_Settings = [], z_Result = [], z_Theme = [], z_ThemeID = [],
     z_Status = [], z_Version = 0, z_PackageHash = [], z_PublishedAt = None, z_CreatedAt = 0, z_UpdatedAt = 0\<rparr>"

definition quizFromCreateReq :: "goenv \<Rightarrow> string \<Rightarrow> createQuizReq \<Rightarrow> quiz lres" where
  "quizFromCreateReq env tenantID req =
     bind_out (objectID env (cz_SubjectID req)) (\<lambda>subjectID.
     bind_out (objectID env (cz_LevelID req)) (\<lambda>levelID.
     Ret (emptyQuiz\<lparr>z_TenantID := tenantID, z_Scope := dtoToScope (cz_Scope req), z_Title := cz_Title req, z_Kind := cz_Kind req,
        z_SubjectID := subjectID, z_LevelID := levelID, z_TopicIDs := objectIDsOrNil env (cz_TopicIDs req),
        z_QuestionIDs := objectIDsOrNil env (cz_QuestionIDs req), z_Settings := cz_Settings req, z_ThemeID := cz_ThemeID req\<rparr>)))"

definition CreateQuiz :: "goenv \<Rightarrow> reqio \<Rightarrow> string \<Rightarrow> actor \<Rightarrow> createQuizReq \<Rightarrow> service \<Rightarrow> service \<times> quizDTO lres" where
  "CreateQuiz env io tenantID a req sv =
     and_then (validateContentScope env (sv_repo sv) tenantID a (cz_Scope req)) sv (\<lambda>_.
     and_then (validateQuizPayload env (cz_Title req) [] (cz_Settings req) [] []) sv (\<lambda>_.
     and_then (quizFromCreateReq env tenantID req) sv (\<lambda>quiz.
       case on_repo (createQuiz (io_now io) (io_fresh io 0) quiz) sv of (sv, quiz) \<Rightarrow> (sv, Ret (quizToDTO env quiz)))))"

record fromQuestionsReq =
  fq_QuestionIDs :: "string list"
  fq_Title :: string
  fq_Kind :: string
  fq_Settings :: jobj

definition CreateQuizFromQuestions ::
  "goenv \<Rightarrow> reqio \<Rightarrow> string \<Rightarrow> actor \<Rightarrow> fromQuestionsReq \<Rightarrow> service \<Rightarrow> service \<times> quizDTO lres" where
  "CreateQuizFromQuestions env io tenantID a req sv =
     (case fq_QuestionIDs req of
        [] \<Rightarrow> (sv, Fail (ErrOther ''questionIds required''))
      | firstID # _ \<Rightarrow>
          and_then (getQuestion env (sv_repo sv) tenantID firstID) sv (\<lambda>found.
            case found of
              None \<Rightarrow> (sv, Fail ErrNotFound)
            | Some first \<Rightarrow>
                and_then (validateContentScope env (sv_repo sv) tenantID a (scopeToDTO (q_Scope first))) sv (\<lambda>_.
                let quiz = emptyQuiz\<lparr>z_TenantID := tenantID, z_Scope := q_Scope first, z_Title := fq_Title req, z_Kind := fq_Kind req,
                      z_SubjectID := q_SubjectID first, z_LevelID := q_LevelID first,
                      z_QuestionIDs := objectIDsOrNil env (fq_QuestionIDs req), z_Settings := fq_Settings req\<rparr>
                in and_then (validateQuizPayload env (z_Title quiz) [] (z_Settings quiz) [] []) sv (\<lambda>_.
                     case on_repo (createQuiz (io_now io) (io_fresh io 0) quiz) sv of (sv, quiz) \<Rightarrow> (sv, Ret (quizToDTO env quiz))))))"

record topicRule =
  tr_TopicID :: string
  tr_Count :: int

record randomQuizReq =
  rz_SubjectID :: string
  rz_LevelID :: string
  rz_TopicRules :: "topicRule list"
  rz_Kind :: string
  rz_Settings :: jobj

fun pickByRules :: "goenv \<Rightarrow> reqio \<Rightarrow> service \<Rightarrow> string \<Rightarrow> randomQuizReq \<Rightarrow> topicRule list \<Rightarrow> string list lres" where
  "pickByRules env io sv tenantID req [] = Ret []"
| "pickByRules env io sv tenantID req (rule # rules) =
     bind_out (RandomPickQuestions env io sv tenantID
         \<lparr>rp_SubjectID = rz_SubjectID req, rp_LevelID = rz_LevelID req, rp_TopicIDs = [tr_TopicID rule], rp_Count = tr_Count rule,
          rp_ExcludeQuestionIDs = []\<rparr>)
       (\<lambda>(picked, _). map_out (\<lambda>ids. map qd_ID picked @ ids) (pickByRules env io sv tenantID req rules))"

definition CreateRandomQuiz :: "goenv \<Rightarrow> reqio \<Rightarrow> string \<Rightarrow> actor \<Rightarrow> randomQuizReq \<Rightarrow> service \<Rightarrow> service \<times> quizDTO lres" where
  "CreateRandomQuiz env io tenantID a req sv =
     and_then (pickByRules env io sv tenantID req (rz_TopicRules req)) sv (\<lambda>questionIDs.
       CreateQuiz env io tenantID a
         \<lparr>cz_Scope = \<lparr>so_Type = ''global'', so_CenterID = []\<rparr>, cz_Title = ''Random quiz'', cz_Kind = rz_Kind req,
          cz_SubjectID = rz_SubjectID req, cz_LevelID = rz_LevelID req, cz_TopicIDs = map tr_TopicID (rz_TopicRules req),
          cz_QuestionIDs = questionIDs, cz_Settings = rz_Settings req, cz_ThemeID = []\<rparr> sv)"

definition GetQuizDetail :: "goenv \<Rightarrow> service \<Rightarrow> string \<Rightarrow> string \<Rightarrow> quizDetailDTO lres" where
  "GetQuizDetail env sv tenantID i =
     bind_out (getQuiz env (sv_repo sv) tenantID i) (\<lambda>found.
       case found of None \<Rightarrow> Fail ErrNotFound | Some quiz \<Rightarrow> Ret (quizDetailToDTO env quiz))"

record updateQuizReq =
  uz_Slides :: "jval list"
  uz_Settings :: jobj
  uz_Result :: jobj
  uz_Theme :: jobj

definition UpdateQuiz :: "goenv \<Rightarrow> reqio \<Rightarrow> string \<Rightarrow> string \<Rightarrow> updateQuizReq \<Rightarrow> service \<Rightarrow> service \<times> quizDetailDTO lres" where
  "UpdateQuiz env io tenantID i req sv =
     and_then (getQuiz env (sv_repo sv) tenantID i) sv (\<lambda>found.
       case found of
         None \<Rightarrow> (sv, Fail ErrNotFound)
       | Some existing \<Rightarrow>
           and_then (validateQuizPayload env (z_Title existing) (uz_Slides req) (uz_Settings req) (uz_Result req) (uz_Theme req)) sv (\<lambda>_.
           then_do (on_repo (updateQuiz env (io_now io) tenantID i
                      [(''slides'', BAnys (uz_Slides req)), (''settings'', BMap (uz_Settings req)), (''result'', BMap (uz_Result req)),
                       (''theme'', BMap (uz_Theme req))]) sv) (\<lambda>sv updated.
             case updated of None \<Rightarrow> (sv, Fail ErrNotFound) | Some quiz \<Rightarrow> (sv, Ret (quizDetailToDTO env quiz)))))"

section \<open>Publication\<close>

definition hashAny :: "goenv \<Rightarrow> jval \<Rightarrow> string" where
  "hashAny env v = ge_sha256 env v"

text \<open>\<open>json.Marshal\<close> writes the keys of a map in order.\<close>

definition hashQuiz :: "goenv \<Rightarrow> gotime \<Rightarrow> quiz \<Rightarrow> int \<Rightarrow> string" where
  "hashQuiz env now q version =
     hashAny env (JObj [(''questions'', JArr (map JStr (objectIDsToHex env (z_QuestionIDs q)))), (''quiz'', JStr (ge_hex env (z_ID q))),
       (''time'', JStr (format_rfc3339nano now)), (''version'', JNum (float_of_int version))])"

definition omitempty :: "string \<Rightarrow> string \<Rightarrow> jobj" where
  "omitempty key v = (if v = [] then [] else [(key, JStr v)])"

definition nilOr :: "('a list \<Rightarrow> jval) \<Rightarrow> 'a list \<Rightarrow> jval" where
  "nilOr f xs = (if xs = [] then JNull else f xs)"

definition quizDetailJSON :: "quizDetailDTO \<Rightarrow> jval" where
  "quizDetailJSON d =
     (let q = zt_Quiz d
      in JObj [(''quiz'', JObj ([(''id'', JStr (zd_ID q)),
           (''scope'', JObj ([(''type'', JStr (so_Type (zd_Scope q)))] @ omitempty ''centerId'' (so_CenterID (zd_Scope q)))),
           (''title'', JStr (zd_Title q)), (''kind'', JStr (zd_Kind q)), (''subjectId'', JStr (zd_SubjectID q)),
           (''levelId'', JStr (zd_LevelID q)), (''topicIds'', JArr (map JStr (zd_TopicIDs q))),
           (''questionIds'', JArr (map JStr (zd_QuestionIDs q))), (''status'', JStr (zd_Status q)),
           (''version'', JNum (float_of_int (zd_Version q)))] @ omitempty ''packageHash'' (zd_PackageHash q) @
           [(''createdAt'', JStr (format_rfc3339nano (zd_CreatedAt q))), (''updatedAt'', JStr (format_rfc3339nano (zd_UpdatedAt q)))])),
         (''slides'', nilOr JArr (zt_Slides d)), (''settings'', nilOr JObj (zt_Settings d)), (''result'', nilOr JObj (zt_Result d)),
         (''theme'', nilOr JObj (zt_Theme d))])"

definition quizPackageFromQuiz :: "goenv \<Rightarrow> quiz \<Rightarrow> quizPackageDTO" where
  "quizPackageFromQuiz env quiz =
     (let detail = quizDetailToDTO env quiz;
          hash = (if z_PackageHash quiz = [] then hashAny env (quizDetailJSON detail) else z_PackageHash quiz)
      in \<lparr>zp_Version = z_Version quiz, zp_PackageHash = hash, zp_ContentHash = hash, zp_Signature = [], zp_GradingMode = ''server'',
          zp_Quiz = detail\<rparr>)"

definition QuizPackage :: "goenv \<Rightarrow> service \<Rightarrow> string \<Rightarrow> string \<Rightarrow> quizPackageDTO lres" where
  "QuizPackage env sv tenantID i =
     bind_out (getQuiz env (sv_repo sv) tenantID i) (\<lambda>found.
       case found of None \<Rightarrow> Fail ErrNotFound | Some quiz \<Rightarrow> Ret (quizPackageFromQuiz env quiz))"

text \<open>The claims of the request context, absent when the request is not authenticated.\<close>

definition auditActorFromContext :: "actorFields option \<Rightarrow> actorFields" where
  "auditActorFromContext claims =
     (case claims of None \<Rightarrow> \<lparr>af_UserID = [], af_UserEmail = [], af_Roles = [], af_Permissions = []\<rparr> | Some c \<Rightarrow> c)"

definition publishQuizPublishedAudit ::
  "goenv \<Rightarrow> reqio \<Rightarrow> actorFields option \<Rightarrow> string \<Rightarrow> quiz \<Rightarrow> int \<Rightarrow> string \<Rightarrow> service \<Rightarrow> service" where
  "publishQuizPublishedAudit env io claims tenantID quiz version packageHash sv =
     (let a = auditActorFromContext claims
      in publishAuditEvent (BuildQuizEvent (io_now io)
        \<lparr>qe_Action = ActionQuizPublished, qe_TenantID = tenantID, qe_UserID = af_UserID a, qe_UserEmail = af_UserEmail a,
         qe_QuizID = ge_hex env (z_ID quiz), qe_AttemptID = [], qe_AssignmentID = [], qe_QuizVersion = version,
         qe_PackageHash = packageHash, qe_AnswerCount = 0, qe_Score = 0, qe_MaxScore = 0, qe_Percent = 0, qe_Passed = False,
         qe_Context = io_ctx io,
         qe_Metadata = [(''subject_id'', MStr (ge_hex env (z_SubjectID quiz))), (''level_id'', MStr (ge_hex env (z_LevelID quiz))),
           (''kind'', MStr (z_Kind quiz))]\<rparr>) sv)"

definition PublishQuiz ::
  "goenv \<Rightarrow> reqio \<Rightarrow> actorFields option \<Rightarrow> string \<Rightarrow> string \<Rightarrow> service \<Rightarrow> service \<times> (int \<times> string) lres" where
  "PublishQuiz env io claims tenantID i sv =
     and_then (getQuiz env (sv_repo sv) tenantID i) sv (\<lambda>found.
       case found of
         None \<Rightarrow> (sv, Fail ErrNotFound)
       | Some quiz \<Rightarrow>
           let version = wrap64 (z_Version quiz + 1); hash = hashQuiz env (io_now io) quiz version
           in then_do (on_repo (updateQuiz env (io_now io) tenantID i
                  [(''status'', BStr ''published''), (''version'', BInt version), (''package_hash'', BStr hash),
                   (''published_at'', BTime (io_now io))]) sv)
                (\<lambda>sv _. (publishQuizPublishedAudit env io claims tenantID quiz version hash sv, Ret (version, hash))))"

section \<open>Requests\<close>

text \<open>The state-changing content routes of \<open>controller.go\<close>, with the tenant and actor of the request context.\<close>

datatype content_request =
    CreateQuestionReq string actor createQuestionReq
  | UpdateQuestionReq string actor string updateQuestionReq
  | ArchiveQuestionReq string actor string
  | CreateQuizReq string actor createQuizReq
  | FromQuestionsReq string actor fromQuestionsReq
  | RandomQuizReq string actor randomQuizReq
  | UpdateQuizReq string string updateQuizReq
  | PublishQuizReq string string "actorFields option"

fun serve_content :: "goenv \<Rightarrow> reqio \<Rightarrow> content_request \<Rightarrow> service \<Rightarrow> service" where
  "serve_content env io (CreateQuestionReq t a req) sv = fst (CreateQuestion env io t a req sv)"
| "serve_content env io (UpdateQuestionReq t a i req) sv = fst (UpdateQuestion env io t a i req sv)"
| "serve_content env io (ArchiveQuestionReq t a i) sv = fst (ArchiveQuestion env io t a i sv)"
| "serve_content env io (CreateQuizReq t a req) sv = fst (CreateQuiz env io t a req sv)"
| "serve_content env io (FromQuestionsReq t a req) sv = fst (CreateQuizFromQuestions env io t a req sv)"
| "serve_content env io (RandomQuizReq t a req) sv = fst (CreateRandomQuiz env io t a req sv)"
| "serve_content env io (UpdateQuizReq t i req) sv = fst (UpdateQuiz env io t i req sv)"
| "serve_content env io (PublishQuizReq t i claims) sv = fst (PublishQuiz env io claims t i sv)"

definition serve_contents :: "goenv \<Rightarrow> (reqio \<times> content_request) list \<Rightarrow> service \<Rightarrow> service" where
  "serve_contents env reqs sv = fold (\<lambda>(io, req). serve_content env io req) reqs sv"

end
