(* ===== verification/LmsContentProps.thy ===== *)
theory LmsContentProps
  imports LmsContent LmsExamResponses
begin

text \<open>
  Properties of the question and quiz banks: what the bank stores is valid, who may change it, what a
  publication and a package are, and what a random pick returns.
\<close>

section \<open>What a request does to the question bank\<close>

definition questionValid :: "goenv \<Rightarrow> question \<Rightarrow> bool" where
  "questionValid env q \<longleftrightarrow>
     validateQuestionPayload env (q_Type q) (q_Stem q) (choicesToDTO (q_Choices q)) (q_Answer q) (q_Metadata q) = Ret ()"

definition questionScopeOk :: "goenv \<Rightarrow> memoryStore \<Rightarrow> string \<Rightarrow> actor \<Rightarrow> question \<Rightarrow> bool" where
  "questionScopeOk env m t a q \<longleftrightarrow>
     q_TenantID q = t \<and> validateContentScope env m t a (scopeToDTO (q_Scope q)) = Ret ()"

text \<open>
  The steps of the question bank: an actor adds a valid question in a scope of theirs, or changes one
  question of such a scope to another, keeping it valid.
\<close>

inductive questionStep :: "goenv \<Rightarrow> memoryStore \<Rightarrow> string \<Rightarrow> actor \<Rightarrow> question list \<Rightarrow> question list \<Rightarrow> bool"
  for env m t a where
  add: "questionValid env q \<Longrightarrow> questionScopeOk env m t a q \<Longrightarrow> questionStep env m t a qs (qs @ [q])"
| change: "find p qs = Some q0 \<Longrightarrow> questionScopeOk env m t a q0 \<Longrightarrow> questionScopeOk env m t a q \<Longrightarrow>
    (questionValid env q0 \<Longrightarrow> questionValid env q) \<Longrightarrow> questionStep env m t a qs (update_first p (\<lambda>_. q) qs)"

inductive_cases questionStepE: "questionStep env m t a qs qs'"

lemma questionStep_valid:
  "questionStep env m t a qs qs' \<Longrightarrow> list_all (questionValid env) qs \<Longrightarrow> list_all (questionValid env) qs'"
  by (erule questionStepE) (auto simp: list_all_iff dest!: set_update_first dest: find_Some_iff2)

lemma questionStep_outside:
  "questionStep env m t a qs qs' \<Longrightarrow>
     filter (\<lambda>q. \<not> questionScopeOk env m t a q) qs' = filter (\<lambda>q. \<not> questionScopeOk env m t a q) qs"
  by (erule questionStepE) (auto intro: filter_update_first_found)

fun request_actor :: "content_request \<Rightarrow> (string \<times> actor) option" where
  "request_actor (CreateQuestionReq t a req) = Some (t, a)"
| "request_actor (UpdateQuestionReq t a i req) = Some (t, a)"
| "request_actor (ArchiveQuestionReq t a i) = Some (t, a)"
| "request_actor (CreateQuizReq t a req) = Some (t, a)"
| "request_actor (FromQuestionsReq t a req) = Some (t, a)"
| "request_actor (RandomQuizReq t a req) = Some (t, a)"
| "request_actor (UpdateQuizReq t i req) = None"
| "request_actor (PublishQuizReq t i claims) = None"

lemma choices_roundtrip [simp]: "choicesToDTO (choicesFromDTO xs) = xs"
  by (induction xs) (simp_all add: choicesToDTO_def choicesFromDTO_def)

lemma scope_roundtrip [simp]: "scopeToDTO (dtoToScope s) = s"
  by (simp add: scopeToDTO_def dtoToScope_def)

lemma CreateQuestion_step:
  "m_questions (sv_repo (fst (CreateQuestion env io t a req sv))) = m_questions (sv_repo sv)
   \<or> questionStep env (sv_repo sv) t a (m_questions (sv_repo sv)) (m_questions (sv_repo (fst (CreateQuestion env io t a req sv))))"
  by (auto simp: CreateQuestion_def fst_and_then on_repo_def createQuestion_def Let_def questionValid_def questionScopeOk_def
      intro!: questionStep.add split: outcome.splits)

text \<open>What an update document does to the fields of a question.\<close>

lemma applyMemoryQuestionUpdate_fields:
  "q_Type (applyMemoryQuestionUpdate now u q) = (case as_str (map_of u ''type'') of Some v \<Rightarrow> v | None \<Rightarrow> q_Type q)"
  "q_Stem (applyMemoryQuestionUpdate now u q) = (case as_str (map_of u ''stem'') of Some v \<Rightarrow> v | None \<Rightarrow> q_Stem q)"
  "q_Choices (applyMemoryQuestionUpdate now u q) = (case as_choices (map_of u ''choices'') of Some v \<Rightarrow> v | None \<Rightarrow> q_Choices q)"
  "q_Answer (applyMemoryQuestionUpdate now u q) = (case as_any (map_of u ''answer'') of Some v \<Rightarrow> v | None \<Rightarrow> q_Answer q)"
  "q_Metadata (applyMemoryQuestionUpdate now u q) = (case as_map (map_of u ''metadata'') of Some v \<Rightarrow> v | None \<Rightarrow> q_Metadata q)"
  "q_Scope (applyMemoryQuestionUpdate now u q) = (case as_scope (map_of u ''scope'') of Some v \<Rightarrow> v | None \<Rightarrow> q_Scope q)"
  by (simp_all add: applyMemoryQuestionUpdate_def Let_def set_if_field set_if_def split: option.splits)

lemma nextPayload_valid: "nextPayload env existing u = Ret () \<Longrightarrow> questionValid env (applyMemoryQuestionUpdate now u existing)"
  unfolding nextPayload_def questionValid_def applyMemoryQuestionUpdate_fields by (simp split: option.splits)

lemma put_if_other [simp]: "k \<noteq> k' \<Longrightarrow> map_of (put_if k v u) k' = map_of u k'"
  by (cases v) (simp_all add: put_if_def update_conv')

lemma questionUpdate_scope:
  assumes "questionUpdate env m t a req = Ret u" and "as_scope (map_of u ''scope'') = Some s"
  shows "validateContentScope env m t a (scopeToDTO s) = Ret ()"
  using assms
  by (cases "uq_Scope req")
     (auto simp: questionUpdate_def outcome_simps update_conv' split: option.splits)

lemma update_question_step:
  assumes "getQuestion env (sv_repo sv) t i = Ret (Some q0)"
    and "validateContentScope env (sv_repo sv) t a (scopeToDTO (q_Scope q0)) = Ret ()"
    and "validateContentScope env (sv_repo sv) t a (scopeToDTO (q_Scope (applyMemoryQuestionUpdate now u q0))) = Ret ()"
    and "questionValid env q0 \<Longrightarrow> questionValid env (applyMemoryQuestionUpdate now u q0)"
  shows "questionStep env (sv_repo sv) t a (m_questions (sv_repo sv))
    (m_questions (sv_repo (fst (on_repo (updateQuestion env now t i u) sv))))"
proof -
  obtain v where v: "objectID env i = Ret v" "find (\<lambda>q. q_TenantID q = t \<and> q_ID q = v) (m_questions (sv_repo sv)) = Some q0"
    using assms(1) by (auto simp: getQuestion_def outcome_simps)
  have "m_questions (sv_repo (fst (on_repo (updateQuestion env now t i u) sv))) =
      update_first (\<lambda>q. q_TenantID q = t \<and> q_ID q = v) (\<lambda>_. applyMemoryQuestionUpdate now u q0) (m_questions (sv_repo sv))"
    using v by (simp add: on_repo_def updateQuestion_def Let_def update_first_const [where f = "applyMemoryQuestionUpdate now u"])
  moreover have "q_TenantID q0 = t" using find_Some_iff2 [OF v(2)] by simp
  ultimately show ?thesis
    using questionStep.change [OF v(2)] assms(2-4) by (simp add: questionScopeOk_def)
qed

lemma UpdateQuestion_step:
  "m_questions (sv_repo (fst (UpdateQuestion env io t a i req sv))) = m_questions (sv_repo sv)
   \<or> questionStep env (sv_repo sv) t a (m_questions (sv_repo sv)) (m_questions (sv_repo (fst (UpdateQuestion env io t a i req sv))))"
proof (cases "\<exists>q0 u. getQuestion env (sv_repo sv) t i = Ret (Some q0)
    \<and> validateContentScope env (sv_repo sv) t a (scopeToDTO (q_Scope q0)) = Ret ()
    \<and> questionUpdate env (sv_repo sv) t a req = Ret u \<and> nextPayload env q0 u = Ret ()")
  case True
  then obtain q0 u where q: "getQuestion env (sv_repo sv) t i = Ret (Some q0)"
    "validateContentScope env (sv_repo sv) t a (scopeToDTO (q_Scope q0)) = Ret ()"
    "questionUpdate env (sv_repo sv) t a req = Ret u" "nextPayload env q0 u = Ret ()" by blast
  have run: "fst (UpdateQuestion env io t a i req sv) = fst (on_repo (updateQuestion env (io_now io) t i u) sv)"
    by (simp add: UpdateQuestion_def q) (rule fst_then_do, simp split: option.splits)
  have "validateContentScope env (sv_repo sv) t a (scopeToDTO (q_Scope (applyMemoryQuestionUpdate (io_now io) u q0))) = Ret ()"
    using q(2) questionUpdate_scope [OF q(3)] by (simp add: applyMemoryQuestionUpdate_fields split: option.splits)
  then show ?thesis
    using update_question_step [OF q(1,2)] nextPayload_valid [OF q(4)] unfolding run by blast
next
  case False
  then show ?thesis by (auto simp: UpdateQuestion_def fst_and_then split: outcome.splits option.splits)
qed

lemma ArchiveQuestion_step:
  "m_questions (sv_repo (fst (ArchiveQuestion env io t a i sv))) = m_questions (sv_repo sv)
   \<or> questionStep env (sv_repo sv) t a (m_questions (sv_repo sv)) (m_questions (sv_repo (fst (ArchiveQuestion env io t a i sv))))"
proof (cases "\<exists>q0. getQuestion env (sv_repo sv) t i = Ret (Some q0)
    \<and> validateContentScope env (sv_repo sv) t a (scopeToDTO (q_Scope q0)) = Ret ()")
  case True
  then obtain q0 where q: "getQuestion env (sv_repo sv) t i = Ret (Some q0)"
    "validateContentScope env (sv_repo sv) t a (scopeToDTO (q_Scope q0)) = Ret ()" by blast
  let ?u = "[(''status'', BStr statusArchived), (''archived_at'', BTime (io_now io))]"
  have run: "fst (ArchiveQuestion env io t a i sv) = fst (on_repo (updateQuestion env (io_now io) t i ?u) sv)"
    by (simp add: ArchiveQuestion_def q) (rule fst_then_do, simp)
  show ?thesis unfolding run
    by (rule disjI2, rule update_question_step [OF q]) (simp_all add: applyMemoryQuestionUpdate_fields q questionValid_def)
next
  case False
  then show ?thesis by (auto simp: ArchiveQuestion_def fst_and_then split: outcome.splits option.splits)
qed

lemma CreateQuiz_questions [simp]: "m_questions (sv_repo (fst (CreateQuiz env io t a req sv))) = m_questions (sv_repo sv)"
  by (auto simp: CreateQuiz_def fst_and_then on_repo_def createQuiz_def Let_def split: outcome.splits)

lemma CreateQuizFromQuestions_questions [simp]:
  "m_questions (sv_repo (fst (CreateQuizFromQuestions env io t a req sv))) = m_questions (sv_repo sv)"
  by (auto simp: CreateQuizFromQuestions_def fst_and_then on_repo_def createQuiz_def Let_def split: outcome.splits option.splits list.splits)

lemma UpdateQuiz_questions [simp]: "m_questions (sv_repo (fst (UpdateQuiz env io t i req sv))) = m_questions (sv_repo sv)"
  by (auto simp: UpdateQuiz_def fst_and_then then_do_def on_repo_def updateQuiz_def Let_def split: outcome.splits option.splits prod.splits)

lemma PublishQuiz_questions [simp]: "m_questions (sv_repo (fst (PublishQuiz env io claims t i sv))) = m_questions (sv_repo sv)"
  by (auto simp: PublishQuiz_def fst_and_then then_do_def on_repo_def updateQuiz_def Let_def publishQuizPublishedAudit_def
      publishAuditEvent_def split: outcome.splits option.splits prod.splits)

lemma serve_content_step:
  "m_questions (sv_repo (serve_content env io req sv)) = m_questions (sv_repo sv)
   \<or> (\<exists>t a. request_actor req = Some (t, a) \<and> questionStep env (sv_repo sv) t a (m_questions (sv_repo sv))
         (m_questions (sv_repo (serve_content env io req sv))))"
proof (cases req)
  case (CreateQuestionReq t a r)
  then show ?thesis using CreateQuestion_step [of env io t a r sv] by simp
next
  case (UpdateQuestionReq t a i r)
  then show ?thesis using UpdateQuestion_step [of env io t a i r sv] by simp
next
  case (ArchiveQuestionReq t a i)
  then show ?thesis using ArchiveQuestion_step [of env io t a i sv] by simp
qed (simp_all add: CreateRandomQuiz_def fst_and_then split: outcome.splits)

section \<open>Validity and scopes\<close>

lemma serve_contents_Nil [simp]: "serve_contents env [] sv = sv"
  by (simp add: serve_contents_def)

lemma serve_contents_Cons [simp]: "serve_contents env ((io, req) # reqs) sv = serve_contents env reqs (serve_content env io req sv)"
  by (simp add: serve_contents_def)

text \<open>
  C33. The question bank only holds valid questions: from a bank in which every question passes the
  payload check of its kind (an empty one, for example), every sequence of content requests, whatever
  they carry and whoever sends them, leads to one in which every question does. In particular an
  update is checked against the question it would produce, not only against the fields it carries.
\<close>

theorem stored_questions_valid:
  assumes "list_all (questionValid env) (m_questions (sv_repo sv))"
  shows "list_all (questionValid env) (m_questions (sv_repo (serve_contents env reqs sv)))"
  using assms
proof (induction reqs arbitrary: sv)
  case (Cons r reqs)
  obtain io req where r: "r = (io, req)" by force
  have "list_all (questionValid env) (m_questions (sv_repo (serve_content env io req sv)))"
    using serve_content_step [of env io req sv] Cons.prems questionStep_valid by fastforce
  then show ?case by (simp add: r Cons.IH)
qed simp

definition sampleAdmin :: actor where
  "sampleAdmin = \<lparr>UserID = ''root'', Roles = [''admin'']\<rparr>"

lemma sampleAdmin_global [simp]: "canAccessGlobal sampleEnv sampleAdmin"
  unfolding sampleAdmin_def canAccessGlobal_def lower_def sampleEnv_def by code_simp

lemma sampleAdmin_scope [simp]: "validateContentScope sampleEnv m t sampleAdmin scope = Ret ()"
  by (simp add: validateContentScope_def)

definition sampleQuestionReq :: createQuestionReq where
  "sampleQuestionReq = \<lparr>cq_Scope = \<lparr>so_Type = ''global'', so_CenterID = []\<rparr>, cq_SubjectID = ge_hex sampleEnv 5,
     cq_LevelID = ge_hex sampleEnv 6, cq_TopicID = [], cq_Kind = ''Single'', cq_Type = [], cq_Stem = ''2+2'', cq_Choices = sampleChoices,
     cq_Answer = JNull, cq_Metadata = []\<rparr>"

lemma sample_question_kind: "questionKindFromDTO sampleEnv ''Single'' [] = Ret QuestionKindSingleChoice"
  unfolding questionKindFromDTO_def normalizeQuestionKind_def lower_def sampleEnv_def by code_simp

lemma sample_question_payload: "validateQuestionPayload sampleEnv QuestionKindSingleChoice ''2+2'' sampleChoices JNull [] = Ret ()"
  unfolding sampleEnv_def by code_simp

lemma sample_create_question:
  "\<exists>q. m_questions (sv_repo (fst (CreateQuestion sampleEnv (sampleIO 31) ''t'' sampleAdmin sampleQuestionReq newService))) = [q]
     \<and> q_TenantID q = ''t'' \<and> q_ID q = 31"
  by (simp add: CreateQuestion_def sampleQuestionReq_def sample_question_kind sample_question_payload on_repo_def createQuestion_def
      newService_def newMemoryRepository_def sampleIO_def Let_def)

theorem stored_questions_valid_witness:
  "\<exists>q. m_questions (sv_repo (serve_contents sampleEnv [(sampleIO 31, CreateQuestionReq ''t'' sampleAdmin sampleQuestionReq)] newService)) = [q]
     \<and> questionValid sampleEnv q"
proof -
  let ?sv = "serve_contents sampleEnv [(sampleIO 31, CreateQuestionReq ''t'' sampleAdmin sampleQuestionReq)] newService"
  have "list_all (questionValid sampleEnv) (m_questions (sv_repo newService))" by (simp add: newService_def newMemoryRepository_def)
  from stored_questions_valid [OF this] have "list_all (questionValid sampleEnv) (m_questions (sv_repo ?sv))" .
  then show ?thesis using sample_create_question by auto
qed

text \<open>
  C34. Questions change only within the actor's scopes: a content request leaves the questions that are
  of another tenant, or in a scope the actor may not manage, exactly as they were, in their order.
\<close>

theorem questions_outside_scope_untouched:
  assumes "request_actor req = Some (t, a)"
  shows "filter (\<lambda>q. \<not> questionScopeOk env (sv_repo sv) t a q) (m_questions (sv_repo (serve_content env io req sv)))
       = filter (\<lambda>q. \<not> questionScopeOk env (sv_repo sv) t a q) (m_questions (sv_repo sv))"
  using serve_content_step [of env io req sv] assms questionStep_outside by force

definition sampleQuestion :: question where
  "sampleQuestion = \<lparr>q_ID = 31, q_TenantID = ''t'', q_Scope = \<lparr>sc_Type = ''global'', sc_CenterID = []\<rparr>, q_SubjectID = 5, q_LevelID = 6,
     q_TopicID = 0, q_Type = ''essay'', q_Stem = ''why'', q_Choices = [], q_Answer = JNull, q_Metadata = [], q_Status = ''active'',
     q_ArchivedAt = None, q_CreatedAt = 1, q_UpdatedAt = 1\<rparr>"

definition sampleBank :: service where
  "sampleBank = sampleSchool\<lparr>sv_repo := (sv_repo sampleSchool)\<lparr>m_questions := [sampleQuestion]\<rparr>\<rparr>"

lemma sampleStudent_not_global: "\<not> canAccessGlobal sampleEnv (sampleStudent i)"
proof -
  have "lower sampleEnv ''student'' \<notin> {''admin'', ''erg_admin'', ''global_admin'', ''lms_admin''}"
    unfolding lower_def sampleEnv_def by code_simp
  then show ?thesis by (simp add: canAccessGlobal_def sampleStudent_def)
qed

theorem questions_outside_scope_untouched_witness:
  "\<not> questionScopeOk sampleEnv (sv_repo sampleBank) ''t'' (sampleStudent 7) sampleQuestion
   \<and> filter (\<lambda>q. \<not> questionScopeOk sampleEnv (sv_repo sampleBank) ''t'' (sampleStudent 7) q)
       (m_questions (sv_repo (serve_content sampleEnv (sampleIO 0) (ArchiveQuestionReq ''t'' (sampleStudent 7) (ge_hex sampleEnv 31)) sampleBank)))
     = [sampleQuestion]"
proof -
  have no: "\<not> questionScopeOk sampleEnv (sv_repo sampleBank) ''t'' (sampleStudent 7) sampleQuestion"
    by (simp add: questionScopeOk_def validateContentScope_def scopeToDTO_def sampleQuestion_def sampleStudent_not_global)
  have "filter (\<lambda>q. \<not> questionScopeOk sampleEnv (sv_repo sampleBank) ''t'' (sampleStudent 7) q) (m_questions (sv_repo sampleBank)) = [sampleQuestion]"
    using no by (simp add: sampleBank_def)
  then show ?thesis
    using no questions_outside_scope_untouched [of "ArchiveQuestionReq ''t'' (sampleStudent 7) (ge_hex sampleEnv 31)" "''t''" "sampleStudent 7"
        sampleEnv sampleBank "sampleIO 0"] by simp
qed

section \<open>Publication and packages\<close>

lemma getQuiz_Ret:
  "getQuiz env m t i = Ret (Some z) \<longleftrightarrow>
     (\<exists>v. objectID env i = Ret v \<and> find (\<lambda>q. z_TenantID q = t \<and> z_ID q = v) (m_quizzes m) = Some z)"
  by (auto simp: getQuiz_def outcome_simps)

text \<open>A quiz read after an update of the quiz is the updated quiz.\<close>

lemma getQuiz_after_update:
  assumes "getQuiz env (sv_repo sv) t i = Ret (Some z)"
  shows "getQuiz env (sv_repo (fst (on_repo (updateQuiz env now t i u) sv))) t i = Ret (Some (applyMemoryQuizUpdate now u z))"
    and "snd (on_repo (updateQuiz env now t i u) sv) = Ret (Some (applyMemoryQuizUpdate now u z))"
    and "sv_audit (fst (on_repo (updateQuiz env now t i u) sv)) = sv_audit sv"
proof -
  obtain v where v: "objectID env i = Ret v" "find (\<lambda>q. z_TenantID q = t \<and> z_ID q = v) (m_quizzes (sv_repo sv)) = Some z"
    using assms by (auto simp: getQuiz_Ret)
  show "getQuiz env (sv_repo (fst (on_repo (updateQuiz env now t i u) sv))) t i = Ret (Some (applyMemoryQuizUpdate now u z))"
    using v quiz_docs.find_after_update [of t v t v "(now, u)" "m_quizzes (sv_repo sv)"]
    by (simp add: getQuiz_def on_repo_def updateQuiz_def Let_def)
  show "snd (on_repo (updateQuiz env now t i u) sv) = Ret (Some (applyMemoryQuizUpdate now u z))"
    "sv_audit (fst (on_repo (updateQuiz env now t i u) sv)) = sv_audit sv"
    using v by (simp_all add: on_repo_def updateQuiz_def Let_def)
qed

lemma published_action: "firstNonEmpty [ActionQuizPublished, ActionQuizSubmitted] = ActionQuizPublished"
  "ActionQuizPublished \<noteq> ActionQuizSubmitted"
  by code_simp+

lemma publishAuditEvent_repo [simp]: "sv_repo (publishAuditEvent e sv) = sv_repo sv" "sv_audit (publishAuditEvent e sv) = sv_audit sv @ [e]"
  by (simp_all add: publishAuditEvent_def)

text \<open>
  C35. A publication is what clients then download: publishing a quiz returns the next version and a
  hash; the package read afterwards carries that version and hash with the content the quiz had, the
  quiz has the status "published", and exactly one event is published, for this quiz, tenant and hash.
  The hash is not empty when the digest is not.
\<close>

theorem publish_then_package:
  assumes "PublishQuiz env io claims t i sv = (sv', Ret (version, hash))" and "hash \<noteq> []"
  shows "\<exists>z p e. getQuiz env (sv_repo sv) t i = Ret (Some z) \<and> version = wrap64 (z_Version z + 1)
    \<and> QuizPackage env sv' t i = Ret p \<and> zp_Version p = version \<and> zp_PackageHash p = hash
    \<and> zt_Slides (zp_Quiz p) = z_Slides z \<and> zd_QuestionIDs (zt_Quiz (zp_Quiz p)) = objectIDsToHex env (z_QuestionIDs z)
    \<and> zd_Status (zt_Quiz (zp_Quiz p)) = ''published''
    \<and> sv_audit sv' = sv_audit sv @ [e] \<and> ev_Action e = ActionQuizPublished \<and> ev_TenantID e = t
    \<and> ev_ResourceID e = ge_hex env (z_ID z)"
proof -
  obtain z where z: "getQuiz env (sv_repo sv) t i = Ret (Some z)"
    using assms(1) by (auto simp: PublishQuiz_def and_then_Ret_iff split: option.splits)
  let ?h = "hashQuiz env (io_now io) z (wrap64 (z_Version z + 1))"
  let ?u = "[(''status'', BStr ''published''), (''version'', BInt (wrap64 (z_Version z + 1))), (''package_hash'', BStr ?h),
      (''published_at'', BTime (io_now io))]"
  obtain sv1 where upd: "on_repo (updateQuiz env (io_now io) t i ?u) sv = (sv1, Ret (Some (applyMemoryQuizUpdate (io_now io) ?u z)))"
    using getQuiz_after_update(2) [OF z, of "io_now io" ?u] by (metis prod.collapse)
  have run: "sv' = publishQuizPublishedAudit env io claims t z (wrap64 (z_Version z + 1)) ?h sv1"
    "version = wrap64 (z_Version z + 1)" "hash = ?h"
    using assms(1) by (auto simp: PublishQuiz_def z Let_def upd)
  have z': "getQuiz env (sv_repo sv1) t i = Ret (Some (applyMemoryQuizUpdate (io_now io) ?u z))" and "sv_audit sv1 = sv_audit sv"
    using getQuiz_after_update(1,3) [OF z, of "io_now io" ?u] by (simp_all add: upd)
  have "getQuiz env (sv_repo sv') t i = Ret (Some (applyMemoryQuizUpdate (io_now io) ?u z))"
    using z' by (simp add: run(1) publishQuizPublishedAudit_def Let_def)
  moreover obtain e where "sv_audit sv' = sv_audit sv @ [e]" "ev_Action e = ActionQuizPublished" "ev_TenantID e = t"
    "ev_ResourceID e = ge_hex env (z_ID z)"
    using \<open>sv_audit sv1 = sv_audit sv\<close>
    by (simp add: run(1) publishQuizPublishedAudit_def Let_def BuildQuizEvent_def published_action del: firstNonEmpty.simps)
  ultimately show ?thesis
    using z run(2,3) assms(2)
    by (auto simp: QuizPackage_def quizPackageFromQuiz_def Let_def quizDetailToDTO_def quizToDTO_def applyMemoryQuizUpdate_def)
qed

text \<open>
  C37. An update changes the content under an unchanged hash: once a quiz has been published, updating its
  slides, settings, result page and theme succeeds without a new publication, and the package then
  carries the new content with the version and hash of the old one, which clients take as the content
  hash.
\<close>

theorem update_keeps_package_hash:
  assumes "getQuiz env (sv_repo sv) t i = Ret (Some z)" and "z_PackageHash z \<noteq> []"
    and "UpdateQuiz env io t i req sv = (sv', Ret d)"
  shows "\<exists>p p'. QuizPackage env sv t i = Ret p \<and> QuizPackage env sv' t i = Ret p'
    \<and> zp_ContentHash p' = zp_ContentHash p \<and> zp_PackageHash p' = zp_PackageHash p \<and> zp_Version p' = zp_Version p
    \<and> zt_Slides (zp_Quiz p') = uz_Slides req \<and> zt_Settings (zp_Quiz p') = uz_Settings req
    \<and> zt_Result (zp_Quiz p') = uz_Result req \<and> zt_Theme (zp_Quiz p') = uz_Theme req"
proof -
  let ?u = "[(''slides'', BAnys (uz_Slides req)), (''settings'', BMap (uz_Settings req)), (''result'', BMap (uz_Result req)),
      (''theme'', BMap (uz_Theme req))]"
  let ?z = "applyMemoryQuizUpdate (io_now io) ?u z"
  obtain sv1 where upd: "on_repo (updateQuiz env (io_now io) t i ?u) sv = (sv1, Ret (Some ?z))"
    using getQuiz_after_update(2) [OF assms(1), of "io_now io" ?u] by (metis prod.collapse)
  have "sv' = sv1" using assms(3) by (auto simp: UpdateQuiz_def assms(1) and_then_Ret_iff upd)
  then have "getQuiz env (sv_repo sv') t i = Ret (Some ?z)"
    using getQuiz_after_update(1) [OF assms(1), of "io_now io" ?u] by (simp add: upd)
  then show ?thesis
    using assms(1,2)
    by (simp add: QuizPackage_def quizPackageFromQuiz_def Let_def quizDetailToDTO_def applyMemoryQuizUpdate_def)
qed

lemma sample_quiz: "getQuiz sampleEnv (sv_repo sampleSchool) ''t'' (ge_hex sampleEnv 21) = Ret (Some (hd (m_quizzes (sv_repo sampleSchool))))"
  by (simp add: getQuiz_def sampleSchool_def)

lemma sample_publish:
  "\<exists>sv'. PublishQuiz sampleEnv (sampleIO 0) None ''t'' (ge_hex sampleEnv 21) sampleSchool = (sv', Ret (2, ''00''))"
proof -
  let ?u = "[(''status'', BStr ''published''), (''version'', BInt 2), (''package_hash'', BStr ''00''), (''published_at'', BTime 100)]"
  obtain sv1 where "on_repo (updateQuiz sampleEnv 100 ''t'' (ge_hex sampleEnv 21) ?u) sampleSchool
      = (sv1, Ret (Some (applyMemoryQuizUpdate 100 ?u (hd (m_quizzes (sv_repo sampleSchool))))))"
    using getQuiz_after_update(2) [OF sample_quiz, of 100 ?u] by (metis prod.collapse)
  moreover have "hashQuiz sampleEnv 100 q n = ''00''" for q n by (simp add: hashQuiz_def hashAny_def sampleEnv_def)
  moreover have "wrap64 (z_Version (hd (m_quizzes (sv_repo sampleSchool))) + 1) = 2"
    by (simp add: sampleSchool_def wrap64_def)
  ultimately show ?thesis by (simp add: PublishQuiz_def sample_quiz Let_def sampleIO_def)
qed

theorem publish_then_package_witness:
  "\<exists>sv' p. PublishQuiz sampleEnv (sampleIO 0) None ''t'' (ge_hex sampleEnv 21) sampleSchool = (sv', Ret (2, ''00''))
    \<and> QuizPackage sampleEnv sv' ''t'' (ge_hex sampleEnv 21) = Ret p \<and> zp_Version p = 2 \<and> zp_PackageHash p = ''00''"
proof -
  obtain sv' where sv': "PublishQuiz sampleEnv (sampleIO 0) None ''t'' (ge_hex sampleEnv 21) sampleSchool = (sv', Ret (2, ''00''))"
    using sample_publish by blast
  from publish_then_package [OF this] show ?thesis using sv' by fastforce
qed

definition sampleQuizUpdate :: updateQuizReq where
  "sampleQuizUpdate = \<lparr>uz_Slides = [JStr ''s''], uz_Settings = [], uz_Result = [], uz_Theme = []\<rparr>"

theorem update_keeps_package_hash_witness:
  "\<exists>sv' d p p'. UpdateQuiz sampleEnv (sampleIO 0) ''t'' (ge_hex sampleEnv 21) sampleQuizUpdate sampleSchool = (sv', Ret d)
    \<and> QuizPackage sampleEnv sampleSchool ''t'' (ge_hex sampleEnv 21) = Ret p \<and> QuizPackage sampleEnv sv' ''t'' (ge_hex sampleEnv 21) = Ret p'
    \<and> zp_ContentHash p' = zp_ContentHash p \<and> zt_Slides (zp_Quiz p') = [JStr ''s'']"
proof -
  let ?z = "hd (m_quizzes (sv_repo sampleSchool))"
  let ?u = "[(''slides'', BAnys (uz_Slides sampleQuizUpdate)), (''settings'', BMap (uz_Settings sampleQuizUpdate)),
      (''result'', BMap (uz_Result sampleQuizUpdate)), (''theme'', BMap (uz_Theme sampleQuizUpdate))]"
  have "validateQuizPayload sampleEnv ''Q'' [JStr ''s''] [] [] [] = Ret ()" unfolding sampleEnv_def by code_simp
  moreover have "z_Title ?z = ''Q''" "z_PackageHash ?z \<noteq> []" by (simp_all add: sampleSchool_def)
  moreover obtain sv1 where "on_repo (updateQuiz sampleEnv 100 ''t'' (ge_hex sampleEnv 21) ?u) sampleSchool
      = (sv1, Ret (Some (applyMemoryQuizUpdate 100 ?u ?z)))"
    using getQuiz_after_update(2) [OF sample_quiz, of 100 ?u] by (metis prod.collapse)
  ultimately obtain sv' d where run: "UpdateQuiz sampleEnv (sampleIO 0) ''t'' (ge_hex sampleEnv 21) sampleQuizUpdate sampleSchool = (sv', Ret d)"
    and hash: "z_PackageHash ?z \<noteq> []"
    by (simp add: UpdateQuiz_def sample_quiz sampleIO_def sampleQuizUpdate_def)
  from update_keeps_package_hash [OF sample_quiz hash run] show ?thesis using run by (auto simp: sampleQuizUpdate_def)
qed

section \<open>Random picks\<close>

definition idMatches :: "goenv \<Rightarrow> string \<Rightarrow> oid \<Rightarrow> bool" where
  "idMatches env i v \<longleftrightarrow> i = [] \<or> objectID env i = Ret v"

text \<open>The questions a pick may return, stated on the request.\<close>

definition pickable :: "goenv \<Rightarrow> string \<Rightarrow> randomPickReq \<Rightarrow> question \<Rightarrow> bool" where
  "pickable env t req q \<longleftrightarrow> q_TenantID q = t \<and> q_Status q \<noteq> statusArchived
     \<and> idMatches env (rp_SubjectID req) (q_SubjectID q) \<and> idMatches env (rp_LevelID req) (q_LevelID q)
     \<and> (rp_TopicIDs req = [] \<or> q_TopicID q \<in> set (objectIDsOrNil env (rp_TopicIDs req)))
     \<and> q_ID q \<notin> set (objectIDsOrNil env (rp_ExcludeQuestionIDs req))"

lemma randomFilter_matches:
  assumes "randomQuestionFilter env req = Ret flt"
  shows "(q_TenantID q = t \<and> q_Status q \<noteq> statusArchived \<and> memoryQuestionMatches env q flt) \<longleftrightarrow> pickable env t req q"
proof -
  obtain ids where "flt = ids @ (if rp_TopicIDs req \<noteq> [] then [(''topic_id'', BM [(''$in'', BOids (objectIDsOrNil env (rp_TopicIDs req)))])] else [])
      @ (if rp_ExcludeQuestionIDs req \<noteq> [] then [(''_id'', BM [(''$nin'', BOids (objectIDsOrNil env (rp_ExcludeQuestionIDs req)))])] else [])"
    and "memoryQuestionMatches env q ids \<longleftrightarrow> idMatches env (rp_SubjectID req) (q_SubjectID q) \<and> idMatches env (rp_LevelID req) (q_LevelID q)"
    using assms
    by (auto simp: randomQuestionFilter_def questionFilter_def idFilter_def keywordFilter_def outcome_simps memoryQuestionMatches_def
        questionKeyMatches_def idMatches_def Let_def eq_commute [of "q_SubjectID q"] eq_commute [of "q_LevelID q"] split: if_splits)
  then show ?thesis
    by (auto simp: pickable_def memoryQuestionMatches_def questionKeyMatches_def)
qed

text \<open>
  A random pick returns questions it may return, and as many as asked for or as there are: for a count
  from 1 to 100 the result is questions of the tenant that are not archived, have the subject, level
  and one of the topics asked for and are not excluded, no question more often than the bank has it.
\<close>

lemma random_pick_spec:
  assumes "RandomPickQuestions env io sv t req = Ret (picked, seed)" and "1 \<le> rp_Count req" and "rp_Count req \<le> 100"
    and "int (length (m_questions (sv_repo sv))) \<le> max_int64 - 100"
  shows "\<exists>qs. picked = map (questionToDTO env) qs \<and> mset qs \<subseteq># mset (filter (pickable env t req) (m_questions (sv_repo sv)))
    \<and> int (length qs) = min (rp_Count req) (int (length (filter (pickable env t req) (m_questions (sv_repo sv)))))"
proof -
  obtain flt where flt: "randomQuestionFilter env req = Ret flt"
    using assms(1) by (auto simp: RandomPickQuestions_def outcome_simps)
  define qs where "qs = sort_slice questionCreatedAfter (filter (pickable env t req) (m_questions (sv_repo sv)))"
  have len: "int (length qs) \<le> max_int64 - 100"
    using assms(4) length_filter_le [of "pickable env t req" "m_questions (sv_repo sv)"] unfolding qs_def length_sort_slice by linarith
  have "randomQuestions env (sv_repo sv) t flt (rp_Count req) = Ret (take (nat (rp_Count req)) qs)"
    using assms(2,3) len
    by (simp add: randomQuestions_def listQuestions_def pageCursor_def randomFilter_matches [OF flt] cursorOffset_def page_sizes
        cut_batch_in_range flip: qs_def)
  then have picked: "picked = map (questionToDTO env) (take (nat (rp_Count req)) qs)"
    using assms(1) by (simp add: RandomPickQuestions_def flt questionsToDTO_def)
  have "mset (take (nat (rp_Count req)) qs) \<subseteq># mset (filter (pickable env t req) (m_questions (sv_repo sv)))"
    using mset_append [of "take (nat (rp_Count req)) qs" "drop (nat (rp_Count req)) qs"] mset_subset_eq_add_left
    by (metis append_take_drop_id mset_sort_slice qs_def)
  then show ?thesis using picked assms(2) by (auto simp: qs_def)
qed

definition samplePick :: randomPickReq where
  "samplePick = \<lparr>rp_SubjectID = ge_hex sampleEnv 5, rp_LevelID = ge_hex sampleEnv 6, rp_TopicIDs = [], rp_Count = 3, rp_ExcludeQuestionIDs = []\<rparr>"

lemma sample_pick: "\<exists>picked seed. RandomPickQuestions sampleEnv (sampleIO 0) sampleBank ''t'' samplePick = Ret (picked, seed)"
proof -
  have "\<exists>flt. randomQuestionFilter sampleEnv samplePick = Ret flt"
    by (simp add: randomQuestionFilter_def questionFilter_def idFilter_def keywordFilter_def samplePick_def env_ok_hex_nonempty)
  then obtain flt where flt: "randomQuestionFilter sampleEnv samplePick = Ret flt" ..
  have "\<exists>items. randomQuestions sampleEnv (sv_repo sampleBank) ''t'' flt 3 = Ret items"
    by (simp add: randomQuestions_def listQuestions_def pageCursor_def cursorOffset_def page_sizes sampleBank_def cut_batch_def go_slice_def
        wrap64_def Let_def)
  then show ?thesis using flt by (auto simp: RandomPickQuestions_def samplePick_def)
qed

end
