(* ===== verification/K6Props.thy ===== *)
theory K6Props
  imports K6Flow
begin

text \<open>
  Properties of the load client: the credentials file, the choice of credentials, the scenarios, the
  requests and the bookkeeping of the exam flow. They hold for every system under test.
\<close>

section \<open>The credentials file\<close>

lemma js_spaces_no_comma: "q \<in> set js_spaces \<Longrightarrow> CHR '','' \<notin> set q"
proof -
  have "list_all (\<lambda>q. CHR '','' \<notin> set q) js_spaces" by code_simp
  then show "q \<in> set js_spaces \<Longrightarrow> CHR '','' \<notin> set q" by (auto simp: list_all_iff)
qed

lemma js_spaces_line: "[CHR 0x0A] \<in> set js_spaces" "[CHR 0x0D] \<in> set js_spaces"
  by (simp_all add: js_spaces_def common_spaces_def)

lemma js_trim_sep:
  assumes "js_trim e = e" "js_trim p = p"
  shows "js_trim (e @ CHR '','' # p) = e @ CHR '','' # p"
proof -
  have e: "head_space js_spaces e = None"
    using head_space_trim(1) [of js_spaces e] assms(1) by (simp add: js_trim_def)
  have p: "head_space (map rev js_spaces) (rev p) = None"
    using head_space_trim(2) [of js_spaces p] assms(2) by (simp add: js_trim_def)
  have rev_sep: "head_space (map rev js_spaces) (rev p @ CHR '','' # rev e) = None"
    by (rule head_space_sep [OF p]) (auto dest: js_spaces_no_comma)
  show ?thesis
    unfolding js_trim_def
    by (rule trim_with_id) (use rev_sep in \<open>simp_all add: head_space_sep [OF e] js_spaces_no_comma\<close>)
qed

text \<open>A trimmed string ends with neither a line feed nor a carriage return.\<close>

lemma js_trim_last:
  assumes "js_trim p = p" "[c] \<in> set js_spaces" "p \<noteq> []"
  shows "last p \<noteq> c"
proof
  assume "last p = c"
  then have "take 1 (rev p) = [c]" using assms(3) by (simp add: hd_rev take_Suc)
  moreover have "[c] \<in> set (map rev js_spaces)" using assms(2) by force
  moreover have "head_space (map rev js_spaces) (rev p) = None"
    using head_space_trim(2) [of js_spaces p] assms(1) by (simp add: js_trim_def)
  ultimately show False by (fastforce simp: head_space_def find_None_iff)
qed

lemma split_char_none: "c \<notin> set s \<Longrightarrow> split_char c s = [s]"
  by (induction s) auto

lemma split_char_sep: "c \<notin> set s \<Longrightarrow> split_char c (s @ c # t) = s # split_char c t"
  by (induction s) auto

lemma split_char_nonempty [simp]: "split_char c s \<noteq> []"
  by (induction s) (auto split: list.splits)

lemma split_char_pieces: "x \<in> set (split_char c s) \<Longrightarrow> c \<notin> set x"
  by (induction s arbitrary: x) (auto split: list.splits if_splits)

lemma split_lines_nonempty [simp]: "split_lines s \<noteq> []"
  by (induction s rule: split_lines.induct) (auto split: list.splits)

lemma split_lines_line:
  assumes "CHR 0x0A \<notin> set l" and "l \<noteq> [] \<Longrightarrow> last l \<noteq> CHR 0x0D"
  shows "split_lines (l @ CHR 0x0A # rest) = l # split_lines rest"
  using assms
proof (induction l)
  case Nil
  then show ?case by (cases rest) auto
next
  case (Cons x l)
  then have ih: "split_lines (l @ CHR 0x0A # rest) = l # split_lines rest" by (auto split: if_splits)
  obtain y ys where y: "l @ CHR 0x0A # rest = y # ys" by (cases l) auto
  have "\<not> (x = CHR 0x0D \<and> y = CHR 0x0A)"
    using Cons.prems y by (cases l) auto
  with Cons.prems ih y show ?case by auto
qed

text \<open>What a credential of the file can be.\<close>

definition printable :: "credential \<Rightarrow> bool" where
  "printable c \<longleftrightarrow>
     cr_email c \<noteq> [] \<and> cr_password c \<noteq> [] \<and> js_trim (cr_email c) = cr_email c \<and> js_trim (cr_password c) = cr_password c
   \<and> CHR '','' \<notin> set (cr_email c) \<and> CHR '','' \<notin> set (cr_password c)
   \<and> CHR 0x0A \<notin> set (cr_email c) \<and> CHR 0x0A \<notin> set (cr_password c) \<and> hd (cr_email c) \<noteq> CHR ''#''"

definition print_credentials :: "credential list \<Rightarrow> string" where
  "print_credentials cs = concat (map (\<lambda>c. cr_email c @ CHR '','' # cr_password c @ [CHR 0x0A]) cs)"

lemma parse_credential_line:
  "printable c \<Longrightarrow> parse_credential (cr_email c @ CHR '','' # cr_password c) = Some c"
  by (simp add: printable_def parse_credential_def split_char_sep split_char_none)

text \<open>
  C30. Reading a credentials file back: for any list of credentials that the format can express
  (non-empty, trimmed, without commas and line feeds, the address not starting a comment), the file
  with one \<open>email,password\<close> line for each gives exactly that list, in order.
\<close>

theorem credentials_roundtrip:
  assumes "list_all printable cs"
  shows "parse_credentials (print_credentials cs) = cs"
  using assms
proof (induction cs)
  case Nil
  have "js_trim [] = []" by (simp add: js_trim_def trim_with_def)
  then show ?case by (simp add: parse_credentials_def print_credentials_def map_filter_simps)
next
  case (Cons c cs)
  let ?l = "cr_email c @ CHR '','' # cr_password c"
  have c: "printable c" using Cons.prems by simp
  have "last (cr_password c) \<noteq> CHR 0x0D"
    using c js_trim_last [OF _ js_spaces_line(2)] by (simp add: printable_def)
  then have line: "split_lines (print_credentials (c # cs)) = ?l # split_lines (print_credentials cs)"
    using c split_lines_line [of ?l "print_credentials cs"] by (simp add: print_credentials_def printable_def)
  have "js_trim ?l = ?l" using c js_trim_sep by (simp add: printable_def)
  moreover have "\<not> has_prefix ?l ''#''"
    using c by (cases "cr_email c") (auto simp: has_prefix_def printable_def)
  ultimately show ?case
    using Cons parse_credential_line [OF c]
    by (simp add: parse_credentials_def line map_filter_simps)
qed

theorem credentials_roundtrip_witness:
  "parse_credentials (print_credentials [\<lparr>cr_email = ''a@b'', cr_password = ''x''\<rparr>, \<lparr>cr_email = ''c@d'', cr_password = ''y z''\<rparr>])
   = [\<lparr>cr_email = ''a@b'', cr_password = ''x''\<rparr>, \<lparr>cr_email = ''c@d'', cr_password = ''y z''\<rparr>]"
  by (rule credentials_roundtrip) code_simp

text \<open>
  C31. Whatever the credentials file holds, every credential read from it has a non-empty address and
  password, both trimmed and without commas, so a login request never carries a missing field.
\<close>

theorem credentials_wellformed:
  "list_all (\<lambda>c. cr_email c \<noteq> [] \<and> cr_password c \<noteq> [] \<and> js_trim (cr_email c) = cr_email c
      \<and> js_trim (cr_password c) = cr_password c \<and> CHR '','' \<notin> set (cr_email c) \<and> CHR '','' \<notin> set (cr_password c))
     (parse_credentials text)"
proof -
  have trim_idem: "js_trim (js_trim x) = js_trim x" for x by (simp add: js_trim_def trim_with_idem)
  have sub: "set (js_trim x) \<subseteq> set x" for x
  proof -
    obtain p where p: "x = p @ strip_left js_spaces x" using strip_left_suffix by blast
    obtain r where "rev (strip_left js_spaces x) = r @ strip_left (map rev js_spaces) (rev (strip_left js_spaces x))"
      using strip_left_suffix by blast
    then have "set (strip_left (map rev js_spaces) (rev (strip_left js_spaces x))) \<subseteq> set (strip_left js_spaces x)"
      by (metis Un_upper2 set_append set_rev)
    moreover have "set (strip_left js_spaces x) \<subseteq> set x" using p by (metis Un_upper2 set_append)
    ultimately show ?thesis by (auto simp: js_trim_def trim_with_def)
  qed
  have "cr_email c \<noteq> [] \<and> cr_password c \<noteq> [] \<and> js_trim (cr_email c) = cr_email c \<and> js_trim (cr_password c) = cr_password c
      \<and> CHR '','' \<notin> set (cr_email c) \<and> CHR '','' \<notin> set (cr_password c)"
    if some: "parse_credential line = Some c" for line c
  proof -
    obtain e pw rest where parts: "map js_trim (split_char (CHR '','') line) = e # pw # rest"
      and c: "e \<noteq> []" "pw \<noteq> []" "c = \<lparr>cr_email = e, cr_password = pw\<rparr>"
      using some by (auto simp: parse_credential_def split: list.splits if_splits)
    have "x \<in> set (e # pw # rest) \<Longrightarrow> js_trim x = x \<and> CHR '','' \<notin> set x" for x
      using sub split_char_pieces [of _ "CHR '',''" line] unfolding parts [symmetric] by (auto simp: trim_idem)
    with c show ?thesis by simp
  qed
  then show ?thesis
    by (auto simp: parse_credentials_def list_all_iff map_filter_def)
qed

section \<open>Choosing a credential\<close>

text \<open>
  A virtual user always gets a credential when there are any, the users share them round robin
  (users whose numbers differ by the number of credentials get the same one), and as many consecutive
  users as there are credentials get each of them exactly once.
\<close>

lemma pickCredential_round_robin:
  assumes "kc_credentials cfg \<noteq> []" and "0 < i"
  shows "pickCredential cfg \<lparr>vu_idInTest = i + length (kc_credentials cfg), vu_iterationInTest = k\<rparr>
       = pickCredential cfg \<lparr>vu_idInTest = i, vu_iterationInTest = k'\<rparr>
     \<and> map (\<lambda>j. pickCredential cfg \<lparr>vu_idInTest = Suc j, vu_iterationInTest = k\<rparr>) [0..<length (kc_credentials cfg)]
       = map Some (kc_credentials cfg)"
proof
  have "(i + length (kc_credentials cfg) - 1) mod length (kc_credentials cfg) = (i - 1) mod length (kc_credentials cfg)"
    using assms(2) by (metis Nat.add_diff_assoc2 Suc_leI mod_add_self2 One_nat_def)
  then show "pickCredential cfg \<lparr>vu_idInTest = i + length (kc_credentials cfg), vu_iterationInTest = k\<rparr>
      = pickCredential cfg \<lparr>vu_idInTest = i, vu_iterationInTest = k'\<rparr>"
    by (simp add: pickCredential_def)
  show "map (\<lambda>j. pickCredential cfg \<lparr>vu_idInTest = Suc j, vu_iterationInTest = k\<rparr>) [0..<length (kc_credentials cfg)]
      = map Some (kc_credentials cfg)"
    by (rule nth_equalityI) (use assms(1) in \<open>auto simp: pickCredential_def\<close>)
qed

section \<open>Scenarios\<close>

text \<open>
  The scenarios of a run: the exam flow runs unless \<open>ONLY_AUTH_LOGIN\<close> is exactly "true"; the
  login burst runs exactly when it is asked for and there are credentials; the teacher overview
  exactly when its number of users is positive and a teacher token and a quiz are set. No scenario is
  defined twice, and none remains exactly when the exam flow is switched off and neither of the
  others applies.
\<close>

lemma buildScenarios_spec:
  "distinct (map fst (buildScenarios ke cfg))
   \<and> (''lms_exam_flow'' \<in> set (map fst (buildScenarios ke cfg)) \<longleftrightarrow> ke_ENV ke ''ONLY_AUTH_LOGIN'' \<noteq> Some ''true'')
   \<and> (''auth_login'' \<in> set (map fst (buildScenarios ke cfg)) \<longleftrightarrow>
        ke_ENV ke ''LOGIN_EACH_ITERATION'' = Some ''true'' \<and> kc_credentials cfg \<noteq> [])
   \<and> (''teacher_overview'' \<in> set (map fst (buildScenarios ke cfg)) \<longleftrightarrow>
        num_pos (kc_teacherOverviewVUs cfg) \<and> kc_staticTeacherToken cfg \<noteq> [] \<and> kc_quizID cfg \<noteq> [])
   \<and> (buildScenarios ke cfg = [] \<longleftrightarrow>
        ke_ENV ke ''ONLY_AUTH_LOGIN'' = Some ''true''
        \<and> (ke_ENV ke ''LOGIN_EACH_ITERATION'' \<noteq> Some ''true'' \<or> kc_credentials cfg = [])
        \<and> (\<not> num_pos (kc_teacherOverviewVUs cfg) \<or> kc_staticTeacherToken cfg = [] \<or> kc_quizID cfg = []))"
  by (auto simp: buildScenarios_def)

section \<open>Metrics of an iteration\<close>

text \<open>The failed checks and the error count in a log.\<close>

definition failures :: "k6_event list \<Rightarrow> int" where
  "failures l = int (length (filter (\<lambda>e. e = SuccessRate False) l))"

fun errors_of :: "k6_event \<Rightarrow> int" where
  "errors_of (Errors n) = n"
| "errors_of _ = 0"

definition errors :: "k6_event list \<Rightarrow> int" where
  "errors l = sum_list (map errors_of l)"

definition balance :: "'w k6state \<Rightarrow> int" where
  "balance s = errors (k6_log s) - failures (k6_log s)"

lemma balance_emit [simp]:
  "balance (emit (Request rq) s) = balance s" "balance (emit (Sleep secs) s) = balance s"
  "balance (emit (AttemptLatency d) s) = balance s" "balance (emit (AnswerLatency d) s) = balance s"
  "balance (emit (SubmitLatency d) s) = balance s" "balance (emit (Errors n) s) = balance s + n"
  "balance (emit (SuccessRate ok) s) = (if ok then balance s else balance s - 1)"
  by (simp_all add: balance_def emit_def errors_def failures_def)

lemma balance_record_ok [simp]: "balance (record_ok ok s) = balance s"
  by (simp add: record_ok_def Let_def)

lemma balance_world [simp]: "balance (s\<lparr>k6_world := w\<rparr>) = balance s" "balance (s\<lparr>k6_dates := n\<rparr>) = balance s"
  by (simp_all add: balance_def)

lemma balance_send [simp]: "balance (fst (send srv rq s)) = balance s"
  by (simp add: send_def split: prod.splits)

lemma send_balance: "send srv rq s = (s', r) \<Longrightarrow> balance s' = balance s"
  by (metis balance_send fst_conv)

lemma iso_now_balance: "iso_now ke s = (s', x) \<Longrightarrow> balance s' = balance s"
  by (auto simp: iso_now_def)

lemma batch_balance: "balance (fst (batch srv rqs s)) = balance s"
  by (induction srv rqs s rule: batch.induct) (auto split: prod.splits dest: send_balance)

lemma fold_record_balance: "balance (fold (\<lambda>res. record_ok (ok2xx res)) rs s) = balance s"
  by (induction rs arbitrary: s) auto

lemma login_balance: "balance (fst (login ke cfg v srv s)) = balance s"
  by (auto simp: login_def fst_and_then Let_def split: option.splits prod.splits outcome.splits dest: send_balance)

lemma studentToken_balance: "balance (fst (studentToken ke cfg v srv s)) = balance s"
  by (simp add: studentToken_def login_balance)

lemma packageInfo_balance: "balance (fst (packageInfo ke cfg token srv s)) = balance s"
  by (auto simp: packageInfo_def fst_and_then Let_def split: prod.splits outcome.splits dest: send_balance)

lemma startGroup_balance: "balance (fst (startGroup ke cfg v token p srv s)) = balance s"
  by (auto simp: startGroup_def fst_and_then Let_def split: prod.splits outcome.splits dest: send_balance)

lemma answerLoop_balance: "balance (fst (answerLoop ke cfg v token aid srv i ids ans s)) = balance s"
  by (induction ids arbitrary: i ans s)
     (auto simp: Let_def split: prod.splits dest!: send_balance iso_now_balance)

lemma syncGroup_balance: "balance (syncGroup ke cfg token p aid srv s) = balance s"
  by (auto simp: syncGroup_def Let_def split: prod.splits dest!: send_balance iso_now_balance)

lemma submitGroup_balance: "balance (submitGroup ke cfg token aid ans srv s) = balance s"
  by (auto simp: submitGroup_def Let_def split: prod.splits dest!: send_balance iso_now_balance)

lemma fst_then_do_case:
  "fst (then_do r f) = (case snd r of Ret x \<Rightarrow> fst (f (fst r) x) | _ \<Rightarrow> fst r)"
  by (cases r, cases "snd r") (auto simp: then_do_def)

lemma flow_after_start:
  "balance (fst (and_then (answerQuestionIds ke cfg p) s (\<lambda>ids.
      case answerLoop ke cfg v token aid srv 0 ids [] s of (s, answers) \<Rightarrow>
        let s = syncGroup ke cfg token p aid srv s in (submitGroup ke cfg token aid answers srv s, Ret ())))) = balance s"
  using answerLoop_balance [of ke cfg v token aid srv 0]
  by (auto simp: fst_and_then Let_def split_beta syncGroup_balance submitGroup_balance split: outcome.splits)

text \<open>The iteration reaches the group "start attempt" and ends it without the identifier of an attempt.\<close>

definition startFails :: "k6env \<Rightarrow> k6cfg \<Rightarrow> vu \<Rightarrow> 'w server \<Rightarrow> 'w k6state \<Rightarrow> bool" where
  "startFails ke cfg v srv s \<longleftrightarrow>
     (case studentToken ke cfg v srv s of
        (s, Ret token) \<Rightarrow>
          truthy token \<and> kc_assignmentID cfg \<noteq> [] \<and> kc_quizID cfg \<noteq> []
          \<and> (case packageInfo ke cfg token srv (fst (batch srv (dashboardRequests ke cfg token) s)) of
               (s, Ret p) \<Rightarrow> (case startGroup ke cfg v token p srv s of (_, Ret attempt) \<Rightarrow> \<not> truthy attempt | _ \<Rightarrow> False)
             | _ \<Rightarrow> False)
      | _ \<Rightarrow> False)"

text \<open>
  C28. The error count of an iteration of the exam flow, against any system under test, is the number
  of failed checks it records, and one more exactly when the group "start attempt" ends without an
  attempt: this error is counted without a check. Nothing else is counted twice or forgotten, also when
  the iteration ends in an exception.
\<close>

theorem flow_error_accounting:
  "let s' = fst (studentExamFlow ke cfg v srv s) in
     errors (k6_log s') - errors (k6_log s) =
       failures (k6_log s') - failures (k6_log s) + (if startFails ke cfg v srv s then 1 else 0)"
proof -
  obtain s1 t1 where tok: "studentToken ke cfg v srv s = (s1, t1)" by force
  have b1: "balance s1 = balance s" using studentToken_balance [of ke cfg v srv s] tok by simp
  have "balance (fst (studentExamFlow ke cfg v srv s)) = balance s + (if startFails ke cfg v srv s then 1 else 0)"
  proof (cases t1)
    case (Ret token)
    obtain s2 r2 where bat: "batch srv (dashboardRequests ke cfg token) s1 = (s2, r2)" by force
    obtain s3 r3 where pkg: "packageInfo ke cfg token srv s2 = (s3, r3)" by force
    have b3: "balance s3 = balance s"
      using batch_balance [of srv "dashboardRequests ke cfg token" s1] packageInfo_balance [of ke cfg token srv s2] bat pkg b1 by simp
    show ?thesis
    proof (cases "\<not> truthy token \<or> kc_assignmentID cfg = [] \<or> kc_quizID cfg = []")
      case True
      then show ?thesis by (auto simp: studentExamFlow_def startFails_def tok Ret b1)
    next
      case False
      show ?thesis
      proof (cases r3)
        case (Ret p)
        obtain s4 a where st: "startGroup ke cfg v token p srv s3 = (s4, a)" by force
        have "balance s4 = balance s" using startGroup_balance [of ke cfg v token p srv s3] st b3 by simp
        then show ?thesis
          using False Ret \<open>t1 = Ret token\<close>
          by (cases a) (auto simp: studentExamFlow_def startFails_def tok bat pkg st Let_def flow_after_start [unfolded Let_def])
      qed (use False b3 Ret in \<open>simp_all add: studentExamFlow_def startFails_def tok bat pkg\<close>)
    qed
  qed (use tok b1 in \<open>auto simp: studentExamFlow_def startFails_def\<close>)
  then show ?thesis by (simp add: Let_def balance_def)
qed

section \<open>The requests of an iteration\<close>

definition requests_ok :: "(request \<Rightarrow> bool) \<Rightarrow> 'w k6state \<Rightarrow> bool" where
  "requests_ok P s \<longleftrightarrow> list_all (\<lambda>e. case e of Request rq \<Rightarrow> P rq | _ \<Rightarrow> True) (k6_log s)"

lemma requests_ok_emit [simp]:
  "requests_ok P (emit (Request rq) s) \<longleftrightarrow> requests_ok P s \<and> P rq" "requests_ok P (emit (Sleep secs) s) = requests_ok P s"
  "requests_ok P (emit (AttemptLatency d) s) = requests_ok P s" "requests_ok P (emit (AnswerLatency d) s) = requests_ok P s"
  "requests_ok P (emit (SubmitLatency d) s) = requests_ok P s" "requests_ok P (emit (Errors n) s) = requests_ok P s"
  "requests_ok P (emit (SuccessRate ok) s) = requests_ok P s"
  by (simp_all add: requests_ok_def emit_def)

lemma requests_ok_record [simp]: "requests_ok P (record_ok ok s) = requests_ok P s"
  by (simp add: record_ok_def Let_def)

lemma requests_ok_world [simp]:
  "requests_ok P (s\<lparr>k6_world := w\<rparr>) = requests_ok P s" "requests_ok P (s\<lparr>k6_dates := n\<rparr>) = requests_ok P s"
  by (simp_all add: requests_ok_def)

lemma send_requests: "send srv rq s = (s', r) \<Longrightarrow> requests_ok P s' \<longleftrightarrow> requests_ok P s \<and> P rq"
  by (auto simp: send_def split: prod.splits)

lemma iso_now_requests: "iso_now ke s = (s', x) \<Longrightarrow> requests_ok P s' \<longleftrightarrow> requests_ok P s"
  by (auto simp: iso_now_def)

lemma batch_requests: "batch srv rqs s = (s', rs) \<Longrightarrow> requests_ok P s' \<longleftrightarrow> requests_ok P s \<and> list_all P rqs"
  by (induction srv rqs s arbitrary: s' rs rule: batch.induct) (auto split: prod.splits dest!: send_requests [where P = P])

text \<open>What every authenticated request carries.\<close>

definition authentic :: "k6env \<Rightarrow> k6cfg \<Rightarrow> jval \<Rightarrow> request \<Rightarrow> bool" where
  "authentic ke cfg token rq \<longleftrightarrow>
     map_of (rq_headers rq) ''X-Tenant-ID'' = Some (kc_tenantID cfg)
   \<and> map_of (rq_headers rq) ''Content-Type'' = Some ''application/json''
   \<and> map_of (rq_headers rq) ''Authorization'' = Some (''Bearer '' @ js_string (ke_numstr ke) token)
   \<and> has_prefix (rq_url rq) (kc_baseURL cfg)"

lemma map_of_headers:
  assumes "truthy token" and "set (map fst extra) \<subseteq> {''X-Idempotency-Key''}"
  shows "map_of (headers ke cfg token extra) ''X-Tenant-ID'' = Some (kc_tenantID cfg)"
    and "map_of (headers ke cfg token extra) ''Content-Type'' = Some ''application/json''"
    and "map_of (headers ke cfg token extra) ''Authorization'' = Some (''Bearer '' @ js_string (ke_numstr ke) token)"
proof -
  have keep: "map_of (fold (\<lambda>(k, v). AList.update k v) extra h) name = map_of h name"
    if "name \<noteq> ''X-Idempotency-Key''" for name and h :: "(string \<times> string) list"
    using assms(2) that by (induction extra arbitrary: h) (auto simp: update_conv')
  show "map_of (headers ke cfg token extra) ''X-Tenant-ID'' = Some (kc_tenantID cfg)"
    "map_of (headers ke cfg token extra) ''Content-Type'' = Some ''application/json''"
    "map_of (headers ke cfg token extra) ''Authorization'' = Some (''Bearer '' @ js_string (ke_numstr ke) token)"
    using assms(1) by (simp_all add: headers_def Let_def update_conv' keep)
qed

lemma authentic_request:
  "truthy token \<Longrightarrow> set (map fst extra) \<subseteq> {''X-Idempotency-Key''} \<Longrightarrow>
     authentic ke cfg token \<lparr>rq_method = meth, rq_url = kc_baseURL cfg @ path, rq_body = body, rq_headers = headers ke cfg token extra\<rparr>"
  by (simp add: authentic_def map_of_headers has_prefix_def)

text \<open>A property of all requests with the token.\<close>

definition covers :: "(request \<Rightarrow> bool) \<Rightarrow> k6env \<Rightarrow> k6cfg \<Rightarrow> jval \<Rightarrow> bool" where
  "covers P ke cfg token \<longleftrightarrow> (\<forall>rq. authentic ke cfg token rq \<longrightarrow> P rq)"

lemma covered_request:
  "covers P ke cfg token \<Longrightarrow> truthy token \<Longrightarrow> set (map fst extra) \<subseteq> {''X-Idempotency-Key''} \<Longrightarrow>
     P \<lparr>rq_method = meth, rq_url = kc_baseURL cfg @ path, rq_body = body, rq_headers = headers ke cfg token extra\<rparr>"
  by (simp add: covers_def authentic_request)

lemma packageInfo_requests:
  assumes "covers P ke cfg token" "truthy token" "packageInfo ke cfg token srv s = (s', r)" "requests_ok P s"
  shows "requests_ok P s'"
  using assms
  by (auto simp: packageInfo_def Let_def covered_request split: if_splits prod.splits
      dest!: send_requests [where P = P] and_then_cases)

lemma startGroup_requests:
  assumes "covers P ke cfg token" "truthy token" "startGroup ke cfg v token p srv s = (s', r)" "requests_ok P s"
  shows "requests_ok P s'"
  using assms
  by (auto simp: startGroup_def Let_def covered_request split: if_splits prod.splits
      dest!: send_requests [where P = P] and_then_cases)

lemma answerLoop_requests:
  "covers P ke cfg token \<Longrightarrow> truthy token \<Longrightarrow> answerLoop ke cfg v token aid srv i ids ans s = (s', r) \<Longrightarrow>
     requests_ok P s \<Longrightarrow> requests_ok P s'"
proof (induction ids arbitrary: i ans s)
  case (Cons q ids)
  show ?case
    using Cons.prems
    by (auto simp: Let_def covered_request split: prod.splits intro: Cons.IH [OF Cons.prems(1,2)]
        dest!: send_requests [where P = P] iso_now_requests [where P = P])
qed simp

lemma syncGroup_requests:
  "covers P ke cfg token \<Longrightarrow> truthy token \<Longrightarrow> requests_ok P s \<Longrightarrow> requests_ok P (syncGroup ke cfg token p aid srv s)"
  by (auto simp: syncGroup_def covered_request split: prod.splits
      dest!: send_requests [where P = P] iso_now_requests [where P = P])

lemma submitGroup_requests:
  "covers P ke cfg token \<Longrightarrow> truthy token \<Longrightarrow> requests_ok P s \<Longrightarrow> requests_ok P (submitGroup ke cfg token aid ans srv s)"
  by (auto simp: submitGroup_def covered_request split: prod.splits
      dest!: send_requests [where P = P] iso_now_requests [where P = P])

lemma dashboard_authentic: "covers P ke cfg token \<Longrightarrow> truthy token \<Longrightarrow> list_all P (dashboardRequests ke cfg token)"
  by (simp add: dashboardRequests_def covered_request)

lemma flow_tail_requests:
  assumes "covers P ke cfg token" "truthy token" "requests_ok P s"
  shows "requests_ok P
    (fst (and_then (answerQuestionIds ke cfg p) s (\<lambda>ids.
      case answerLoop ke cfg v token aid srv 0 ids [] s of (s, answers) \<Rightarrow>
        let s = syncGroup ke cfg token p aid srv s in (submitGroup ke cfg token aid answers srv s, Ret ()))))"
  using assms answerLoop_requests [OF assms(1,2) prod.collapse [symmetric] assms(3)]
  by (auto simp: fst_and_then Let_def split_beta syncGroup_requests submitGroup_requests split: outcome.splits)

text \<open>The request of a login: the credential of the virtual user, and no token.\<close>

definition loginRequest :: "k6cfg \<Rightarrow> vu \<Rightarrow> request \<Rightarrow> bool" where
  "loginRequest cfg v rq \<longleftrightarrow>
     rq_method rq = ''POST'' \<and> rq_url rq = kc_baseURL cfg @ kc_loginPath cfg
   \<and> map_of (rq_headers rq) ''X-Tenant-ID'' = Some (kc_tenantID cfg)
   \<and> map_of (rq_headers rq) ''Content-Type'' = Some ''application/json''
   \<and> map_of (rq_headers rq) ''Authorization'' = None
   \<and> (\<exists>cred body. pickCredential cfg v = Some cred \<and> rq_body rq = JObj body
        \<and> map_of body ''email'' = Some (JStr (cr_email cred)) \<and> map_of body ''password'' = Some (JStr (cr_password cred)))"

lemma studentToken_requests:
  assumes "studentToken ke cfg v srv s = (s', r)" and "requests_ok P s"
    and "\<And>rq. kc_staticStudentToken cfg = [] \<Longrightarrow> loginRequest cfg v rq \<Longrightarrow> P rq"
  shows "requests_ok P s'"
proof (cases "kc_staticStudentToken cfg = []")
  case True
  have l: "P \<lparr>rq_method = ''POST'', rq_url = kc_baseURL cfg @ kc_loginPath cfg,
      rq_body = JObj [(''email'', JStr (cr_email cred)), (''password'', JStr (cr_password cred)), (''deviceId'', d), (''deviceName'', n), (''deviceFingerprint'', f)],
      rq_headers = headers ke cfg (JStr []) []\<rparr>" if "pickCredential cfg v = Some cred" for cred d n f
    using that by (intro assms(3) [OF True]) (simp add: loginRequest_def headers_def)
  show ?thesis
    using assms(1,2) True
    by (auto simp: studentToken_def login_def Let_def l split: option.splits prod.splits if_splits
        dest!: send_requests [where P = P] and_then_cases)
qed (use assms in \<open>simp add: studentToken_def\<close>)

text \<open>
  C29. Every request of an iteration of the exam flow, whatever the system under test answers, carries the
  tenant header and the JSON content type and goes to the configured base URL. It is either the login,
  sent only without a configured token, with the credential of the virtual user and no token; or it carries
  the bearer token of the student, which is the configured one or the one the login returned.
\<close>

theorem flow_requests_authentic:
  assumes "k6_log s = []"
  shows "requests_ok (\<lambda>rq. kc_staticStudentToken cfg = [] \<and> loginRequest cfg v rq
      \<or> (\<exists>token. snd (studentToken ke cfg v srv s) = Ret token \<and> truthy token \<and> authentic ke cfg token rq))
    (fst (studentExamFlow ke cfg v srv s))" (is "requests_ok ?P _")
proof -
  have s: "requests_ok ?P s" using assms by (simp add: requests_ok_def)
  obtain s1 t1 where tok: "studentToken ke cfg v srv s = (s1, t1)" by force
  have s1: "requests_ok ?P s1" by (rule studentToken_requests [OF tok s]) simp
  show ?thesis
  proof (cases "\<exists>token. t1 = Ret token \<and> truthy token \<and> kc_assignmentID cfg \<noteq> [] \<and> kc_quizID cfg \<noteq> []")
    case True
    then obtain token where t: "t1 = Ret token" "truthy token" and ids: "kc_assignmentID cfg \<noteq> []" "kc_quizID cfg \<noteq> []" by blast
    have c: "covers ?P ke cfg token" using t tok by (auto simp: covers_def)
    obtain s2 r2 where bat: "batch srv (dashboardRequests ke cfg token) s1 = (s2, r2)" by force
    then have s2: "requests_ok ?P s2" using s1 dashboard_authentic [OF c t(2)] batch_requests [OF bat] by blast
    obtain s3 r3 where pkg: "packageInfo ke cfg token srv s2 = (s3, r3)" by force
    have s3: "requests_ok ?P s3" by (rule packageInfo_requests [OF c t(2) pkg s2])
    show ?thesis
    proof (cases r3)
      case (Ret p)
      obtain s4 a where st: "startGroup ke cfg v token p srv s3 = (s4, a)" by force
      have "requests_ok ?P s4" by (rule startGroup_requests [OF c t(2) st s3])
      then show ?thesis
        using t ids Ret flow_tail_requests [OF c t(2), unfolded Let_def]
        by (cases a) (auto simp: studentExamFlow_def tok bat pkg st Let_def)
    qed (use t ids s3 in \<open>simp_all add: studentExamFlow_def tok bat pkg\<close>)
  next
    case False
    then show ?thesis using s1 by (cases t1) (auto simp: studentExamFlow_def tok)
  qed
qed

text \<open>A configuration, and a system that is down, for the examples.\<close>

definition sampleCfg :: k6cfg where
  "sampleCfg = \<lparr>kc_baseURL = ''http://x'', kc_tenantID = ''default'', kc_staticStudentToken = ''tok'', kc_staticTeacherToken = ''tok'',
     kc_quizID = ''q'', kc_assignmentID = ''a'', kc_classID = [], kc_packageID = ''q'', kc_packageHashFallback = ''h'',
     kc_questionsPerAttempt = NumFin 2, kc_thinkTimeSeconds = NumFin 1, kc_loginPath = ''/login'',
     kc_teacherOverviewVUs = NumFin 1, kc_credentials = []\<rparr>"

definition sampleK6Env :: k6env where
  "sampleK6Env = \<lparr>ke_ENV = (\<lambda>_. None), ke_open = (\<lambda>_. None), ke_iso = (\<lambda>n. num n), ke_numstr = (\<lambda>_. [])\<rparr>"

definition downServer :: "unit server" where
  "downServer w rq = (w, \<lparr>rs_status = 503, rs_json = None, rs_duration = 1\<rparr>)"

definition emptyRun :: "unit k6state" where
  "emptyRun = \<lparr>k6_world = (), k6_log = [], k6_dates = 0\<rparr>"

text \<open>The witness: a virtual user without a configured token logs in.\<close>

definition loginCfg :: k6cfg where
  "loginCfg = sampleCfg\<lparr>kc_staticStudentToken := [], kc_credentials := [\<lparr>cr_email = ''an@x'', cr_password = ''pw''\<rparr>]\<rparr>"

theorem flow_requests_authentic_witness:
  "requests_ok (\<lambda>rq. kc_staticStudentToken loginCfg = [] \<and> loginRequest loginCfg \<lparr>vu_idInTest = 1, vu_iterationInTest = 0\<rparr> rq
      \<or> (\<exists>token. snd (studentToken sampleK6Env loginCfg \<lparr>vu_idInTest = 1, vu_iterationInTest = 0\<rparr> downServer emptyRun) = Ret token
           \<and> truthy token \<and> authentic sampleK6Env loginCfg token rq))
    (fst (studentExamFlow sampleK6Env loginCfg \<lparr>vu_idInTest = 1, vu_iterationInTest = 0\<rparr> downServer emptyRun))"
  by (rule flow_requests_authentic) (simp add: emptyRun_def)

text \<open>
  A start that fails is counted twice: against a system that is down, an iteration records two
  failed checks (the package and the start) but three errors, the second one for the start when the
  flow finds it has no attempt.
\<close>

lemma failed_start_counted_twice:
  "let l = k6_log (fst (studentExamFlow sampleK6Env sampleCfg \<lparr>vu_idInTest = 1, vu_iterationInTest = 0\<rparr> downServer emptyRun))
   in failures l = 2 \<and> errors l = 3"
  by code_simp

section \<open>The answers of an iteration\<close>

lemma length_js_slice0:
  "length (js_slice0 xs (NumFin q)) \<le> (if 0 \<le> q then nat \<lfloor>q\<rfloor> else length xs)"
  by (auto simp: js_slice0_def trunc_num_def Let_def min_def max_def)

text \<open>
  An iteration never answers more questions than \<open>QUESTIONS_PER_ATTEMPT\<close> says, rounded down, when
  that is a number that is not negative; when it does not parse as a number, it answers none.
\<close>

lemma question_count_bounded:
  assumes "answerQuestionIds ke cfg p = Ret ids"
  shows "(\<forall>q. kc_questionsPerAttempt cfg = NumFin q \<and> 0 \<le> q \<longrightarrow> length ids \<le> nat \<lfloor>q\<rfloor>)
       \<and> (kc_questionsPerAttempt cfg = NumNaN \<longrightarrow> ids = [])"
proof -
  have gen: "length ids \<le> nat \<lfloor>q\<rfloor>" if "js_array_from (NumFin q) f = Ret ids" "0 \<le> q" for q :: rat and f :: "nat \<Rightarrow> jval"
    using that by (auto simp: js_array_from_def trunc_num_def Let_def split: if_splits)
  have nan: "ids = []" if "js_array_from NumNaN f = Ret ids" for f :: "nat \<Rightarrow> jval"
    using that by (auto simp: js_array_from_def trunc_num_def Let_def)
  have "js_array_from (kc_questionsPerAttempt cfg) (\<lambda>i. JStr (''load-question-'' @ num i)) = Ret ids
      \<or> (\<exists>xs. ids = js_slice0 xs (kc_questionsPerAttempt cfg))"
    using assms by (auto simp: answerQuestionIds_def Let_def split: if_splits jval.splits option.splits bool.splits)
  then show ?thesis
  proof
    assume "js_array_from (kc_questionsPerAttempt cfg) (\<lambda>i. JStr (''load-question-'' @ num i)) = Ret ids"
    then show ?thesis using gen nan by metis
  next
    assume "\<exists>xs. ids = js_slice0 xs (kc_questionsPerAttempt cfg)"
    then obtain xs where xs: "ids = js_slice0 xs (kc_questionsPerAttempt cfg)" by blast
    have "js_slice0 xs NumNaN = []" by (simp add: js_slice0_def trunc_num_def Let_def)
    then show ?thesis using xs length_js_slice0 [of xs] by (metis (full_types))
  qed
qed

text \<open>The question and the answer of a request that saves one.\<close>

definition savedAnswer :: "k6env \<Rightarrow> k6_event \<Rightarrow> (string \<times> jval) option" where
  "savedAnswer ke e =
     (case e of
        Request rq \<Rightarrow>
          (case (jsprop (Some (rq_body rq)) ''questionId'', jsprop (Some (rq_body rq)) ''answer'') of
             (Some q, Some a) \<Rightarrow> Some (js_string (ke_numstr ke) q, a)
           | _ \<Rightarrow> None)
      | _ \<Rightarrow> None)"

lemma savedAnswer_none [simp]:
  "savedAnswer ke (AnswerLatency d) = None" "savedAnswer ke (SuccessRate ok) = None"
  "savedAnswer ke (Errors n) = None" "savedAnswer ke (Sleep secs) = None"
  by (simp_all add: savedAnswer_def)

definition collect :: "(string \<times> jval) list \<Rightarrow> jobj \<Rightarrow> jobj" where
  "collect kvs answers = fold (\<lambda>(k, v). AList.update k v) kvs answers"

lemma map_filter_append: "List.map_filter f (xs @ ys) = List.map_filter f xs @ List.map_filter f ys"
  by (simp add: List.map_filter_def)

lemma answerLoop_saved:
  "\<exists>new. k6_log (fst (answerLoop ke cfg v token aid srv i ids answers s)) = k6_log s @ new
     \<and> snd (answerLoop ke cfg v token aid srv i ids answers s) = collect (List.map_filter (savedAnswer ke) new) answers
     \<and> map fst (List.map_filter (savedAnswer ke) new) = map (js_string (ke_numstr ke)) ids"
proof (induction ids arbitrary: i answers s)
  case Nil
  then show ?case by (simp add: collect_def map_filter_simps)
next
  case (Cons q ids)
  obtain s1 stamp where iso: "iso_now ke s = (s1, stamp)" by force
  define a where "a = ''answer-'' @ num (vu_idInTest v) @ ''-'' @ num (vu_iterationInTest v) @ ''-'' @ num i"
  let ?k = "js_string (ke_numstr ke) q"
  define rq where "rq = \<lparr>rq_method = ''POST'', rq_url = kc_baseURL cfg @ ''/api/lms/attempts/'' @ aid @ ''/answers'',
      rq_body = JObj [(''questionId'', q), (''answer'', JStr a),
        (''clientResult'', JObj [(''source'', JStr ''k6''), (''sequence'', JNum (of_nat i))]), (''answeredAt'', JStr stamp)],
      rq_headers = headers ke cfg token [(''X-Idempotency-Key'', ''answer-'' @ aid @ ''-'' @ ?k @ ''-'' @ num i)]\<rparr>"
  obtain s2 res where sent: "send srv rq s1 = (s2, res)" by force
  let ?s3 = "emit (Sleep (kc_thinkTimeSeconds cfg)) (record_ok (ok2xx res) (emit (AnswerLatency (rs_duration res)) s2))"
  let ?tail = "AnswerLatency (rs_duration res) # SuccessRate (ok2xx res) # (if ok2xx res then [] else [Errors 1])
      @ [Sleep (kc_thinkTimeSeconds cfg)]"
  have tl3: "k6_log ?s3 = k6_log s @ Request rq # ?tail" "List.map_filter (savedAnswer ke) ?tail = []"
    using iso sent
    by (auto simp: iso_now_def send_def emit_def record_ok_def Let_def savedAnswer_def map_filter_simps split: prod.splits)
  have saved: "savedAnswer ke (Request rq) = Some (?k, JStr a)" by (simp add: savedAnswer_def rq_def)
  have run: "answerLoop ke cfg v token aid srv i (q # ids) answers s =
      answerLoop ke cfg v token aid srv (Suc i) ids (AList.update ?k (JStr a) answers) ?s3"
    using iso sent by (simp add: Let_def a_def rq_def)
  obtain new where new: "k6_log (fst (answerLoop ke cfg v token aid srv i (q # ids) answers s)) = k6_log ?s3 @ new"
    "snd (answerLoop ke cfg v token aid srv i (q # ids) answers s) =
       collect (List.map_filter (savedAnswer ke) new) (AList.update ?k (JStr a) answers)"
    "map fst (List.map_filter (savedAnswer ke) new) = map (js_string (ke_numstr ke)) ids"
    unfolding run using Cons.IH [of "Suc i" "AList.update ?k (JStr a) answers" ?s3] by blast
  show ?case
    by (rule exI [of _ "(Request rq # ?tail) @ new"])
       (simp add: new tl3 map_filter_append map_filter_simps saved collect_def del: answerLoop.simps)
qed

text \<open>
  The answers the loop over the questions collects for the submission are exactly those of the answer
  requests it sent, one request for each question in order, a later answer to the same question replacing
  the earlier one.
\<close>

lemma answers_collected_are_saved:
  "\<exists>new. k6_log (fst (answerLoop ke cfg v token aid srv 0 ids [] s)) = k6_log s @ new
     \<and> map_of (snd (answerLoop ke cfg v token aid srv 0 ids [] s)) = map_of (rev (List.map_filter (savedAnswer ke) new))
     \<and> map fst (List.map_filter (savedAnswer ke) new) = map (js_string (ke_numstr ke)) ids"
proof -
  have "map_of (collect kvs h) = map_of (rev kvs @ h)" for kvs h
    by (induction kvs arbitrary: h) (auto simp: collect_def update_conv' fun_eq_iff map_add_def split: option.splits)
  with answerLoop_saved [of ke cfg v token aid srv 0 ids "[]" s] show ?thesis by auto
qed

end
