(* ===== verification/SwaggerUi.thy ===== *)
theory SwaggerUi
  imports ErgPrelude
begin

text \<open>
  The API documentation page: the script \<open>src/docs/swagger-ui/swagger-initializer.js\<close> that starts
  the viewer, and \<open>serveAsset\<close> of \<open>src/docs/statik.go\<close>, which serves the embedded files it needs.
  Embedded files are named; their bytes are not modelled.
\<close>

datatype asset =
    SwaggerJSON | SwaggerYAML | Oauth2Redirect | Initializer string | IndexCSS | UiCSS | UiBundleJS
  | UiStandaloneJS | UiMainJS | UiCoreJS | UiBundleESJS | Favicon16 | Favicon32

text \<open>The content and the content type, or \<open>http.ErrMissingFile\<close>.\<close>

definition serveAsset :: "string \<Rightarrow> (unit, asset \<times> string) outcome" where
  "serveAsset p =
     (if p = ''/doc.json'' then Ret (SwaggerJSON, ''application/json; charset=utf-8'')
      else if p = ''/doc.yaml'' then Ret (SwaggerYAML, ''application/yaml; charset=utf-8'')
      else if p = ''/oauth2-redirect.html'' then Ret (Oauth2Redirect, ''text/html; charset=utf-8'')
      else if p = ''/swagger-initializer.js'' then Ret (Initializer ''/swagger'', ''application/javascript; charset=utf-8'')
      else if p = ''/index.css'' then Ret (IndexCSS, ''text/css; charset=utf-8'')
      else if p = ''/swagger-ui.css'' then Ret (UiCSS, ''text/css; charset=utf-8'')
      else if p = ''/swagger-ui-bundle.js'' then Ret (UiBundleJS, ''application/javascript; charset=utf-8'')
      else if p = ''/swagger-ui-standalone-preset.js'' then Ret (UiStandaloneJS, ''application/javascript; charset=utf-8'')
      else if p = ''/swagger-ui.js'' then Ret (UiMainJS, ''application/javascript; charset=utf-8'')
      else if p = ''/swagger-ui-es-bundle-core.js'' then Ret (UiCoreJS, ''application/javascript; charset=utf-8'')
      else if p = ''/swagger-ui-es-bundle.js'' then Ret (UiBundleESJS, ''application/javascript; charset=utf-8'')
      else if p = ''/favicon-16x16.png'' then Ret (Favicon16, ''image/png'')
      else if p = ''/favicon-32x32.png'' then Ret (Favicon32, ''image/png'')
      else Fail ())"

record uiConfig =
  ui_url :: string
  ui_dom_id :: string
  ui_deepLinking :: bool
  ui_presets :: "string list"
  ui_plugins :: "string list"
  ui_layout :: string

text \<open>
  The argument of \<open>SwaggerUIBundle\<close>; \<open>base\<close> is \<open>window.SWAGGER_BASE_URL\<close>, and adding a string to
  \<open>undefined\<close> gives the text "undefined" followed by it.
\<close>

definition initializer :: "string option \<Rightarrow> uiConfig" where
  "initializer base =
     \<lparr>ui_url = (case base of None \<Rightarrow> ''undefined'' | Some b \<Rightarrow> b) @ ''/doc.yaml'',
      ui_dom_id = ''#swagger-ui'', ui_deepLinking = True,
      ui_presets = [''SwaggerUIBundle.presets.apis'', ''SwaggerUIStandalonePreset''],
      ui_plugins = [''SwaggerUIBundle.plugins.DownloadUrl''], ui_layout = ''StandaloneLayout''\<rparr>"

text \<open>
  The page finds its specification: the initializer, served with the base path that
  \<open>serveAsset\<close> prepends to it, asks for a URL under that base whose remainder \<open>serveAsset\<close> serves as
  the YAML specification. Without the prepended line it would ask for "undefined/doc.yaml".
\<close>

lemma initializer_finds_spec:
  "\<exists>base rest. serveAsset ''/swagger-initializer.js'' = Ret (Initializer base, ''application/javascript; charset=utf-8'')
     \<and> ui_url (initializer (Some base)) = base @ rest
     \<and> serveAsset rest = Ret (SwaggerYAML, ''application/yaml; charset=utf-8'')
     \<and> ui_url (initializer None) = ''undefined/doc.yaml''"
  by (rule exI [of _ "''/swagger''"], rule exI [of _ "''/doc.yaml''"]) (simp add: serveAsset_def initializer_def)

end
