(* ===== verification/LmsHttp.thy ===== *)
theory LmsHttp
  imports LmsGuards LmsContent
begin

text \<open>
  The HTTP face of the exam path of the LMS: routing, the decoding of request bodies, the handlers of
  \<open>controller.go\<close> and the response envelope (\<open>internal/dto/response/response.go\<close>). Requests and
  responses are those of the load client, so that the server can be put behind it.

  The routes modelled are those the load client uses and the \<open>PUT\<close> form of saving an answer; a request
  for anything else answers with the parameter \<open>hs_other\<close>. A request body is the JSON value the client
  sends, \<open>JNull\<close> for no body; two keys of an object differ in more than case. Times are instants, printed
  in UTC. The keys of a Go map are printed in the order of the model's list.
\<close>

section \<open>The deployment\<close>

text \<open>
  \<open>hs_base\<close> is the address clients use; \<open>hs_io\<close>, \<open>hs_uuid\<close> and \<open>hs_duration\<close> are the surroundings, the
  generated request identifier and the duration of the n-th request; \<open>hs_bindMessage\<close> is the text of a
  binding error, \<open>hs_quote\<close> the verb \<open>%q\<close>, \<open>hs_panicText\<close> the printed panic value.
\<close>

record httpcfg =
  hs_guard :: guardcfg
  hs_base :: string
  hs_io :: "nat \<Rightarrow> reqio"
  hs_uuid :: "nat \<Rightarrow> string"
  hs_duration :: "nat \<Rightarrow> float64"
  hs_bindMessage :: "jval \<Rightarrow> string"
  hs_quote :: "string \<Rightarrow> string"
  hs_panicText :: string
  hs_other :: "request \<Rightarrow> service \<Rightarrow> service \<times> int \<times> jval"

record lmsWorld =
  lw_service :: service
  lw_count :: nat

abbreviation hs_env :: "httpcfg \<Rightarrow> goenv" where
  "hs_env cfg \<equiv> gc_env (hs_guard cfg)"

section \<open>URLs\<close>

text \<open>Percent decoding; \<open>inQuery\<close> is for query strings.\<close>

fun unescape :: "bool \<Rightarrow> string \<Rightarrow> string option" where
  "unescape inQuery [] = Some []"
| "unescape inQuery (c # s) =
     (if c \<noteq> CHR ''%'' then map_option ((#) (if inQuery \<and> c = CHR ''+'' then CHR '' '' else c)) (unescape inQuery s)
      else if length s < 2 then None
      else case (radix_digit 16 (s ! 0), radix_digit 16 (s ! 1)) of
             (Some x, Some y) \<Rightarrow> map_option ((#) (char_of (16 * x + y))) (unescape inQuery (drop 2 s))
           | _ \<Rightarrow> None)"

definition urlPath :: "string \<Rightarrow> string option" where
  "urlPath target = unescape False (takeWhile (\<lambda>c. c \<noteq> CHR ''?'') target)"

definition queryPair :: "string \<Rightarrow> (string \<times> string) option" where
  "queryPair part =
     (if part = [] \<or> CHR '';'' \<in> set part then None
      else
        let k = takeWhile (\<lambda>c. c \<noteq> CHR ''='') part; v = drop (length k + 1) part
        in case (unescape True k, unescape True v) of (Some k, Some v) \<Rightarrow> Some (k, v) | _ \<Rightarrow> None)"

definition query :: "string \<Rightarrow> string \<Rightarrow> string" where
  "query target key =
     (let q = drop 1 (dropWhile (\<lambda>c. c \<noteq> CHR ''?'') target)
      in case map_of (List.map_filter queryPair (split_char (CHR ''&'') q)) key of Some v \<Rightarrow> v | None \<Rightarrow> [])"

section \<open>Routes\<close>

datatype lmsRoute =
    RStartAttempt
  | RSaveAnswer string string
  | RSaveAnswerCompat string
  | RSubmitAttempt string
  | RSyncAttempt string
  | RQuizPackage string
  | RStudentAssignments
  | RStudentScores
  | RAssignmentProgress string
  | RQuizStudentProgress string

fun fullPath :: "lmsRoute \<Rightarrow> string" where
  "fullPath RStartAttempt = ''/api/lms/attempts''"
| "fullPath (RSaveAnswer _ _) = ''/api/lms/attempts/:attemptId/answers/:questionId''"
| "fullPath (RSaveAnswerCompat _) = ''/api/lms/attempts/:attemptId/answers''"
| "fullPath (RSubmitAttempt _) = ''/api/lms/attempts/:attemptId/submit''"
| "fullPath (RSyncAttempt _) = ''/api/lms/attempts/:attemptId/sync''"
| "fullPath (RQuizPackage _) = ''/api/lms/quizzes/:quizId/package''"
| "fullPath RStudentAssignments = ''/api/lms/students/me/assignments''"
| "fullPath RStudentScores = ''/api/lms/students/me/scores''"
| "fullPath (RAssignmentProgress _) = ''/api/lms/assignments/:assignmentId/progress''"
| "fullPath (RQuizStudentProgress _) = ''/api/lms/quizzes/:quizId/students''"

text \<open>The segments after \<open>/api/lms\<close>; a parameter is a segment that is not empty.\<close>

definition matchRoute :: "string \<Rightarrow> string list \<Rightarrow> lmsRoute option" where
  "matchRoute methd segs =
     (case segs of
        [a] \<Rightarrow> if methd = ''POST'' \<and> a = ''attempts'' then Some RStartAttempt else None
      | [a, b, c] \<Rightarrow>
          if b = [] then None
          else if methd = ''POST'' \<and> a = ''attempts'' then
            (if c = ''answers'' then Some (RSaveAnswerCompat b)
             else if c = ''submit'' then Some (RSubmitAttempt b)
             else if c = ''sync'' then Some (RSyncAttempt b)
             else None)
          else if methd = ''GET'' \<and> a = ''quizzes'' then
            (if c = ''package'' then Some (RQuizPackage b)
             else if c = ''students'' then Some (RQuizStudentProgress b)
             else None)
          else if methd = ''GET'' \<and> a = ''students'' \<and> b = ''me'' then
            (if c = ''assignments'' then Some RStudentAssignments
             else if c = ''scores'' then Some RStudentScores
             else None)
          else if methd = ''GET'' \<and> a = ''assignments'' \<and> c = ''progress'' then Some (RAssignmentProgress b)
          else None
      | [a, b, c, d] \<Rightarrow>
          if methd = ''PUT'' \<and> a = ''attempts'' \<and> b \<noteq> [] \<and> c = ''answers'' \<and> d \<noteq> [] then Some (RSaveAnswer b d) else None
      | _ \<Rightarrow> None)"

definition targetOf :: "httpcfg \<Rightarrow> request \<Rightarrow> string option" where
  "targetOf cfg rq = (if has_prefix (rq_url rq) (hs_base cfg) then Some (drop (length (hs_base cfg)) (rq_url rq)) else None)"

definition routeOf :: "httpcfg \<Rightarrow> request \<Rightarrow> lmsRoute option" where
  "routeOf cfg rq =
     (case targetOf cfg rq of
        None \<Rightarrow> None
      | Some target \<Rightarrow>
          (case urlPath target of
             None \<Rightarrow> None
           | Some path \<Rightarrow>
               (case split_char (CHR ''/'') path of
                  lead # api # lms # segs \<Rightarrow>
                    if lead = [] \<and> api = ''api'' \<and> lms = ''lms'' then matchRoute (rq_method rq) segs else None
                | _ \<Rightarrow> None)))"

section \<open>Decoding bodies\<close>

text \<open>\<open>encoding/json\<close> compares keys without case; \<open>null\<close> and an absent key leave the zero value.\<close>

definition jfield :: "jobj \<Rightarrow> string \<Rightarrow> jval" where
  "jfield obj name =
     (case find (\<lambda>(k, v). EqualFold k (map lower_ascii name)) (rev obj) of Some (k, v) \<Rightarrow> v | None \<Rightarrow> JNull)"

fun bindString :: "jval \<Rightarrow> string option" where
  "bindString JNull = Some []"
| "bindString (JStr s) = Some s"
| "bindString _ = None"

fun bindMap :: "jval \<Rightarrow> jobj option" where
  "bindMap JNull = Some []"
| "bindMap (JObj kvs) = Some kvs"
| "bindMap _ = None"

fun bindMaps :: "jval \<Rightarrow> jobj list option" where
  "bindMaps JNull = Some []"
| "bindMaps (JArr xs) = those (map bindMap xs)"
| "bindMaps _ = None"

text \<open>A number of decimal digits between two bounds.\<close>

definition parseUint :: "int \<Rightarrow> int \<Rightarrow> string \<Rightarrow> int option" where
  "parseUint lo hi s =
     (if s \<noteq> [] \<and> list_all is_digit s \<and> lo \<le> int (digits_value s) \<and> int (digits_value s) \<le> hi
      then Some (int (digits_value s)) else None)"

definition leapYear :: "int \<Rightarrow> bool" where
  "leapYear year \<longleftrightarrow> year mod 4 = 0 \<and> (year mod 100 \<noteq> 0 \<or> year mod 400 = 0)"

definition daysOfDate :: "int \<Rightarrow> int \<Rightarrow> int \<Rightarrow> int" where
  "daysOfDate year month day =
     (let y = year - 1
      in 365 * y + y div 4 - y div 100 + y div 400 + sum_list (take (nat (month - 1)) (month_lengths (leapYear year))) + day - 1)"

text \<open>The offset of a zone in seconds.\<close>

definition parseZone :: "string \<Rightarrow> int option" where
  "parseZone z =
     (if z = ''Z'' then Some 0
      else if length z = 6 \<and> (hd z = CHR ''+'' \<or> hd z = CHR ''-'') \<and> z ! 3 = CHR '':'' then
        (case (parseUint 0 23 (take 2 (drop 1 z)), parseUint 0 59 (drop 4 z)) of
           (Some h, Some m) \<Rightarrow> Some ((if hd z = CHR ''-'' then - 1 else 1) * (h * 3600 + m * 60))
         | _ \<Rightarrow> None)
      else None)"

text \<open>\<open>time.Time.UnmarshalJSON\<close> on a string: RFC 3339, strictly.\<close>

definition parseRFC3339 :: "string \<Rightarrow> gotime option" where
  "parseRFC3339 s =
     (if length s < 20 \<or> s ! 4 \<noteq> CHR ''-'' \<or> s ! 7 \<noteq> CHR ''-'' \<or> s ! 10 \<noteq> CHR ''T'' \<or> s ! 13 \<noteq> CHR '':'' \<or> s ! 16 \<noteq> CHR '':'' then None
      else
        let rest = drop 19 s;
            hasFrac = (hd rest = CHR ''.'' \<and> length rest \<ge> 2 \<and> is_digit (rest ! 1));
            frac = (if hasFrac then takeWhile is_digit (tl rest) else []);
            zone = (if hasFrac then dropWhile is_digit (tl rest) else rest);
            nanos = int (digits_value (take 9 (frac @ replicate 9 CHR ''0'')))
        in Option.bind (parseUint 0 9999 (take 4 s)) (\<lambda>year.
           Option.bind (parseUint 1 12 (take 2 (drop 5 s))) (\<lambda>month.
           Option.bind (parseUint 1 (month_lengths (leapYear year) ! nat (month - 1)) (take 2 (drop 8 s))) (\<lambda>day.
           Option.bind (parseUint 0 23 (take 2 (drop 11 s))) (\<lambda>hour.
           Option.bind (parseUint 0 59 (take 2 (drop 14 s))) (\<lambda>minute.
           Option.bind (parseUint 0 59 (take 2 (drop 17 s))) (\<lambda>sec.
           Option.bind (parseZone zone) (\<lambda>offset.
           Some ((daysOfDate year month day * 86400 + hour * 3600 + minute * 60 + sec - offset) * 1000000000 + nanos)))))))))"

fun bindTime :: "jval \<Rightarrow> gotime option option" where
  "bindTime JNull = Some None"
| "bindTime (JStr s) = map_option Some (parseRFC3339 s)"
| "bindTime _ = None"

text \<open>\<open>binding:"required"\<close> on a string\<close>

definition required :: "string \<Rightarrow> string option" where
  "required s = (if s = [] then None else Some s)"

definition requiredField :: "jobj \<Rightarrow> string \<Rightarrow> string option" where
  "requiredField obj name = Option.bind (bindString (jfield obj name)) required"

fun bodyObject :: "jval \<Rightarrow> jobj option" where
  "bodyObject (JObj kvs) = Some kvs"
| "bodyObject _ = None"

definition bindStartAttempt :: "jval \<Rightarrow> startAttemptReq option" where
  "bindStartAttempt body =
     Option.bind (bodyObject body) (\<lambda>obj.
     Option.bind (requiredField obj ''assignmentId'') (\<lambda>a.
     Option.bind (requiredField obj ''quizId'') (\<lambda>q.
     Option.bind (requiredField obj ''packageId'') (\<lambda>p.
     Option.bind (requiredField obj ''packageHash'') (\<lambda>h.
     Some \<lparr>st_AssignmentID = a, st_QuizID = q, st_PackageID = p, st_PackageHash = h\<rparr>)))))"

definition bindSaveAnswer :: "jval \<Rightarrow> saveAnswerReq option" where
  "bindSaveAnswer body =
     Option.bind (bodyObject body) (\<lambda>obj.
     Option.bind (bindMap (jfield obj ''clientResult'')) (\<lambda>r.
     Option.bind (bindTime (jfield obj ''answeredAt'')) (\<lambda>t.
     Some \<lparr>sa_Answer = jfield obj ''answer'', sa_ClientResult = r, sa_AnsweredAt = t\<rparr>)))"

definition bindSaveAnswerCompat :: "jval \<Rightarrow> (string \<times> saveAnswerReq) option" where
  "bindSaveAnswerCompat body =
     Option.bind (bodyObject body) (\<lambda>obj.
     Option.bind (requiredField obj ''questionId'') (\<lambda>q.
     Option.bind (bindSaveAnswer body) (\<lambda>req. Some (q, req))))"

definition bindSubmitAttempt :: "jval \<Rightarrow> submitAttemptReq option" where
  "bindSubmitAttempt body =
     Option.bind (bodyObject body) (\<lambda>obj.
     Option.bind (bindMap (jfield obj ''answers'')) (\<lambda>a.
     Option.bind (bindTime (jfield obj ''submittedAt'')) (\<lambda>t.
     Some \<lparr>su_Answers = a, su_SubmittedAt = t\<rparr>)))"

definition bindAttemptSync :: "jval \<Rightarrow> attemptSyncReq option" where
  "bindAttemptSync body =
     Option.bind (bodyObject body) (\<lambda>obj.
     Option.bind (requiredField obj ''packageHash'') (\<lambda>h.
     Option.bind (bindString (jfield obj ''quizVersion'')) (\<lambda>v.
     Option.bind (bindMap (jfield obj ''attempt'')) (\<lambda>a.
     Option.bind (bindMaps (jfield obj ''events'')) (\<lambda>e.
     Option.bind (bindMap (jfield obj ''client'')) (\<lambda>c.
     Some \<lparr>sy_PackageHash = h, sy_QuizVersion = v, sy_Attempt = a, sy_Events = e, sy_Client = c\<rparr>))))))"

section \<open>Encoding results\<close>

definition jtime :: "gotime \<Rightarrow> jval" where
  "jtime t = JStr (format_rfc3339nano t)"

definition jint :: "int \<Rightarrow> jval" where
  "jint n = JNum (float_of_int n)"

text \<open>\<open>AttemptAnswer\<close> has no \<open>json\<close> tags: its keys are the names of the fields.\<close>

definition answerJSON :: "attempt_answer \<Rightarrow> jval" where
  "answerJSON a =
     JObj [(''QuestionID'', JStr (aa_QuestionID a)), (''Answer'', aa_Answer a), (''ClientResult'', nilOr JObj (aa_ClientResult a)),
       (''AnsweredAt'', case aa_AnsweredAt a of None \<Rightarrow> JNull | Some t \<Rightarrow> jtime t)]"

definition attemptJSON :: "attemptDTO \<Rightarrow> jval" where
  "attemptJSON d =
     JObj ([(''id'', JStr (ad_ID d)), (''assignmentId'', JStr (ad_AssignmentID d)), (''quizId'', JStr (ad_QuizID d)),
       (''studentId'', JStr (ad_StudentID d)), (''packageId'', JStr (ad_PackageID d)), (''packageHash'', JStr (ad_PackageHash d)),
       (''status'', JStr (ad_Status d)), (''answers'', JObj (map (\<lambda>(q, a). (q, answerJSON a)) (ad_Answers d))),
       (''score'', JNum (ad_Score d)), (''maxScore'', JNum (ad_MaxScore d)), (''percent'', JNum (ad_Percent d)),
       (''passed'', JBool (ad_Passed d)), (''startedAt'', jtime (ad_StartedAt d))]
       @ (case ad_SubmittedAt d of None \<Rightarrow> [] | Some t \<Rightarrow> [(''submittedAt'', jtime t)])
       @ [(''updatedAt'', jtime (ad_UpdatedAt d))])"

definition answerResultJSON :: "answerResult \<Rightarrow> jval" where
  "answerResultJSON r =
     JObj [(''attemptId'', JStr (ar_AttemptID r)), (''questionId'', JStr (ar_QuestionID r)), (''saved'', JBool (ar_Saved r))]"

definition submitResultJSON :: "submitResult \<Rightarrow> jval" where
  "submitResultJSON r =
     JObj [(''score'', JNum (sr_Score r)), (''maxScore'', JNum (sr_MaxScore r)), (''percent'', JNum (sr_Percent r)),
       (''passed'', JBool (sr_Passed r))]"

definition syncResultJSON :: "syncResult \<Rightarrow> jval" where
  "syncResultJSON r =
     JObj ([(''status'', JStr (sn_Status r)), (''serverAttempt'', attemptJSON (sn_ServerAttempt r))]
       @ (if sn_Conflicts r = [] then [] else [(''conflicts'', JArr (map JStr (sn_Conflicts r)))]))"

definition assignmentJSON :: "assignmentDTO \<Rightarrow> jval" where
  "assignmentJSON d =
     JObj ([(''id'', JStr (sd_ID d)), (''classId'', JStr (sd_ClassID d)), (''quizId'', JStr (sd_QuizID d))]
       @ omitempty ''subjectId'' (sd_SubjectID d)
       @ [(''studentIds'', JArr (map JStr (sd_StudentIDs d)))]
       @ (case sd_DueAt d of None \<Rightarrow> [] | Some t \<Rightarrow> [(''dueAt'', jtime t)])
       @ omitempty ''teacherNote'' (sd_TeacherNote d)
       @ [(''status'', JStr (sd_Status d)), (''recipientMode'', JStr (sd_RecipientMode d)), (''createdAt'', jtime (sd_CreatedAt d)),
          (''updatedAt'', jtime (sd_UpdatedAt d))])"

definition scoreItemJSON :: "scoreItem \<Rightarrow> jval" where
  "scoreItemJSON i =
     JObj [(''assignment'', assignmentJSON (si_Assignment i)), (''bestScore'', JNum (si_BestScore i)),
       (''recentAttemptsTop3'', JArr (map attemptJSON (si_RecentAttemptsTop3 i)))]"

definition progressJSON :: "progressDTO \<Rightarrow> jval" where
  "progressJSON p =
     JObj [(''submitted'', jint (pg_Submitted p)), (''inProgress'', jint (pg_InProgress p)), (''notStarted'', jint (pg_NotStarted p)),
       (''needsReview'', jint (pg_NeedsReview p))]"

definition quizProgressJSON :: "quizProgressItem \<Rightarrow> jval" where
  "quizProgressJSON i =
     JObj [(''studentId'', JStr (qp_StudentID i)), (''assignmentId'', JStr (qp_AssignmentID i)), (''status'', JStr (qp_Status i)),
       (''bestScore'', JNum (qp_BestScore i)), (''attemptCount'', jint (qp_AttemptCount i))]"

definition packageJSON :: "quizPackageDTO \<Rightarrow> jval" where
  "packageJSON p =
     JObj ([(''version'', jint (zp_Version p)), (''packageHash'', JStr (zp_PackageHash p)), (''contentHash'', JStr (zp_ContentHash p))]
       @ omitempty ''signature'' (zp_Signature p)
       @ [(''gradingMode'', JStr (zp_GradingMode p)), (''quiz'', quizDetailJSON (zp_Quiz p))])"

definition itemsJSON :: "('a \<Rightarrow> jval) \<Rightarrow> 'a list \<Rightarrow> jval" where
  "itemsJSON f xs = JObj [(''items'', JArr (map f xs))]"

section \<open>The envelope\<close>

text \<open>\<open>time.Now().UTC().Format(time.RFC3339)\<close>: no fraction of a second.\<close>

definition timestamp :: "gotime \<Rightarrow> string" where
  "timestamp t = format_rfc3339nano (t div 1000000000 * 1000000000)"

text \<open>\<open>WriteGin\<close>; an error has a code and a message and no details.\<close>

definition WriteGin :: "httpcfg \<Rightarrow> nat \<Rightarrow> request \<Rightarrow> int \<Rightarrow> jval option \<Rightarrow> (string \<times> string) option \<Rightarrow> int \<times> jval" where
  "WriteGin cfg n rq status body err =
     (let i = header rq ''X-Request-ID''; reqID = (if i \<noteq> [] then i else hs_uuid cfg n);
          path = (case Option.bind (targetOf cfg rq) urlPath of None \<Rightarrow> [] | Some p \<Rightarrow> p)
      in (status, JObj ([(''statusCode'', jint status), (''message'', JStr (case err of None \<Rightarrow> ''Success'' | Some (code, message) \<Rightarrow> message))]
            @ (case body of None \<Rightarrow> [] | Some d \<Rightarrow> [(''data'', d)])
            @ [(''errors'', case err of None \<Rightarrow> JNull | Some (code, message) \<Rightarrow> JStr code),
               (''timestamp'', JStr (timestamp (io_now (hs_io cfg n))))]
            @ omitempty ''path'' path @ omitempty ''request_id'' reqID)))"

text \<open>Status, code and message of an error.\<close>

definition writeServiceError :: "httpcfg \<Rightarrow> lms_error \<Rightarrow> int \<times> string \<times> string" where
  "writeServiceError cfg e =
     (case e of
        ErrScopeForbidden \<Rightarrow> (403, ''SCOPE_FORBIDDEN'', ''scope forbidden'')
      | ErrNotFound \<Rightarrow> (404, ''NOT_FOUND'', ''resource not found'')
      | ErrSheetAccess \<Rightarrow> (403, ''SHEET_ACCESS_DENIED'', ''sheet access denied'')
      | ErrEmptyRecipient \<Rightarrow> (422, ''ASSIGNMENT_RECIPIENT_EMPTY'', ''assignment recipient empty'')
      | ErrAttemptDone \<Rightarrow> (409, ''ATTEMPT_ALREADY_SUBMITTED'', ''attempt already submitted'')
      | ErrHashMismatch \<Rightarrow> (409, ''ATTEMPT_PACKAGE_HASH_MISMATCH'', ''attempt package hash mismatch'')
      | ErrInvalidFieldKey \<Rightarrow> (400, ''INVALID_FIELD_KEY'', ''invalid field key'')
      | ErrInvalidQuestionKind \<Rightarrow> (400, ''INVALID_QUESTION_KIND'', ''invalid question kind'')
      | ErrInvalidEducationUnitType \<Rightarrow> (400, ''INVALID_EDUCATION_UNIT_TYPE'', ''education unit type must be school or center'')
      | ErrInvalidStudentProfile \<Rightarrow> (400, ''INVALID_STUDENT_PROFILE'', ''invalid student profile fields'')
      | ErrInvalidContentPayload \<Rightarrow> (400, ''INVALID_CONTENT_PAYLOAD'', ''invalid LMS content payload'')
      | ErrInvalidStudentAccountPayload \<Rightarrow> (400, ''INVALID_STUDENT_ACCOUNT_PAYLOAD'', ''invalid student account payload'')
      | ErrInvalidAccessPolicy \<Rightarrow> (400, ''INVALID_ACCESS_POLICY'', ''INVALID_ACCESS_POLICY'')
      | ErrAccessManagementUnavailable \<Rightarrow> (503, ''ACCESS_MANAGEMENT_UNAVAILABLE'', ''access management storage is unavailable'')
      | ErrInvalidObjectID i \<Rightarrow> (500, ''INTERNAL_ERROR'', ''invalid object id '' @ hs_quote cfg i)
      | ErrOther message \<Rightarrow> (500, ''INTERNAL_ERROR'', message))"

text \<open>\<open>respond\<close>, and \<open>Recovery\<close> for a handler that panics.\<close>

definition respond :: "httpcfg \<Rightarrow> nat \<Rightarrow> request \<Rightarrow> int \<Rightarrow> ('a \<Rightarrow> jval) \<Rightarrow> 'a lres \<Rightarrow> int \<times> jval" where
  "respond cfg n rq success f r =
     (case r of
        Ret x \<Rightarrow> WriteGin cfg n rq success (Some (f x)) None
      | Fail e \<Rightarrow> (case writeServiceError cfg e of (status, code, message) \<Rightarrow> WriteGin cfg n rq status None (Some (code, message)))
      | Panic \<Rightarrow> WriteGin cfg n rq 500 None (Some (''ERR_INTERNAL'', ''Internal server error: '' @ hs_panicText cfg)))"

definition BadRequestGin :: "httpcfg \<Rightarrow> nat \<Rightarrow> request \<Rightarrow> int \<times> jval" where
  "BadRequestGin cfg n rq = WriteGin cfg n rq 400 None (Some (''BAD_REQUEST'', hs_bindMessage cfg (rq_body rq)))"

section \<open>Handlers\<close>

text \<open>A handler that changes the state: bind the body, call the service, respond.\<close>

definition bound ::
  "httpcfg \<Rightarrow> nat \<Rightarrow> request \<Rightarrow> service \<Rightarrow> (jval \<Rightarrow> 'r option) \<Rightarrow> int \<Rightarrow> ('a \<Rightarrow> jval) \<Rightarrow> ('r \<Rightarrow> service \<Rightarrow> service \<times> 'a lres)
     \<Rightarrow> service \<times> int \<times> jval" where
  "bound cfg n rq sv bind success f call =
     (case bind (rq_body rq) of
        None \<Rightarrow> (sv, BadRequestGin cfg n rq)
      | Some req \<Rightarrow> (case call req sv of (sv, r) \<Rightarrow> (sv, respond cfg n rq success f r)))"

fun handle :: "httpcfg \<Rightarrow> nat \<Rightarrow> request \<Rightarrow> string \<Rightarrow> actor \<Rightarrow> lmsRoute \<Rightarrow> service \<Rightarrow> service \<times> int \<times> jval" where
  "handle cfg n rq t a RStartAttempt sv =
     bound cfg n rq sv bindStartAttempt 201 attemptJSON (StartAttempt (hs_env cfg) (hs_io cfg n) t a)"
| "handle cfg n rq t a (RSaveAnswer attemptID questionID) sv =
     bound cfg n rq sv bindSaveAnswer 200 answerResultJSON (SaveAnswerForActor (hs_env cfg) (hs_io cfg n) t a attemptID questionID)"
| "handle cfg n rq t a (RSaveAnswerCompat attemptID) sv =
     bound cfg n rq sv bindSaveAnswerCompat 200 answerResultJSON
       (\<lambda>(questionID, req). SaveAnswerForActor (hs_env cfg) (hs_io cfg n) t a attemptID questionID req)"
| "handle cfg n rq t a (RSubmitAttempt attemptID) sv =
     bound cfg n rq sv bindSubmitAttempt 200 submitResultJSON (SubmitAttemptForActor (hs_env cfg) (hs_io cfg n) t a attemptID)"
| "handle cfg n rq t a (RSyncAttempt attemptID) sv =
     bound cfg n rq sv bindAttemptSync 200 syncResultJSON (SyncAttemptForActor (hs_env cfg) (hs_io cfg n) t a attemptID)"
| "handle cfg n rq t a (RQuizPackage quizID) sv =
     (sv, respond cfg n rq 200 packageJSON (QuizPackage (hs_env cfg) sv t quizID))"
| "handle cfg n rq t a RStudentAssignments sv =
     (sv, respond cfg n rq 200 (itemsJSON assignmentJSON) (StudentAssignments (hs_env cfg) sv t a (query (rq_url rq) ''status'')))"
| "handle cfg n rq t a RStudentScores sv =
     (sv, respond cfg n rq 200 (itemsJSON scoreItemJSON) (StudentScores (hs_env cfg) sv t a (query (rq_url rq) ''subjectId'')))"
| "handle cfg n rq t a (RAssignmentProgress assignmentID) sv =
     (sv, respond cfg n rq 200 progressJSON (AssignmentProgress (hs_env cfg) sv t assignmentID))"
| "handle cfg n rq t a (RQuizStudentProgress quizID) sv =
     (sv, respond cfg n rq 200 (itemsJSON quizProgressJSON)
        (QuizStudentProgress (hs_env cfg) sv t quizID (query (rq_url rq) ''classId'') (query (rq_url rq) ''status'')))"

definition serveRequest :: "httpcfg \<Rightarrow> nat \<Rightarrow> request \<Rightarrow> service \<Rightarrow> service \<times> int \<times> jval" where
  "serveRequest cfg n rq sv =
     (case routeOf cfg rq of
        None \<Rightarrow> hs_other cfg rq sv
      | Some route \<Rightarrow>
          (case lmsGuards (hs_guard cfg) (fullPath route) rq of
             Rejected status body \<Rightarrow> (sv, status, body)
           | Admitted tenant claims \<Rightarrow> handle cfg n rq tenant (actorFromContext claims) route sv))"

text \<open>The server as the load client sees it.\<close>

definition lmsServer :: "httpcfg \<Rightarrow> lmsWorld server" where
  "lmsServer cfg w rq =
     (case serveRequest cfg (lw_count w) rq (lw_service w) of
        (sv, status, body) \<Rightarrow>
          (\<lparr>lw_service = sv, lw_count = Suc (lw_count w)\<rparr>,
           \<lparr>rs_status = status, rs_json = Some body, rs_duration = hs_duration cfg (lw_count w)\<rparr>))"

end
