(* ===== verification/LmsHttpProps.thy ===== *)
theory LmsHttpProps
  imports LmsHttp LmsExamResponses K6Props
begin

text \<open>
  The load client against the server: how the client's requests are routed and guarded, what each does
  to the service, and what an iteration as a whole achieves.
\<close>

section \<open>Routing the client's requests\<close>

definition plainChar :: "char \<Rightarrow> bool" where
  "plainChar c \<longleftrightarrow> printableChar c \<and> c \<noteq> CHR ''/'' \<and> c \<noteq> CHR ''%'' \<and> c \<noteq> CHR ''?''"

definition plainSegment :: "string \<Rightarrow> bool" where
  "plainSegment s \<longleftrightarrow> s \<noteq> [] \<and> list_all plainChar s"

definition urlOf :: "string list \<Rightarrow> string" where
  "urlOf segs = concat (map (\<lambda>s. CHR ''/'' # s) segs)"

lemma unescape_id: "CHR ''%'' \<notin> set s \<Longrightarrow> unescape False s = Some s"
  by (induction s) auto

lemma split_urlOf: "list_all plainSegment segs \<Longrightarrow> segs \<noteq> [] \<Longrightarrow> split_char (CHR ''/'') (urlOf segs) = [] # segs"
proof (induction segs)
  case (Cons s segs)
  have s: "CHR ''/'' \<notin> set s" using Cons.prems by (auto simp: plainSegment_def plainChar_def list_all_iff)
  show ?case
  proof (cases segs)
    case Nil
    then show ?thesis using s by (simp add: urlOf_def split_char_none)
  next
    case (Cons s' segs')
    then have "split_char (CHR ''/'') (urlOf segs) = [] # segs" using Cons.IH Cons.prems by simp
    then show ?thesis using s Cons split_char_sep [OF s, of "s' @ urlOf segs'"] by (simp add: urlOf_def)
  qed
qed simp

lemma urlOf_chars: "list_all plainSegment segs \<Longrightarrow> c \<in> set (urlOf segs) \<Longrightarrow> c \<noteq> CHR ''?'' \<and> c \<noteq> CHR ''%''"
proof -
  assume plain: "list_all plainSegment segs" and "c \<in> set (urlOf segs)"
  then have "c = CHR ''/'' \<or> (\<exists>s \<in> set segs. c \<in> set s)" by (auto simp: urlOf_def split: if_splits)
  then show ?thesis
  proof
    assume "\<exists>s \<in> set segs. c \<in> set s"
    then have "plainChar c" using plain unfolding plainSegment_def list_all_iff by blast
    then show ?thesis by (simp add: plainChar_def)
  qed simp
qed

lemma routeOf_segments:
  assumes "rq_url rq = hs_base cfg @ urlOf (''api'' # ''lms'' # segs)" and "list_all plainSegment segs"
  shows "routeOf cfg rq = matchRoute (rq_method rq) segs"
proof -
  let ?all = "''api'' # ''lms'' # segs"
  have plain: "list_all plainSegment ?all"
    using assms(2) by (simp add: plainSegment_def plainChar_def printableChar_bits)
  have "takeWhile (\<lambda>c. c \<noteq> CHR ''?'') (urlOf ?all) = urlOf ?all"
    unfolding takeWhile_eq_all_conv using urlOf_chars [OF plain] by blast
  moreover have "unescape False (urlOf ?all) = Some (urlOf ?all)"
    using urlOf_chars [OF plain] by (intro unescape_id) blast
  ultimately have "urlPath (urlOf ?all) = Some (urlOf ?all)" by (simp only: urlPath_def)
  then show ?thesis
    using split_urlOf [OF plain] by (simp add: routeOf_def targetOf_def assms(1) has_prefix_def)
qed

lemma hex_plainSegment: "env_ok env \<Longrightarrow> plainSegment (ge_hex env i)"
proof -
  assume ok: "env_ok env"
  have "list_all plainChar ''0123456789abcdef''" by (simp add: plainChar_def printableChar_bits)
  then show ?thesis
    using env_ok_hex_chars [OF ok, of i] env_ok_hex_nonempty [OF ok, of i]
    unfolding plainSegment_def list_all_iff by blast
qed

section \<open>Guarding the client's requests\<close>

text \<open>The client is configured for this server and has a token that the server accepts.\<close>

definition connectedTo :: "httpcfg \<Rightarrow> k6cfg \<Rightarrow> jwtClaims \<Rightarrow> bool" where
  "connectedTo cfg kc c \<longleftrightarrow>
     kc_baseURL kc = hs_base cfg \<and> env_ok (hs_env cfg)
   \<and> kc_staticStudentToken kc \<noteq> [] \<and> printableText (kc_staticStudentToken kc)
   \<and> gc_validate (hs_guard cfg) (kc_staticStudentToken kc) = Some c \<and> plainClaims c \<and> claimsPortal ''lms'' c
   \<and> kc_tenantID kc \<noteq> [] \<and> printableText (kc_tenantID kc) \<and> map lower_ascii (kc_tenantID kc) = kc_tenantID kc"

definition clientHeaders :: "k6env \<Rightarrow> k6cfg \<Rightarrow> request \<Rightarrow> bool" where
  "clientHeaders ke kc rq \<longleftrightarrow>
     (\<exists>extra. rq_headers rq = headers ke kc (JStr (kc_staticStudentToken kc)) extra \<and> (extra = [] \<or> (\<exists>k. extra = [(''X-Idempotency-Key'', k)])))"

lemma client_header:
  assumes "clientHeaders ke kc rq" and "kc_staticStudentToken kc \<noteq> []"
  shows "header rq ''Authorization'' = ''Bearer '' @ kc_staticStudentToken kc" and "header rq ''X-Tenant-ID'' = kc_tenantID kc"
  using assms by (auto simp: clientHeaders_def header_def headers_def lower_ascii_bits)

lemma client_guards:
  assumes con: "connectedTo cfg kc c" and hd: "clientHeaders ke kc rq"
  shows "lmsGuards (hs_guard cfg) path rq =
    (if routeGranted (rq_method rq @ '' '' @ path) c then Admitted (kc_tenantID kc) c
     else Rejected 403 (ginError ''forbidden'' (''permission '' @ quoted (the (map_of lmsRoutePermissions (rq_method rq @ '' '' @ path))) @ '' required'')))"
proof -
  let ?tok = "kc_staticStudentToken kc"
  have tok: "?tok \<noteq> []" "printableText ?tok" using con by (auto simp: connectedTo_def)
  then have last: "printableChar (last ?tok)" by (simp add: printableText_def list_all_iff)
  have "trim_space (''Bearer '' @ ?tok) = ''Bearer '' @ ?tok"
    by (rule trim_space_ends) (use tok last in \<open>simp_all add: printableChar_bits\<close>)
  moreover have "EqualFold ''Bearer'' ''bearer''" by code_simp
  ultimately have "ValidateRequest (hs_guard cfg) (trim_space (header rq ''Authorization'')) = Some c"
    using con tok by (simp add: client_header [OF hd] ValidateRequest_def connectedTo_def trim_space_printable)
  moreover have "resolveTenantID (hs_guard cfg) rq = kc_tenantID kc"
    using con tok by (simp add: client_header [OF hd] resolveTenantID_def connectedTo_def trim_space_printable normalizeTenant_printable Let_def)
  ultimately show ?thesis
    using con by (simp add: lmsGuards_admits connectedTo_def)
qed

section \<open>The attempts that are submitted\<close>

definition submittedIDs :: "service \<Rightarrow> oid list" where
  "submittedIDs sv = map at_ID (filter (\<lambda>a. at_Status a = ''submitted'') (m_attempts (sv_repo sv)))"

lemma submittedIDs_setAttempt:
  assumes "lookupAttempt sv t v = Some a" and "at_ID b = at_ID a" and "at_Status b = ''submitted'' \<longleftrightarrow> at_Status a = ''submitted''"
  shows "submittedIDs (setAttempt t v b sv) = submittedIDs sv"
proof -
  have "map at_ID (filter (\<lambda>a. at_Status a = ''submitted'') (update_first p (\<lambda>_. b) xs))
      = map at_ID (filter (\<lambda>a. at_Status a = ''submitted'') xs)" if "find p xs = Some a" for p xs
    using that assms(2,3) by (induction xs) (auto split: if_splits)
  then show ?thesis using assms(1) by (simp add: submittedIDs_def setAttempt_def)
qed

lemma submittedIDs_add: "at_Status b \<noteq> ''submitted'' \<Longrightarrow> submittedIDs (addAttemptDoc b sv) = submittedIDs sv"
  by (simp add: submittedIDs_def addAttemptDoc_def)

lemma submittedIDs_start: "submittedIDs (fst (StartAttempt env io t a req sv)) = submittedIDs sv"
  by (cases "StartAttempt env io t a req sv")
     (auto dest!: StartAttempt_effect simp: submittedIDs_add startedAttempt_def)

lemma submittedIDs_save: "submittedIDs (fst (SaveAnswerForActor env io t a i q req sv)) = submittedIDs sv"
proof (cases "ownedAttempt env t a i sv")
  case (Ret att)
  have "at_ID (putAnswer now q ans b) = at_ID b" for now q ans b by (simp add: putAnswer_def)
  then show ?thesis
    using Ret
    by (cases "SaveAnswer env io t i q req sv")
       (auto simp: SaveAnswerForActor_def submittedIDs_setAttempt dest!: SaveAnswer_effect)
qed (simp_all add: SaveAnswerForActor_def)

text \<open>A synchronisation that reports an attempt in progress opens and closes nothing.\<close>

lemma sync_in_progress:
  assumes "map_of (sy_Attempt req) ''status'' = Some (JStr ''in_progress'')"
  shows "at_Status (applyMemoryAttemptUpdate now (syncUpdate a req) a) = ''submitted'' \<longleftrightarrow> at_Status a = ''submitted''"
    and "at_ID (applyMemoryAttemptUpdate now (syncUpdate a req) a) = at_ID a"
  using assms by (auto simp: syncUpdate_def applyMemoryAttemptUpdate_def has_prefix_def Let_def)

lemma submittedIDs_sync:
  assumes "map_of (sy_Attempt req) ''status'' = Some (JStr ''in_progress'')"
  shows "submittedIDs (fst (SyncAttemptForActor env io t a i req sv)) = submittedIDs sv"
proof (cases "ownedAttempt env t a i sv")
  case (Ret att)
  then show ?thesis
    using sync_in_progress [OF assms]
    by (cases "SyncAttempt env io t i req sv")
       (auto simp: SyncAttemptForActor_def submittedIDs_setAttempt dest!: SyncAttempt_effect)
qed (simp_all add: SyncAttemptForActor_def)

text \<open>A submission with a key that is no identifier changes nothing.\<close>

lemma submit_bad_key:
  assumes "q \<in> fst ` set (su_Answers req)" and "\<not> is_ret (objectID env q)"
  shows "fst (SubmitAttemptForActor env io t a i req sv) = sv"
proof -
  have "validateAttemptPayload env (su_Answers req) [] [] = Fail ErrInvalidContentPayload"
    using assms by (auto simp: validateAttemptPayload_def list_all_iff)
  then have "fst (SubmitAttempt env io t i req sv) = sv" by (simp add: SubmitAttempt_def)
  then show ?thesis
    by (cases "ownedAttempt env t a i sv") (auto simp: SubmitAttemptForActor_def)
qed

lemma bound_keeps:
  assumes "\<And>req. bind (rq_body rq) = Some req \<Longrightarrow> P (fst (call req sv))" and "P sv"
  shows "P (fst (bound cfg n rq sv bind success f call))"
  using assms by (auto simp: bound_def split: option.splits prod.splits)

section \<open>One request\<close>

abbreviation svc :: "lmsWorld k6state \<Rightarrow> service" where
  "svc s \<equiv> lw_service (k6_world s)"

lemma svc_simps [simp]:
  "k6_world (emit e s) = k6_world s" "k6_world (record_ok ok s) = k6_world s" "k6_world (fst (iso_now ke s)) = k6_world s"
  by (simp_all add: emit_def record_ok_def iso_now_def Let_def)

lemma svc_send: "svc (fst (send (lmsServer cfg) rq s)) = fst (serveRequest cfg (lw_count (k6_world s)) rq (svc s))"
  by (simp add: send_def lmsServer_def split: prod.splits)

lemma serve_routed:
  assumes "connectedTo cfg kc c" and "clientHeaders ke kc rq" and "routeOf cfg rq = Some route"
  shows "serveRequest cfg n rq sv =
    (if routeGranted (rq_method rq @ '' '' @ fullPath route) c
     then handle cfg n rq (kc_tenantID kc) (actorFromContext c) route sv
     else (sv, 403, ginError ''forbidden'' (''permission '' @
             quoted (the (map_of lmsRoutePermissions (rq_method rq @ '' '' @ fullPath route))) @ '' required'')))"
  by (simp add: serveRequest_def assms(3) client_guards [OF assms(1,2)])

text \<open>What is in the body of a client's request.\<close>

lemma EqualFold_printable:
  assumes "printableText s" shows "EqualFold s w \<longleftrightarrow> list_all2 fold_eq (map byte w) (map byte s)"
proof -
  have "runes s = map byte s"
    by (rule runes_ascii) (use assms in \<open>auto simp: printableText_def printableChar_def list_all_iff\<close>)
  then show ?thesis by (simp add: EqualFold_def)
qed

lemmas body_simps = jfield_def EqualFold_printable printableText_def printableChar_bits fold_eq_def byte_def lower_ascii_bits

lemma bindSaveAnswer_client:
  "bindSaveAnswerCompat (JObj [(''questionId'', q), (''answer'', a), (''clientResult'', r), (''answeredAt'', t)]) =
     Option.bind (Option.bind (bindString q) required) (\<lambda>q. Option.bind (bindMap r) (\<lambda>r. Option.bind (bindTime t) (\<lambda>t.
       Some (q, \<lparr>sa_Answer = a, sa_ClientResult = r, sa_AnsweredAt = t\<rparr>))))"
  by (simp add: bindSaveAnswerCompat_def bindSaveAnswer_def requiredField_def body_simps)

lemma bindSubmit_client:
  "bindSubmitAttempt (JObj [(''answers'', JObj a), (''submittedAt'', t)]) =
     Option.bind (bindTime t) (\<lambda>t. Some \<lparr>su_Answers = a, su_SubmittedAt = t\<rparr>)"
  by (simp add: bindSubmitAttempt_def body_simps)

lemma bindSync_client:
  "bindAttemptSync (JObj [(''packageHash'', h), (''quizVersion'', JStr v), (''attempt'', JObj a), (''events'', JArr [JObj e]), (''client'', JObj c)]) =
     Option.bind (Option.bind (bindString h) required) (\<lambda>h.
       Some \<lparr>sy_PackageHash = h, sy_QuizVersion = v, sy_Attempt = a, sy_Events = [e], sy_Client = c\<rparr>)"
  by (simp add: bindAttemptSync_def requiredField_def body_simps)

lemma bindStart_client:
  "bindStartAttempt (JObj [(''assignmentId'', JStr a), (''quizId'', JStr q), (''packageId'', JStr p), (''packageHash'', h)]) =
     Option.bind (required a) (\<lambda>a. Option.bind (required q) (\<lambda>q. Option.bind (required p) (\<lambda>p.
     Option.bind (Option.bind (bindString h) required) (\<lambda>h.
       Some \<lparr>st_AssignmentID = a, st_QuizID = q, st_PackageID = p, st_PackageHash = h\<rparr>))))"
  by (simp add: bindStartAttempt_def requiredField_def body_simps)

section \<open>The requests of an iteration\<close>

lemma segments_plain:
  "plainSegment ''attempts''" "plainSegment ''answers''" "plainSegment ''submit''" "plainSegment ''sync''" "plainSegment ''quizzes''"
  "plainSegment ''package''" "plainSegment ''students''" "plainSegment ''me''" "plainSegment ''assignments''" "plainSegment ''scores''"
  by (simp_all add: plainSegment_def plainChar_def printableChar_bits)

lemma client_routes:
  assumes "connectedTo cfg kc c" and "plainSegment i"
  shows "rq_url rq = kc_baseURL kc @ ''/api/lms/attempts'' \<Longrightarrow> rq_method rq = ''POST'' \<Longrightarrow> routeOf cfg rq = Some RStartAttempt"
    and "rq_url rq = kc_baseURL kc @ ''/api/lms/attempts/'' @ i @ ''/answers'' \<Longrightarrow> rq_method rq = ''POST'' \<Longrightarrow> routeOf cfg rq = Some (RSaveAnswerCompat i)"
    and "rq_url rq = kc_baseURL kc @ ''/api/lms/attempts/'' @ i @ ''/sync'' \<Longrightarrow> rq_method rq = ''POST'' \<Longrightarrow> routeOf cfg rq = Some (RSyncAttempt i)"
    and "rq_url rq = kc_baseURL kc @ ''/api/lms/attempts/'' @ i @ ''/submit'' \<Longrightarrow> rq_method rq = ''POST'' \<Longrightarrow> routeOf cfg rq = Some (RSubmitAttempt i)"
    and "rq_url rq = kc_baseURL kc @ ''/api/lms/quizzes/'' @ i @ ''/package'' \<Longrightarrow> rq_method rq = ''GET'' \<Longrightarrow> routeOf cfg rq = Some (RQuizPackage i)"
    and "rq_url rq = kc_baseURL kc @ ''/api/lms/students/me/assignments'' \<Longrightarrow> rq_method rq = ''GET'' \<Longrightarrow> routeOf cfg rq = Some RStudentAssignments"
    and "rq_url rq = kc_baseURL kc @ ''/api/lms/students/me/scores'' \<Longrightarrow> rq_method rq = ''GET'' \<Longrightarrow> routeOf cfg rq = Some RStudentScores"
  using assms routeOf_segments [of rq cfg "[''attempts'']"] routeOf_segments [of rq cfg "[''attempts'', i, ''answers'']"]
    routeOf_segments [of rq cfg "[''attempts'', i, ''sync'']"] routeOf_segments [of rq cfg "[''attempts'', i, ''submit'']"]
    routeOf_segments [of rq cfg "[''quizzes'', i, ''package'']"] routeOf_segments [of rq cfg "[''students'', ''me'', ''assignments'']"]
    routeOf_segments [of rq cfg "[''students'', ''me'', ''scores'']"]
  by (simp_all add: connectedTo_def urlOf_def matchRoute_def segments_plain plainSegment_def [of i])

text \<open>The requests that only read.\<close>

lemma serve_read:
  assumes "connectedTo cfg kc c" and "clientHeaders ke kc rq" and "routeOf cfg rq = Some route"
    and "route \<in> {RStudentAssignments, RStudentScores} \<union> range RQuizPackage"
  shows "fst (serveRequest cfg n rq sv) = sv"
  using assms(4) by (auto simp: serve_routed [OF assms(1-3)])

lemma clientHeaders_none: "clientHeaders ke kc \<lparr>rq_method = m, rq_url = u, rq_body = b, rq_headers = headers ke kc (JStr (kc_staticStudentToken kc)) []\<rparr>"
  by (auto simp: clientHeaders_def)

lemma clientHeaders_key:
  "clientHeaders ke kc \<lparr>rq_method = m, rq_url = u, rq_body = b, rq_headers = headers ke kc (JStr (kc_staticStudentToken kc)) [(''X-Idempotency-Key'', k)]\<rparr>"
  by (auto simp: clientHeaders_def)

lemma dashboard_reads:
  assumes "connectedTo cfg kc c"
  shows "svc (fst (batch (lmsServer cfg) (dashboardRequests ke kc (JStr (kc_staticStudentToken kc))) s)) = svc s"
proof -
  have "fst (serveRequest cfg n rq sv) = sv" if "rq \<in> set (dashboardRequests ke kc (JStr (kc_staticStudentToken kc)))" for n rq sv
  proof -
    have "clientHeaders ke kc rq" using that by (auto simp: dashboardRequests_def clientHeaders_none)
    moreover have "routeOf cfg rq = Some RStudentAssignments \<or> routeOf cfg rq = Some RStudentScores"
      using that client_routes(6,7) [OF assms segments_plain(1)] by (auto simp: dashboardRequests_def)
    ultimately show ?thesis using serve_read [OF assms] by blast
  qed
  then have "svc (fst (batch (lmsServer cfg) rqs s)) = svc s"
    if "set rqs \<subseteq> set (dashboardRequests ke kc (JStr (kc_staticStudentToken kc)))" for rqs s
    using that
  proof (induction rqs arbitrary: s)
    case (Cons rq rqs)
    obtain s1 r where s1: "send (lmsServer cfg) rq s = (s1, r)" by force
    have "svc s1 = svc s" using svc_send [of cfg rq s] Cons.prems s1 by auto
    then show ?case using Cons s1 by (auto split: prod.splits) (metis fst_conv)
  qed simp
  then show ?thesis by blast
qed

abbreviation tokenOf :: "k6cfg \<Rightarrow> jval" where
  "tokenOf kc \<equiv> JStr (kc_staticStudentToken kc)"

lemma send_split: "send (lmsServer cfg) rq s = (s', r) \<Longrightarrow>
   serveRequest cfg (lw_count (k6_world s)) rq (svc s) = (svc s', rs_status r, the (rs_json r)) \<and> rs_json r \<noteq> None"
  by (auto simp: send_def lmsServer_def split: prod.splits)

lemma and_then_RetE: "and_then m s f = (s', Ret y) \<Longrightarrow> (\<And>x. m = Ret x \<Longrightarrow> f x = (s', Ret y) \<Longrightarrow> P) \<Longrightarrow> P"
  by (cases m) auto

lemma and_then_worldE: "and_then m s f = (s', y) \<Longrightarrow> (\<And>x. m = Ret x \<Longrightarrow> f x = (s', y) \<Longrightarrow> P) \<Longrightarrow> (s' = s \<Longrightarrow> P) \<Longrightarrow> P"
  by (cases m) auto

lemma StartAttempt_started: "StartAttempt env io t a req sv = (sv', Ret d) \<Longrightarrow> \<exists>b. d = attemptToDTO env b"
  by (auto simp: StartAttempt_def on_repo_def elim!: and_then_RetE
      split: option.split_asm outcome.split_asm if_split_asm prod.split_asm) blast+

lemma respond_ok:
  "respond cfg n rq success f r = (status, body) \<Longrightarrow> status < 300 \<Longrightarrow>
     \<exists>x. r = Ret x \<and> status = success \<and> jsprop (Some body) ''data'' = Some (f x)"
  by (auto simp: respond_def WriteGin_def writeServiceError_def Let_def split: outcome.splits lms_error.splits)

lemma startGroup_attempt:
  assumes con: "connectedTo cfg kc c" and run: "startGroup ke kc v (tokenOf kc) p (lmsServer cfg) s = (s', r)"
  shows "submittedIDs (svc s') = submittedIDs (svc s)"
    and "r = Ret attempt \<Longrightarrow> truthy attempt \<Longrightarrow> \<exists>i. attempt = JStr (ge_hex (hs_env cfg) i)"
proof -
  let ?rq = "\<lparr>rq_method = ''POST'', rq_url = kc_baseURL kc @ ''/api/lms/attempts'',
         rq_body = JObj [(''assignmentId'', JStr (kc_assignmentID kc)), (''quizId'', JStr (kc_quizID kc)),
           (''packageId'', JStr (kc_packageID kc)), (''packageHash'', pk_packageHash p)],
         rq_headers = headers ke kc (tokenOf kc) [(''X-Idempotency-Key'', ''start-'' @ num (vu_idInTest v))]\<rparr>"
  obtain s1 start where s1: "send (lmsServer cfg) ?rq s = (s1, start)" by force
  let ?n = "lw_count (k6_world s)"
  have served: "serveRequest cfg ?n ?rq (svc s) = (svc s1, rs_status start, the (rs_json start))" and json: "rs_json start \<noteq> None"
    using send_split [OF s1] by auto
  note routed = serve_routed [OF con clientHeaders_key client_routes(1) [OF con segments_plain(1)]]
  have cases: "(svc s1 = svc s \<and> \<not> ok2xx start) \<or>
      (\<exists>req r. StartAttempt (hs_env cfg) (hs_io cfg ?n) (kc_tenantID kc) (actorFromContext c) req (svc s) = (svc s1, r)
        \<and> respond cfg ?n ?rq 201 attemptJSON r = (rs_status start, the (rs_json start)))"
    using served
    by (auto simp: routed bound_def ok2xx_def BadRequestGin_def WriteGin_def Let_def split: if_splits option.splits prod.splits)
  note step = run [unfolded startGroup_def s1 prod.case Let_def]
  have same: "svc s' = svc s1"
    using step by (auto elim!: and_then_worldE split: if_splits)
  have "submittedIDs (svc s1) = submittedIDs (svc s)"
    using cases
  proof
    assume "\<exists>req r. StartAttempt (hs_env cfg) (hs_io cfg ?n) (kc_tenantID kc) (actorFromContext c) req (svc s) = (svc s1, r)
        \<and> respond cfg ?n ?rq 201 attemptJSON r = (rs_status start, the (rs_json start))"
    then show ?thesis using submittedIDs_start by (metis fst_conv)
  qed simp
  then show "submittedIDs (svc s') = submittedIDs (svc s)" by (simp add: same)
  show "\<exists>i. attempt = JStr (ge_hex (hs_env cfg) i)" if r: "r = Ret attempt" "truthy attempt"
  proof -
    have ok: "ok2xx start" using step r by (auto split: if_splits)
    then obtain req q where "StartAttempt (hs_env cfg) (hs_io cfg ?n) (kc_tenantID kc) (actorFromContext c) req (svc s) = (svc s1, q)"
      and resp: "respond cfg ?n ?rq 201 attemptJSON q = (rs_status start, the (rs_json start))"
      using cases by blast
    moreover obtain d where d: "q = Ret d" "jsprop (rs_json start) ''data'' = Some (attemptJSON d)"
      using respond_ok [OF resp] ok json by (auto simp: ok2xx_def)
    ultimately obtain b where b: "d = attemptToDTO (hs_env cfg) b" using StartAttempt_started by blast
    have "dataOf start = Ret (attemptJSON d)"
      using d json by (auto simp: dataOf_def attemptJSON_def)
    moreover have "jsprop (Some (attemptJSON d)) ''id'' = Some (JStr (ge_hex (hs_env cfg) (at_ID b)))"
      by (simp add: attemptJSON_def b attemptToDTO_def)
    moreover have "ge_hex (hs_env cfg) (at_ID b) \<noteq> []" using con by (simp add: connectedTo_def env_ok_hex_nonempty)
    ultimately have "attempt = JStr (ge_hex (hs_env cfg) (at_ID b))" using step r ok by simp
    then show ?thesis ..
  qed
qed

lemma send_keeps:
  assumes con: "connectedTo cfg kc c" "clientHeaders ke kc rq" "routeOf cfg rq = Some route"
    and keeps: "\<And>n. P (fst (handle cfg n rq (kc_tenantID kc) (actorFromContext c) route (svc s)))"
    and "P (svc s)" and "send (lmsServer cfg) rq s = (s1, r)"
  shows "P (svc s1)"
  using send_split [OF assms(6)] keeps [of "lw_count (k6_world s)"] assms(5) by (auto simp: serve_routed [OF con] split: if_splits)

lemma handle_save_keeps: "submittedIDs (fst (handle cfg n rq t a (RSaveAnswerCompat i) sv)) = submittedIDs sv"
  unfolding handle.simps
  by (rule bound_keeps [where P = "\<lambda>sv'. submittedIDs sv' = submittedIDs sv"]) (simp_all add: submittedIDs_save split: prod.split)

lemma handle_sync_keeps:
  assumes "\<And>req. bindAttemptSync (rq_body rq) = Some req \<Longrightarrow> map_of (sy_Attempt req) ''status'' = Some (JStr ''in_progress'')"
  shows "submittedIDs (fst (handle cfg n rq t a (RSyncAttempt i) sv)) = submittedIDs sv"
  unfolding handle.simps
  by (rule bound_keeps [where P = "\<lambda>sv'. submittedIDs sv' = submittedIDs sv"]) (simp_all add: submittedIDs_sync assms)

lemma handle_submit_rejected:
  assumes "\<And>req. bindSubmitAttempt (rq_body rq) = Some req \<Longrightarrow> q \<in> fst ` set (su_Answers req)" and "\<not> is_ret (objectID (hs_env cfg) q)"
  shows "fst (handle cfg n rq t a (RSubmitAttempt i) sv) = sv"
  unfolding handle.simps
  by (rule bound_keeps [where P = "\<lambda>sv'. sv' = sv"]) (simp_all add: submit_bad_key [OF assms])

lemma packageInfo_reads:
  assumes con: "connectedTo cfg kc c" and q: "plainSegment (kc_quizID kc)"
    and run: "packageInfo ke kc (tokenOf kc) (lmsServer cfg) s = (s', r)"
  shows "svc s' = svc s"
proof -
  let ?rq = "\<lparr>rq_method = ''GET'', rq_url = kc_baseURL kc @ ''/api/lms/quizzes/'' @ kc_quizID kc @ ''/package'',
              rq_body = JNull, rq_headers = headers ke kc (tokenOf kc) []\<rparr>"
  obtain s1 res where s1: "send (lmsServer cfg) ?rq s = (s1, res)" by force
  have "svc s1 = svc s"
    by (rule send_keeps [OF con clientHeaders_none client_routes(5) [OF con q] _ _ s1]) simp_all
  then show ?thesis
    using run [unfolded packageInfo_def s1 prod.case Let_def] by (auto elim!: and_then_worldE split: if_splits)
qed

lemma answerLoop_keeps:
  assumes con: "connectedTo cfg kc c" and i: "plainSegment i"
  shows "submittedIDs (svc (fst (answerLoop ke kc v (tokenOf kc) i (lmsServer cfg) k ids ans s))) = submittedIDs (svc s)"
proof (induction ids arbitrary: k ans s)
  case (Cons q ids)
  let ?answer = "''answer-'' @ num (vu_idInTest v) @ ''-'' @ num (vu_iterationInTest v) @ ''-'' @ num k" and ?key = "js_string (ke_numstr ke) q"
  obtain s0 stamp where s0: "iso_now ke s = (s0, stamp)" by force
  let ?rq = "\<lparr>rq_method = ''POST'', rq_url = kc_baseURL kc @ ''/api/lms/attempts/'' @ i @ ''/answers'',
            rq_body = JObj [(''questionId'', q), (''answer'', JStr ?answer),
              (''clientResult'', JObj [(''source'', JStr ''k6''), (''sequence'', JNum (of_nat k))]), (''answeredAt'', JStr stamp)],
            rq_headers = headers ke kc (tokenOf kc) [(''X-Idempotency-Key'', ''answer-'' @ i @ ''-'' @ ?key @ ''-'' @ num k)]\<rparr>"
  obtain s1 res where s1: "send (lmsServer cfg) ?rq s0 = (s1, res)" by force
  have "submittedIDs (svc s1) = submittedIDs (svc s0)"
    by (rule send_keeps [where P = "\<lambda>sv. submittedIDs sv = submittedIDs (svc s0)", OF con clientHeaders_key client_routes(2) [OF con i] _ _ s1])
       (simp_all only: handle_save_keeps request.simps)
  moreover have "svc s0 = svc s" using s0 svc_simps(3) [of ke s] by simp
  ultimately show ?case
    unfolding answerLoop.simps Let_def s0 prod.case s1 by (simp add: Cons.IH)
qed simp

lemma answerLoop_keys:
  "fst ` set (snd (answerLoop ke kc v token i srv k ids ans s)) = fst ` set ans \<union> js_string (ke_numstr ke) ` set ids"
  by (induction ids arbitrary: k ans s) (auto simp: Let_def dom_update split: prod.splits)

lemma syncGroup_keeps:
  assumes con: "connectedTo cfg kc c" and i: "plainSegment i"
  shows "submittedIDs (svc (syncGroup ke kc (tokenOf kc) p i (lmsServer cfg) s)) = submittedIDs (svc s)"
proof -
  obtain s0 stamp where s0: "iso_now ke s = (s0, stamp)" by force
  let ?rq = "\<lparr>rq_method = ''POST'', rq_url = kc_baseURL kc @ ''/api/lms/attempts/'' @ i @ ''/sync'',
         rq_body = JObj [(''packageHash'', pk_packageHash p), (''quizVersion'', JStr (env_or ke ''QUIZ_VERSION'' ''load'')),
           (''attempt'', JObj [(''status'', JStr ''in_progress'')]),
           (''events'', JArr [JObj [(''type'', JStr ''sync''), (''at'', JStr stamp)]]),
           (''client'', JObj [(''source'', JStr ''k6'')])],
         rq_headers = headers ke kc (tokenOf kc) [(''X-Idempotency-Key'', ''sync-'' @ i)]\<rparr>"
  obtain s1 res where s1: "send (lmsServer cfg) ?rq s0 = (s1, res)" by force
  have "submittedIDs (svc s1) = submittedIDs (svc s0)"
    by (rule send_keeps [where P = "\<lambda>sv. submittedIDs sv = submittedIDs (svc s0)", OF con clientHeaders_key client_routes(3) [OF con i] _ _ s1])
       (simp_all only: request.simps, rule handle_sync_keeps, auto simp only: request.simps bindSync_client bind_eq_Some_conv attemptSyncReq.simps map_of.simps fst_conv snd_conv fun_upd_same)
  moreover have "svc s0 = svc s" using s0 svc_simps(3) [of ke s] by simp
  ultimately show ?thesis
    unfolding syncGroup_def Let_def s0 prod.case s1 by simp
qed

lemma submitGroup_rejected:
  assumes con: "connectedTo cfg kc c" and i: "plainSegment i" and q: "q \<in> fst ` set answers" "\<not> is_ret (objectID (hs_env cfg) q)"
  shows "svc (submitGroup ke kc (tokenOf kc) i answers (lmsServer cfg) s) = svc s"
proof -
  obtain s0 stamp where s0: "iso_now ke s = (s0, stamp)" by force
  let ?rq = "\<lparr>rq_method = ''POST'', rq_url = kc_baseURL kc @ ''/api/lms/attempts/'' @ i @ ''/submit'',
         rq_body = JObj [(''answers'', JObj answers), (''submittedAt'', JStr stamp)],
         rq_headers = headers ke kc (tokenOf kc) [(''X-Idempotency-Key'', ''submit-'' @ i)]\<rparr>"
  obtain s1 res where s1: "send (lmsServer cfg) ?rq s0 = (s1, res)" by force
  have "svc s1 = svc s0"
    by (rule send_keeps [where P = "\<lambda>sv. sv = svc s0", OF con clientHeaders_key client_routes(4) [OF con i] _ _ s1])
       (simp_all only: request.simps, rule handle_submit_rejected [OF _ q(2)], use q(1) in \<open>auto simp: bindSubmit_client bind_eq_Some_conv\<close>)
  moreover have "svc s0 = svc s" using s0 svc_simps(3) [of ke s] by simp
  ultimately show ?thesis
    unfolding submitGroup_def Let_def s0 prod.case s1 by simp
qed

section \<open>An iteration with the token of a student\<close>

lemma student_no_package: "\<not> routeGranted ''GET /api/lms/quizzes/:quizId/package'' (studentClaims user t)"
proof -
  have "map_of lmsRoutePermissions ''GET /api/lms/quizzes/:quizId/package'' = Some ''lms.quiz.read''" by code_simp
  moreover have "\<not> claimsGrant ''lms.quiz.read'' (studentClaims user t)"
    by (simp add: claimsGrant_def studentClaims_def student_grants matchesPrintable_def has_prefix_def has_suffix_def PermissionAll_def lower_ascii_bits)
  ultimately show ?thesis by (simp add: routeGranted_def)
qed

lemma student_package:
  assumes con: "connectedTo cfg kc (studentClaims user t)" and q: "plainSegment (kc_quizID kc)"
    and run: "packageInfo ke kc (tokenOf kc) (lmsServer cfg) s = (s', r)"
  shows "r = Ret \<lparr>pk_packageHash = JStr (kc_packageHashFallback kc), pk_questionIds = JArr []\<rparr>"
proof -
  let ?rq = "\<lparr>rq_method = ''GET'', rq_url = kc_baseURL kc @ ''/api/lms/quizzes/'' @ kc_quizID kc @ ''/package'',
              rq_body = JNull, rq_headers = headers ke kc (tokenOf kc) []\<rparr>"
  obtain s1 res where s1: "send (lmsServer cfg) ?rq s = (s1, res)" by force
  have "routeOf cfg ?rq = Some (RQuizPackage (kc_quizID kc))" by (rule client_routes(5) [OF con q]) simp_all
  then have "rs_status res = 403"
    using send_split [OF s1] student_no_package [of user t] by (simp add: serve_routed [OF con clientHeaders_none])
  moreover have "kc_quizID kc \<noteq> []" using q by (simp add: plainSegment_def)
  ultimately show ?thesis
    using run [unfolded packageInfo_def s1 prod.case Let_def] by (simp add: record_ok_def)
qed

lemma generated_ids:
  assumes "ke_ENV ke ''QUESTION_IDS'' = None \<or> ke_ENV ke ''QUESTION_IDS'' = Some []" and "kc_questionsPerAttempt kc = NumFin x" "1 \<le> x"
    and "answerQuestionIds ke kc \<lparr>pk_packageHash = h, pk_questionIds = JArr []\<rparr> = Ret ids"
  shows "JStr ''load-question-0'' \<in> set ids"
proof -
  have "js_trim [] = []" by (simp add: js_trim_def trim_with_def strip_left_id head_space_def)
  then have "js_array_from (kc_questionsPerAttempt kc) (\<lambda>i. JStr (''load-question-'' @ num i)) = Ret ids"
    using assms(1,4) by (auto simp: answerQuestionIds_def env_or_def)
  moreover have "0 < min (max (trunc_num (2 ^ 53 - 1) (NumFin x)) 0) (2 ^ 53 - 1)"
    using assms(3) by (simp add: trunc_num_def)
  ultimately have "JStr (''load-question-'' @ num 0) \<in> set ids"
    by (auto simp: js_array_from_def assms(2) Let_def split: if_splits)
  moreover have "num 0 = ''0''" by code_simp
  ultimately show ?thesis by simp
qed

lemma then_do_split: "then_do m f = (s', r) \<Longrightarrow> (\<And>s1 x. m = (s1, Ret x) \<Longrightarrow> f s1 x = (s', r) \<Longrightarrow> P) \<Longrightarrow> (\<And>o1. m = (s', o1) \<Longrightarrow> P) \<Longrightarrow> P"
  by (cases m; cases "snd m") (auto simp: then_do_def)

text \<open>
  The rest of an iteration without a list of questions, once an attempt exists: the identifiers are made up,
  the submission with them is refused, and saving and synchronising the answers submit nothing.
\<close>

lemma made_up_rejected:
  assumes con: "connectedTo cfg kc (studentClaims user t)" and plain: "plainSegment attemptID"
    and env: "ke_ENV ke ''QUESTION_IDS'' = None \<or> ke_ENV ke ''QUESTION_IDS'' = Some []"
    and n: "kc_questionsPerAttempt kc = NumFin x" "1 \<le> x"
    and ids: "answerQuestionIds ke kc \<lparr>pk_packageHash = JStr (kc_packageHashFallback kc), pk_questionIds = JArr []\<rparr> = Ret ids"
  shows "svc (submitGroup ke kc (tokenOf kc) attemptID (snd (answerLoop ke kc v (tokenOf kc) j srv 0 ids [] s4)) (lmsServer cfg) s5) = svc s5"
proof -
  have noid: "\<not> is_ret (objectID (hs_env cfg) ''load-question-0'')"
  proof (cases "ge_from_hex (hs_env cfg) ''load-question-0''")
    case (Some j)
    then show ?thesis
      using con env_ok_from_hex_length [of "hs_env cfg" "''load-question-0''" j] by (simp add: connectedTo_def)
  qed (simp add: objectID_def)
  have "''load-question-0'' = js_string (ke_numstr ke) (JStr ''load-question-0'')" by simp
  then have "''load-question-0'' \<in> js_string (ke_numstr ke) ` set ids" using generated_ids [OF env n ids] by (rule image_eqI)
  then show ?thesis using noid by (intro submitGroup_rejected [OF con plain]) (simp_all add: answerLoop_keys)
qed

lemma made_up_flow_keeps:
  assumes con: "connectedTo cfg kc (studentClaims user t)" and plain: "plainSegment attemptID"
    and env: "ke_ENV ke ''QUESTION_IDS'' = None \<or> ke_ENV ke ''QUESTION_IDS'' = Some []"
    and n: "kc_questionsPerAttempt kc = NumFin x" "1 \<le> x"
    and p: "p = \<lparr>pk_packageHash = JStr (kc_packageHashFallback kc), pk_questionIds = JArr []\<rparr>"
    and run: "and_then (answerQuestionIds ke kc p) s (\<lambda>ids.
        case answerLoop ke kc v (tokenOf kc) attemptID (lmsServer cfg) 0 ids [] s of (s, answers) \<Rightarrow>
          (submitGroup ke kc (tokenOf kc) attemptID answers (lmsServer cfg)
             (syncGroup ke kc (tokenOf kc) p attemptID (lmsServer cfg) s), Ret ())) = (s', r)"
  shows "submittedIDs (svc s') = submittedIDs (svc s)"
proof (cases "answerQuestionIds ke kc p")
  case (Ret ids)
  let ?loop = "answerLoop ke kc v (tokenOf kc) attemptID (lmsServer cfg) 0 ids [] s"
  let ?synced = "syncGroup ke kc (tokenOf kc) p attemptID (lmsServer cfg) (fst ?loop)"
  have "s' = submitGroup ke kc (tokenOf kc) attemptID (snd ?loop) (lmsServer cfg) ?synced"
    using run Ret by (simp add: split_beta)
  then have "svc s' = svc ?synced" using made_up_rejected [OF con plain env n Ret [unfolded p]] by simp
  then show ?thesis using answerLoop_keeps [OF con plain] syncGroup_keeps [OF con plain] by simp
qed (use run in auto)

text \<open>
  C10. With the token of a student and no list of question identifiers of its own, an iteration of the load
  client never submits an attempt, whatever the server holds: the package of the quiz is refused to
  the role, the client falls back to made-up question identifiers, and the service rejects the submission
  because they are no identifiers. The attempts submitted after the iteration are those submitted before.
  The number of questions of an attempt is at least one, and the identifier of the quiz is a plain segment
  of a path, as an object identifier is.
\<close>

theorem student_iteration_never_submits:
  assumes con: "connectedTo cfg kc (studentClaims user t)" and q: "plainSegment (kc_quizID kc)"
    and env: "ke_ENV ke ''QUESTION_IDS'' = None \<or> ke_ENV ke ''QUESTION_IDS'' = Some []"
    and n: "kc_questionsPerAttempt kc = NumFin x" "1 \<le> x"
    and run: "studentExamFlow ke kc v (lmsServer cfg) s = (s', r)"
  shows "submittedIDs (svc s') = submittedIDs (svc s)"
proof -
  have tok: "kc_staticStudentToken kc \<noteq> []" using con by (simp add: connectedTo_def)
  obtain s1 rs where s1: "batch (lmsServer cfg) (dashboardRequests ke kc (tokenOf kc)) s = (s1, rs)" by force
  have base: "svc s1 = svc s" using dashboard_reads [OF con, of ke s] s1 by simp
  obtain s2 o2 where s2: "packageInfo ke kc (tokenOf kc) (lmsServer cfg) s1 = (s2, o2)" by force
  let ?p = "\<lparr>pk_packageHash = JStr (kc_packageHashFallback kc), pk_questionIds = JArr []\<rparr>"
  have o2: "o2 = Ret ?p" by (rule student_package [OF con q s2])
  obtain s3 o3 where s3: "startGroup ke kc v (tokenOf kc) ?p (lmsServer cfg) s2 = (s3, o3)" by force
  have kept: "submittedIDs (svc s3) = submittedIDs (svc s)"
    using startGroup_attempt(1) [OF con s3] packageInfo_reads [OF con q s2] base by simp
  show ?thesis
  proof (cases "kc_assignmentID kc = [] \<or> kc_quizID kc = []")
    case True
    then show ?thesis using run tok by (auto simp: studentExamFlow_def studentToken_def)
  next
    case False
    have step: "then_do (s3, o3) (\<lambda>s attempt.
           if \<not> truthy attempt then (emit (Sleep (NumFin 1)) (emit (Errors 1) s), Ret ())
           else
             let attemptID = js_string (ke_numstr ke) attempt
             in and_then (answerQuestionIds ke kc ?p) s (\<lambda>ids.
                  case answerLoop ke kc v (tokenOf kc) attemptID (lmsServer cfg) 0 ids [] s of (s, answers) \<Rightarrow>
                    let s = syncGroup ke kc (tokenOf kc) ?p attemptID (lmsServer cfg) s
                    in (submitGroup ke kc (tokenOf kc) attemptID answers (lmsServer cfg) s, Ret ()))) = (s', r)"
      using run tok False by (simp add: studentExamFlow_def studentToken_def s1 s2 o2 s3)
    show ?thesis
    proof (cases "\<exists>attempt. o3 = Ret attempt \<and> truthy attempt")
      case True
      then obtain attempt where a: "o3 = Ret attempt" "truthy attempt" by blast
      obtain i where i: "attempt = JStr (ge_hex (hs_env cfg) i)" using startGroup_attempt(2) [OF con s3 a] by blast
      have plain: "plainSegment (ge_hex (hs_env cfg) i)" using con by (simp add: connectedTo_def hex_plainSegment)
      then have "ge_hex (hs_env cfg) i \<noteq> []" by (simp add: plainSegment_def)
      then show ?thesis
        using step kept by (simp add: a(1) i Let_def made_up_flow_keeps [OF con plain env n refl])
    next
      case False
      then show ?thesis using step kept by (cases o3) auto
    qed
  qed
qed

section \<open>A deployment\<close>

lemma student_portal: "claimsPortal ''lms'' (studentClaims user t)"
proof -
  have "rolePortals ''lms.student'' = [''lms'']" by code_simp
  then show ?thesis by (simp add: claimsPortal_def studentClaims_def)
qed

definition sampleHttp :: httpcfg where
  "sampleHttp =
     \<lparr>hs_guard = sampleGuards\<lparr>gc_validate := (\<lambda>token. if token = ''abc'' then Some (studentClaims (ge_hex sampleEnv 7) ''t'') else None)\<rparr>,
      hs_base = ''http://erg'', hs_io = (\<lambda>n. sampleIO 31), hs_uuid = (\<lambda>n. ''r''), hs_duration = (\<lambda>n. 1), hs_bindMessage = (\<lambda>b. ''EOF''),
      hs_quote = (\<lambda>s. s), hs_panicText = ''p'', hs_other = (\<lambda>rq sv. (sv, 404, JNull))\<rparr>"

definition sampleClient :: k6cfg where
  "sampleClient = sampleCfg\<lparr>kc_baseURL := ''http://erg'', kc_tenantID := ''t'', kc_staticStudentToken := ''abc'',
     kc_quizID := ge_hex sampleEnv 21, kc_assignmentID := ge_hex sampleEnv 11\<rparr>"

definition sampleVU :: vu where
  "sampleVU = \<lparr>vu_idInTest = 1, vu_iterationInTest = 0\<rparr>"

definition sampleWorld :: "lmsWorld k6state" where
  "sampleWorld = \<lparr>k6_world = \<lparr>lw_service = sampleService, lw_count = 0\<rparr>, k6_log = [], k6_dates = 0\<rparr>"

lemma sample_env [simp]: "hs_env sampleHttp = sampleEnv"
  by (simp add: sampleHttp_def sampleGuards_def)

lemma sample_connected: "connectedTo sampleHttp sampleClient (studentClaims (ge_hex sampleEnv 7) ''t'')"
  by (simp add: connectedTo_def student_portal studentClaims_plain sampleClient_def)
     (simp add: sampleHttp_def sampleGuards_def printableText_def printableChar_bits lower_ascii_bits)

lemma sample_quiz_segment: "plainSegment (kc_quizID sampleClient)"
  by (simp add: sampleClient_def hex_plainSegment)

theorem student_iteration_never_submits_witness:
  "submittedIDs (svc (fst (studentExamFlow sampleK6Env sampleClient sampleVU (lmsServer sampleHttp) sampleWorld))) = []"
proof -
  have "submittedIDs (svc (fst (studentExamFlow sampleK6Env sampleClient sampleVU (lmsServer sampleHttp) sampleWorld)))
      = submittedIDs (svc sampleWorld)"
    using student_iteration_never_submits [OF sample_connected sample_quiz_segment _ _ _ prod.collapse [symmetric], of sampleK6Env 2]
    by (simp add: sampleK6Env_def sampleClient_def sampleCfg_def)
  then show ?thesis by (simp add: submittedIDs_def sampleWorld_def sampleService_def newMemoryRepository_def)
qed

end
