(* ===== verification/LmsHttpExam.thy ===== *)
theory LmsHttpExam
  imports LmsHttpProps
begin

text \<open>
  The load client against the server: under which conditions an iteration ends with the attempt submitted
  and scored.
\<close>

section \<open>An iteration that succeeds\<close>

lemma submit_permission:
  "map_of lmsRoutePermissions ''POST /api/lms/attempts'' = Some ''lms.assignment.submit''"
  "map_of lmsRoutePermissions ''POST /api/lms/attempts/:attemptId/answers'' = Some ''lms.assignment.submit''"
  "map_of lmsRoutePermissions ''POST /api/lms/attempts/:attemptId/sync'' = Some ''lms.assignment.submit''"
  "map_of lmsRoutePermissions ''POST /api/lms/attempts/:attemptId/submit'' = Some ''lms.assignment.submit''"
  by code_simp+

text \<open>An attempt of the student that is in progress, with answers to some of the given questions.\<close>

definition examOpen :: "service \<Rightarrow> string \<Rightarrow> oid \<Rightarrow> oid \<Rightarrow> string \<Rightarrow> string list \<Rightarrow> bool" where
  "examOpen sv t v sid h qs \<longleftrightarrow>
     (\<exists>a. lookupAttempt sv t v = Some a \<and> at_Status a = ''in_progress'' \<and> at_StudentID a = sid \<and> at_PackageHash a = h
       \<and> distinct (map fst (at_Answers a)) \<and> fst ` set (at_Answers a) \<subseteq> set qs)"

lemma lookup_setAttempt:
  "lookupAttempt sv t v = Some a \<Longrightarrow> attemptKey t v b \<Longrightarrow> lookupAttempt (setAttempt t v b sv) t v = Some b"
  by (simp add: setAttempt_def find_update_first)

lemma examOpen_save:
  assumes ok: "env_ok env" and "examOpen sv t v sid h qs" and "q \<in> set qs"
  shows "examOpen (fst (SaveAnswerForActor env io t a (ge_hex env v) q req sv)) t v sid h qs"
proof (cases "ownedAttempt env t a (ge_hex env v) sv")
  case (Ret att)
  obtain sv' r where run: "SaveAnswer env io t (ge_hex env v) q req sv = (sv', r)" by force
  have "examOpen sv' t v sid h qs"
    using SaveAnswer_effect [OF run]
  proof
    assume "\<exists>w b ans. objectID env (ge_hex env v) = Ret w \<and> lookupAttempt sv t w = Some b \<and> at_Status b \<noteq> ''submitted''
       \<and> sv' = setAttempt t w (putAnswer (io_now io) q ans b) sv \<and> is_ret r"
    then obtain b ans where b: "lookupAttempt sv t v = Some b" and sv': "sv' = setAttempt t v (putAnswer (io_now io) q ans b) sv"
      by (auto simp: objectID_def env_ok_hex [OF ok])
    have "attemptKey t v (putAnswer (io_now io) q ans b)" using b by (simp add: find_Some_iff2)
    then have "lookupAttempt sv' t v = Some (putAnswer (io_now io) q ans b)" using lookup_setAttempt [OF b] sv' by simp
    then show ?thesis
      using assms(2,3) b by (auto simp: examOpen_def putAnswer_def distinct_update dom_update)
  qed (use assms(2) in simp)
  then show ?thesis by (simp add: SaveAnswerForActor_def Ret run)
qed (use assms(2) in \<open>simp_all add: SaveAnswerForActor_def\<close>)

lemma sync_fields:
  "at_StudentID (applyMemoryAttemptUpdate now (syncUpdate a req) a) = at_StudentID a"
  "at_PackageHash (applyMemoryAttemptUpdate now (syncUpdate a req) a) = at_PackageHash a"
  "at_Answers (applyMemoryAttemptUpdate now (syncUpdate a req) a) = at_Answers a"
proof -
  let ?u = "[(''quiz_version'', BStr (sy_QuizVersion req)), (''events'', BMaps (sy_Events req)), (''client'', BMap (sy_Client req))]"
  have "syncUpdate a req = ?u \<or> (\<exists>st. syncUpdate a req = (''status'', BStr st) # ?u)"
    by (simp add: syncUpdate_def Let_def split: option.split jval.split)
  then show "at_StudentID (applyMemoryAttemptUpdate now (syncUpdate a req) a) = at_StudentID a"
    "at_PackageHash (applyMemoryAttemptUpdate now (syncUpdate a req) a) = at_PackageHash a"
    "at_Answers (applyMemoryAttemptUpdate now (syncUpdate a req) a) = at_Answers a"
    by (elim disjE exE; simp add: applyMemoryAttemptUpdate_def has_prefix_def)+
qed

lemma examOpen_sync:
  assumes ok: "env_ok env" and "examOpen sv t v sid h qs" and prog: "map_of (sy_Attempt req) ''status'' = Some (JStr ''in_progress'')"
  shows "examOpen (fst (SyncAttemptForActor env io t a (ge_hex env v) req sv)) t v sid h qs"
proof (cases "ownedAttempt env t a (ge_hex env v) sv")
  case (Ret att)
  obtain sv' r where run: "SyncAttempt env io t (ge_hex env v) req sv = (sv', r)" by force
  have "examOpen sv' t v sid h qs"
    using SyncAttempt_effect [OF run]
  proof
    let ?u = "\<lambda>b. applyMemoryAttemptUpdate (io_now io) (syncUpdate b req) b"
    assume "\<exists>w b. objectID env (ge_hex env v) = Ret w \<and> lookupAttempt sv t w = Some b \<and> at_PackageHash b = sy_PackageHash req
       \<and> sv' = setAttempt t w (?u b) sv \<and> r = Ret \<lparr>sn_Status = ''synced'', sn_ServerAttempt = attemptToDTO env (?u b), sn_Conflicts = []\<rparr>"
    then obtain b where b: "lookupAttempt sv t v = Some b" and sv': "sv' = setAttempt t v (?u b) sv"
      by (auto simp: objectID_def env_ok_hex [OF ok])
    have "attemptKey t v (?u b)" using b by (simp add: find_Some_iff2)
    then have "lookupAttempt sv' t v = Some (?u b)" using lookup_setAttempt [OF b] sv' by simp
    moreover have "at_Status b = ''in_progress'' \<Longrightarrow> at_Status (?u b) = ''in_progress''"
      using prog by (simp add: syncUpdate_def applyMemoryAttemptUpdate_def has_prefix_def)
    ultimately show ?thesis
      using assms(2) b by (auto simp: examOpen_def sync_fields)
  qed (use assms(2) in simp)
  then show ?thesis by (simp add: SyncAttemptForActor_def Ret run)
qed (use assms(2) in \<open>simp_all add: SyncAttemptForActor_def\<close>)

text \<open>The loop over the questions, the synchronisation.\<close>

lemma handle_save_open:
  assumes "env_ok (hs_env cfg)" and "examOpen sv t v sid h qs"
    and "\<And>q req. bindSaveAnswerCompat (rq_body rq) = Some (q, req) \<Longrightarrow> q \<in> set qs"
  shows "examOpen (fst (handle cfg n rq t a (RSaveAnswerCompat (ge_hex (hs_env cfg) v)) sv)) t v sid h qs"
  unfolding handle.simps
  by (rule bound_keeps [where P = "\<lambda>sv. examOpen sv t v sid h qs"])
     (use assms examOpen_save [OF assms(1,2)] in \<open>auto split: prod.split\<close>)

lemma handle_sync_open:
  assumes "env_ok (hs_env cfg)" and "examOpen sv t v sid h qs"
    and "\<And>req. bindAttemptSync (rq_body rq) = Some req \<Longrightarrow> map_of (sy_Attempt req) ''status'' = Some (JStr ''in_progress'')"
  shows "examOpen (fst (handle cfg n rq t a (RSyncAttempt (ge_hex (hs_env cfg) v)) sv)) t v sid h qs"
  unfolding handle.simps
  by (rule bound_keeps [where P = "\<lambda>sv. examOpen sv t v sid h qs"])
     (use assms examOpen_sync [OF assms(1,2)] in auto)

lemma answerLoop_open:
  assumes con: "connectedTo cfg kc c" and "examOpen (svc s) (kc_tenantID kc) w sid h all" and "set qs \<subseteq> set all"
  shows "examOpen (svc (fst (answerLoop ke kc v (tokenOf kc) (ge_hex (hs_env cfg) w) (lmsServer cfg) k (map JStr qs) ans s)))
           (kc_tenantID kc) w sid h all"
  using assms(2,3)
proof (induction qs arbitrary: k ans s)
  case (Cons q qs)
  let ?i = "ge_hex (hs_env cfg) w"
  let ?answer = "''answer-'' @ num (vu_idInTest v) @ ''-'' @ num (vu_iterationInTest v) @ ''-'' @ num k" and ?key = "js_string (ke_numstr ke) (JStr q)"
  have ok: "env_ok (hs_env cfg)" and i: "plainSegment ?i" using con by (simp_all add: connectedTo_def hex_plainSegment)
  obtain s0 stamp where s0: "iso_now ke s = (s0, stamp)" by force
  let ?rq = "\<lparr>rq_method = ''POST'', rq_url = kc_baseURL kc @ ''/api/lms/attempts/'' @ ?i @ ''/answers'',
            rq_body = JObj [(''questionId'', JStr q), (''answer'', JStr ?answer),
              (''clientResult'', JObj [(''source'', JStr ''k6''), (''sequence'', JNum (of_nat k))]), (''answeredAt'', JStr stamp)],
            rq_headers = headers ke kc (tokenOf kc) [(''X-Idempotency-Key'', ''answer-'' @ ?i @ ''-'' @ ?key @ ''-'' @ num k)]\<rparr>"
  obtain s1 res where s1: "send (lmsServer cfg) ?rq s0 = (s1, res)" by force
  have s0w: "svc s0 = svc s" using s0 svc_simps(3) [of ke s] by simp
  have body: "q' \<in> set all" if "bindSaveAnswerCompat (rq_body ?rq) = Some (q', req)" for q' req
    using that Cons.prems(2) by (auto simp: bindSaveAnswer_client bind_eq_Some_conv required_def split: if_splits)
  have "examOpen (svc s0) (kc_tenantID kc) w sid h all" using Cons.prems(1) s0w by simp
  note open' = this and step = handle_save_open [OF ok this, of ?rq, OF body]
  have "examOpen (svc s1) (kc_tenantID kc) w sid h all"
    by (rule send_keeps [where P = "\<lambda>sv. examOpen sv (kc_tenantID kc) w sid h all", OF con clientHeaders_key client_routes(2) [OF con i] step open' s1]) simp_all
  then show ?case
    unfolding list.map answerLoop.simps Let_def s0 prod.case s1 using Cons.prems(2) by (intro Cons.IH) simp_all
qed simp

lemma syncGroup_open:
  assumes con: "connectedTo cfg kc c" and "examOpen (svc s) (kc_tenantID kc) w sid h all"
  shows "examOpen (svc (syncGroup ke kc (tokenOf kc) p (ge_hex (hs_env cfg) w) (lmsServer cfg) s)) (kc_tenantID kc) w sid h all"
proof -
  let ?i = "ge_hex (hs_env cfg) w"
  have ok: "env_ok (hs_env cfg)" and i: "plainSegment ?i" using con by (simp_all add: connectedTo_def hex_plainSegment)
  obtain s0 stamp where s0: "iso_now ke s = (s0, stamp)" by force
  let ?rq = "\<lparr>rq_method = ''POST'', rq_url = kc_baseURL kc @ ''/api/lms/attempts/'' @ ?i @ ''/sync'',
         rq_body = JObj [(''packageHash'', pk_packageHash p), (''quizVersion'', JStr (env_or ke ''QUIZ_VERSION'' ''load'')),
           (''attempt'', JObj [(''status'', JStr ''in_progress'')]),
           (''events'', JArr [JObj [(''type'', JStr ''sync''), (''at'', JStr stamp)]]),
           (''client'', JObj [(''source'', JStr ''k6'')])],
         rq_headers = headers ke kc (tokenOf kc) [(''X-Idempotency-Key'', ''sync-'' @ ?i)]\<rparr>"
  obtain s1 res where s1: "send (lmsServer cfg) ?rq s0 = (s1, res)" by force
  have body: "map_of (sy_Attempt req) ''status'' = Some (JStr ''in_progress'')" if "bindAttemptSync (rq_body ?rq) = Some req" for req
    using that by (auto simp only: request.simps bindSync_client bind_eq_Some_conv attemptSyncReq.simps map_of.simps fst_conv snd_conv fun_upd_same)
  have open': "examOpen (svc s0) (kc_tenantID kc) w sid h all" using assms(2) s0 svc_simps(3) [of ke s] by simp
  note step = handle_sync_open [OF ok open', of ?rq, OF body]
  have "examOpen (svc s1) (kc_tenantID kc) w sid h all"
    by (rule send_keeps [where P = "\<lambda>sv. examOpen sv (kc_tenantID kc) w sid h all", OF con clientHeaders_key client_routes(3) [OF con i] step open' s1]) simp_all
  then show ?thesis unfolding syncGroup_def Let_def s0 prod.case s1 by simp
qed

text \<open>The submission.\<close>

lemma submitted_attempt:
  assumes "at_Status a = ''in_progress''" and "distinct (map fst (at_Answers a))" "fst ` set (at_Answers a) \<subseteq> set qs"
    and "map fst (su_Answers req) = qs" "distinct qs"
  shows "at_Status (submitted io req a) = ''submitted''" and "at_Score (submitted io req a) = of_nat (min 100 (length qs))"
proof -
  let ?ans = "fold (\<lambda>(q, v). AList.update q v) (answersFromReq (su_Answers req)) (at_Answers a)"
  have "fst ` set (answersFromReq (su_Answers req)) = set qs"
    using assms(4) answersFromReq_keys [of "su_Answers req"] by (metis set_map)
  then have keys: "set (map fst ?ans) = set qs" using assms(3) by (simp add: keys_fold_update Un_absorb2)
  have "distinct (map fst ?ans)" by (rule distinct_fold_update) (rule assms(2))
  from distinct_card [OF this] have "length ?ans = card (set qs)" unfolding keys by simp
  then have len: "length ?ans = length qs" using distinct_card [OF assms(5)] by simp
  show "at_Status (submitted io req a) = ''submitted''" "at_Score (submitted io req a) = of_nat (min 100 (length qs))"
    using assms(1) len by (simp_all add: submitted_def graded_def closeAttempt_def submitScore_eq Let_def)
qed

lemma submitGroup_closes:
  assumes con: "connectedTo cfg kc c" and grant: "claimsGrant ''lms.assignment.submit'' c" and user: "jc_UserID c = ge_hex (hs_env cfg) sid"
    and "examOpen (svc s) (kc_tenantID kc) w sid h qs" and ans: "map fst answers = qs" "distinct qs"
    and valid: "validateAttemptPayload (hs_env cfg) answers [] [] = Ret ()" and stamps: "\<And>n. parseRFC3339 (ke_iso ke n) \<noteq> None"
  shows "\<exists>a. lookupAttempt (svc (submitGroup ke kc (tokenOf kc) (ge_hex (hs_env cfg) w) answers (lmsServer cfg) s)) (kc_tenantID kc) w = Some a
      \<and> at_Status a = ''submitted'' \<and> at_StudentID a = sid \<and> at_Score a = of_nat (min 100 (length qs))"
proof -
  let ?env = "hs_env cfg" and ?i = "ge_hex (hs_env cfg) w" and ?t = "kc_tenantID kc"
  have ok: "env_ok ?env" and i: "plainSegment ?i" using con by (simp_all add: connectedTo_def hex_plainSegment)
  have s0: "iso_now ke s = (s\<lparr>k6_dates := Suc (k6_dates s)\<rparr>, ke_iso ke (k6_dates s))" by (simp add: iso_now_def)
  let ?s0 = "s\<lparr>k6_dates := Suc (k6_dates s)\<rparr>" and ?stamp = "ke_iso ke (k6_dates s)"
  let ?rq = "\<lparr>rq_method = ''POST'', rq_url = kc_baseURL kc @ ''/api/lms/attempts/'' @ ?i @ ''/submit'',
         rq_body = JObj [(''answers'', JObj answers), (''submittedAt'', JStr ?stamp)],
         rq_headers = headers ke kc (tokenOf kc) [(''X-Idempotency-Key'', ''submit-'' @ ?i)]\<rparr>"
  let ?n = "lw_count (k6_world s)"
  obtain s1 res where s1: "send (lmsServer cfg) ?rq ?s0 = (s1, res)" by force
  obtain stamp where stamp: "parseRFC3339 ?stamp = Some stamp" using stamps [of "k6_dates s"] by auto
  let ?req = "\<lparr>su_Answers = answers, su_SubmittedAt = Some stamp\<rparr>"
  have bind: "bindSubmitAttempt (rq_body ?rq) = Some ?req" by (simp add: bindSubmit_client stamp)
  obtain a where a: "lookupAttempt (svc s) ?t w = Some a" "at_Status a = ''in_progress''" "at_StudentID a = sid"
      "distinct (map fst (at_Answers a))" "fst ` set (at_Answers a) \<subseteq> set qs"
    using assms(4) by (auto simp: examOpen_def)
  let ?b = "submitted (hs_io cfg ?n) ?req a"
  have route: "routeOf cfg ?rq = Some (RSubmitAttempt ?i)" by (rule client_routes(4) [OF con i]) simp_all
  have oid: "objectID ?env ?i = Ret w" by (simp add: objectID_def env_ok_hex [OF ok])
  have "ownedAttempt ?env ?t (actorFromContext c) ?i (svc s) = Ret a"
    using a oid user env_ok_hex_nonempty [OF ok] by (auto simp: ownedAttempt_Ret actorOwnsAttempt_def actorFromContext_def)
  then have "fst (SubmitAttemptForActor ?env (hs_io cfg ?n) ?t (actorFromContext c) ?i ?req (svc s))
      = publishQuizSubmittedAudit ?env (hs_io cfg ?n) ?t ?b (setAttempt ?t w ?b (svc s))"
    using SubmitAttempt_open [OF oid a(1), of ?req "hs_io cfg ?n"] a(2) valid by (simp add: SubmitAttemptForActor_def)
  then have "fst (handle cfg ?n ?rq ?t (actorFromContext c) (RSubmitAttempt ?i) (svc s))
      = publishQuizSubmittedAudit ?env (hs_io cfg ?n) ?t ?b (setAttempt ?t w ?b (svc s))"
    by (simp only: handle.simps bound_def bind option.case split_beta fst_conv)
  moreover have "svc s1 = fst (serveRequest cfg ?n ?rq (svc s))" using svc_send [of cfg ?rq ?s0] s1 by simp
  moreover have "routeGranted (rq_method ?rq @ '' '' @ fullPath (RSubmitAttempt ?i)) c"
    using grant by (simp add: routeGranted_def submit_permission)
  ultimately have "svc s1 = publishQuizSubmittedAudit ?env (hs_io cfg ?n) ?t ?b (setAttempt ?t w ?b (svc s))"
    by (simp only: serve_routed [OF con clientHeaders_key route] if_True)
  moreover have "attemptKey ?t w ?b" using a(1) by (simp add: find_Some_iff2)
  ultimately have "lookupAttempt (svc s1) ?t w = Some ?b"
    using lookup_setAttempt [OF a(1)] by (simp add: publishQuizSubmittedAudit_def publishAuditEvent_def)
  moreover have "at_StudentID ?b = sid" using submitted_identity [of "hs_io cfg ?n" ?req a] a(3) by (simp add: attemptIdentity_def)
  ultimately show ?thesis
    unfolding submitGroup_def Let_def s0 prod.case s1
    using submitted_attempt [OF a(2,4,5), of ?req] ans by simp
qed

text \<open>The start.\<close>

lemma startGroup_opens:
  assumes con: "connectedTo cfg kc c" and grant: "claimsGrant ''lms.assignment.submit'' c" and user: "jc_UserID c = ge_hex (hs_env cfg) sid"
    and asg: "objectID (hs_env cfg) (kc_assignmentID kc) = Ret asgID" "lookupAssignment (svc s) (kc_tenantID kc) asgID = Some asg"
      "sid \<in> set (a_StudentIDs asg)" and quiz: "objectID (hs_env cfg) (kc_quizID kc) = Ret qid"
    and none: "findActiveAttempt (sv_repo (svc s)) (kc_tenantID kc) asgID qid sid = None"
    and fresh: "io_fresh (hs_io cfg (lw_count (k6_world s))) 0 = w" "lookupAttempt (svc s) (kc_tenantID kc) w = None"
    and body: "kc_assignmentID kc \<noteq> []" "kc_quizID kc \<noteq> []" "kc_packageID kc \<noteq> []" "h \<noteq> []"
  shows "\<exists>s'. startGroup ke kc v (tokenOf kc) \<lparr>pk_packageHash = JStr h, pk_questionIds = ids\<rparr> (lmsServer cfg) s = (s', Ret (JStr (ge_hex (hs_env cfg) w)))
           \<and> examOpen (svc s') (kc_tenantID kc) w sid h qs"
proof -
  let ?env = "hs_env cfg" and ?t = "kc_tenantID kc" and ?n = "lw_count (k6_world s)"
  let ?p = "\<lparr>pk_packageHash = JStr h, pk_questionIds = ids\<rparr>"
  have ok: "env_ok ?env" using con by (simp add: connectedTo_def)
  let ?rq = "\<lparr>rq_method = ''POST'', rq_url = kc_baseURL kc @ ''/api/lms/attempts'',
         rq_body = JObj [(''assignmentId'', JStr (kc_assignmentID kc)), (''quizId'', JStr (kc_quizID kc)),
           (''packageId'', JStr (kc_packageID kc)), (''packageHash'', pk_packageHash ?p)],
         rq_headers = headers ke kc (tokenOf kc) [(''X-Idempotency-Key'', ''start-'' @ num (vu_idInTest v))]\<rparr>"
  let ?req = "\<lparr>st_AssignmentID = kc_assignmentID kc, st_QuizID = kc_quizID kc, st_PackageID = kc_packageID kc, st_PackageHash = h\<rparr>"
  let ?b = "startedAttempt (hs_io cfg ?n) ?t asgID qid sid ?req"
  obtain s1 start where s1: "send (lmsServer cfg) ?rq s = (s1, start)" by force
  have bind: "bindStartAttempt (rq_body ?rq) = Some ?req"
    using body by (simp add: bindStart_client required_def)
  have "objectID ?env (UserID (actorFromContext c)) = Ret sid"
    by (simp add: actorFromContext_def user objectID_def env_ok_hex [OF ok])
  then have "StartAttempt ?env (hs_io cfg ?n) ?t (actorFromContext c) ?req (svc s) = (addAttemptDoc ?b (svc s), Ret (attemptToDTO ?env ?b))"
    using StartAttempt_run [where env = ?env and req = ?req and io = "hs_io cfg ?n", OF _ asg(2)] asg quiz none by simp
  then have handled: "handle cfg ?n ?rq ?t (actorFromContext c) RStartAttempt (svc s)
      = (addAttemptDoc ?b (svc s), respond cfg ?n ?rq 201 attemptJSON (Ret (attemptToDTO ?env ?b)))"
    by (simp only: handle.simps bound_def bind option.case prod.case)
  have route: "routeOf cfg ?rq = Some RStartAttempt" by (rule client_routes(1) [OF con segments_plain(1)]) simp_all
  have granted: "routeGranted (rq_method ?rq @ '' '' @ fullPath RStartAttempt) c"
    using grant by (simp add: routeGranted_def submit_permission)
  have served: "svc s1 = addAttemptDoc ?b (svc s)" "rs_json start \<noteq> None"
      "respond cfg ?n ?rq 201 attemptJSON (Ret (attemptToDTO ?env ?b)) = (rs_status start, the (rs_json start))"
    using send_split [OF s1] handled granted by (simp_all only: serve_routed [OF con clientHeaders_key route] if_True prod.inject not_False_eq_True)
  then have status: "rs_status start = 201" and data: "jsprop (rs_json start) ''data'' = Some (attemptJSON (attemptToDTO ?env ?b))"
    by (auto simp: respond_def WriteGin_def Let_def)
  have dataOf: "dataOf start = Ret (attemptJSON (attemptToDTO ?env ?b))"
    using data served(2) by (auto simp: dataOf_def attemptJSON_def)
  have i: "jsprop (Some (attemptJSON (attemptToDTO ?env ?b))) ''id'' = Some (JStr (ge_hex ?env w))"
    by (simp add: attemptJSON_def attemptToDTO_def startedAttempt_def fresh(1))
  have "attemptKey ?t w ?b" by (simp add: attemptKey_def startedAttempt_def newAttempt_def fresh(1))
  then have "lookupAttempt (svc s1) ?t w = Some ?b"
    using fresh(2) by (simp add: served(1) addAttemptDoc_def find_append)
  then have opened: "examOpen (svc s1) ?t w sid h qs"
    by (simp add: examOpen_def startedAttempt_def newAttempt_def)
  show ?thesis
    unfolding startGroup_def s1 prod.case Let_def
    using opened env_ok_hex_nonempty [OF ok] by (simp add: ok2xx_def status dataOf i)
qed

text \<open>The package of the quiz, or the fallback.\<close>

lemma packageInfo_hash:
  assumes con: "connectedTo cfg kc c" and q: "plainSegment (kc_quizID kc)" and fb: "kc_packageHashFallback kc \<noteq> []"
    and run: "packageInfo ke kc (tokenOf kc) (lmsServer cfg) s = (s', r)"
  shows "lw_count (k6_world s') = Suc (lw_count (k6_world s))"
    and "\<exists>h ids. r = Ret \<lparr>pk_packageHash = JStr h, pk_questionIds = ids\<rparr> \<and> h \<noteq> []"
proof -
  let ?rq = "\<lparr>rq_method = ''GET'', rq_url = kc_baseURL kc @ ''/api/lms/quizzes/'' @ kc_quizID kc @ ''/package'',
              rq_body = JNull, rq_headers = headers ke kc (tokenOf kc) []\<rparr>"
  obtain s1 res where s1: "send (lmsServer cfg) ?rq s = (s1, res)" by force
  have ne: "kc_quizID kc \<noteq> []" using q by (simp add: plainSegment_def)
  note step = run [unfolded packageInfo_def s1 prod.case Let_def]
  have "lw_count (k6_world s1) = Suc (lw_count (k6_world s))"
    using s1 by (auto simp: send_def lmsServer_def split: prod.splits)
  then show "lw_count (k6_world s') = Suc (lw_count (k6_world s))"
    using step ne by (auto elim!: and_then_worldE split: if_splits)
  show "\<exists>h ids. r = Ret \<lparr>pk_packageHash = JStr h, pk_questionIds = ids\<rparr> \<and> h \<noteq> []"
  proof (cases "rs_status res = 200")
    case True
    have "routeOf cfg ?rq = Some (RQuizPackage (kc_quizID kc))" by (rule client_routes(5) [OF con q]) simp_all
    note routed = serve_routed [OF con clientHeaders_none this]
    have served: "serveRequest cfg (lw_count (k6_world s)) ?rq (svc s) = (svc s1, 200, the (rs_json res))" and json: "rs_json res \<noteq> None"
      using send_split [OF s1] unfolding True by blast+
    obtain pkg n where resp: "respond cfg n ?rq 200 packageJSON pkg = (200, the (rs_json res))"
      using served unfolding routed by (auto split: if_splits)
    then obtain x where x: "jsprop (rs_json res) ''data'' = Some (packageJSON x)"
      using respond_ok [OF resp] json by auto
    then have "dataOf res = Ret (packageJSON x)" using json by (auto simp: dataOf_def packageJSON_def)
    moreover have "jsprop (Some (packageJSON x)) ''contentHash'' = Some (JStr (zp_ContentHash x))" by (simp add: packageJSON_def)
    ultimately show ?thesis using step ne True fb by (cases "zp_ContentHash x = []") auto
  next
    case False
    then show ?thesis using step ne fb by auto
  qed
qed

lemma dashboard_count:
  "lw_count (k6_world (fst (batch (lmsServer cfg) (dashboardRequests ke kc token) s))) = lw_count (k6_world s) + 2"
  by (simp add: dashboardRequests_def send_def lmsServer_def split: prod.split)

text \<open>What the iteration sends as answers.\<close>

definition sentAnswers :: "vu \<Rightarrow> string list \<Rightarrow> jobj" where
  "sentAnswers v qs =
     map (\<lambda>(k, q). (q, JStr (''answer-'' @ num (vu_idInTest v) @ ''-'' @ num (vu_iterationInTest v) @ ''-'' @ num k))) (enumerate 0 qs)"

lemma update_new: "k \<notin> fst ` set al \<Longrightarrow> AList.update k x al = al @ [(k, x)]"
  by (induction al) auto

lemma answerLoop_answers:
  assumes "distinct qs" and "fst ` set ans \<inter> set qs = {}"
  shows "snd (answerLoop ke kc v token i srv k (map JStr qs) ans s) =
    ans @ map (\<lambda>(k, q). (q, JStr (''answer-'' @ num (vu_idInTest v) @ ''-'' @ num (vu_iterationInTest v) @ ''-'' @ num k))) (enumerate k qs)"
  using assms
proof (induction qs arbitrary: k ans s)
  case (Cons q qs)
  have "q \<notin> fst ` set ans" using Cons.prems(2) by auto
  with Cons show ?case by (simp add: Let_def update_new split: prod.split)
qed simp

lemma sentAnswers_keys: "map fst (sentAnswers v qs) = qs"
  by (simp add: sentAnswers_def comp_def case_prod_beta)

text \<open>
  C8. An iteration succeeds. When the token has the permission to submit, its student is a recipient of the
  assignment and has no attempt in progress, the identifier of the new attempt is unused, and the questions
  the script takes, from its environment or from the package it fetched, are distinct object
  identifiers, at most as many as the service accepts, the iteration ends and leaves the
  attempt submitted, with one point for each answer, at most 100. This does not depend on what the server
  answers to the dashboard requests, nor on the answers being saved one by one.
\<close>

theorem iteration_submits:
  assumes con: "connectedTo cfg kc c" and grant: "claimsGrant ''lms.assignment.submit'' c" and user: "jc_UserID c = ge_hex (hs_env cfg) sid"
    and asg: "objectID (hs_env cfg) (kc_assignmentID kc) = Ret asgID" "lookupAssignment (svc s) (kc_tenantID kc) asgID = Some asg"
      "sid \<in> set (a_StudentIDs asg)" and quiz: "objectID (hs_env cfg) (kc_quizID kc) = Ret qid" "plainSegment (kc_quizID kc)"
    and none: "findActiveAttempt (sv_repo (svc s)) (kc_tenantID kc) asgID qid sid = None"
    and fresh: "io_fresh (hs_io cfg (lw_count (k6_world s) + 3)) 0 = w" "lookupAttempt (svc s) (kc_tenantID kc) w = None"
    and body: "kc_assignmentID kc \<noteq> []" "kc_packageID kc \<noteq> []" "kc_packageHashFallback kc \<noteq> []"
    and ids: "\<And>p. snd (packageInfo ke kc (tokenOf kc) (lmsServer cfg) (fst (batch (lmsServer cfg) (dashboardRequests ke kc (tokenOf kc)) s))) = Ret p
        \<Longrightarrow> answerQuestionIds ke kc p = Ret (map JStr qs)" "distinct qs"
      "validateAttemptPayload (hs_env cfg) (sentAnswers v qs) [] [] = Ret ()"
    and stamps: "\<And>n. parseRFC3339 (ke_iso ke n) \<noteq> None"
  shows "\<exists>s' a. studentExamFlow ke kc v (lmsServer cfg) s = (s', Ret ()) \<and> lookupAttempt (svc s') (kc_tenantID kc) w = Some a
           \<and> at_Status a = ''submitted'' \<and> at_StudentID a = sid \<and> at_Score a = of_nat (min 100 (length qs))"
proof -
  let ?t = "kc_tenantID kc" and ?i = "ge_hex (hs_env cfg) w"
  have tok: "kc_staticStudentToken kc \<noteq> []" and ok: "env_ok (hs_env cfg)" using con by (auto simp: connectedTo_def)
  have ne: "kc_quizID kc \<noteq> []" using quiz(2) by (simp add: plainSegment_def)
  obtain s1 rs where s1: "batch (lmsServer cfg) (dashboardRequests ke kc (tokenOf kc)) s = (s1, rs)" by force
  have base: "svc s1 = svc s" "lw_count (k6_world s1) = lw_count (k6_world s) + 2"
    using dashboard_reads [OF con, of ke s] dashboard_count [of cfg ke kc "tokenOf kc" s] s1 by simp_all
  obtain s2 o2 where s2: "packageInfo ke kc (tokenOf kc) (lmsServer cfg) s1 = (s2, o2)" by force
  obtain h pids where o2: "o2 = Ret \<lparr>pk_packageHash = JStr h, pk_questionIds = pids\<rparr>" and h: "h \<noteq> []"
    using packageInfo_hash(2) [OF con quiz(2) body(3) s2] by blast
  let ?p = "\<lparr>pk_packageHash = JStr h, pk_questionIds = pids\<rparr>"
  have qs: "answerQuestionIds ke kc ?p = Ret (map JStr qs)" by (rule ids(1)) (simp add: s1 s2 o2)
  have at2: "svc s2 = svc s" "lw_count (k6_world s2) = lw_count (k6_world s) + 3"
    using packageInfo_reads [OF con quiz(2) s2] packageInfo_hash(1) [OF con quiz(2) body(3) s2] base by simp_all
  obtain s3 where s3: "startGroup ke kc v (tokenOf kc) ?p (lmsServer cfg) s2 = (s3, Ret (JStr ?i))" and opened: "examOpen (svc s3) ?t w sid h qs"
    using startGroup_opens [OF con grant user asg(1), of s2 asg qid w h ke v pids qs] asg(2,3) quiz(1) none fresh body ne h at2 by auto
  let ?loop = "answerLoop ke kc v (tokenOf kc) ?i (lmsServer cfg) 0 (map JStr qs) [] s3"
  let ?synced = "syncGroup ke kc (tokenOf kc) ?p ?i (lmsServer cfg) (fst ?loop)"
  have answers: "snd ?loop = sentAnswers v qs" using answerLoop_answers [OF ids(2), of "[]"] by (simp add: sentAnswers_def)
  have "examOpen (svc ?synced) ?t w sid h qs"
    by (rule syncGroup_open [OF con answerLoop_open [OF con opened order_refl]])
  from submitGroup_closes [OF con grant user this sentAnswers_keys ids(2,3) stamps]
  have "\<exists>a. lookupAttempt (svc (submitGroup ke kc (tokenOf kc) ?i (snd ?loop) (lmsServer cfg) ?synced)) ?t w = Some a
      \<and> at_Status a = ''submitted'' \<and> at_StudentID a = sid \<and> at_Score a = of_nat (min 100 (length qs))"
    unfolding answers .
  moreover have "studentExamFlow ke kc v (lmsServer cfg) s
      = (submitGroup ke kc (tokenOf kc) ?i (snd ?loop) (lmsServer cfg) ?synced, Ret ())"
    using tok body(1) ne env_ok_hex_nonempty [OF ok] by (simp add: studentExamFlow_def studentToken_def s1 s2 o2 s3 qs Let_def split_beta)
  ultimately show ?thesis by simp
qed

definition sampleQuestion1 :: string where
  "sampleQuestion1 = ''0000000000000000000000a1''"

definition sampleScript :: k6env where
  "sampleScript = sampleK6Env\<lparr>ke_ENV := (\<lambda>name. if name = ''QUESTION_IDS'' then Some sampleQuestion1 else None),
     ke_iso := (\<lambda>n. ''2024-01-01T00:00:00.000Z'')\<rparr>"

lemma sample_ids: "answerQuestionIds sampleScript sampleClient p = Ret (map JStr [sampleQuestion1])"
proof -
  have "filter (\<lambda>x. x \<noteq> []) (map js_trim (split_char (CHR '','') sampleQuestion1)) = [sampleQuestion1]" by code_simp
  moreover have "js_slice0 [x] (NumFin 2) = [x]" for x :: jval by (simp add: js_slice0_def trunc_num_def)
  moreover have "sampleQuestion1 \<noteq> []" by code_simp
  ultimately show ?thesis
    by (simp add: answerQuestionIds_def env_or_def sampleScript_def sampleClient_def sampleCfg_def)
qed

theorem iteration_submits_witness:
  "\<exists>s' a. studentExamFlow sampleScript sampleClient sampleVU (lmsServer sampleHttp) sampleWorld = (s', Ret ())
     \<and> lookupAttempt (svc s') ''t'' 31 = Some a \<and> at_Status a = ''submitted'' \<and> at_StudentID a = 7 \<and> at_Score a = 1"
proof -
  have grant: "claimsGrant ''lms.assignment.submit'' (studentClaims (ge_hex sampleEnv 7) ''t'')"
    by (simp add: claimsGrant_def studentClaims_def student_grants matchesPrintable_def has_prefix_def has_suffix_def PermissionAll_def lower_ascii_bits)
  have valid: "validateAttemptPayload sampleEnv (sentAnswers sampleVU [sampleQuestion1]) [] [] = Ret ()" by code_simp
  have stamp: "parseRFC3339 (ke_iso sampleScript n) \<noteq> None" for n
  proof -
    have "parseRFC3339 ''2024-01-01T00:00:00.000Z'' \<noteq> None" by code_simp
    then show ?thesis by (simp add: sampleScript_def)
  qed
  show ?thesis
    using iteration_submits [OF sample_connected grant _ _ _ _ _ sample_quiz_segment _ _ _ _ _ _ sample_ids _ _ stamp,
        where sid = 7 and asgID = 11 and asg = sampleAssignment and qid = 21 and w = 31 and v = sampleVU and s = sampleWorld]
      valid
    by (simp add: sampleWorld_def sampleService_def sampleAssignment_def newMemoryRepository_def sampleClient_def sampleCfg_def
        studentClaims_def objectID_def findActiveAttempt_def env_ok_hex_nonempty) (simp add: sampleHttp_def sampleIO_def)
qed

end
