(* ===== verification/ExamBoard.thy ===== *)
theory ExamBoard
  imports LmsExamProps
begin

text \<open>
  What the exam runtime promises, without its repository: a board of answer sheets. A sheet belongs to a
  student, a quiz and an assignment, has a status and a map from questions to answers, and a score once it
  is submitted. The board is a map from tenants and identifiers to sheets; each request is one function on
  it. The service implements the board: looking at the board of the service commutes with every request.
\<close>

section \<open>The board\<close>

record sheet =
  sh_assignment :: oid
  sh_quiz :: oid
  sh_student :: oid
  sh_hash :: string
  sh_status :: string
  sh_answers :: "string \<Rightarrow> jval option"
  sh_score :: float64

type_synonym board = "string \<times> oid \<Rightarrow> sheet option"

definition blankSheet :: "oid \<Rightarrow> oid \<Rightarrow> oid \<Rightarrow> string \<Rightarrow> sheet" where
  "blankSheet asg quiz sid h =
     \<lparr>sh_assignment = asg, sh_quiz = quiz, sh_student = sid, sh_hash = h, sh_status = ''in_progress'', sh_answers = Map.empty, sh_score = 0\<rparr>"

text \<open>A request for one sheet of the actor: nothing happens unless the sheet is the actor's and \<open>f\<close> accepts.\<close>

definition onSheet :: "goenv \<Rightarrow> string \<Rightarrow> actor \<Rightarrow> string \<Rightarrow> (sheet \<Rightarrow> sheet option) \<Rightarrow> board \<Rightarrow> board" where
  "onSheet env t actr i f b =
     (case ge_from_hex env i of
        None \<Rightarrow> b
      | Some v \<Rightarrow>
          (case b (t, v) of
             None \<Rightarrow> b
           | Some s \<Rightarrow>
               if UserID actr \<noteq> ge_hex env (sh_student s) then b
               else case f s of None \<Rightarrow> b | Some s' \<Rightarrow> b((t, v) \<mapsto> s')))"

definition writeAnswer :: "goenv \<Rightarrow> string \<Rightarrow> saveAnswerReq \<Rightarrow> sheet \<Rightarrow> sheet option" where
  "writeAnswer env q req s =
     (if sh_status s \<noteq> ''submitted'' \<and> is_ret (answerField q) \<and> validateSingleAnswerPayload env (sa_Answer req) (sa_ClientResult req) = Ret ()
      then Some (s\<lparr>sh_answers := (sh_answers s)(q \<mapsto> sa_Answer req)\<rparr>) else None)"

definition reportStatus :: "goenv \<Rightarrow> attemptSyncReq \<Rightarrow> sheet \<Rightarrow> sheet option" where
  "reportStatus env req s =
     (if sh_hash s = sy_PackageHash req \<and> validateAttemptPayload env [] (sy_Events req) (sy_Client req) = Ret () then
        Some (case map_of (sy_Attempt req) ''status'' of
                Some (JStr status) \<Rightarrow> if status \<noteq> [] \<and> sh_status s \<noteq> ''submitted'' then s\<lparr>sh_status := status\<rparr> else s
              | _ \<Rightarrow> s)
      else None)"

definition handIn :: "goenv \<Rightarrow> submitAttemptReq \<Rightarrow> sheet \<Rightarrow> sheet option" where
  "handIn env req s =
     (if sh_status s \<noteq> ''submitted'' \<and> validateAttemptPayload env (su_Answers req) [] [] = Ret () then
        let answers = fold (\<lambda>(q, v) m. m(q \<mapsto> v)) (su_Answers req) (sh_answers s)
        in Some (s\<lparr>sh_answers := answers, sh_status := ''submitted'', sh_score := of_nat (min 100 (card (dom answers)))\<rparr>)
      else None)"

definition openSheet :: "goenv \<Rightarrow> (string \<Rightarrow> oid \<Rightarrow> oid list option) \<Rightarrow> oid \<Rightarrow> string \<Rightarrow> actor \<Rightarrow> startAttemptReq \<Rightarrow> board \<Rightarrow> board" where
  "openSheet env recipients fresh t actr req b =
     (case (ge_from_hex env (st_AssignmentID req), ge_from_hex env (UserID actr), ge_from_hex env (st_QuizID req)) of
        (Some asg, Some sid, Some quiz) \<Rightarrow>
          (case recipients t asg of
             None \<Rightarrow> b
           | Some ids \<Rightarrow>
               if sid \<notin> set ids \<or> (\<exists>v s. b (t, v) = Some s \<and> sh_assignment s = asg \<and> sh_quiz s = quiz \<and> sh_student s = sid \<and> sh_status s = ''in_progress'')
               then b else b((t, fresh) \<mapsto> blankSheet asg quiz sid (st_PackageHash req)))
      | _ \<Rightarrow> b)"

fun boardServe :: "goenv \<Rightarrow> reqio \<Rightarrow> (string \<Rightarrow> oid \<Rightarrow> oid list option) \<Rightarrow> exam_request \<Rightarrow> board \<Rightarrow> board" where
  "boardServe env io recipients (AssignReq t actr req) b = b"
| "boardServe env io recipients (StartReq t actr req) b = openSheet env recipients (io_fresh io 0) t actr req b"
| "boardServe env io recipients (AnswerReq t actr i q req) b = onSheet env t actr i (writeAnswer env q req) b"
| "boardServe env io recipients (SyncReq t actr i req) b = onSheet env t actr i (reportStatus env req) b"
| "boardServe env io recipients (SubmitReq t actr i req) b = onSheet env t actr i (handIn env req) b"

section \<open>The board of the service\<close>

definition sheetOf :: "attempt \<Rightarrow> sheet" where
  "sheetOf a =
     \<lparr>sh_assignment = at_AssignmentID a, sh_quiz = at_QuizID a, sh_student = at_StudentID a, sh_hash = at_PackageHash a,
      sh_status = at_Status a, sh_answers = (\<lambda>q. map_option aa_Answer (map_of (at_Answers a) q)), sh_score = at_Score a\<rparr>"

lemma sheetOf_simps [simp]:
  "sh_assignment (sheetOf a) = at_AssignmentID a" "sh_quiz (sheetOf a) = at_QuizID a" "sh_student (sheetOf a) = at_StudentID a"
  "sh_hash (sheetOf a) = at_PackageHash a" "sh_status (sheetOf a) = at_Status a"
  by (simp_all add: sheetOf_def)

definition boardOf :: "service \<Rightarrow> board" where
  "boardOf sv = (\<lambda>(t, v). map_option sheetOf (lookupAttempt sv t v))"

definition recipientsOf :: "service \<Rightarrow> string \<Rightarrow> oid \<Rightarrow> oid list option" where
  "recipientsOf sv t v = map_option a_StudentIDs (lookupAssignment sv t v)"

lemma boardOf_same: "m_attempts (sv_repo sv') = m_attempts (sv_repo sv) \<Longrightarrow> boardOf sv' = boardOf sv"
  by (simp add: boardOf_def)

lemma attemptKey_other: "attemptKey t v a \<Longrightarrow> attemptKey t' v' a \<longleftrightarrow> t' = t \<and> v' = v"
  by (auto simp: attemptKey_def)

lemma boardOf_setAttempt:
  assumes "lookupAttempt sv t v = Some a" and key: "attemptKey t v b"
  shows "boardOf (setAttempt t v b sv) = (boardOf sv)((t, v) \<mapsto> sheetOf b)"
proof -
  have "find (attemptKey t' v') (update_first (attemptKey t v) (\<lambda>_. b) xs)
      = (if (t', v') = (t, v) then Some b else find (attemptKey t' v') xs)" if "find (attemptKey t v) xs = Some a" for t' v' xs
  proof (cases "(t', v') = (t, v)")
    case True
    then show ?thesis using that key by (simp add: find_update_first)
  next
    case False
    then show ?thesis
      using attemptKey_other key by (subst find_update_first_other) auto
  qed
  from this [OF assms(1)] show ?thesis by (auto simp: boardOf_def setAttempt_def fun_eq_iff)
qed

lemma boardOf_publish [simp]: "boardOf (publishQuizSubmittedAudit env io t b sv) = boardOf sv"
  by (simp add: boardOf_def)

text \<open>No question occurs twice among the answers of an attempt.\<close>

definition answersDistinct :: "service \<Rightarrow> bool" where
  "answersDistinct sv \<longleftrightarrow> (\<forall>a \<in> set (m_attempts (sv_repo sv)). distinct (map fst (at_Answers a)))"

lemma exam_step_distinct:
  "exam_step env io t actr sv sv' \<Longrightarrow> answersDistinct sv \<Longrightarrow> answersDistinct sv'"
proof (erule exam_stepE)
  have set: "answersDistinct (setAttempt t v b sv)"
    if "lookupAttempt sv t v = Some a" "answersDistinct sv" "distinct (map fst (at_Answers b))" for v a b
    using that setAttempt_set [OF that(1), of _ b] by (auto simp: answersDistinct_def)
  have found: "distinct (map fst (at_Answers a))" if "lookupAttempt sv t v = Some a" "answersDistinct sv" for v a
    using that find_Some_iff2 [OF that(1)] by (auto simp: answersDistinct_def)
  assume dist: "answersDistinct sv"
  show "answersDistinct sv'" if "sv' = sv" using that dist by simp
  show "answersDistinct sv'" if "extendsAssignments t sv sv'" using dist extends_repo [OF that] by (simp add: answersDistinct_def)
  show "answersDistinct sv'" if "sv' = addAttemptDoc (startedAttempt io t asgID qid sid req) sv" for asgID qid sid req
    using dist that by (auto simp: answersDistinct_def addAttemptDoc_def startedAttempt_def newAttempt_def)
  show "answersDistinct sv'" if "sv' = setAttempt t v (putAnswer (io_now io) q ans a) sv" "lookupAttempt sv t v = Some a" for v a q ans
    unfolding that(1) by (rule set [OF that(2) dist]) (use found [OF that(2) dist] in \<open>simp add: putAnswer_def distinct_update\<close>)
  show "answersDistinct sv'" if "sv' = setAttempt t v (applyMemoryAttemptUpdate (io_now io) (syncUpdate a sreq) a) sv"
      "lookupAttempt sv t v = Some a" for v a sreq
    unfolding that(1)
    by (rule set [OF that(2) dist]) (use found [OF that(2) dist] applyMemoryAttemptUpdate_sync [of a "io_now io" sreq] in auto)
  show "answersDistinct sv'" if "sv' = publishQuizSubmittedAudit env io t (submitted io ureq a) (setAttempt t v (submitted io ureq a) sv)"
      "lookupAttempt sv t v = Some a" for v a ureq
  proof -
    have "distinct (map fst (at_Answers (submitted io ureq a)))"
      using found [OF that(2) dist] by (auto simp: submitted_def graded_def closeAttempt_def Let_def distinct_fold_update)
    then show ?thesis using set [OF that(2) dist] that(1) by (simp add: answersDistinct_def)
  qed
qed

lemma reachable_distinct: "reachable env sv \<Longrightarrow> answersDistinct sv"
proof (induction rule: reachable_inv)
  case (step io t actr sv sv')
  then show ?case by (blast intro: exam_step_distinct)
qed (simp add: answersDistinct_def)

section \<open>One sheet\<close>

lemma owns_iff: "env_ok env \<Longrightarrow> actorOwnsAttempt env actr a \<longleftrightarrow> UserID actr = ge_hex env (at_StudentID a)"
  using env_ok_hex_nonempty [of env "at_StudentID a"] by (auto simp: actorOwnsAttempt_def)

lemma objectID_iff: "objectID env i = Ret v \<longleftrightarrow> ge_from_hex env i = Some v"
  by (auto simp: objectID_def split: option.splits)

lemma onSheet_owned:
  assumes "env_ok env" and "ownedAttempt env t actr i sv = Ret a"
  shows "\<exists>v. objectID env i = Ret v \<and> lookupAttempt sv t v = Some a \<and> attemptKey t v a
    \<and> onSheet env t actr i f (boardOf sv) = (case f (sheetOf a) of None \<Rightarrow> boardOf sv | Some s \<Rightarrow> (boardOf sv)((t, v) \<mapsto> s))"
  using assms(2) owns_iff [OF assms(1)] find_Some_iff2
  by (fastforce simp: ownedAttempt_Ret objectID_iff onSheet_def boardOf_def sheetOf_def split: option.splits)

lemma onSheet_refused:
  assumes "env_ok env" and "\<And>a. ownedAttempt env t actr i sv \<noteq> Ret a"
  shows "onSheet env t actr i f (boardOf sv) = boardOf sv"
  using assms(2) owns_iff [OF assms(1)]
  by (auto simp: ownedAttempt_Ret objectID_iff onSheet_def boardOf_def sheetOf_def split: option.splits)

lemma onSheet_serve:
  assumes ok: "env_ok env"
    and refused: "\<And>e. ownedAttempt env t actr i sv = Fail e \<or> ownedAttempt env t actr i sv = Panic \<Longrightarrow> sv' = sv"
    and owned: "\<And>v a. ownedAttempt env t actr i sv = Ret a \<Longrightarrow> objectID env i = Ret v \<Longrightarrow> lookupAttempt sv t v = Some a \<Longrightarrow>
        attemptKey t v a \<Longrightarrow> boardOf sv' = (case f (sheetOf a) of None \<Rightarrow> boardOf sv | Some s \<Rightarrow> (boardOf sv)((t, v) \<mapsto> s))"
  shows "boardOf sv' = onSheet env t actr i f (boardOf sv)"
proof (cases "ownedAttempt env t actr i sv")
  case (Ret a)
  show ?thesis using onSheet_owned [OF ok Ret, of f] owned [OF Ret] by auto
qed (use refused onSheet_refused [OF ok, of t actr i sv f] in auto)

lemma board_save:
  assumes ok: "env_ok env"
  shows "boardOf (fst (SaveAnswerForActor env io t actr i q req sv)) = onSheet env t actr i (writeAnswer env q req) (boardOf sv)"
proof (rule onSheet_serve [OF ok])
  fix v a
  assume own: "ownedAttempt env t actr i sv = Ret a" and a: "objectID env i = Ret v" "lookupAttempt sv t v = Some a" "attemptKey t v a"
  let ?ans = "\<lparr>aa_QuestionID = q, aa_Answer = sa_Answer req, aa_ClientResult = sa_ClientResult req, aa_AnsweredAt = sa_AnsweredAt req\<rparr>"
  let ?ok = "at_Status a \<noteq> ''submitted'' \<and> is_ret (answerField q) \<and> validateSingleAnswerPayload env (sa_Answer req) (sa_ClientResult req) = Ret ()"
  have "fst (SaveAnswer env io t i q req sv) = (if ?ok then setAttempt t v (putAnswer (io_now io) q ?ans a) sv else sv)"
    using a
    by (cases "answerField q"; cases "validateSingleAnswerPayload env (sa_Answer req) (sa_ClientResult req)")
       (auto simp: SaveAnswer_def getAttempt_def on_repo_def SaveAttemptAnswer_def saveAttemptAnswer_def withAttempt_def setAttempt_def
          update_first_const [where f = "putAnswer (io_now io) q ?ans"])
  moreover have "sheetOf (putAnswer (io_now io) q ?ans a) = (sheetOf a)\<lparr>sh_answers := (sh_answers (sheetOf a))(q \<mapsto> sa_Answer req)\<rparr>"
    if "at_Status a \<noteq> ''submitted''"
    using that by (auto simp: sheetOf_def putAnswer_def update_conv')
  ultimately show "boardOf (fst (SaveAnswerForActor env io t actr i q req sv))
      = (case writeAnswer env q req (sheetOf a) of None \<Rightarrow> boardOf sv | Some s \<Rightarrow> (boardOf sv)((t, v) \<mapsto> s))"
    using own a boardOf_setAttempt [OF a(2), of "putAnswer (io_now io) q ?ans a"]
    by (auto simp: SaveAnswerForActor_def writeAnswer_def sheetOf_def)
qed (auto simp: SaveAnswerForActor_def)

lemma apply_sync:
  "applyMemoryAttemptUpdate now [(''quiz_version'', BStr qv), (''events'', BMaps ev), (''client'', BMap cl)] a
     = a\<lparr>at_QuizVersion := qv, at_Events := ev, at_Client := cl, at_UpdatedAt := now\<rparr>"
  "applyMemoryAttemptUpdate now [(''status'', BStr st), (''quiz_version'', BStr qv), (''events'', BMaps ev), (''client'', BMap cl)] a
     = a\<lparr>at_Status := st, at_QuizVersion := qv, at_Events := ev, at_Client := cl, at_UpdatedAt := now\<rparr>"
  by (simp_all add: applyMemoryAttemptUpdate_def has_prefix_def)

lemma board_sync:
  assumes ok: "env_ok env"
  shows "boardOf (fst (SyncAttemptForActor env io t actr i req sv)) = onSheet env t actr i (reportStatus env req) (boardOf sv)"
proof (rule onSheet_serve [OF ok])
  fix v a
  assume own: "ownedAttempt env t actr i sv = Ret a" and a: "objectID env i = Ret v" "lookupAttempt sv t v = Some a" "attemptKey t v a"
  let ?b = "applyMemoryAttemptUpdate (io_now io) (syncUpdate a req) a"
  let ?ok = "at_PackageHash a = sy_PackageHash req \<and> validateAttemptPayload env [] (sy_Events req) (sy_Client req) = Ret ()"
  have "fst (SyncAttempt env io t i req sv) = (if ?ok then setAttempt t v ?b sv else sv)"
    using a
    by (cases "validateAttemptPayload env [] (sy_Events req) (sy_Client req)")
       (auto simp: SyncAttempt_def getAttempt_def on_repo_def updateAttempt_def withAttempt_def setAttempt_def
          update_first_const [where f = "applyMemoryAttemptUpdate (io_now io) (syncUpdate a req)"])
  moreover have "reportStatus env req (sheetOf a) = (if ?ok then Some (sheetOf ?b) else None)"
    by (simp add: reportStatus_def syncUpdate_def apply_sync Let_def split: option.split jval.split) (simp add: sheetOf_def)
  ultimately show "boardOf (fst (SyncAttemptForActor env io t actr i req sv))
      = (case reportStatus env req (sheetOf a) of None \<Rightarrow> boardOf sv | Some s \<Rightarrow> (boardOf sv)((t, v) \<mapsto> s))"
    using own a boardOf_setAttempt [OF a(2), of ?b] by (simp add: SyncAttemptForActor_def)
qed (auto simp: SyncAttemptForActor_def)

lemma map_of_fold_answers:
  "(\<lambda>q. map_option aa_Answer (map_of (fold (\<lambda>(q, v). AList.update q v) (answersFromReq ans) xs) q))
     = fold (\<lambda>(q, v) m. m(q \<mapsto> v)) ans (\<lambda>q. map_option aa_Answer (map_of xs q))"
proof (induction ans arbitrary: xs)
  case (Cons qv ans)
  obtain q v where qv: "qv = (q, v)" by force
  let ?x = "\<lparr>aa_QuestionID = q, aa_Answer = v, aa_ClientResult = [], aa_AnsweredAt = None\<rparr>"
  have upd: "(\<lambda>p. map_option aa_Answer (map_of (AList.update q ?x xs) p)) = (\<lambda>p. map_option aa_Answer (map_of xs p))(q \<mapsto> v)"
    by (auto simp: update_conv')
  have "answersFromReq (qv # ans) = (q, ?x) # answersFromReq ans" by (simp add: qv answersFromReq_def)
  then show ?case
    using Cons.IH [of "AList.update q ?x xs"] unfolding upd by (simp only: qv fold.simps comp_def prod.case)
qed (simp add: answersFromReq_def)

lemma sheetOf_submitted:
  assumes "at_Status a \<noteq> ''submitted''" and dist: "distinct (map fst (at_Answers a))"
  shows "sheetOf (submitted io req a) =
    (let answers = fold (\<lambda>(q, v) m. m(q \<mapsto> v)) (su_Answers req) (sh_answers (sheetOf a))
     in (sheetOf a)\<lparr>sh_answers := answers, sh_status := ''submitted'', sh_score := of_nat (min 100 (card (dom answers)))\<rparr>)"
proof -
  let ?ans = "fold (\<lambda>(q, v). AList.update q v) (answersFromReq (su_Answers req)) (at_Answers a)"
  let ?m = "\<lambda>q. map_option aa_Answer (map_of ?ans q)"
  have "dom ?m = fst ` set ?ans" by (auto simp: dom_map_of_conv_image_fst [symmetric])
  then have "card (dom ?m) = length ?ans"
    using distinct_card [OF distinct_fold_update [OF dist]] by simp
  then show ?thesis
    using assms(1) map_of_fold_answers [of "su_Answers req" "at_Answers a"]
    by (simp add: sheetOf_def submitted_def graded_def closeAttempt_def submitScore_eq Let_def)
qed

lemma board_submit:
  assumes ok: "env_ok env" and dist: "answersDistinct sv"
  shows "boardOf (fst (SubmitAttemptForActor env io t actr i req sv)) = onSheet env t actr i (handIn env req) (boardOf sv)"
proof (rule onSheet_serve [OF ok])
  fix v a
  assume own: "ownedAttempt env t actr i sv = Ret a" and a: "objectID env i = Ret v" "lookupAttempt sv t v = Some a" "attemptKey t v a"
  have d: "distinct (map fst (at_Answers a))" using dist find_Some_iff2 [OF a(2)] by (auto simp: answersDistinct_def)
  let ?ok = "at_Status a \<noteq> ''submitted'' \<and> validateAttemptPayload env (su_Answers req) [] [] = Ret ()"
  have "boardOf (fst (SubmitAttemptForActor env io t actr i req sv))
      = (if ?ok then (boardOf sv)((t, v) \<mapsto> sheetOf (submitted io req a)) else boardOf sv)"
  proof (cases ?ok)
    case True
    then show ?thesis
      using own a SubmitAttempt_open [OF a(1,2), of req io] boardOf_setAttempt [OF a(2), of "submitted io req a"]
      by (simp add: SubmitAttemptForActor_def)
  next
    case False
    then have "at_Status a \<noteq> ''submitted'' \<Longrightarrow> fst (SubmitAttempt env io t i req sv) = sv"
      by (cases "validateAttemptPayload env (su_Answers req) [] []") (auto simp: SubmitAttempt_def)
    with False own show ?thesis by (auto simp: SubmitAttemptForActor_def)
  qed
  then show "boardOf (fst (SubmitAttemptForActor env io t actr i req sv))
      = (case handIn env req (sheetOf a) of None \<Rightarrow> boardOf sv | Some s \<Rightarrow> (boardOf sv)((t, v) \<mapsto> s))"
    using sheetOf_submitted [OF _ d, of io req] by (auto simp: handIn_def sheetOf_def Let_def)
qed (auto simp: SubmitAttemptForActor_def)

lemma reachable_ids: "reachable env sv \<Longrightarrow> env_ok env \<Longrightarrow> distinct (map at_ID (m_attempts (sv_repo sv)))"
  using reachable_auditInv [of env sv] by (simp add: auditInv_def)

section \<open>Opening a sheet\<close>

lemma find_unique:
  assumes "distinct (map at_ID xs)" and "a \<in> set xs" and "attemptKey t v a"
  shows "find (attemptKey t v) xs = Some a"
  using assms by (induction xs) (auto simp: attemptKey_def)

lemma active_on_board:
  assumes "distinct (map at_ID (m_attempts (sv_repo sv)))"
  shows "(\<exists>v s. boardOf sv (t, v) = Some s \<and> sh_assignment s = asg \<and> sh_quiz s = quiz \<and> sh_student s = sid \<and> sh_status s = ''in_progress'')
    \<longleftrightarrow> findActiveAttempt (sv_repo sv) t asg quiz sid \<noteq> None"
proof
  assume "findActiveAttempt (sv_repo sv) t asg quiz sid \<noteq> None"
  then obtain a where a: "a \<in> set (m_attempts (sv_repo sv))" "isActiveAttempt t asg quiz sid a"
    by (auto simp: findActiveAttempt_def find_None_iff)
  then have "lookupAttempt sv t (at_ID a) = Some a"
    using assms by (intro find_unique) (auto simp: isActiveAttempt_def attemptKey_def)
  then show "\<exists>v s. boardOf sv (t, v) = Some s \<and> sh_assignment s = asg \<and> sh_quiz s = quiz \<and> sh_student s = sid \<and> sh_status s = ''in_progress''"
    using a(2) by (intro exI [of _ "at_ID a"] exI [of _ "sheetOf a"]) (simp add: boardOf_def isActiveAttempt_def)
next
  assume "\<exists>v s. boardOf sv (t, v) = Some s \<and> sh_assignment s = asg \<and> sh_quiz s = quiz \<and> sh_student s = sid \<and> sh_status s = ''in_progress''"
  then obtain v a where look: "lookupAttempt sv t v = Some a"
    and a: "at_AssignmentID a = asg" "at_QuizID a = quiz" "at_StudentID a = sid" "at_Status a = ''in_progress''"
    by (auto simp: boardOf_def)
  have "a \<in> set (m_attempts (sv_repo sv))" "at_TenantID a = t"
    using find_Some_iff2 [OF look] by (auto simp: attemptKey_def)
  with a have "a \<in> set (m_attempts (sv_repo sv))" "isActiveAttempt t asg quiz sid a" by (simp_all add: isActiveAttempt_def)
  then show "findActiveAttempt (sv_repo sv) t asg quiz sid \<noteq> None" by (auto simp: findActiveAttempt_def find_None_iff)
qed

lemma boardOf_add:
  assumes "lookupAttempt sv t v = None" and "attemptKey t v b"
  shows "boardOf (addAttemptDoc b sv) = (boardOf sv)((t, v) \<mapsto> sheetOf b)"
proof -
  have "find (attemptKey t' v') (xs @ [b]) = (if (t', v') = (t, v) then Some b else find (attemptKey t' v') xs)"
    if "find (attemptKey t v) xs = None" for t' v' xs
    using that assms(2) attemptKey_other [OF assms(2), of t' v'] by (auto simp: find_append split: option.split)
  from this [OF assms(1)] show ?thesis by (auto simp: boardOf_def addAttemptDoc_def fun_eq_iff)
qed

lemma StartAttempt_refused:
  assumes "\<not> (\<exists>asgID asg sid qid. objectID env (st_AssignmentID req) = Ret asgID \<and> lookupAssignment sv t asgID = Some asg
    \<and> objectID env (UserID actr) = Ret sid \<and> sid \<in> set (a_StudentIDs asg) \<and> objectID env (st_QuizID req) = Ret qid)"
  shows "fst (StartAttempt env io t actr req sv) = sv"
proof -
  obtain sv' r where run: "StartAttempt env io t actr req sv = (sv', r)" by force
  have "sv' = sv"
    by (rule and_then_stays [OF run [unfolded StartAttempt_def]])
       (use assms in \<open>auto simp: getAssignment_Ret split: option.splits if_splits outcome.splits elim!: and_then_stays\<close>)
  then show ?thesis by (simp add: run)
qed

lemma board_start:
  assumes ids: "distinct (map at_ID (m_attempts (sv_repo sv)))" and fresh: "io_fresh io 0 \<notin> at_ID ` set (m_attempts (sv_repo sv))"
  shows "boardOf (fst (StartAttempt env io t actr req sv)) = openSheet env (recipientsOf sv) (io_fresh io 0) t actr req (boardOf sv)"
proof (cases "\<exists>asgID asg sid qid. objectID env (st_AssignmentID req) = Ret asgID \<and> lookupAssignment sv t asgID = Some asg
    \<and> objectID env (UserID actr) = Ret sid \<and> sid \<in> set (a_StudentIDs asg) \<and> objectID env (st_QuizID req) = Ret qid")
  case True
  then obtain asgID asg sid qid where c: "objectID env (st_AssignmentID req) = Ret asgID" "lookupAssignment sv t asgID = Some asg"
    "objectID env (UserID actr) = Ret sid" "sid \<in> set (a_StudentIDs asg)" "objectID env (st_QuizID req) = Ret qid" by blast
  let ?b = "startedAttempt io t asgID qid sid req"
  have "lookupAttempt sv t (io_fresh io 0) = None" using fresh by (force simp: find_None_iff attemptKey_def)
  moreover have "attemptKey t (io_fresh io 0) ?b" by (simp add: attemptKey_def startedAttempt_def newAttempt_def)
  ultimately have "boardOf (addAttemptDoc ?b sv) = (boardOf sv)((t, io_fresh io 0) \<mapsto> sheetOf ?b)" by (rule boardOf_add)
  moreover have "sheetOf ?b = blankSheet asgID qid sid (st_PackageHash req)"
    by (simp add: sheetOf_def startedAttempt_def newAttempt_def blankSheet_def)
  moreover have "openSheet env (recipientsOf sv) (io_fresh io 0) t actr req (boardOf sv)
      = (if findActiveAttempt (sv_repo sv) t asgID qid sid \<noteq> None then boardOf sv
         else (boardOf sv)((t, io_fresh io 0) \<mapsto> blankSheet asgID qid sid (st_PackageHash req)))"
    using c by (simp only: openSheet_def objectID_iff option.case prod.case recipientsOf_def active_on_board [OF ids] option.map simp_thms)
  ultimately show ?thesis
    using StartAttempt_run [OF c, of io] by (cases "findActiveAttempt (sv_repo sv) t asgID qid sid") simp_all
next
  case False
  have "openSheet env (recipientsOf sv) (io_fresh io 0) t actr req (boardOf sv) = boardOf sv"
    using False by (auto simp: openSheet_def recipientsOf_def objectID_iff split: option.split)
  then show ?thesis using StartAttempt_refused [OF False, of io] by simp
qed

text \<open>
  C9. The exam runtime implements the board: in every reachable state and for every request, the board of the
  state after the request is what the board function makes of the board before it. Listing order, document
  updates, timestamps and the score kept with the document do not matter to what is on the board.
\<close>

theorem exam_refines_board:
  assumes "env_ok env" and "reachable env sv" and "io_fresh io 0 \<notin> at_ID ` set (m_attempts (sv_repo sv))"
  shows "boardOf (serve env io req sv) = boardServe env io (recipientsOf sv) req (boardOf sv)"
proof (cases req)
  case (AssignReq t actr areq)
  have "m_attempts (sv_repo (fst (CreateAssignment env io t actr areq sv))) = m_attempts (sv_repo sv)"
    using extends_repo [OF CreateAssignment_extends] by blast
  then show ?thesis unfolding AssignReq serve.simps boardServe.simps by (rule boardOf_same)
next
  case (StartReq t actr sreq)
  show ?thesis
    unfolding StartReq serve.simps boardServe.simps by (rule board_start [OF reachable_ids [OF assms(2,1)] assms(3)])
next
  case (AnswerReq t actr i q areq)
  show ?thesis unfolding AnswerReq serve.simps boardServe.simps by (rule board_save [OF assms(1)])
next
  case (SyncReq t actr i sreq)
  show ?thesis unfolding SyncReq serve.simps boardServe.simps by (rule board_sync [OF assms(1)])
next
  case (SubmitReq t actr i sreq)
  show ?thesis
    unfolding SubmitReq serve.simps boardServe.simps by (rule board_submit [OF assms(1) reachable_distinct [OF assms(2)]])
qed

theorem exam_refines_board_witness:
  "boardOf (serve sampleEnv (sampleIO 51) (SubmitReq ''t'' (sampleStudent 7) (ge_hex sampleEnv 50) sampleSubmit) openService)
     = onSheet sampleEnv ''t'' (sampleStudent 7) (ge_hex sampleEnv 50) (handIn sampleEnv sampleSubmit) (boardOf openService)"
proof -
  have "io_fresh (sampleIO 51) 0 \<notin> at_ID ` set (m_attempts (sv_repo openService))"
    by (simp add: openService_def openAttempt_def startedAttempt_def sampleService_def newMemoryRepository_def sampleIO_def)
  from exam_refines_board [OF sampleEnv_ok openService_reachable this] show ?thesis by (simp only: boardServe.simps)
qed

end
