(* ===== verification/Spec2Isabelle.thy ===== *)
theory Spec2Isabelle
  imports AuthLockout AuthAdmin LmsExamResponses LmsContentProps K6Props SwaggerUi LmsHttpExam ExamBoard
begin

text \<open>
  The ERG platform: the learning management system (LMS) of the Go back end, the access control in front of
  it, the authentication that issues its tokens, and the JavaScript of the repository, the load client that
  drives the exam path of the LMS and the start script of the API documentation page.

  \<^bold>\<open>The program and its parts.\<close> A request reaches the LMS through a chain of middleware: the tenant is
  resolved from the headers (\<open>src/pkg/tenant\<close>), the bearer token is validated (\<open>src/internal/middleware\<close>,
  \<open>src/pkg/auth\<close>), the portal and the permission of the route are checked against the policy
  (\<open>src/internal/modules/access_control/domain/policy\<close>). A controller decodes the body, calls the service
  and writes the result in an envelope. The service keeps centers, classes, students, questions, quizzes,
  assignments and attempts in a repository; the model follows the in-memory repository
  (\<open>repository_memory.go\<close>), which has the same interface as the MongoDB one. An exam is: a teacher assigns
  a published quiz to students, a student starts an attempt, saves answers, synchronises and submits; the
  submission is scored and an audit event is published. The load client (\<open>src/load/k6/lms_exam_flow.js\<close>)
  plays the student and the teacher. Tokens are issued and renewed by the authentication module
  (\<open>src/internal/modules/auth\<close>), which keeps users, sessions, one-time PINs, the attempts to log in and
  the rules of the firewall, and counts wrong passwords in Redis (\<open>src/pkg/cache\<close>).

  \<^bold>\<open>The theories.\<close> In the order of their dependencies; LMS files are under
  \<open>src/internal/modules/lms/application/service\<close>.
  \<^item> \<open>ErgPrelude\<close>: results of fallible code (\<open>Ret\<close>, \<open>Fail\<close>, \<open>Panic\<close>), byte strings, 64-bit wrap-around,
    decimal integers, updates of the first match, sorting. \<open>Float64\<close>: finite binary64 arithmetic, correctly
    rounded. \<open>GoText\<close>: runes, control characters, case folding, RFC 3339.
  \<^item> \<open>LmsTypes\<close> (\<open>entities.go\<close>): the entities as records, JSON values, the environment; the locale of
    object-identifier codecs. \<open>HexCodec\<close>: the codec the driver documents, its interpretation.
  \<^item> \<open>LmsPaging\<close> (\<open>repository.go\<close>): pages and cursors. \<open>TenantDocs\<close>: the locale of collections of tenant
    documents. \<open>LmsStore\<close>, \<open>LmsContentStore\<close>, \<open>LmsAttempts\<close> (\<open>repository_memory.go\<close>): the collections,
    each an interpretation of it.
  \<^item> \<open>LmsAccess\<close> (\<open>service.go\<close>), \<open>LmsValidation\<close>, \<open>LmsContentRules\<close> (\<open>content_payload_validation.go\<close>,
    \<open>question_bank_contract.go\<close>), \<open>AuditEvent\<close> (\<open>src/internal/modules/audit\<close>): scope checks, payload
    rules, audit events.
  \<^item> \<open>LmsRuntime\<close> (\<open>runtime_service.go\<close>, \<open>attempt_runtime_contract.go\<close>): assignments and attempts, with
    \<open>LmsExam\<close> (each handler reduced to a step on the state), \<open>LmsExamProps\<close> and \<open>LmsExamResponses\<close>
    (properties), and \<open>ExamBoard\<close> (the abstract board of answer sheets the runtime implements).
  \<^item> \<open>LmsContent\<close> (\<open>content_service.go\<close>): the question and quiz banks; \<open>LmsContentProps\<close>: properties.
  \<^item> \<open>AccessPolicy\<close>: roles, permissions, decisions. \<open>RequestAuth\<close> (\<open>cookie.go\<close>, \<open>csrf.go\<close> of \<open>src/pkg/auth\<close>):
    the token and the CSRF header of a request. \<open>LmsGuards\<close>: the middleware chain and the two route
    tables (\<open>module.go\<close>, \<open>controller.go\<close>).
  \<^item> \<open>AuthTokens\<close> (\<open>jwt.go\<close>, \<open>ac_service.go\<close>): what is in a token, the locale of token codecs and its
    interpretation. \<open>RedisCache\<close> (\<open>redis.go\<close>): the locale of a key-value store with expiry, and its
    interpretation. \<open>AuthStore\<close> (\<open>repository.go\<close> of the authentication module): its tables.
    \<open>AuthSecurity\<close> (\<open>security.go\<close>): the lockout, the firewall, the geographic block. \<open>AuthService\<close>
    (\<open>auth_service.go\<close>): the handlers. \<open>AuthSessions\<close>: the locale of invariants of the tables, which every
    request and goroutine keeps, with its interpretations. \<open>AuthProps\<close>, \<open>AuthLogin\<close>, \<open>AuthLockout\<close> and
    \<open>AuthAdmin\<close>: properties of tokens, sessions and PINs, of logins, of the lockout, of the administrator.
  \<^item> \<open>K6Flow\<close>: the load client over any server; \<open>K6Props\<close>: its properties. \<open>SwaggerUi\<close>: the documentation
    page.
  \<^item> \<open>LmsHttp\<close> (\<open>controller.go\<close>, \<open>dto.go\<close>, \<open>response.go\<close>): routing, decoding, handlers, envelope of the
    exam path, as a server for the load client; \<open>LmsHttpProps\<close> and \<open>LmsHttpExam\<close>: the client against it.

  \<^bold>\<open>State and operations.\<close> A Go struct is a record with the fields of the source; \<open>memoryStore\<close> is a record
  of lists in insertion order; a handler takes the service and returns it with a result, so that what a
  failing handler has already written stays written. A request of the exam runtime is a value of
  \<open>exam_request\<close>, and \<open>serve\<close> runs it; \<open>reachable\<close> are the states requests lead to from an empty
  repository with any data of the organisation. The model serves requests one after another, and a request
  reads the clock once; the source has no lock that would ensure it, and interleavings inside one handler
  are not modelled. An audit event is published when it is handed to the publisher of the service. In the authentication module a request is a value of \<open>authRequest\<close>; the goroutines a login starts are kept
  in the state and run as requests of their own, in any order.

  \<^bold>\<open>What is shown.\<close> Exams: a submitted attempt never changes, is scored as the code says and belongs to its
  student and tenant; a submission publishes exactly one event, and the events match the attempts that were
  handed in one to one, while an attempt that a synchronisation closes publishes none; progress counters add up; the runtime refines the
  board. Content: what is stored passes validation, scopes are respected, a package is what was published.
  Paging: cursors drain a collection exactly once; pages are blocks at the offset wrapped at 64 bits. Policy:
  the decision agrees with its declarative reading; which routes a student reaches; a cookie needs its CSRF
  header. Authentication: an exchanged refresh token is never accepted again, its reuse ends the sessions, a
  revoked session is dead, a PIN is good for one use, a reset ends the sessions, and the wrong passwords
  answered for an address in a window are bounded. Load client: its
  bookkeeping, its requests, the credentials round trip; against the modelled server, when an iteration
  submits and when it cannot. Where the code falls short of its intention the property states what it does
  (ungraded closing, the tenant header, concurrent logins, the token renewed within a second, the PIN sent
  again, the override that denies nothing, the attempt at the threshold that is not counted, the
  administrator's address that anyone may register).

  \<^bold>\<open>Parameters.\<close> \<open>goenv\<close>: the object-identifier codec, JSON marshalling size, lower-casing and digests;
  \<open>env_ok\<close> states that the codec is injective and total on identifiers, and \<open>sampleEnv\<close> with the codec of
  \<open>HexCodec\<close> shows it can hold. \<open>reqio\<close>: the clock and fresh identifiers of a request. \<open>guardcfg\<close>: the
  configuration and the validation of a token. \<open>httpcfg\<close>: the address, request identifiers, and the answer
  to requests outside the modelled routes. \<open>provider\<close>: signing and parsing of tokens, with the law
  \<open>tokens_ok\<close>, which \<open>plainProvider\<close> satisfies; \<open>authDeps\<close> and \<open>authcfg\<close>: Redis, the table of role names, hashes,
  lifetimes, limits, permissions of roles and overrides, the parsing of IP addresses (\<open>net/netip\<close>) and the
  validation of Google's tokens (\<open>idtoken\<close>); the commands of Redis are \<open>redisOps\<close> with the documented laws
  \<open>redis_ok\<close>, which \<open>mapRedis\<close> satisfies; \<open>authio\<close>: clock, identifiers, PIN and salt. \<open>k6env\<close>: the script's
  environment, clock and number formatting.

  \<^bold>\<open>Bounds and termination.\<close> Every definition is a total function; loops are structural recursion on the
  lists the code ranges over. \<open>drain\<close>, which follows cursors, takes fuel; the property shows that one
  step per item is enough. Integers that may overflow are wrapped at 64 bits (\<open>wrap64\<close>), floats are
  rounded (\<open>rnd64\<close>).

  \<^bold>\<open>Not modelled.\<close> The MongoDB repository, storage, queues, crawlers, bots and notifications (calls to
  external services); token signatures and password hashing (library calls); profiles and avatars, the list
  of attempts to log in, and firewall rules revoked by hand; start-up and wiring; the vendored
  Swagger UI bundles; the handlers of the controller outside the exam path at the level of HTTP; imports, discussions, announcements and reports of the LMS; the other modules of the back end.
\<close>

end
